(* ===== verification/Acgps_Prelude.thy ===== *)
theory Acgps_Prelude
  imports Complex_Main "HOL-Library.Char_ord" "HOL-Library.List_Lexorder"
begin

text \<open>
  Prelude: what every component of the development shares. It holds the collections of
  simplification rules (\<open>pyval\<close>-level access rules, acceptance rules of validators), the
  first-error combinators that model a sequence of Python guards, numbered lists
  (Python's \<open>enumerate\<close>) and small facts on duplicate-free and sorted lists.
\<close>

named_theorems py_simps "equations of the Python primitives on concrete values"
named_theorems accepts "what the acceptance of a validator gives"

subsection \<open>Sequences of guards\<close>

text \<open>
  A Python validator is a sequence of guards, each of which raises or falls through. A guard
  is an \<open>'e option\<close>: \<open>Some e\<close> when it raises \<open>e\<close>. The first guard that raises wins;
  later ones are not reached.
\<close>

definition fail_if :: "bool \<Rightarrow> 'e \<Rightarrow> 'e option" where
  "fail_if b e = (if b then Some e else None)"

fun first_err :: "'e option list \<Rightarrow> 'e option" where
  "first_err [] = None"
| "first_err (c # cs) = (case c of Some e \<Rightarrow> Some e | None \<Rightarrow> first_err cs)"

lemma fail_if_None [simp]: "fail_if b e = None \<longleftrightarrow> \<not> b"
  by (simp add: fail_if_def)

lemma fail_if_Some [simp]: "fail_if b e = Some e' \<longleftrightarrow> b \<and> e = e'"
  by (auto simp: fail_if_def)

lemma first_err_None [simp]: "first_err cs = None \<longleftrightarrow> (\<forall>c \<in> set cs. c = None)"
  by (induction cs) (auto split: option.splits)

lemma first_err_append:
  "first_err (as @ bs) = (case first_err as of Some e \<Rightarrow> Some e | None \<Rightarrow> first_err bs)"
  by (induction as) (auto simp del: first_err_None split: option.splits)

lemma first_err_Some_mem: "first_err cs = Some e \<Longrightarrow> Some e \<in> set cs"
  by (induction cs) (auto split: option.splits)

lemma first_err_skip [simp]: "first_err [] = None" "first_err (None # cs) = first_err cs"
  "first_err (Some e # cs) = Some e"
  by simp_all

declare first_err.simps [simp del]

lemma first_err_mem: "first_err cs = None \<Longrightarrow> c \<in> set cs \<Longrightarrow> c = None"
  by (simp only: first_err_None)

text \<open>Membership of a guard in a listed sequence, decided without looking into the guards.\<close>

lemmas listed = list.set insert_iff simp_thms append_assoc

subsection \<open>Fallible computations\<close>

text \<open>A computation that raises or returns: \<open>Inl\<close> the exception, \<open>Inr\<close> the value.\<close>

definition rbind :: "'e + 'a \<Rightarrow> ('a \<Rightarrow> 'e + 'b) \<Rightarrow> 'e + 'b" where
  "rbind m k = (case m of Inl e \<Rightarrow> Inl e | Inr a \<Rightarrow> k a)"

definition guarded :: "'e option \<Rightarrow> 'e + 'a \<Rightarrow> 'e + 'a" where
  "guarded c m = (case c of Some e \<Rightarrow> Inl e | None \<Rightarrow> m)"

lemma rbind_simps [simp]: "rbind (Inl e) k = Inl e" "rbind (Inr a) k = k a"
  by (simp_all add: rbind_def)

lemma guarded_simps [simp]: "guarded None m = m" "guarded (Some e) m = Inl e"
  by (simp_all add: guarded_def)

lemma rbind_Inr: "rbind m k = Inr b \<longleftrightarrow> (\<exists>a. m = Inr a \<and> k a = Inr b)"
  by (cases m) auto

lemma rbind_Inl: "rbind m k = Inl e \<longleftrightarrow> m = Inl e \<or> (\<exists>a. m = Inr a \<and> k a = Inl e)"
  by (cases m) auto

lemma guarded_Inr: "guarded c m = Inr a \<longleftrightarrow> c = None \<and> m = Inr a"
  by (cases c) auto

lemma guarded_Inl: "guarded c m = Inl e \<longleftrightarrow> c = Some e \<or> c = None \<and> m = Inl e"
  by (cases c) auto

text \<open>A loop whose body may raise, threading an accumulator.\<close>

fun rfold :: "('a \<Rightarrow> 's \<Rightarrow> 'e + 's) \<Rightarrow> 'a list \<Rightarrow> 's \<Rightarrow> 'e + 's" where
  "rfold f [] s = Inr s"
| "rfold f (x # xs) s = rbind (f x s) (rfold f xs)"

lemma rfold_append: "rfold f (xs @ ys) s = rbind (rfold f xs s) (rfold f ys)"
  by (induction xs arbitrary: s) (auto simp: rbind_def split: sum.splits)

fun rfilter :: "('a \<Rightarrow> 'e + bool) \<Rightarrow> 'a list \<Rightarrow> 'e + 'a list" where
  "rfilter p [] = Inr []"
| "rfilter p (x # xs) =
     rbind (p x) (\<lambda>b. rbind (rfilter p xs) (\<lambda>ys. Inr (if b then x # ys else ys)))"

lemma rfilter_pure: "(\<And>x. x \<in> set xs \<Longrightarrow> p x = Inr (q x)) \<Longrightarrow> rfilter p xs = Inr (filter q xs)"
  by (induction xs) auto

lemma rfilter_set: "rfilter p xs = Inr ys \<Longrightarrow> set ys \<subseteq> {x \<in> set xs. p x = Inr True}"
  by (induction xs arbitrary: ys) (auto simp: rbind_Inr split: if_splits)

subsection \<open>Numbered lists\<close>

text \<open>\<open>enumerate(xs, start=i)\<close>.\<close>

fun numbered :: "nat \<Rightarrow> 'a list \<Rightarrow> (nat \<times> 'a) list" where
  "numbered i [] = []"
| "numbered i (x # xs) = (i, x) # numbered (Suc i) xs"

lemma numbered_snd [simp]: "map snd (numbered i xs) = xs"
  by (induction xs arbitrary: i) auto

lemma numbered_set:
  "(j, x) \<in> set (numbered i xs) \<longleftrightarrow> i \<le> j \<and> j < i + length xs \<and> xs ! (j - i) = x"
proof (induction xs arbitrary: i)
  case Nil
  then show ?case by simp
next
  case (Cons y ys)
  have split: "(j, x) \<in> set (numbered i (y # ys)) \<longleftrightarrow>
      (j = i \<and> x = y) \<or> (j, x) \<in> set (numbered (Suc i) ys)" by auto
  show ?case
  proof (cases "j = i")
    case True
    then show ?thesis using split Cons.IH [of "Suc i"] by auto
  next
    case False
    then show ?thesis using split Cons.IH [of "Suc i"] by (auto simp: nth_Cons')
  qed
qed

lemma numbered_ball: "(\<forall>p \<in> set (numbered i xs). P (snd p)) \<longleftrightarrow> (\<forall>x \<in> set xs. P x)"
  by (induction xs arbitrary: i) auto

lemma numbered_mem_snd: "x \<in> set xs \<Longrightarrow> \<exists>j. (j, x) \<in> set (numbered i xs)"
  by (induction xs arbitrary: i) auto

lemma numbered_nth: "j < length xs \<Longrightarrow> (i + j, xs ! j) \<in> set (numbered i xs)"
  by (simp add: numbered_set)

lemma concat_map_Nil: "concat (map f xs) = [] \<longleftrightarrow> (\<forall>x \<in> set xs. f x = [])"
  by (induction xs) auto

lemma concat_map_Nil_split:
  "concat (map f (take n xs)) = [] \<Longrightarrow> concat (map f (drop n xs)) = [] \<Longrightarrow> concat (map f xs) = []"
  by (subst append_take_drop_id [of n xs, symmetric]) (simp only: map_append concat_append append_Nil)

lemma find_append_None: "find P xs = None \<Longrightarrow> find P (xs @ ys) = find P ys"
  by (induction xs) (auto split: if_splits)

subsection \<open>First occurrences\<close>

text \<open>Keep the first occurrence of every element (Python's seen-set idiom).\<close>

fun keep_first :: "'a list \<Rightarrow> 'a list \<Rightarrow> 'a list" where
  "keep_first seen [] = []"
| "keep_first seen (x # xs) =
     (if x \<in> set seen then keep_first seen xs else x # keep_first (x # seen) xs)"

lemma keep_first_set: "set (keep_first seen xs) = set xs - set seen"
  by (induction seen xs rule: keep_first.induct) auto

lemma keep_first_distinct: "distinct (keep_first seen xs)"
  by (induction seen xs rule: keep_first.induct) (auto simp: keep_first_set)

lemma keep_first_id: "distinct xs \<Longrightarrow> set xs \<inter> set seen = {} \<Longrightarrow> keep_first seen xs = xs"
  by (induction xs arbitrary: seen) auto

subsection \<open>Sorted sets of strings\<close>

definition sorted_set :: "'a::linorder list \<Rightarrow> 'a list" where
  "sorted_set xs = sort (remdups xs)"

lemma sorted_set_set [simp]: "set (sorted_set xs) = set xs"
  by (simp add: sorted_set_def)

lemma sorted_set_sorted: "sorted (sorted_set xs)"
  by (simp add: sorted_set_def)

lemma sorted_set_distinct: "distinct (sorted_set xs)"
  by (simp add: sorted_set_def)

lemma sorted_set_eqI: "sorted xs \<Longrightarrow> distinct xs \<Longrightarrow> sorted_set xs = xs"
  by (simp add: sorted_set_def distinct_remdups_id sorted_sort_id)

lemma sorted_set_idem_iff: "xs = sorted_set xs \<longleftrightarrow> sorted xs \<and> distinct xs"
  by (metis sorted_set_distinct sorted_set_eqI sorted_set_sorted)

lemma sorted_set_cong: "set xs = set ys \<Longrightarrow> sorted_set xs = sorted_set ys"
  by (metis sorted_distinct_set_unique sorted_set_distinct sorted_set_set sorted_set_sorted)

end
