(* ===== verification/Py_Value.thy ===== *)
theory Py_Value
  imports Acgps_Prelude
begin

text \<open>
  The values the program handles: what \<open>json.loads\<close> and the strict YAML loader return.
  A mapping is an association list in insertion order with pairwise different keys; its keys
  may be any scalar, because the code checks for non-string keys itself. A float carries its
  exact value and the text Python prints for it. The Python operations the sources use on
  such values are defined here with the exceptions they raise: equality (where
  \<open>True == 1 == 1.0\<close>), membership, \<open>dict.get\<close>, truth, iteration, \<open>repr\<close>, \<open>str\<close> and
  \<open>type(x).__name__\<close>. Strings are lists of characters with code points below 256; the
  float values nan and inf and YAML's dates are outside the model.
\<close>

datatype pyval =
    PNone
  | PBool bool
  | PInt int
  | PFloat rat string
  | PStr string
  | PList "pyval list"
  | PDict "(pyval \<times> pyval) list"

type_synonym pydict = "(pyval \<times> pyval) list"

text \<open>Short forms for literal documents.\<close>

abbreviation kv :: "string \<Rightarrow> pyval \<Rightarrow> pyval \<times> pyval" where
  "kv k v \<equiv> (PStr k, v)"

abbreviation strl :: "string list \<Rightarrow> pyval" where
  "strl ss \<equiv> PList (map PStr ss)"

subsection \<open>Exceptions\<close>

text \<open>
  A \<open>ValidationIssue\<close> has a path and a message; the path is the offending key itself for a
  top-level key, which need not be a string.
\<close>

datatype issue = Issue (issue_path: pyval) (issue_message: string)

datatype exn =
    PolicyEvaluationError (exn_code: string) (exn_path: pyval) (exn_message: string)
  | ContractValidationError string "issue list"
  | WorkflowStoreError string string string \<comment> \<open>code, path and message of its issue\<close>
  | AppError string string \<comment> \<open>an error the program raises, by class and message\<close>
  | PyError string \<comment> \<open>any other exception, by the name of its class\<close>

type_synonym 'a res = "exn + 'a"
type_synonym guard = "exn option"

definition TypeError :: exn where "TypeError = PyError ''TypeError''"
definition AttributeError :: exn where "AttributeError = PyError ''AttributeError''"
definition KeyError :: exn where "KeyError = PyError ''KeyError''"

definition exn_class :: "exn \<Rightarrow> string" where
  "exn_class e = (case e of
     PolicyEvaluationError _ _ _ \<Rightarrow> ''PolicyEvaluationError''
   | ContractValidationError _ _ \<Rightarrow> ''ContractValidationError''
   | WorkflowStoreError _ _ _ \<Rightarrow> ''WorkflowStoreError''
   | AppError n _ \<Rightarrow> n
   | PyError n \<Rightarrow> n)"

subsection \<open>Equality\<close>

text \<open>The numeric value of a bool, an int or a float; numbers compare by value.\<close>

definition num_of :: "pyval \<Rightarrow> rat option" where
  "num_of v = (case v of
     PBool b \<Rightarrow> Some (if b then 1 else 0)
   | PInt i \<Rightarrow> Some (of_int i)
   | PFloat r _ \<Rightarrow> Some r
   | _ \<Rightarrow> None)"

definition atom_eq :: "pyval \<Rightarrow> pyval \<Rightarrow> bool" where
  "atom_eq a b = (case (num_of a, num_of b) of
     (Some x, Some y) \<Rightarrow> x = y
   | (None, None) \<Rightarrow> a = b
   | _ \<Rightarrow> False)"

definition dfind :: "pydict \<Rightarrow> pyval \<Rightarrow> pyval option" where
  "dfind d k = map_option snd (find (\<lambda>p. atom_eq (fst p) k) d)"

function py_eq :: "pyval \<Rightarrow> pyval \<Rightarrow> bool"
  and py_eq_list :: "pyval list \<Rightarrow> pyval list \<Rightarrow> bool"
  and py_sub :: "pydict \<Rightarrow> pydict \<Rightarrow> bool" where
  "py_eq a b = (case a of
     PList xs \<Rightarrow> (case b of PList ys \<Rightarrow> py_eq_list xs ys | _ \<Rightarrow> False)
   | PDict d \<Rightarrow> (case b of PDict e \<Rightarrow> length d = length e \<and> py_sub d e | _ \<Rightarrow> False)
   | _ \<Rightarrow> atom_eq a b)"
| "py_eq_list xs ys = (case xs of
     [] \<Rightarrow> ys = []
   | x # xs' \<Rightarrow> (case ys of [] \<Rightarrow> False | y # ys' \<Rightarrow> py_eq x y \<and> py_eq_list xs' ys'))"
| "py_sub d e = (case d of
     [] \<Rightarrow> True
   | (k, v) # d' \<Rightarrow>
       (case dfind e k of None \<Rightarrow> False | Some w \<Rightarrow> py_eq v w) \<and> py_sub d' e)"
  by pat_completeness auto
termination
  by (relation "measure (\<lambda>x. case x of
        Inl (a, b) \<Rightarrow> 2 * size a
      | Inr (Inl (xs, ys)) \<Rightarrow> 2 * size_list size xs + 1
      | Inr (Inr (d, e)) \<Rightarrow> 2 * size_list (size_prod size size) d + 1)") auto

declare py_eq.simps [simp del] py_eq_list.simps [simp del] py_sub.simps [simp del]

lemma num_of_simps [simp]:
  "num_of PNone = None" "num_of (PBool b) = Some (if b then 1 else 0)"
  "num_of (PInt i) = Some (of_int i)" "num_of (PFloat r t) = Some r"
  "num_of (PStr s) = None" "num_of (PList xs) = None" "num_of (PDict d) = None"
  by (simp_all add: num_of_def)

lemma num_of_None_iff:
  "num_of v = None \<longleftrightarrow> v = PNone \<or> (\<exists>s. v = PStr s) \<or> (\<exists>xs. v = PList xs) \<or> (\<exists>d. v = PDict d)"
  by (cases v) auto

lemma atom_eq_str [simp]:
  "atom_eq (PStr s) v \<longleftrightarrow> v = PStr s" "atom_eq v (PStr s) \<longleftrightarrow> v = PStr s"
  "atom_eq PNone v \<longleftrightarrow> v = PNone" "atom_eq v PNone \<longleftrightarrow> v = PNone"
  by (cases v; auto simp: atom_eq_def)+

lemma atom_eq_refl [simp]: "atom_eq v v"
  by (cases v) (auto simp: atom_eq_def)

lemma py_eq_str [simp]:
  "py_eq (PStr s) v \<longleftrightarrow> v = PStr s" "py_eq v (PStr s) \<longleftrightarrow> v = PStr s"
  "py_eq PNone v \<longleftrightarrow> v = PNone" "py_eq v PNone \<longleftrightarrow> v = PNone"
  by (subst py_eq.simps; cases v; auto)+

lemma py_eq_list_simps [simp]:
  "py_eq (PList xs) (PList ys) = py_eq_list xs ys"
  "py_eq_list [] ys \<longleftrightarrow> ys = []"
  "py_eq_list (x # xs) [] = False"
  "py_eq_list (x # xs) (y # ys) \<longleftrightarrow> py_eq x y \<and> py_eq_list xs ys"
  by (simp_all add: py_eq.simps py_eq_list.simps)

lemma py_eq_strs: "py_eq_list (map PStr ss) ys \<longleftrightarrow> ys = map PStr ss"
  by (induction ss arbitrary: ys) (auto simp: py_eq_list.simps split: list.splits)

lemma py_eq_list_strs: "py_eq (PList (map PStr ss)) v \<longleftrightarrow> v = PList (map PStr ss)"
  by (cases v) (auto simp: py_eq.simps py_eq_strs)

lemma py_eq_list_length: "py_eq_list xs ys \<Longrightarrow> length xs = length ys"
proof (induction xs arbitrary: ys)
  case (Cons x xs)
  then show ?case by (cases ys) auto
qed simp

lemma py_eq_strs_right: "py_eq_list ys (map PStr ss) \<longleftrightarrow> ys = map PStr ss"
proof (induction ss arbitrary: ys)
  case Nil
  then show ?case by (cases ys) auto
next
  case (Cons s ss)
  then show ?case by (cases ys) auto
qed

lemma py_eq_list_strs_right: "py_eq v (PList (map PStr ss)) \<longleftrightarrow> v = PList (map PStr ss)"
  by (cases v) (auto simp: py_eq.simps [of "PInt _"] py_eq.simps [of "PBool _"]
      py_eq.simps [of "PFloat _ _"] py_eq.simps [of "PDict _"] py_eq_strs_right atom_eq_def)

subsection \<open>Mappings with string keys\<close>

text \<open>
  \<open>d.get(k)\<close> for a string key (None when absent) and \<open>k in d\<close>. On something that is no
  mapping \<open>vget\<close> gives None; the code calls it behind an \<open>isinstance\<close> test.
\<close>

definition dlookup :: "pydict \<Rightarrow> string \<Rightarrow> pyval option" where
  "dlookup d k = map_of d (PStr k)"

definition dget :: "pydict \<Rightarrow> string \<Rightarrow> pyval" where
  "dget d k = (case dlookup d k of None \<Rightarrow> PNone | Some v \<Rightarrow> v)"

definition dget_or :: "pydict \<Rightarrow> string \<Rightarrow> pyval \<Rightarrow> pyval" where
  "dget_or d k dflt = (case dlookup d k of None \<Rightarrow> dflt | Some v \<Rightarrow> v)"

definition dhas :: "pydict \<Rightarrow> string \<Rightarrow> bool" where
  "dhas d k \<longleftrightarrow> dlookup d k \<noteq> None"

definition vget :: "pyval \<Rightarrow> string \<Rightarrow> pyval" where
  "vget v k = (case v of PDict d \<Rightarrow> dget d k | _ \<Rightarrow> PNone)"

text \<open>Assignment \<open>d[k] = v\<close>: in place when the key is there, at the end otherwise.\<close>

fun dset :: "pydict \<Rightarrow> pyval \<Rightarrow> pyval \<Rightarrow> pydict" where
  "dset [] k v = [(k, v)]"
| "dset ((k', w) # d) k v = (if atom_eq k' k then (k', v) # d else (k', w) # dset d k v)"

lemma dlookup_simps [simp]:
  "dlookup [] k = None"
  "dlookup ((PStr k', v) # d) k = (if k' = k then Some v else dlookup d k)"
  by (simp_all add: dlookup_def)

lemma dget_simps [simp]:
  "dget [] k = PNone"
  "dget ((PStr k', v) # d) k = (if k' = k then v else dget d k)"
  by (simp_all add: dget_def)

lemma dget_or_simps [simp]:
  "dget_or [] k x = x"
  "dget_or ((PStr k', v) # d) k x = (if k' = k then v else dget_or d k x)"
  by (simp_all add: dget_or_def)

lemma dhas_simps [simp]:
  "\<not> dhas [] k"
  "dhas ((PStr k', v) # d) k \<longleftrightarrow> k' = k \<or> dhas d k"
  by (simp_all add: dhas_def)

lemma vget_PDict [simp]: "vget (PDict d) k = dget d k"
  by (simp add: vget_def)

lemma dhas_iff_key: "dhas d k \<longleftrightarrow> PStr k \<in> fst ` set d"
  by (simp add: dhas_def dlookup_def map_of_eq_None_iff)

lemma dget_absent: "\<not> dhas d k \<Longrightarrow> dget d k = PNone"
  by (simp add: dhas_def dget_def)

lemma dget_or_dget: "dhas d k \<Longrightarrow> dget_or d k x = dget d k"
  by (auto simp: dhas_def dget_def dget_or_def)

lemma vget_not_None: "vget v k \<noteq> PNone \<Longrightarrow> \<exists>d. v = PDict d"
  by (cases v) (auto simp: vget_def)

lemma dfind_str: "dfind d (PStr k) = dlookup d k"
  by (induction d) (auto simp: dfind_def dlookup_def)

lemma dlookup_dset: "dlookup (dset d (PStr k) v) j = (if j = k then Some v else dlookup d j)"
  by (induction d) (auto simp: dlookup_def)

lemma dlookup_mem: "dlookup d k = Some v \<Longrightarrow> (PStr k, v) \<in> set d"
  by (simp add: dlookup_def map_of_SomeD)

subsection \<open>Python primitives that may raise\<close>

definition hashable :: "pyval \<Rightarrow> bool" where
  "hashable v = (case v of PList _ \<Rightarrow> False | PDict _ \<Rightarrow> False | _ \<Rightarrow> True)"

definition mem_list :: "pyval \<Rightarrow> pyval list \<Rightarrow> bool" where
  "mem_list x xs = list_ex (\<lambda>y. py_eq y x) xs"

text \<open>\<open>x in s\<close> for a set \<open>s\<close> of scalars: an unhashable \<open>x\<close> raises.\<close>

definition in_set :: "pyval \<Rightarrow> pyval list \<Rightarrow> bool res" where
  "in_set x xs = (if hashable x then Inr (mem_list x xs) else Inl TypeError)"

definition is_substring :: "string \<Rightarrow> string \<Rightarrow> bool" where
  "is_substring t s = list_ex (\<lambda>i. take (length t) (drop i s) = t) [0..<Suc (length s)]"

text \<open>\<open>x in c\<close> for a container value.\<close>

definition py_in :: "pyval \<Rightarrow> pyval \<Rightarrow> bool res" where
  "py_in x c = (case c of
     PDict d \<Rightarrow> in_set x (map fst d)
   | PList ys \<Rightarrow> Inr (mem_list x ys)
   | PStr s \<Rightarrow> (case x of PStr t \<Rightarrow> Inr (is_substring t s) | _ \<Rightarrow> Inl TypeError)
   | _ \<Rightarrow> Inl TypeError)"

text \<open>\<open>v.get(k, dflt)\<close> on any value, for a string key and for any key.\<close>

definition call_get :: "pyval \<Rightarrow> string \<Rightarrow> pyval \<Rightarrow> pyval res" where
  "call_get v k dflt = (case v of PDict d \<Rightarrow> Inr (dget_or d k dflt) | _ \<Rightarrow> Inl AttributeError)"

definition call_get_any :: "pyval \<Rightarrow> pyval \<Rightarrow> pyval \<Rightarrow> pyval res" where
  "call_get_any v k dflt = (case v of
     PDict d \<Rightarrow> (if hashable k then Inr (case dfind d k of None \<Rightarrow> dflt | Some w \<Rightarrow> w)
                else Inl TypeError)
   | _ \<Rightarrow> Inl AttributeError)"

text \<open>\<open>d[k]\<close> on a mapping.\<close>

definition subscript :: "pyval \<Rightarrow> string \<Rightarrow> pyval res" where
  "subscript v k = (case v of
     PDict d \<Rightarrow> (case dlookup d k of None \<Rightarrow> Inl KeyError | Some w \<Rightarrow> Inr w)
   | _ \<Rightarrow> Inl TypeError)"

text \<open>\<open>list(v)\<close> and the iteration of a for loop.\<close>

definition py_iter :: "pyval \<Rightarrow> pyval list res" where
  "py_iter v = (case v of
     PList xs \<Rightarrow> Inr xs
   | PDict d \<Rightarrow> Inr (map fst d)
   | PStr s \<Rightarrow> Inr (map (\<lambda>c. PStr [c]) s)
   | _ \<Rightarrow> Inl TypeError)"

text \<open>\<open>v.items()\<close> and \<open>v.values()\<close>.\<close>

definition py_items :: "pyval \<Rightarrow> pydict res" where
  "py_items v = (case v of PDict d \<Rightarrow> Inr d | _ \<Rightarrow> Inl AttributeError)"

definition truthy :: "pyval \<Rightarrow> bool" where
  "truthy v = (case v of
     PNone \<Rightarrow> False | PBool b \<Rightarrow> b | PInt i \<Rightarrow> i \<noteq> 0 | PFloat r _ \<Rightarrow> r \<noteq> 0
   | PStr s \<Rightarrow> s \<noteq> [] | PList xs \<Rightarrow> xs \<noteq> [] | PDict d \<Rightarrow> d \<noteq> [])"

definition is_str :: "pyval \<Rightarrow> bool" where
  "is_str v = (case v of PStr _ \<Rightarrow> True | _ \<Rightarrow> False)"

definition is_dict :: "pyval \<Rightarrow> bool" where
  "is_dict v = (case v of PDict _ \<Rightarrow> True | _ \<Rightarrow> False)"

definition is_list :: "pyval \<Rightarrow> bool" where
  "is_list v = (case v of PList _ \<Rightarrow> True | _ \<Rightarrow> False)"

text \<open>\<open>type(v) is int\<close>, \<open>isinstance(v, int)\<close> (a bool is an int), \<open>type(v) is bool\<close>.\<close>

definition is_int :: "pyval \<Rightarrow> bool" where
  "is_int v = (case v of PInt _ \<Rightarrow> True | _ \<Rightarrow> False)"

definition isinstance_int :: "pyval \<Rightarrow> bool" where
  "isinstance_int v = (case v of PInt _ \<Rightarrow> True | PBool _ \<Rightarrow> True | _ \<Rightarrow> False)"

definition is_bool :: "pyval \<Rightarrow> bool" where
  "is_bool v = (case v of PBool _ \<Rightarrow> True | _ \<Rightarrow> False)"

text \<open>\<open>v == n\<close> for an integer literal.\<close>

definition eq_int :: "pyval \<Rightarrow> int \<Rightarrow> bool" where
  "eq_int v n \<longleftrightarrow> num_of v = Some (of_int n)"

text \<open>The string behind a value known to be one, the elements behind a list.\<close>

definition str_of :: "pyval \<Rightarrow> string" where
  "str_of v = (case v of PStr s \<Rightarrow> s | _ \<Rightarrow> [])"

definition elems :: "pyval \<Rightarrow> pyval list" where
  "elems v = (case v of PList xs \<Rightarrow> xs | _ \<Rightarrow> [])"

definition entries :: "pyval \<Rightarrow> pydict" where
  "entries v = (case v of PDict d \<Rightarrow> d | _ \<Rightarrow> [])"

text \<open>The strings of a list in order, other items left out.\<close>

definition strs :: "pyval list \<Rightarrow> string list" where
  "strs xs = map str_of (filter is_str xs)"

lemma is_str_simps [simp]:
  "is_str (PStr s)" "\<not> is_str PNone" "\<not> is_str (PBool b)" "\<not> is_str (PInt i)"
  "\<not> is_str (PFloat r t)" "\<not> is_str (PList xs)" "\<not> is_str (PDict d)"
  by (simp_all add: is_str_def)

lemma is_dict_simps [simp]:
  "is_dict (PDict d)" "\<not> is_dict PNone" "\<not> is_dict (PBool b)" "\<not> is_dict (PInt i)"
  "\<not> is_dict (PFloat r t)" "\<not> is_dict (PList xs)" "\<not> is_dict (PStr s)"
  by (simp_all add: is_dict_def)

lemma is_list_simps [simp]:
  "is_list (PList xs)" "\<not> is_list PNone" "\<not> is_list (PBool b)" "\<not> is_list (PInt i)"
  "\<not> is_list (PFloat r t)" "\<not> is_list (PDict d)" "\<not> is_list (PStr s)"
  by (simp_all add: is_list_def)

lemma is_int_simps [simp]:
  "is_int (PInt i)" "\<not> is_int PNone" "\<not> is_int (PBool b)" "\<not> is_int (PStr s)"
  "\<not> is_int (PFloat r t)" "\<not> is_int (PDict d)" "\<not> is_int (PList xs)"
  by (simp_all add: is_int_def)

lemma isinstance_int_simps [simp]:
  "isinstance_int (PInt i)" "\<not> isinstance_int PNone" "isinstance_int (PBool b)"
  "\<not> isinstance_int (PStr s)" "\<not> isinstance_int (PFloat r t)" "\<not> isinstance_int (PDict d)"
  "\<not> isinstance_int (PList xs)"
  by (simp_all add: isinstance_int_def)

lemma is_bool_simps [simp]:
  "is_bool (PBool i)" "\<not> is_bool PNone" "\<not> is_bool (PInt b)" "\<not> is_bool (PStr s)"
  "\<not> is_bool (PFloat r t)" "\<not> is_bool (PDict d)" "\<not> is_bool (PList xs)"
  by (simp_all add: is_bool_def)

lemma is_str_iff: "is_str v \<longleftrightarrow> (\<exists>s. v = PStr s)" by (cases v) auto
lemma is_dict_iff: "is_dict v \<longleftrightarrow> (\<exists>d. v = PDict d)" by (cases v) auto
lemma is_list_iff: "is_list v \<longleftrightarrow> (\<exists>xs. v = PList xs)" by (cases v) auto
lemma is_int_iff: "is_int v \<longleftrightarrow> (\<exists>i. v = PInt i)" by (cases v) auto
lemma is_bool_iff: "is_bool v \<longleftrightarrow> (\<exists>b. v = PBool b)" by (cases v) auto

lemmas py_type_iffs = is_str_iff is_dict_iff is_list_iff is_int_iff is_bool_iff

lemma projections [simp]:
  "str_of (PStr s) = s" "elems (PList xs) = xs" "entries (PDict d) = d"
  by (simp_all add: str_of_def elems_def entries_def)

lemma is_str_str_of: "is_str v \<Longrightarrow> PStr (str_of v) = v" by (cases v) auto

lemma eq_int_simps [simp]: "eq_int (PInt i) n \<longleftrightarrow> i = n" "\<not> eq_int (PStr s) n" "\<not> eq_int PNone n"
  "\<not> eq_int (PList xs) n" "\<not> eq_int (PDict d) n"
  by (simp_all add: eq_int_def)

lemma eq_int_PInt: "is_int v \<Longrightarrow> eq_int v n \<longleftrightarrow> v = PInt n"
  by (cases v) auto

lemma hashable_simps [simp]:
  "hashable (PStr s)" "hashable PNone" "hashable (PBool b)" "hashable (PInt i)"
  "hashable (PFloat r t)" "\<not> hashable (PList xs)" "\<not> hashable (PDict d)"
  by (simp_all add: hashable_def)

lemma mem_list_simps [simp]:
  "\<not> mem_list x []" "mem_list x (y # ys) \<longleftrightarrow> py_eq y x \<or> mem_list x ys"
  by (simp_all add: mem_list_def)

lemma mem_list_str [simp]: "mem_list (PStr s) xs \<longleftrightarrow> PStr s \<in> set xs"
  by (induction xs) auto

lemma mem_list_strs: "mem_list v (map PStr ss) \<longleftrightarrow> (\<exists>s \<in> set ss. v = PStr s)"
  by (induction ss) auto

lemma in_set_str [simp]: "in_set (PStr s) xs = Inr (PStr s \<in> set xs)"
  by (simp add: in_set_def)

lemma py_in_simps [simp]:
  "py_in (PStr k) (PDict d) = Inr (dhas d k)"
  "py_in x (PList ys) = Inr (mem_list x ys)"
  by (simp_all add: py_in_def dhas_iff_key)

lemma call_get_PDict [simp]: "call_get (PDict d) k x = Inr (dget_or d k x)"
  by (simp add: call_get_def)

lemma call_get_any_str [simp]: "call_get_any (PDict d) (PStr k) x = Inr (dget_or d k x)"
  by (simp add: call_get_any_def dfind_str dget_or_def)

lemma py_iter_simps [simp]: "py_iter (PList xs) = Inr xs" "py_iter (PDict d) = Inr (map fst d)"
  by (simp_all add: py_iter_def)

lemma py_items_PDict [simp]: "py_items (PDict d) = Inr d"
  by (simp add: py_items_def)

lemma truthy_simps [simp]: "\<not> truthy PNone" "truthy (PBool b) = b" "truthy (PInt i) \<longleftrightarrow> i \<noteq> 0"
  "truthy (PStr s) \<longleftrightarrow> s \<noteq> []" "truthy (PList xs) \<longleftrightarrow> xs \<noteq> []" "truthy (PDict d) \<longleftrightarrow> d \<noteq> []"
  by (simp_all add: truthy_def)

lemma strs_simps [simp]: "strs [] = []" "strs (PStr s # xs) = s # strs xs"
  "strs (map PStr ss) = ss"
  by (simp_all add: strs_def filter_map comp_def)

lemma strs_set: "s \<in> set (strs xs) \<longleftrightarrow> PStr s \<in> set xs"
  by (force simp: strs_def is_str_iff image_iff)

lemma map_PStr_strs: "(\<forall>x \<in> set xs. is_str x) \<Longrightarrow> map PStr (strs xs) = xs"
  by (induction xs) (auto simp: strs_def is_str_iff)

end
