(* ===== verification/Py_Text.thy ===== *)
theory Py_Text
  imports Py_Value
begin

text \<open>
  Text as the sources use it: \<open>str.split\<close>, \<open>strip\<close>, \<open>startswith\<close>, \<open>casefold\<close>,
  \<open>str\<close> and \<open>repr\<close> of values, and the regular expressions and date checks of the
  validators as scanners. All functions are exact on characters with code points below 256.
\<close>

subsection \<open>Decimal numerals, \<open>str\<close> and \<open>repr\<close>\<close>

definition digit_char :: "nat \<Rightarrow> char" where
  "digit_char n = char_of (n + 48)"

fun nat_str :: "nat \<Rightarrow> string" where
  "nat_str n = (if n < 10 then [digit_char n] else nat_str (n div 10) @ [digit_char (n mod 10)])"

declare nat_str.simps [simp del]

definition int_str :: "int \<Rightarrow> string" where
  "int_str i = (if i < 0 then ''-'' @ nat_str (nat (- i)) else nat_str (nat i))"

definition hex_char :: "nat \<Rightarrow> char" where
  "hex_char n = (if n < 10 then char_of (n + 48) else char_of (n + 87))"

fun join :: "string \<Rightarrow> string list \<Rightarrow> string" where
  "join sep [] = []"
| "join sep [s] = s"
| "join sep (s # t # ss) = s @ sep @ join sep (t # ss)"

definition is_printable :: "char \<Rightarrow> bool" where
  "is_printable c = (let n = of_char c :: nat in
     32 \<le> n \<and> n \<le> 126 \<or> 161 \<le> n \<and> n \<noteq> 173)"

definition repr_char :: "char \<Rightarrow> char \<Rightarrow> string" where
  "repr_char q c = (let n = of_char c :: nat in
     if c = q \<or> n = 92 then [char_of (92::nat), c]
     else if n = 10 then [char_of (92::nat), CHR ''n'']
     else if n = 13 then [char_of (92::nat), CHR ''r'']
     else if n = 9 then [char_of (92::nat), CHR ''t'']
     else if is_printable c then [c]
     else [char_of (92::nat), CHR ''x'', hex_char (n div 16), hex_char (n mod 16)])"

definition repr_str :: "string \<Rightarrow> string" where
  "repr_str s = (let q = (if CHR 0x27 \<in> set s \<and> CHR 0x22 \<notin> set s then CHR 0x22 else CHR 0x27)
     in [q] @ concat (map (repr_char q) s) @ [q])"

lemma size_entry: "p \<in> set d \<Longrightarrow> size (fst p) + size (snd p) < size (PDict d)"
  by (induction d) auto

function py_repr :: "pyval \<Rightarrow> string" where
  "py_repr PNone = ''None''"
| "py_repr (PBool b) = (if b then ''True'' else ''False'')"
| "py_repr (PInt i) = int_str i"
| "py_repr (PFloat r t) = t"
| "py_repr (PStr s) = repr_str s"
| "py_repr (PList xs) = ''['' @ join '', '' (map py_repr xs) @ '']''"
| "py_repr (PDict d) =
     ''{'' @ join '', '' (map (\<lambda>p. py_repr (fst p) @ '': '' @ py_repr (snd p)) d) @ ''}''"
  by pat_completeness auto
termination
  by (relation "measure size") (auto dest: size_entry size_list_estimation' [where f = size, OF _ order_refl])

text \<open>
  A value a JSON document holds: the keys of every mapping are texts and differ. Such a value
  equals itself, which Python's mappings with mixed keys need not.
\<close>

function json_value :: "pyval \<Rightarrow> bool" where
  "json_value PNone \<longleftrightarrow> True"
| "json_value (PBool b) \<longleftrightarrow> True"
| "json_value (PInt i) \<longleftrightarrow> True"
| "json_value (PFloat r t) \<longleftrightarrow> True"
| "json_value (PStr s) \<longleftrightarrow> True"
| "json_value (PList xs) \<longleftrightarrow> list_all json_value xs"
| "json_value (PDict d) \<longleftrightarrow> distinct (map fst d) \<and>
     list_all (\<lambda>p. is_str (fst p) \<and> json_value (snd p)) d"
  by pat_completeness auto
termination
  by (relation "measure size") (auto dest: size_entry size_list_estimation' [where f = size, OF _ order_refl])

lemma py_eq_list_refl: "(\<And>x. x \<in> set xs \<Longrightarrow> py_eq x x) \<Longrightarrow> py_eq_list xs xs"
  by (induction xs) auto

lemma py_sub_refl:
  assumes "\<And>p. p \<in> set d \<Longrightarrow> is_str (fst p) \<and> py_eq (snd p) (snd p)" "distinct (map fst e)" "set d \<subseteq> set e"
  shows "py_sub d e"
  using assms(1,3)
proof (induction d)
  case (Cons p d)
  obtain k v where p: "p = (PStr k, v)" "py_eq v v"
    using Cons.prems(1) [of p] by (cases p) (auto simp: is_str_iff)
  then have "dfind e (PStr k) = Some v"
    using Cons.prems(2) assms(2) by (simp add: dfind_str dlookup_def)
  with Cons p show ?case by (subst py_sub.simps) simp
qed (subst py_sub.simps, simp)

lemma py_eq_json_refl: "json_value v \<Longrightarrow> py_eq v v"
proof (induction v rule: json_value.induct)
  case (6 xs)
  then show ?case by (auto simp: list_all_iff intro: py_eq_list_refl)
next
  case (7 d)
  then have "py_sub d d" by (intro py_sub_refl) (auto simp: list_all_iff)
  then show ?case by (subst py_eq.simps) simp
qed (simp_all add: py_eq.simps atom_eq_refl)

definition py_str :: "pyval \<Rightarrow> string" where
  "py_str v = (case v of PStr s \<Rightarrow> s | _ \<Rightarrow> py_repr v)"

lemma py_str_PStr [simp]: "py_str (PStr s) = s"
  by (simp add: py_str_def)

text \<open>The \<open>repr\<close> of a tuple.\<close>

definition tuple_repr :: "pyval list \<Rightarrow> string" where
  "tuple_repr xs = (case xs of
     [x] \<Rightarrow> ''('' @ py_repr x @ '',)''
   | _ \<Rightarrow> ''('' @ join '', '' (map py_repr xs) @ '')'')"

definition type_name :: "pyval \<Rightarrow> string" where
  "type_name v = (case v of
     PNone \<Rightarrow> ''NoneType'' | PBool _ \<Rightarrow> ''bool'' | PInt _ \<Rightarrow> ''int'' | PFloat _ _ \<Rightarrow> ''float''
   | PStr _ \<Rightarrow> ''str'' | PList _ \<Rightarrow> ''list'' | PDict _ \<Rightarrow> ''dict'')"

subsection \<open>String methods\<close>

fun split_on :: "char \<Rightarrow> string \<Rightarrow> string list" where
  "split_on c [] = [[]]"
| "split_on c (x # xs) =
     (if x = c then [] # split_on c xs
      else (case split_on c xs of [] \<Rightarrow> [[x]] | w # ws \<Rightarrow> (x # w) # ws))"

definition starts_with :: "string \<Rightarrow> string \<Rightarrow> bool" where
  "starts_with p s \<longleftrightarrow> take (length p) s = p"

definition ends_with :: "string \<Rightarrow> string \<Rightarrow> bool" where
  "ends_with p s \<longleftrightarrow> length p \<le> length s \<and> drop (length s - length p) s = p"

definition is_space :: "char \<Rightarrow> bool" where
  "is_space c = (let n = of_char c :: nat in
     9 \<le> n \<and> n \<le> 13 \<or> 28 \<le> n \<and> n \<le> 32 \<or> n = 133 \<or> n = 160)"

definition strip :: "string \<Rightarrow> string" where
  "strip s = rev (dropWhile is_space (rev (dropWhile is_space s)))"

text \<open>
  \<open>str.casefold\<close>. Upper-case letters lose their case, the sharp s (code point 223) becomes
  \<open>ss\<close>. The micro sign (181) folds to a Greek letter that no other character here folds to,
  so it stands for itself.
\<close>

definition casefold_char :: "char \<Rightarrow> string" where
  "casefold_char c = (let n = of_char c :: nat in
     if 65 \<le> n \<and> n \<le> 90 \<or> 192 \<le> n \<and> n \<le> 222 \<and> n \<noteq> 215 then [char_of (n + 32)]
     else if n = 223 then ''ss'' else [c])"

definition casefold :: "string \<Rightarrow> string" where
  "casefold s = concat (map casefold_char s)"

text \<open>\<open>str.lower\<close> differs from \<open>casefold\<close> on the sharp s only, which it keeps.\<close>

definition lower :: "string \<Rightarrow> string" where
  "lower s = map (\<lambda>c. case casefold_char c of [d] \<Rightarrow> d | _ \<Rightarrow> c) s"

lemma split_on_nonempty [simp]: "split_on c s \<noteq> []"
  by (induction s) (auto split: list.splits)

lemma split_on_no_sep: "w \<in> set (split_on c s) \<Longrightarrow> c \<notin> set w"
proof (induction s arbitrary: w)
  case Nil
  then show ?case by simp
next
  case (Cons x xs)
  then show ?case by (cases "split_on c xs") (auto split: if_splits)
qed

lemma split_on_join: "join [c] (split_on c s) = s"
proof (induction s)
  case Nil
  then show ?case by simp
next
  case (Cons x xs)
  then show ?case
    by (cases "split_on c xs"; cases "tl (split_on c xs)") auto
qed

lemma strip_Nil [simp]: "strip [] = []"
  by (simp add: strip_def)

lemma strip_eq_Nil: "strip s = [] \<longleftrightarrow> (\<forall>c \<in> set s. is_space c)"
proof -
  have "strip s = [] \<longleftrightarrow> (\<forall>c \<in> set (dropWhile is_space s). is_space c)"
    by (simp add: strip_def dropWhile_eq_Nil_conv)
  also have "\<dots> \<longleftrightarrow> dropWhile is_space s = []"
    by (metis dropWhile_eq_Nil_conv dropWhile_idem)
  finally show ?thesis by (simp add: dropWhile_eq_Nil_conv)
qed

lemma starts_with_iff: "starts_with p s \<longleftrightarrow> (\<exists>t. s = p @ t)"
  by (auto simp: starts_with_def) (metis append_take_drop_id)

subsection \<open>Character classes and scanners\<close>

definition is_digit_c :: "char \<Rightarrow> bool" where
  "is_digit_c c = (let n = of_char c :: nat in 48 \<le> n \<and> n \<le> 57)"

definition is_upper_c :: "char \<Rightarrow> bool" where
  "is_upper_c c = (let n = of_char c :: nat in 65 \<le> n \<and> n \<le> 90)"

definition is_lower_c :: "char \<Rightarrow> bool" where
  "is_lower_c c = (let n = of_char c :: nat in 97 \<le> n \<and> n \<le> 122)"

definition is_alpha_c :: "char \<Rightarrow> bool" where
  "is_alpha_c c \<longleftrightarrow> is_upper_c c \<or> is_lower_c c"

definition is_hex_c :: "char \<Rightarrow> bool" where
  "is_hex_c c \<longleftrightarrow> is_digit_c c \<or> (let n = of_char c :: nat in 97 \<le> n \<and> n \<le> 102)"

text \<open>
  Equations on the bits of a character, for evaluation: the classes are tested without
  computing the code point.
\<close>

lemma is_digit_c_bits [code]:
  "is_digit_c (Char b0 b1 b2 b3 b4 b5 b6 b7) \<longleftrightarrow>
     \<not> b7 \<and> \<not> b6 \<and> b5 \<and> b4 \<and> (\<not> b3 \<or> \<not> b2 \<and> \<not> b1)"
  by (cases b7; cases b6; cases b5; cases b4; cases b3; cases b2; cases b1; cases b0;
      simp add: is_digit_c_def)

lemma is_upper_c_bits [code]:
  "is_upper_c (Char b0 b1 b2 b3 b4 b5 b6 b7) \<longleftrightarrow>
     \<not> b7 \<and> b6 \<and> \<not> b5 \<and> (b0 \<or> b1 \<or> b2 \<or> b3 \<or> b4) \<and>
     (\<not> b4 \<or> \<not> b3 \<or> \<not> b2 \<and> (\<not> b1 \<or> \<not> b0))"
  by (cases b7; cases b6; cases b5; cases b4; cases b3; cases b2; cases b1; cases b0;
      simp add: is_upper_c_def)

lemma is_lower_c_bits [code]:
  "is_lower_c (Char b0 b1 b2 b3 b4 b5 b6 b7) \<longleftrightarrow>
     \<not> b7 \<and> b6 \<and> b5 \<and> (b0 \<or> b1 \<or> b2 \<or> b3 \<or> b4) \<and>
     (\<not> b4 \<or> \<not> b3 \<or> \<not> b2 \<and> (\<not> b1 \<or> \<not> b0))"
  by (cases b7; cases b6; cases b5; cases b4; cases b3; cases b2; cases b1; cases b0;
      simp add: is_lower_c_def)

lemma is_hex_c_bits [code]:
  "is_hex_c (Char b0 b1 b2 b3 b4 b5 b6 b7) \<longleftrightarrow>
     is_digit_c (Char b0 b1 b2 b3 b4 b5 b6 b7) \<or>
     \<not> b7 \<and> b6 \<and> b5 \<and> \<not> b4 \<and> \<not> b3 \<and> (b0 \<or> b1 \<or> b2) \<and> \<not> (b0 \<and> b1 \<and> b2)"
  by (cases b7; cases b6; cases b5; cases b4; cases b3; cases b2; cases b1; cases b0;
      simp add: is_hex_c_def is_digit_c_def)

lemma casefold_char_bits [code]:
  "casefold_char (Char b0 b1 b2 b3 b4 b5 b6 b7) =
     (if b6 \<and> \<not> b5 \<and>
         (if b7 then \<not> (b4 \<and> b3 \<and> b2 \<and> b1 \<and> b0) \<and> \<not> (b4 \<and> \<not> b3 \<and> b2 \<and> b1 \<and> b0)
          else (b0 \<or> b1 \<or> b2 \<or> b3 \<or> b4) \<and>
            (\<not> b4 \<or> \<not> b3 \<or> \<not> b2 \<and> (\<not> b1 \<or> \<not> b0)))
      then [Char b0 b1 b2 b3 b4 True b6 b7]
      else if b7 \<and> b6 \<and> \<not> b5 \<and> b4 \<and> b3 \<and> b2 \<and> b1 \<and> b0 then ''ss''
      else [Char b0 b1 b2 b3 b4 b5 b6 b7])"
  by (cases b7; cases b6; cases b5; cases b4; cases b3; cases b2; cases b1; cases b0;
      simp add: casefold_char_def char_of_def bit_iff_odd)

text \<open>The value of a run of decimal digits.\<close>

definition digit_val :: "char \<Rightarrow> nat" where
  "digit_val c = of_char c - 48"

definition digits_val :: "string \<Rightarrow> nat" where
  "digits_val s = foldl (\<lambda>n c. 10 * n + digit_val c) 0 s"

text \<open>
  A pattern of fixed width: \<open>d\<close> stands for a decimal digit, any other character for
  itself. It models the full matches of the timestamp expressions.
\<close>

fun match_pattern :: "string \<Rightarrow> string \<Rightarrow> bool" where
  "match_pattern [] s \<longleftrightarrow> s = []"
| "match_pattern (p # ps) [] \<longleftrightarrow> False"
| "match_pattern (p # ps) (c # cs) \<longleftrightarrow>
     (if p = CHR ''d'' then is_digit_c c else c = p) \<and> match_pattern ps cs"

lemma match_pattern_length: "match_pattern p s \<Longrightarrow> length s = length p"
  by (induction p s rule: match_pattern.induct) auto

subsection \<open>Dates\<close>

definition is_leap_year :: "nat \<Rightarrow> bool" where
  "is_leap_year y \<longleftrightarrow> 4 dvd y \<and> (\<not> 100 dvd y \<or> 400 dvd y)"

definition days_in_month :: "nat \<Rightarrow> nat \<Rightarrow> nat" where
  "days_in_month y m =
     (if m = 2 then (if is_leap_year y then 29 else 28)
      else if m \<in> {4, 6, 9, 11} then 30 else 31)"

text \<open>
  \<open>datetime.strptime\<close> on a text that already has the shape
  \<open>dddd-dd-ddTdd:dd:dd\<close>: it raises unless the fields name a moment of the calendar.
\<close>

definition strptime_ok :: "string \<Rightarrow> bool" where
  "strptime_ok s =
     (let y = digits_val (take 4 s); m = digits_val (take 2 (drop 5 s));
          d = digits_val (take 2 (drop 8 s)); h = digits_val (take 2 (drop 11 s));
          mi = digits_val (take 2 (drop 14 s)); sec = digits_val (take 2 (drop 17 s))
      in 1 \<le> y \<and> 1 \<le> m \<and> m \<le> 12 \<and> 1 \<le> d \<and> d \<le> days_in_month y m
         \<and> h \<le> 23 \<and> mi \<le> 59 \<and> sec \<le> 59)"

end
