(* ===== verification/Contract_Spec.thy ===== *)
theory Contract_Spec
  imports Py_Text
begin

text \<open>
  The contract tables of \<open>acgps/contracts.py\<close> and the error-code registry of
  \<open>acgps/policy_errors.py\<close>: the types of \<open>FieldSpec\<close> and \<open>ContractSpec\<close>, the
  vocabularies, and every table of fields in the order of the source (the order matters:
  it is the order in which issues are reported).
\<close>

subsection \<open>\<open>FieldSpec\<close> and \<open>ContractSpec\<close>\<close>

text \<open>
  An expected type is the list of its alternatives (a Python tuple of types, or one type).
\<close>

datatype pytype = TyBool | TyInt | TyStr | TyList | TyDict | TyNone

datatype field_spec = FieldSpec
  (expected_type: "pytype list")
  (required: bool)
  (allow_empty: bool)
  (allowed_values: "pyval list option")
  (sub_fields: "(string \<times> field_spec) list option")
  (item_fields: "(string \<times> field_spec) list option")
  (item_type: "pytype list option")
  (map_value_type: "pytype list option")

type_synonym fields = "(string \<times> field_spec) list"

abbreviation simple_field :: "pytype list \<Rightarrow> field_spec" where
  "simple_field ty \<equiv> FieldSpec ty True True None None None None None"

abbreviation choice_field :: "pytype list \<Rightarrow> pyval list \<Rightarrow> field_spec" where
  "choice_field ty vs \<equiv> FieldSpec ty True True (Some vs) None None None None"

record contract_spec =
  spec_name :: string
  spec_version :: int
  spec_fields :: fields

subsection \<open>Tables\<close>

definition POLICY_ERROR_CODES :: "string list" where
  "POLICY_ERROR_CODES =
    [''POLICY_CONFLICT'', ''POLICY_DUPLICATE_DISCOVERY_ROUTE'',
     ''POLICY_DUPLICATE_PROFILE_ID'', ''POLICY_DUPLICATE_SET_MEMBER'',
     ''POLICY_DUPLICATE_YAML_KEY'', ''POLICY_FILE_MISSING'', ''POLICY_MALFORMED'',
     ''POLICY_PROFILE_DOWNGRADE_FORBIDDEN'', ''POLICY_PROFILE_REQUIRED_FILE_INVALID'',
     ''POLICY_TYPE_ERROR'', ''POLICY_UNKNOWN_ATTRIBUTE'',
     ''POLICY_UNKNOWN_ATTRIBUTE_VALUE'', ''POLICY_UNKNOWN_FIELD'', ''POLICY_UNKNOWN_ID'',
     ''POLICY_UNSUPPORTED_VERSION'']"

definition RISK_LEVELS :: "string list" where
  "RISK_LEVELS =
    [''R0'', ''R1'', ''R2'', ''R3'']"

definition ROLES :: "string list" where
  "ROLES =
    [''PLANNER'', ''CODER'', ''REVIEWER'', ''VERIFIER'']"

definition HUMAN_DECISION_TRIGGERS :: "string list" where
  "HUMAN_DECISION_TRIGGERS =
    [''H1_PRODUCT_INTENT'', ''H2_IRREVERSIBLE_OR_COSTLY'', ''H3_RISK_ACCEPTANCE'',
     ''H4_NORMATIVE_EXPERIENCE'', ''H5_EXTERNAL_ACTION'']"

definition TEMPLATE_PLACEHOLDERS :: "string list" where
  "TEMPLATE_PLACEHOLDERS =
    [''AUTO'', ''COMMAND'', ''HASH'', ''OPTION_ID'', ''PACKET_ID'', ''PATH'',
     ''PROJECT_ID'', ''REVIEW_ID'', ''ROLE'', ''STAGE'', ''TASK_ID'', ''VERSION'']"

definition PATH_FIELDS :: "string list" where
  "PATH_FIELDS =
    [''path'', ''output_path'', ''rollback_plan_path'']"

definition PATH_COLLECTION_FIELDS :: "string list" where
  "PATH_COLLECTION_FIELDS =
    [''evidence_paths'', ''required_files'', ''review_closures'', ''source_paths'',
     ''verification_records'']"

definition STRING_LIST :: field_spec where
  "STRING_LIST = FieldSpec [TyList] True True None None None (Some [TyStr]) None"

definition TASK_STATES :: "string list" where
  "TASK_STATES =
    [''DRAFT'', ''READY_FOR_CLASSIFICATION'', ''CLASSIFIED'', ''SPEC_READY'',
     ''PLAN_READY'', ''IMPLEMENTING'', ''TASK_REVIEW'', ''FIX_REQUIRED'', ''INTEGRATING'',
     ''SYSTEM_QA'', ''VERIFIED'', ''RC_READY'', ''WAITING_HUMAN'', ''BLOCKED'', ''CLOSED'',
     ''ABANDONED'']"

definition POLICY_SKILL_IDS :: "string list" where
  "POLICY_SKILL_IDS =
    [''superpowers_writing_plans'', ''superpowers_requesting_code_review'',
     ''figma_design'', ''superpowers_verification_before_completion'']"

definition POLICY_MODEL_ROLE_IDS :: "string list" where
  "POLICY_MODEL_ROLE_IDS =
    [''planner_architect'', ''task_reviewer'', ''final_reviewer'', ''verifier'']"

definition POLICY_MODEL_ACTORS :: "string list" where
  "POLICY_MODEL_ACTORS =
    [''planner'', ''reviewer'', ''verifier'']"

definition POLICY_GATE_IDS :: "string list" where
  "POLICY_GATE_IDS =
    [''focused_check'', ''lightweight_review'', ''spec'', ''tests'', ''independent_review'',
     ''affected_checks'', ''architecture'', ''plan'', ''broad_verification'',
     ''high_capability_review'', ''rc_evidence'', ''human_approval'', ''risk_analysis'',
     ''strongest_planner'', ''strongest_reviewer'', ''full_verification'',
     ''rollback_plan'', ''human_release'']"

definition HUMAN_DECISION_OPTION_FIELDS :: fields where
  "HUMAN_DECISION_OPTION_FIELDS =
    [(''id'', simple_field [TyStr]),
     (''description'', simple_field [TyStr]),
     (''benefits'', STRING_LIST),
     (''costs'', STRING_LIST),
     (''risks'', STRING_LIST),
     (''reversible'', simple_field [TyBool])]"

definition SOURCE_ARTIFACT_FIELDS :: fields where
  "SOURCE_ARTIFACT_FIELDS =
    [(''path'', simple_field [TyStr]),
     (''sha256'', simple_field [TyStr])]"

definition POLICY_EVALUATION_INPUT_FIELDS :: fields where
  "POLICY_EVALUATION_INPUT_FIELDS =
    [(''current_state'', choice_field [TyStr] (map PStr TASK_STATES)),
     (''risk_triggers'', STRING_LIST),
     (''human_triggers'', STRING_LIST),
     (''task_attributes'', FieldSpec [TyDict] True True None None None None (Some [TyStr])),
     (''project_profile_id'', simple_field [TyStr, TyNone])]"

definition POLICY_EVALUATION_ISSUE_FIELDS :: fields where
  "POLICY_EVALUATION_ISSUE_FIELDS =
    [(''code'', simple_field [TyStr]),
     (''path'', simple_field [TyStr]),
     (''message'', simple_field [TyStr])]"

definition POLICY_EVALUATION_RESULT_FIELDS :: fields where
  "POLICY_EVALUATION_RESULT_FIELDS =
    [(''decision_emitted'', simple_field [TyBool]),
     (''risk_level'', choice_field [TyStr] (map PStr RISK_LEVELS)),
     (''human_gate'', simple_field [TyBool]),
     (''required_human_triggers'', STRING_LIST),
     (''required_skills'', STRING_LIST),
     (''model_roles'', FieldSpec [TyDict] True True None None None None (Some [TyStr])),
     (''mandatory_gates'', STRING_LIST),
     (''legal_transitions'', STRING_LIST),
     (''authorized_transitions'', STRING_LIST),
     (''provenance'', STRING_LIST),
     (''fail_closed'', simple_field [TyBool]),
     (''error_code'', simple_field [TyStr, TyNone]),
     (''issues'', FieldSpec [TyList] True True None None (Some POLICY_EVALUATION_ISSUE_FIELDS) None None)]"

definition VERIFICATION_CHECK_FIELDS :: fields where
  "VERIFICATION_CHECK_FIELDS =
    [(''name'', simple_field [TyStr]),
     (''command'', simple_field [TyStr]),
     (''exit_code'', simple_field [TyInt]),
     (''result_summary'', simple_field [TyStr]),
     (''output_path'', simple_field [TyStr])]"

definition CODING_OPERATION_CLASSES :: "string list" where
  "CODING_OPERATION_CLASSES =
    [''APPROVED_FILE_PATCH'', ''GIT_READ_ONLY_INSPECTION'', ''LOCAL_CHECK_PROCESS'',
     ''TARGETED_TEXT_SEARCH'', ''WORKSPACE_READ'']"

definition CODING_DISABLED_SURFACES :: "string list" where
  "CODING_DISABLED_SURFACES =
    [''APPS'', ''AUTOMATIC_RESUME'', ''BROWSER'', ''HOOKS'', ''MCP'', ''MEMORIES'',
     ''MODEL_SEARCH'', ''MULTI_AGENT'', ''PLUGINS'']"

definition CODING_EXECUTOR_PLATFORM_PROFILES :: "string list" where
  "CODING_EXECUTOR_PLATFORM_PROFILES =
    [''WINDOWS_11_X64_NTFS_PYTHON_3_13_ELEVATED_PRIVATE_DESKTOP'',
     ''WINDOWS_SERVER_2022_X64_NTFS_PYTHON_3_13_ELEVATED_PRIVATE_DESKTOP'']"

definition CODING_SLOT_STATES :: "string list" where
  "CODING_SLOT_STATES =
    [''EMPTY'', ''ACTIVE_V1'', ''FROZEN_REVIEW_V1'', ''REJECTED_HOLD_V1'',
     ''EMPTY_FOR_REMEDIATION'', ''ACTIVE_V2'', ''FROZEN_REVIEW_V2'']"

definition CODING_PACKET_FIELDS :: fields where
  "CODING_PACKET_FIELDS =
    [(''packet_id'', simple_field [TyStr]),
     (''path'', simple_field [TyStr]),
     (''sha256'', simple_field [TyStr]),
     (''size_bytes'', simple_field [TyInt]),
     (''role'', choice_field [TyStr] (map PStr [''TASK_PACKET''])),
     (''validation_status'', choice_field [TyStr] (map PStr [''PASS'', ''HOLD'']))]"

definition CODING_BASELINE_FIELDS :: fields where
  "CODING_BASELINE_FIELDS =
    [(''repository_path'', simple_field [TyStr]),
     (''commit'', simple_field [TyStr]),
     (''tree'', simple_field [TyStr]),
     (''before_state_sha256'', simple_field [TyStr]),
     (''after_state_sha256'', simple_field [TyStr]),
     (''unchanged'', simple_field [TyBool])]"

definition CODING_SLOT_FIELDS :: fields where
  "CODING_SLOT_FIELDS =
    [(''slot_id'', simple_field [TyStr]),
     (''state_before'', choice_field [TyStr] (map PStr CODING_SLOT_STATES)),
     (''state_after'', choice_field [TyStr] (map PStr CODING_SLOT_STATES)),
     (''active_candidate_before'', simple_field [TyStr, TyNone]),
     (''active_candidate_after'', simple_field [TyStr, TyNone]),
     (''historical_candidate_ids'', STRING_LIST)]"

definition CODING_ATTEMPT_FIELDS :: fields where
  "CODING_ATTEMPT_FIELDS =
    [(''number'', choice_field [TyInt, TyNone] [PNone, PInt 1, PInt 2]),
     (''reserved_at_utc'', simple_field [TyStr, TyNone]),
     (''parent_candidate_id'', simple_field [TyStr, TyNone]),
     (''kind'', choice_field [TyStr] (map PStr [''PRELAUNCH'', ''ORDINARY'', ''REMEDIATION''])),
     (''remaining_before'', choice_field [TyInt] [PInt 0, PInt 1, PInt 2]),
     (''remaining_after'', choice_field [TyInt] [PInt 0, PInt 1, PInt 2]),
     (''process_start_request_count'', simple_field [TyInt])]"

definition CODING_EXECUTOR_FIELDS :: fields where
  "CODING_EXECUTOR_FIELDS =
    [(''path'', simple_field [TyStr]),
     (''size_bytes'', simple_field [TyInt, TyNone]),
     (''sha256'', simple_field [TyStr, TyNone]),
     (''authenticode_status'', choice_field [TyStr] (map PStr [''VALID'', ''INVALID'', ''MISSING''])),
     (''signer'', simple_field [TyStr, TyNone]),
     (''cli_version'', simple_field [TyStr, TyNone]),
     (''identity_complete'', simple_field [TyBool]),
     (''argv'', FieldSpec [TyList] True True None None None (Some [TyStr]) None),
     (''model'', choice_field [TyStr] (map PStr [''gpt-5.6-sol''])),
     (''reasoning_effort'', choice_field [TyStr] (map PStr [''high''])),
     (''auth_mode'', choice_field [TyStr] (map PStr [''CHATGPT_SUBSCRIPTION''])),
     (''sandbox'', choice_field [TyStr] (map PStr [''ISOLATED_CLONE''])),
     (''approval_policy'', choice_field [TyStr] (map PStr [''NEVER''])),
     (''platform'', choice_field [TyStr] (map PStr CODING_EXECUTOR_PLATFORM_PROFILES))]"

definition CODING_OPERATION_ROW_FIELDS :: fields where
  "CODING_OPERATION_ROW_FIELDS =
    [(''sequence'', simple_field [TyInt]),
     (''class'', choice_field [TyStr] (map PStr CODING_OPERATION_CLASSES)),
     (''source'', choice_field [TyStr] (map PStr [''CONTROLLER_EVENT'', ''PROCESS_OBSERVATION'', ''FILESYSTEM_DIFF'', ''GIT_DIFF''])),
     (''event_id'', simple_field [TyStr, TyNone]),
     (''executable'', simple_field [TyStr, TyNone]),
     (''argv'', FieldSpec [TyList] True True None None None (Some [TyStr]) None),
     (''cwd'', simple_field [TyStr, TyNone]),
     (''path_set'', STRING_LIST),
     (''status'', choice_field [TyStr] (map PStr [''PASS'', ''HOLD''])),
     (''evidence_sha256'', simple_field [TyStr])]"

definition CODING_CAPABILITY_FIELDS :: fields where
  "CODING_CAPABILITY_FIELDS =
    [(''boundary_mode'', choice_field [TyStr] (map PStr [''FIVE_CLASS_OPERATION_AND_PROMOTION_POLICY''])),
     (''shell_identity_present'', choice_field [TyBool] [PBool True]),
     (''accepted_operation_classes'', FieldSpec [TyList] True True None None None (Some [TyStr]) None),
     (''effective_config_sha256'', simple_field [TyStr, TyNone]),
     (''automatic_resume_enabled'', choice_field [TyBool] [PBool False]),
     (''hooks_enabled'', choice_field [TyBool] [PBool False]),
     (''memories_enabled'', choice_field [TyBool] [PBool False]),
     (''disabled_surfaces'', FieldSpec [TyList] True True None None None (Some [TyStr]) None),
     (''authorized_write_paths'', STRING_LIST),
     (''check_allowlist_sha256'', simple_field [TyStr]),
     (''git_read_allowlist_sha256'', simple_field [TyStr]),
     (''network_policy_sha256'', simple_field [TyStr, TyNone]),
     (''observations_complete'', simple_field [TyBool]),
     (''operation_rows'', FieldSpec [TyList] True True None None (Some CODING_OPERATION_ROW_FIELDS) None None)]"

definition CODING_CLONE_BEFORE_FIELDS :: fields where
  "CODING_CLONE_BEFORE_FIELDS =
    [(''path'', simple_field [TyStr]),
     (''commit'', simple_field [TyStr]),
     (''tree'', simple_field [TyStr]),
     (''index_sha256'', simple_field [TyStr]),
     (''status_sha256'', simple_field [TyStr]),
     (''git_control_sha256'', simple_field [TyStr]),
     (''file_inventory_sha256'', simple_field [TyStr]),
     (''remote_count'', choice_field [TyInt] [PInt 0]),
     (''independent_git'', choice_field [TyBool] [PBool True]),
     (''detached'', choice_field [TyBool] [PBool True]),
     (''clean'', choice_field [TyBool] [PBool True])]"

definition CODING_PRELAUNCH_GATE_FIELDS :: fields where
  "CODING_PRELAUNCH_GATE_FIELDS =
    [(''gate_id'', choice_field [TyStr] (map PStr [''P0'', ''P1'', ''P2'', ''P3'', ''P4'', ''P5'', ''P6''])),
     (''status'', choice_field [TyStr] (map PStr [''PASS'', ''HOLD''])),
     (''evidence_sha256'', simple_field [TyStr]),
     (''blocker_ids'', STRING_LIST)]"

definition CODING_PRELAUNCH_FIELDS :: fields where
  "CODING_PRELAUNCH_FIELDS =
    [(''state'', choice_field [TyStr] (map PStr [''PASS'', ''HOLD''])),
     (''checked_at_utc'', simple_field [TyStr]),
     (''gate_rows'', FieldSpec [TyList] True True None None (Some CODING_PRELAUNCH_GATE_FIELDS) None None),
     (''model_request_started'', simple_field [TyBool]),
     (''process_start_requested'', simple_field [TyBool]),
     (''blocker_ids'', STRING_LIST)]"

definition CODING_PROCESS_FIELDS :: fields where
  "CODING_PROCESS_FIELDS =
    [(''start_requested'', simple_field [TyBool]),
     (''pid'', simple_field [TyInt, TyNone]),
     (''started_at_utc'', simple_field [TyStr, TyNone]),
     (''ended_at_utc'', simple_field [TyStr, TyNone]),
     (''exit_code'', simple_field [TyInt, TyNone]),
     (''timed_out'', simple_field [TyBool]),
     (''cancelled'', simple_field [TyBool]),
     (''error'', simple_field [TyStr, TyNone]),
     (''descendant_count'', simple_field [TyInt]),
     (''all_descendants_terminated'', simple_field [TyBool]),
     (''stdout_sha256'', simple_field [TyStr, TyNone]),
     (''stderr_sha256'', simple_field [TyStr, TyNone])]"

definition CODING_EVENT_FIELDS :: fields where
  "CODING_EVENT_FIELDS =
    [(''jsonl_sha256'', simple_field [TyStr, TyNone]),
     (''size_bytes'', simple_field [TyInt]),
     (''parsed_count'', simple_field [TyInt]),
     (''unknown_count'', simple_field [TyInt]),
     (''prohibited_count'', simple_field [TyInt]),
     (''final_response_sha256'', simple_field [TyStr, TyNone]),
     (''output_schema_valid'', simple_field [TyBool])]"

definition CODING_AGENT_RESULT_FIELDS :: fields where
  "CODING_AGENT_RESULT_FIELDS =
    [(''path'', simple_field [TyStr, TyNone]),
     (''sha256'', simple_field [TyStr, TyNone]),
     (''size_bytes'', simple_field [TyInt]),
     (''contract_valid'', simple_field [TyBool]),
     (''claimed_status'', choice_field [TyStr, TyNone] [PNone, PStr ''DONE'', PStr ''DONE_WITH_CONCERNS'', PStr ''NEEDS_CONTEXT'', PStr ''BLOCKED'', PStr ''FAILED'']),
     (''claims_match'', simple_field [TyBool])]"

definition CODING_CLONE_AFTER_FIELDS :: fields where
  "CODING_CLONE_AFTER_FIELDS =
    [(''commit'', simple_field [TyStr]),
     (''tree'', simple_field [TyStr]),
     (''index_sha256'', simple_field [TyStr]),
     (''status_sha256'', simple_field [TyStr]),
     (''git_control_sha256'', simple_field [TyStr]),
     (''file_inventory_sha256'', simple_field [TyStr]),
     (''changed_paths'', STRING_LIST),
     (''diff_sha256'', simple_field [TyStr])]"

definition CODING_CANDIDATE_FIELDS :: fields where
  "CODING_CANDIDATE_FIELDS =
    [(''candidate_id'', simple_field [TyStr, TyNone]),
     (''version'', choice_field [TyInt, TyNone] [PNone, PInt 1, PInt 2]),
     (''status'', choice_field [TyStr] (map PStr [''NONE'', ''FROZEN_REVIEW''])),
     (''parent_candidate_id'', simple_field [TyStr, TyNone]),
     (''diff_sha256'', simple_field [TyStr, TyNone]),
     (''file_set_sha256'', simple_field [TyStr, TyNone]),
     (''checks_sha256'', simple_field [TyStr, TyNone]),
     (''promotion_predicates_passed'', simple_field [TyBool])]"

definition CODING_EXECUTION_FIELDS :: fields where
  "CODING_EXECUTION_FIELDS =
    [(''schema_version'', simple_field [TyInt]),
     (''execution_id'', simple_field [TyStr]),
     (''gate_id'', simple_field [TyStr]),
     (''project_id'', simple_field [TyStr]),
     (''task_id'', simple_field [TyStr]),
     (''packet'', FieldSpec [TyDict] True True None (Some CODING_PACKET_FIELDS) None None None),
     (''baseline'', FieldSpec [TyDict] True True None (Some CODING_BASELINE_FIELDS) None None None),
     (''slot'', FieldSpec [TyDict] True True None (Some CODING_SLOT_FIELDS) None None None),
     (''attempt'', FieldSpec [TyDict] True True None (Some CODING_ATTEMPT_FIELDS) None None None),
     (''executor'', FieldSpec [TyDict] True True None (Some CODING_EXECUTOR_FIELDS) None None None),
     (''capabilities'', FieldSpec [TyDict] True True None (Some CODING_CAPABILITY_FIELDS) None None None),
     (''clone_before'', FieldSpec [TyDict, TyNone] True True None (Some CODING_CLONE_BEFORE_FIELDS) None None None),
     (''prelaunch'', FieldSpec [TyDict] True True None (Some CODING_PRELAUNCH_FIELDS) None None None),
     (''process'', FieldSpec [TyDict] True True None (Some CODING_PROCESS_FIELDS) None None None),
     (''events'', FieldSpec [TyDict] True True None (Some CODING_EVENT_FIELDS) None None None),
     (''agent_result'', FieldSpec [TyDict] True True None (Some CODING_AGENT_RESULT_FIELDS) None None None),
     (''clone_after'', FieldSpec [TyDict, TyNone] True True None (Some CODING_CLONE_AFTER_FIELDS) None None None),
     (''candidate'', FieldSpec [TyDict] True True None (Some CODING_CANDIDATE_FIELDS) None None None),
     (''outcome'', choice_field [TyStr] (map PStr [''PRELAUNCH_HOLD'', ''ATTEMPT_FAILED'', ''ATTEMPT_HOLD'', ''CANDIDATE_READY''])),
     (''created_at_utc'', simple_field [TyStr])]"

definition project_profile_contract :: fields where
  "project_profile_contract =
    [(''schema_version'', simple_field [TyInt]),
     (''profile_id'', simple_field [TyStr]),
     (''project_name'', simple_field [TyStr]),
     (''project_type'', simple_field [TyStr]),
     (''required_files'', FieldSpec [TyDict] True True None None None None (Some [TyStr])),
     (''critical_surfaces'', STRING_LIST),
     (''risk_overrides'', FieldSpec [TyDict] True True None None None None (Some [TyStr])),
     (''pilot_restrictions'', STRING_LIST),
     (''commands'', FieldSpec [TyDict] True True None None None None (Some [TyStr]))]"

definition task_intake_contract :: fields where
  "task_intake_contract =
    [(''schema_version'', simple_field [TyInt]),
     (''task_id'', simple_field [TyStr]),
     (''project_id'', simple_field [TyStr]),
     (''title'', simple_field [TyStr]),
     (''requested_outcome'', simple_field [TyStr]),
     (''business_context'', simple_field [TyStr]),
     (''in_scope'', STRING_LIST),
     (''out_of_scope'', STRING_LIST),
     (''acceptance_criteria'', STRING_LIST),
     (''known_constraints'', STRING_LIST),
     (''known_risks'', STRING_LIST),
     (''affected_surfaces'', STRING_LIST),
     (''source_paths'', STRING_LIST),
     (''requested_by'', simple_field [TyStr]),
     (''created_at_utc'', simple_field [TyStr])]"

definition task_state_contract :: fields where
  "task_state_contract =
    [(''schema_version'', simple_field [TyInt]),
     (''task_id'', simple_field [TyStr]),
     (''project_id'', simple_field [TyStr]),
     (''state'', choice_field [TyStr] (map PStr TASK_STATES)),
     (''updated_at_utc'', simple_field [TyStr]),
     (''evidence'', STRING_LIST),
     (''pending_decision_id'', simple_field [TyStr, TyNone])]"

definition risk_assessment_contract :: fields where
  "risk_assessment_contract =
    [(''schema_version'', simple_field [TyInt]),
     (''assessment_id'', simple_field [TyStr]),
     (''project_id'', simple_field [TyStr]),
     (''task_id'', simple_field [TyStr]),
     (''risk_level'', choice_field [TyStr] (map PStr RISK_LEVELS)),
     (''matched_triggers'', STRING_LIST),
     (''required_gates'', STRING_LIST),
     (''model_recommendation'', simple_field [TyStr, TyNone]),
     (''created_at_utc'', simple_field [TyStr])]"

definition routing_decision_contract :: fields where
  "routing_decision_contract =
    [(''schema_version'', simple_field [TyInt]),
     (''routing_id'', simple_field [TyStr]),
     (''project_id'', simple_field [TyStr]),
     (''task_id'', simple_field [TyStr]),
     (''required_skills'', STRING_LIST),
     (''primary_discovery_route'', simple_field [TyStr, TyNone]),
     (''model_roles'', FieldSpec [TyDict] True True None None None None (Some [TyStr])),
     (''mandatory_gates'', STRING_LIST),
     (''created_at_utc'', simple_field [TyStr])]"

definition policy_evaluation_input_contract :: fields where
  "policy_evaluation_input_contract =
    [(''schema_version'', simple_field [TyInt]),
     (''evaluation_id'', simple_field [TyStr]),
     (''project_id'', simple_field [TyStr]),
     (''task_id'', simple_field [TyStr]),
     (''input'', FieldSpec [TyDict] True True None (Some POLICY_EVALUATION_INPUT_FIELDS) None None None),
     (''created_at_utc'', simple_field [TyStr])]"

definition policy_evaluation_result_contract :: fields where
  "policy_evaluation_result_contract =
    [(''schema_version'', simple_field [TyInt]),
     (''evaluation_id'', simple_field [TyStr]),
     (''project_id'', simple_field [TyStr]),
     (''task_id'', simple_field [TyStr]),
     (''policy_bundle_digest'', simple_field [TyStr, TyNone]),
     (''result'', FieldSpec [TyDict] True True None (Some POLICY_EVALUATION_RESULT_FIELDS) None None None),
     (''created_at_utc'', simple_field [TyStr])]"

definition human_decision_request_contract :: fields where
  "human_decision_request_contract =
    [(''schema_version'', simple_field [TyInt]),
     (''decision_id'', simple_field [TyStr]),
     (''project_id'', simple_field [TyStr]),
     (''task_id'', simple_field [TyStr]),
     (''stage'', choice_field [TyStr] (map PStr TASK_STATES)),
     (''risk_level'', choice_field [TyStr] (map PStr RISK_LEVELS)),
     (''trigger'', choice_field [TyStr] (map PStr HUMAN_DECISION_TRIGGERS)),
     (''question'', simple_field [TyStr]),
     (''recommended_option'', simple_field [TyStr]),
     (''recommendation_rationale'', simple_field [TyStr]),
     (''options'', FieldSpec [TyList] True True None None (Some HUMAN_DECISION_OPTION_FIELDS) None None),
     (''default_without_response'', choice_field [TyStr] (map PStr [''PAUSE''])),
     (''evidence_paths'', STRING_LIST),
     (''created_at_utc'', simple_field [TyStr]),
     (''status'', choice_field [TyStr] (map PStr [''PENDING'', ''RESOLVED'', ''CANCELLED'']))]"

definition human_decision_resolution_contract :: fields where
  "human_decision_resolution_contract =
    [(''schema_version'', simple_field [TyInt]),
     (''decision_id'', simple_field [TyStr]),
     (''project_id'', simple_field [TyStr]),
     (''task_id'', simple_field [TyStr]),
     (''selected_option'', simple_field [TyStr]),
     (''resolved_by'', simple_field [TyStr]),
     (''resolved_at_utc'', simple_field [TyStr]),
     (''rationale'', simple_field [TyStr]),
     (''evidence_paths'', STRING_LIST),
     (''resume_state'', choice_field [TyStr] (map PStr TASK_STATES)),
     (''status'', choice_field [TyStr] (map PStr [''RESOLVED'']))]"

definition agent_task_contract_contract :: fields where
  "agent_task_contract_contract =
    [(''schema_version'', simple_field [TyInt]),
     (''packet_id'', simple_field [TyStr]),
     (''role'', choice_field [TyStr] (map PStr ROLES)),
     (''project_id'', simple_field [TyStr]),
     (''task_id'', simple_field [TyStr]),
     (''objective'', simple_field [TyStr]),
     (''binding_constraints'', STRING_LIST),
     (''non_goals'', STRING_LIST),
     (''relevant_paths'', STRING_LIST),
     (''interfaces_consumed'', STRING_LIST),
     (''interfaces_produced'', STRING_LIST),
     (''acceptance_criteria'', STRING_LIST),
     (''required_skills'', STRING_LIST),
     (''required_evidence'', STRING_LIST),
     (''prohibited_actions'', STRING_LIST),
     (''return_schema'', simple_field [TyStr])]"

definition agent_result_contract :: fields where
  "agent_result_contract =
    [(''schema_version'', simple_field [TyInt]),
     (''packet_id'', simple_field [TyStr]),
     (''role'', choice_field [TyStr] (map PStr ROLES)),
     (''status'', choice_field [TyStr] (map PStr [''DONE'', ''DONE_WITH_CONCERNS'', ''NEEDS_CONTEXT'', ''BLOCKED'', ''FAILED''])),
     (''summary'', simple_field [TyStr]),
     (''changed_files'', STRING_LIST),
     (''created_files'', STRING_LIST),
     (''commands_run'', STRING_LIST),
     (''evidence_paths'', STRING_LIST),
     (''assumptions'', STRING_LIST),
     (''concerns'', STRING_LIST),
     (''blocker'', simple_field [TyStr, TyNone]),
     (''recommended_next_state'', choice_field [TyStr] (map PStr TASK_STATES))]"

definition review_finding_contract :: fields where
  "review_finding_contract =
    [(''schema_version'', simple_field [TyInt]),
     (''finding_id'', simple_field [TyStr]),
     (''review_id'', simple_field [TyStr]),
     (''severity'', choice_field [TyStr] (map PStr [''P0'', ''P1'', ''P2'', ''P3''])),
     (''category'', simple_field [TyStr]),
     (''summary'', simple_field [TyStr]),
     (''evidence_paths'', STRING_LIST),
     (''impact'', simple_field [TyStr]),
     (''recommendation'', simple_field [TyStr]),
     (''disposition'', choice_field [TyStr] (map PStr [''UNTRIAGED'', ''ACCEPTED'', ''PARTIAL'', ''DEFERRED'', ''ALREADY_FIXED'',
        ''NOT_REPRODUCIBLE'', ''REJECTED'', ''DUPLICATE'', ''STALE''])),
     (''status'', choice_field [TyStr] (map PStr [''OPEN'', ''IN_PROGRESS'', ''VERIFIED'', ''CLOSED''])),
     (''rationale'', simple_field [TyStr, TyNone]),
     (''verification_required'', STRING_LIST)]"

definition verification_record_contract :: fields where
  "verification_record_contract =
    [(''schema_version'', simple_field [TyInt]),
     (''verification_id'', simple_field [TyStr]),
     (''project_id'', simple_field [TyStr]),
     (''task_id'', simple_field [TyStr]),
     (''baseline_hash'', simple_field [TyStr]),
     (''checks'', FieldSpec [TyList] True True None None (Some VERIFICATION_CHECK_FIELDS) None None),
     (''requirements_checked'', STRING_LIST),
     (''failed_requirements'', STRING_LIST),
     (''verified_at_utc'', simple_field [TyStr]),
     (''verifier_role'', choice_field [TyStr] (map PStr [''VERIFIER''])),
     (''recommendation'', choice_field [TyStr] (map PStr [''VERIFIED'', ''FIX_REQUIRED'', ''BLOCKED'']))]"

definition audit_event_contract :: fields where
  "audit_event_contract =
    [(''schema_version'', simple_field [TyInt]),
     (''event_id'', simple_field [TyStr]),
     (''project_id'', simple_field [TyStr]),
     (''task_id'', simple_field [TyStr, TyNone]),
     (''event_type'', simple_field [TyStr]),
     (''actor'', simple_field [TyStr]),
     (''created_at_utc'', simple_field [TyStr]),
     (''evidence_paths'', STRING_LIST),
     (''details'', simple_field [TyDict])]"

definition release_candidate_manifest_contract :: fields where
  "release_candidate_manifest_contract =
    [(''schema_version'', simple_field [TyInt]),
     (''rc_id'', simple_field [TyStr]),
     (''project_id'', simple_field [TyStr]),
     (''version'', simple_field [TyStr]),
     (''created_at_utc'', simple_field [TyStr]),
     (''source_artifact'', FieldSpec [TyDict] True True None (Some SOURCE_ARTIFACT_FIELDS) None None None),
     (''build_artifacts'', FieldSpec [TyList] True True None None (Some SOURCE_ARTIFACT_FIELDS) None None),
     (''verification_records'', FieldSpec [TyList] True True None None None (Some [TyStr]) None),
     (''review_closures'', FieldSpec [TyList] True True None None None (Some [TyStr]) None),
     (''known_limitations'', STRING_LIST),
     (''residual_risks'', STRING_LIST),
     (''rollback_plan_path'', simple_field [TyStr]),
     (''human_release_authorization'', simple_field [TyStr, TyNone]),
     (''status'', choice_field [TyStr] (map PStr [''RC_READY'', ''BLOCKED'', ''CLOSED'']))]"

text \<open>\<open>_CONTRACTS\<close>: the registered contracts by name and version.\<close>

definition CONTRACTS :: "contract_spec list" where
  "CONTRACTS =
    [\<lparr>spec_name = ''project_profile'', spec_version = 1, spec_fields = project_profile_contract\<rparr>,
     \<lparr>spec_name = ''task_intake'', spec_version = 1, spec_fields = task_intake_contract\<rparr>,
     \<lparr>spec_name = ''task_state'', spec_version = 1, spec_fields = task_state_contract\<rparr>,
     \<lparr>spec_name = ''risk_assessment'', spec_version = 1, spec_fields = risk_assessment_contract\<rparr>,
     \<lparr>spec_name = ''routing_decision'', spec_version = 1, spec_fields = routing_decision_contract\<rparr>,
     \<lparr>spec_name = ''policy_evaluation_input'', spec_version = 1, spec_fields = policy_evaluation_input_contract\<rparr>,
     \<lparr>spec_name = ''policy_evaluation_result'', spec_version = 1, spec_fields = policy_evaluation_result_contract\<rparr>,
     \<lparr>spec_name = ''human_decision_request'', spec_version = 1, spec_fields = human_decision_request_contract\<rparr>,
     \<lparr>spec_name = ''human_decision_resolution'', spec_version = 1, spec_fields = human_decision_resolution_contract\<rparr>,
     \<lparr>spec_name = ''agent_task_contract'', spec_version = 1, spec_fields = agent_task_contract_contract\<rparr>,
     \<lparr>spec_name = ''agent_result'', spec_version = 1, spec_fields = agent_result_contract\<rparr>,
     \<lparr>spec_name = ''review_finding'', spec_version = 1, spec_fields = review_finding_contract\<rparr>,
     \<lparr>spec_name = ''verification_record'', spec_version = 1, spec_fields = verification_record_contract\<rparr>,
     \<lparr>spec_name = ''audit_event'', spec_version = 1, spec_fields = audit_event_contract\<rparr>,
     \<lparr>spec_name = ''release_candidate_manifest'', spec_version = 1, spec_fields = release_candidate_manifest_contract\<rparr>,
     \<lparr>spec_name = ''coding_execution_record'', spec_version = 2, spec_fields = CODING_EXECUTION_FIELDS\<rparr>]"

end
