(* ===== verification/Contract_Check.thy ===== *)
theory Contract_Check
  imports Contract_Spec
begin

text \<open>
  The generic part of the contract validator of \<open>acgps/contracts.py\<close>: types of fields,
  the runtime semantics of text fields (placeholders, timestamps, digests, paths) and the
  recursive check of nested mappings. A validator of the source appends to a list of issues;
  here it returns the issues it appends, in order, as a log. A step that raises an exception
  other than a validation error puts a \<open>Raise\<close> into the log: whatever the log holds after it
  was never computed.
\<close>

datatype emit = Emit issue | Raise exn

type_synonym log = "emit list"

definition emit_at :: "string \<Rightarrow> string \<Rightarrow> emit" where
  "emit_at p m = Emit (Issue (PStr p) m)"

definition emit_if :: "bool \<Rightarrow> string \<Rightarrow> string \<Rightarrow> log" where
  "emit_if b p m = (if b then [emit_at p m] else [])"

fun first_raise :: "log \<Rightarrow> exn option" where
  "first_raise [] = None"
| "first_raise (Raise e # l) = Some e"
| "first_raise (Emit i # l) = first_raise l"

fun issues_of :: "log \<Rightarrow> issue list" where
  "issues_of [] = []"
| "issues_of (Raise e # l) = issues_of l"
| "issues_of (Emit i # l) = i # issues_of l"

text \<open>What a run of the validator ends with.\<close>

definition settle :: "string \<Rightarrow> log \<Rightarrow> guard" where
  "settle name l = (case first_raise l of
     Some e \<Rightarrow> Some e
   | None \<Rightarrow> (case issues_of l of [] \<Rightarrow> None | is \<Rightarrow> Some (ContractValidationError name is)))"

text \<open>In evaluation the message of an issue is computed only when the issue is raised.\<close>

declare emit_if_def [code_unfold]

lemma emit_if_Nil [simp]: "emit_if b p m = [] \<longleftrightarrow> \<not> b"
  by (simp add: emit_if_def)

lemma first_raise_append:
  "first_raise (k @ l) = (case first_raise k of Some e \<Rightarrow> Some e | None \<Rightarrow> first_raise l)"
  by (induction k rule: first_raise.induct) auto

lemma issues_of_append [simp]: "issues_of (k @ l) = issues_of k @ issues_of l"
  by (induction k rule: issues_of.induct) auto

lemma log_empty: "first_raise l = None \<Longrightarrow> issues_of l = [] \<Longrightarrow> l = []"
  by (cases l rule: first_raise.cases) auto

lemma settle_None [simp]: "settle name l = None \<longleftrightarrow> l = []"
proof
  assume "settle name l = None"
  then have "first_raise l = None" "issues_of l = []"
    by (auto simp: settle_def split: option.splits list.splits)
  then show "l = []" by (rule log_empty)
qed (simp add: settle_def)

lemma settle_Nil [simp]: "settle name [] = None"
  by simp

subsection \<open>Types\<close>

definition matches_type :: "pytype \<Rightarrow> pyval \<Rightarrow> bool" where
  "matches_type t v = (case t of
     TyBool \<Rightarrow> is_bool v | TyInt \<Rightarrow> is_int v | TyStr \<Rightarrow> is_str v
   | TyList \<Rightarrow> is_list v | TyDict \<Rightarrow> is_dict v | TyNone \<Rightarrow> v = PNone)"

definition matches_expected_type :: "pyval \<Rightarrow> pytype list \<Rightarrow> bool" where
  "matches_expected_type v tys = list_ex (\<lambda>t. matches_type t v) tys"

definition pytype_name :: "pytype \<Rightarrow> string" where
  "pytype_name t = (case t of
     TyBool \<Rightarrow> ''bool'' | TyInt \<Rightarrow> ''int'' | TyStr \<Rightarrow> ''str''
   | TyList \<Rightarrow> ''list'' | TyDict \<Rightarrow> ''dict'' | TyNone \<Rightarrow> ''NoneType'')"

definition type_names :: "pytype list \<Rightarrow> string" where
  "type_names tys = join '' or '' (map pytype_name tys)"

lemma matches_type_simps [simp]:
  "matches_type TyBool v = is_bool v" "matches_type TyInt v = is_int v"
  "matches_type TyStr v = is_str v" "matches_type TyList v = is_list v"
  "matches_type TyDict v = is_dict v" "matches_type TyNone v \<longleftrightarrow> v = PNone"
  by (simp_all add: matches_type_def)

lemma matches_expected_type_simps [simp]:
  "\<not> matches_expected_type v []"
  "matches_expected_type v (t # ts) \<longleftrightarrow> matches_type t v \<or> matches_expected_type v ts"
  by (simp_all add: matches_expected_type_def)

definition is_allowed_template_placeholder :: "pyval \<Rightarrow> string \<Rightarrow> bool" where
  "is_allowed_template_placeholder v mode \<longleftrightarrow>
     mode = ''template'' \<and> is_str v \<and> str_of v \<in> set TEMPLATE_PLACEHOLDERS"

subsection \<open>Semantic names of issue paths\<close>

text \<open>
  \<open>re.sub(r"\[\d+\]$", "", s)\<close>: drop one trailing index; \<open>$\<close> also matches before a
  final newline.
\<close>

definition index_suffix :: "string \<Rightarrow> string option" where
  "index_suffix s = (case rev s of
     [] \<Rightarrow> None
   | c # r \<Rightarrow>
      (let ds = takeWhile is_digit_c r; rest = dropWhile is_digit_c r in
       if c = CHR '']'' \<and> ds \<noteq> [] \<and> rest \<noteq> [] \<and> hd rest = CHR ''[''
       then Some (rev (tl rest)) else None))"

definition strip_index :: "string \<Rightarrow> string" where
  "strip_index s = (case index_suffix s of
     Some t \<Rightarrow> t
   | None \<Rightarrow>
      (if s \<noteq> [] \<and> last s = CHR 0x0A then
         (case index_suffix (butlast s) of Some t \<Rightarrow> t @ [CHR 0x0A] | None \<Rightarrow> s)
       else s))"

definition semantic_field_name :: "string \<Rightarrow> string" where
  "semantic_field_name path = strip_index (last (split_on (CHR ''.'') path))"

definition semantic_path_parts :: "string \<Rightarrow> string list" where
  "semantic_path_parts path = map semantic_field_name (split_on (CHR ''.'') path)"

definition is_path_semantic_path :: "string \<Rightarrow> bool" where
  "is_path_semantic_path path =
     (let parts = semantic_path_parts path in
      last parts \<in> set PATH_FIELDS \<or> list_ex (\<lambda>p. p \<in> set PATH_COLLECTION_FIELDS) parts)"

definition is_absolute_path_semantic_path :: "string \<Rightarrow> bool" where
  "is_absolute_path_semantic_path path =
     (let parts = semantic_path_parts path; tail = drop (length parts - 2) parts in
      2 \<le> length parts \<and>
      (tail = [''executor'', ''path''] \<or> tail = [''clone_before'', ''path'']))"

definition required_text_fields :: "string list" where
  "required_text_fields =
    [''actor'', ''assessment_id'', ''baseline_hash'', ''business_context'', ''category'',
     ''command'', ''created_at_utc'', ''decision_id'', ''description'', ''event_id'',
     ''event_type'', ''finding_id'', ''impact'', ''name'', ''objective'', ''output_path'',
     ''packet_id'', ''path'', ''profile_id'', ''project_id'', ''project_name'',
     ''project_type'', ''question'', ''rationale'', ''rc_id'', ''recommendation'',
     ''recommendation_rationale'', ''requested_by'', ''requested_outcome'',
     ''resolved_at_utc'', ''resolved_by'', ''result_summary'', ''review_id'',
     ''rollback_plan_path'', ''selected_option'', ''sha256'', ''summary'', ''task_id'',
     ''title'', ''updated_at_utc'', ''verification_id'', ''verified_at_utc'', ''version'']"

definition is_required_text_field :: "string \<Rightarrow> bool" where
  "is_required_text_field f \<longleftrightarrow> f \<in> set required_text_fields"

text \<open>The two vocabularies every text is looked up in, by first character, for evaluation.\<close>

lemma is_required_text_field_by_char [code]:
  "is_required_text_field f = (case f of [] \<Rightarrow> False | c # r \<Rightarrow>
     if c = CHR ''a'' then
       r = ''ctor'' \<or> r = ''ssessment_id''
     else if c = CHR ''b'' then
       r = ''aseline_hash'' \<or> r = ''usiness_context''
     else if c = CHR ''c'' then
       r = ''ategory'' \<or> r = ''ommand'' \<or> r = ''reated_at_utc''
     else if c = CHR ''d'' then
       r = ''ecision_id'' \<or> r = ''escription''
     else if c = CHR ''e'' then
       r = ''vent_id'' \<or> r = ''vent_type''
     else if c = CHR ''f'' then
       r = ''inding_id''
     else if c = CHR ''i'' then
       r = ''mpact''
     else if c = CHR ''n'' then
       r = ''ame''
     else if c = CHR ''o'' then
       r = ''bjective'' \<or> r = ''utput_path''
     else if c = CHR ''p'' then
       r = ''acket_id'' \<or> r = ''ath'' \<or> r = ''rofile_id'' \<or>
       r = ''roject_id'' \<or> r = ''roject_name'' \<or> r = ''roject_type''
     else if c = CHR ''q'' then
       r = ''uestion''
     else if c = CHR ''r'' then
       r = ''ationale'' \<or> r = ''c_id'' \<or> r = ''ecommendation'' \<or>
       r = ''ecommendation_rationale'' \<or> r = ''equested_by'' \<or>
       r = ''equested_outcome'' \<or> r = ''esolved_at_utc'' \<or> r = ''esolved_by'' \<or>
       r = ''esult_summary'' \<or> r = ''eview_id'' \<or> r = ''ollback_plan_path''
     else if c = CHR ''s'' then
       r = ''elected_option'' \<or> r = ''ha256'' \<or> r = ''ummary''
     else if c = CHR ''t'' then
       r = ''ask_id'' \<or> r = ''itle''
     else if c = CHR ''u'' then
       r = ''pdated_at_utc''
     else if c = CHR ''v'' then
       r = ''erification_id'' \<or> r = ''erified_at_utc'' \<or> r = ''ersion''
     else False)"
  by (cases f) (auto simp: is_required_text_field_def required_text_fields_def)

lemma placeholder_by_char [code_unfold]:
  "s \<in> set TEMPLATE_PLACEHOLDERS \<longleftrightarrow> (case s of [] \<Rightarrow> False | c # r \<Rightarrow>
     if c = CHR ''A'' then
       r = ''UTO''
     else if c = CHR ''C'' then
       r = ''OMMAND''
     else if c = CHR ''H'' then
       r = ''ASH''
     else if c = CHR ''O'' then
       r = ''PTION_ID''
     else if c = CHR ''P'' then
       r = ''ACKET_ID'' \<or> r = ''ATH'' \<or> r = ''ROJECT_ID''
     else if c = CHR ''R'' then
       r = ''EVIEW_ID'' \<or> r = ''OLE''
     else if c = CHR ''S'' then
       r = ''TAGE''
     else if c = CHR ''T'' then
       r = ''ASK_ID''
     else if c = CHR ''V'' then
       r = ''ERSION''
     else False)"
  by (cases s) (auto simp: TEMPLATE_PLACEHOLDERS_def)

subsection \<open>Text formats\<close>

definition is_rfc3339_utc :: "string \<Rightarrow> bool" where
  "is_rfc3339_utc s \<longleftrightarrow>
     (match_pattern ''dddd-dd-ddTdd:dd:ddZ'' s \<or> match_pattern ''dddd-dd-ddTdd:dd:dd.dddZ'' s)
     \<and> strptime_ok s"

definition is_sha256 :: "string \<Rightarrow> bool" where
  "is_sha256 s \<longleftrightarrow> length s = 64 \<and> list_all is_hex_c s"

definition is_dot_part :: "string \<Rightarrow> bool" where
  "is_dot_part p \<longleftrightarrow> p = [] \<or> p = ''.'' \<or> p = ''..''"

text \<open>\<open>re.match(r"^[A-Za-z]:", s)\<close>.\<close>

definition has_drive :: "string \<Rightarrow> bool" where
  "has_drive s = (case s of c # d # _ \<Rightarrow> is_alpha_c c \<and> d = CHR '':'' | _ \<Rightarrow> False)"

definition is_safe_relative_path :: "string \<Rightarrow> bool" where
  "is_safe_relative_path s =
     (if s = [] \<or> CHR 0x5C \<in> set s then False
      else if starts_with ''/'' s \<or> has_drive s then False
      else list_all (\<lambda>p. \<not> is_dot_part p) (split_on (CHR ''/'') s))"

definition is_windows_absolute_path :: "string \<Rightarrow> bool" where
  "is_windows_absolute_path s =
     (case s of
        c # d # b # rest \<Rightarrow>
          is_alpha_c c \<and> d = CHR '':'' \<and> b = CHR 0x5C \<and> CHR 0x00 \<notin> set rest \<and>
          (rest = [] \<or> list_all (\<lambda>p. \<not> is_dot_part p) (split_on (CHR 0x5C) rest))
      | _ \<Rightarrow> False)"

subsection \<open>Runtime semantics of a value\<close>

definition validate_runtime_semantics :: "string \<Rightarrow> pyval \<Rightarrow> string \<Rightarrow> log" where
  "validate_runtime_semantics path v mode =
     (if mode \<noteq> ''runtime'' \<or> \<not> is_str v then []
      else let s = str_of v; f = semantic_field_name path in
        emit_if (s \<in> set TEMPLATE_PLACEHOLDERS) path
          ''template placeholder is not valid at runtime'' @
        emit_if (is_required_text_field f \<and> strip s = []) path ''must not be empty'' @
        emit_if (ends_with ''_at_utc'' f \<and> \<not> is_rfc3339_utc s) path
          ''expected RFC 3339 UTC timestamp'' @
        emit_if ((f = ''sha256'' \<or> f = ''baseline_hash'' \<or> ends_with ''_sha256'' f
                  \<or> ends_with ''_digest'' f) \<and> \<not> is_sha256 s) path
          ''expected lowercase SHA-256 hex digest'' @
        (if is_absolute_path_semantic_path path then
           emit_if (\<not> is_windows_absolute_path s) path
             ''expected normalized absolute Windows path''
         else if is_path_semantic_path path then
           emit_if (\<not> is_safe_relative_path s) path ''expected safe relative path''
         else []))"

subsection \<open>Fields\<close>

definition unexpected_type :: "string \<Rightarrow> pytype list \<Rightarrow> pyval \<Rightarrow> emit" where
  "unexpected_type path tys v =
     emit_at path (''expected '' @ type_names tys @ '', got '' @ type_name v)"

definition allowed_check :: "string \<Rightarrow> field_spec \<Rightarrow> pyval \<Rightarrow> string \<Rightarrow> log" where
  "allowed_check path f v mode = (case allowed_values f of
     None \<Rightarrow> []
   | Some vs \<Rightarrow> emit_if (\<not> mem_list v vs \<and> \<not> is_allowed_template_placeholder v mode) path
        (''expected one of '' @ tuple_repr vs @ '', got '' @ py_repr v))"

definition item_path :: "string \<Rightarrow> nat \<Rightarrow> string" where
  "item_path path i = path @ ''['' @ nat_str i @ '']''"

definition typed_check :: "string \<Rightarrow> pytype list \<Rightarrow> pyval \<Rightarrow> string \<Rightarrow> log" where
  "typed_check path tys v mode =
     (if \<not> matches_expected_type v tys then [unexpected_type path tys v]
      else validate_runtime_semantics path v mode)"

definition items_check :: "string \<Rightarrow> field_spec \<Rightarrow> pyval \<Rightarrow> string \<Rightarrow> log" where
  "items_check path f v mode = (case item_type f of
     None \<Rightarrow> []
   | Some tys \<Rightarrow> (if is_list v then
        concat (map (\<lambda>(i, x). typed_check (item_path path i) tys x mode) (numbered 0 (elems v)))
      else []))"

definition map_values_check :: "string \<Rightarrow> field_spec \<Rightarrow> pyval \<Rightarrow> string \<Rightarrow> log" where
  "map_values_check path f v mode = (case map_value_type f of
     None \<Rightarrow> []
   | Some tys \<Rightarrow> (if is_dict v then
        concat (map (\<lambda>(k, x). typed_check (path @ ''.'' @ py_str k) tys x mode) (entries v))
      else []))"

definition declared_keys :: "fields \<Rightarrow> pyval list" where
  "declared_keys fs = map (\<lambda>p. PStr (fst p)) fs"

lemma field_size: "p \<in> set fs \<Longrightarrow> size (snd p) < Suc (size_list (\<lambda>q. size (snd q)) fs)"
  by (induction fs) auto

lemma fields_size_le:
  "size_list (\<lambda>q. size (snd q)) fs \<le> size_list (size_prod (\<lambda>x. 0) size) fs"
  by (induction fs) auto

lemma sub_fields_size:
  "sub_fields f = Some fs \<Longrightarrow> size_list (\<lambda>q. size (snd q)) fs < size f"
  using fields_size_le [of fs] by (cases f) auto

lemma item_fields_size:
  "item_fields f = Some fs \<Longrightarrow> size_list (\<lambda>q. size (snd q)) fs < size f"
  using fields_size_le [of fs] by (cases f) auto

function validate_fields :: "string \<Rightarrow> pydict \<Rightarrow> fields \<Rightarrow> string \<Rightarrow> log" where
  "validate_fields path d fs mode =
     concat (map (\<lambda>p. emit_if (fst p \<notin> set (declared_keys fs)) (path @ ''.'' @ py_str (fst p))
                        ''unexpected field'') d) @
     concat (map (\<lambda>p. let n = fst p; f = snd p; child = path @ ''.'' @ n in
       (case dlookup d n of
          None \<Rightarrow> emit_if (required f) child ''missing required field''
        | Some v \<Rightarrow>
           (if \<not> matches_expected_type v (expected_type f)
            then [unexpected_type child (expected_type f) v]
            else
              emit_if (\<not> allow_empty f \<and> v = PStr []) child ''must not be empty'' @
              validate_runtime_semantics child v mode @
              allowed_check child f v mode @
              (case sub_fields f of
                 None \<Rightarrow> []
               | Some sub \<Rightarrow> (case v of
                     PDict e \<Rightarrow> validate_fields child e sub mode | _ \<Rightarrow> [])) @
              (case item_fields f of
                 None \<Rightarrow> []
               | Some sub \<Rightarrow> (if is_list v then
                     concat (map (\<lambda>q. case snd q of
                         PDict e \<Rightarrow> validate_fields (item_path child (fst q)) e sub mode
                       | _ \<Rightarrow> [emit_at (item_path child (fst q)) ''expected mapping''])
                       (numbered 0 (elems v)))
                   else [])) @
              items_check child f v mode @
              map_values_check child f v mode))) fs)"
  by pat_completeness auto
termination
  by (relation "measure (\<lambda>(path, d, fs, mode). size_list (\<lambda>q. size (snd q)) fs)")
    (auto dest!: sub_fields_size item_fields_size field_size)

declare validate_fields.simps [simp del]

end
