(* ===== verification/Contract_Rules.thy ===== *)
theory Contract_Rules
  imports Contract_Check
begin

text \<open>
  The rules between fields of \<open>acgps/contracts.py\<close>, one definition per validator: decision
  requests, task states, verification records, agent results, review findings, release
  manifests and policy evaluation results. Each takes the record and returns the issues the
  source appends, in order.
\<close>

definition is_empty_text :: "pyval \<Rightarrow> bool" where
  "is_empty_text v \<longleftrightarrow> v = PNone \<or> v = PStr []"

subsection \<open>Human decision requests and task states\<close>

definition option_id_values :: "pyval list \<Rightarrow> string list" where
  "option_id_values options = strs (map (\<lambda>item. vget item ''id'') (filter is_dict options))"

definition validate_human_decision_request :: "pydict \<Rightarrow> log" where
  "validate_human_decision_request d =
     (let options = dget d ''options''; recommended = dget d ''recommended_option'' in
      if \<not> is_list options then []
      else if elems options = [] then [emit_at ''options'' ''expected at least 1 item'']
      else if \<not> is_str recommended then []
      else let ids = option_id_values (elems options) in
        emit_if (\<not> distinct ids) ''options'' ''duplicate option id'' @
        emit_if (str_of recommended \<notin> set ids) ''recommended_option''
          (''expected one of option ids '' @ tuple_repr (map PStr (sorted_set ids)) @
           '', got '' @ py_repr recommended))"

definition validate_task_state_contract :: "pydict \<Rightarrow> string \<Rightarrow> log" where
  "validate_task_state_contract d mode =
     (if mode \<noteq> ''runtime'' then []
      else let state = dget d ''state''; pending = dget d ''pending_decision_id'' in
        emit_if (state = PStr ''WAITING_HUMAN'' \<and>
                 \<not> (is_str pending \<and> strip (str_of pending) \<noteq> []))
          ''pending_decision_id'' ''required when state is WAITING_HUMAN'' @
        emit_if (state \<noteq> PStr ''WAITING_HUMAN'' \<and> \<not> is_empty_text pending)
          ''pending_decision_id'' ''must be empty unless state is WAITING_HUMAN'')"

subsection \<open>Verification records, agent results, findings, manifests\<close>

definition validate_verification_record :: "pydict \<Rightarrow> string \<Rightarrow> log" where
  "validate_verification_record d mode =
     (if mode \<noteq> ''runtime'' \<or> dget d ''recommendation'' \<noteq> PStr ''VERIFIED'' then []
      else let checks = dget d ''checks''; reqs = dget d ''requirements_checked'' in
        emit_if (\<not> is_list checks \<or> elems checks = []) ''checks''
          ''required when recommendation is VERIFIED'' @
        emit_if (\<not> is_list reqs \<or> elems reqs = []) ''requirements_checked''
          ''required when recommendation is VERIFIED'' @
        (if is_list checks then
           concat (map (\<lambda>(i, c). emit_if (is_dict c \<and> \<not> eq_int (vget c ''exit_code'') 0)
               (item_path ''checks'' i @ ''.exit_code'')
               ''must be 0 when recommendation is VERIFIED'')
             (numbered 0 (elems checks)))
         else []) @
        emit_if (truthy (dget d ''failed_requirements'')) ''failed_requirements''
          ''must be empty when recommendation is VERIFIED'')"

definition validate_agent_result :: "pydict \<Rightarrow> log" where
  "validate_agent_result d =
     (let status = dget d ''status''; blocker = dget d ''blocker'' in
      emit_if (status = PStr ''DONE'' \<and> \<not> is_empty_text blocker) ''blocker''
        ''must be empty when status is DONE'' @
      emit_if (status = PStr ''BLOCKED'' \<and> is_empty_text blocker) ''blocker''
        ''required when status is BLOCKED'')"

definition validate_review_finding :: "pydict \<Rightarrow> log" where
  "validate_review_finding d =
     (let status = dget d ''status'' in
      emit_if (status = PStr ''CLOSED'' \<and> dget d ''disposition'' = PStr ''UNTRIAGED'')
        ''disposition'' ''must not be UNTRIAGED when status is CLOSED'' @
      (if status = PStr ''VERIFIED'' \<or> status = PStr ''CLOSED'' then
         emit_if (\<not> truthy (dget d ''evidence_paths'')) ''evidence_paths''
           ''required when status is VERIFIED or CLOSED'' @
         emit_if (\<not> truthy (dget d ''verification_required'')) ''verification_required''
           ''required when status is VERIFIED or CLOSED''
       else []))"

definition validate_release_candidate_manifest_contract :: "pydict \<Rightarrow> string \<Rightarrow> log" where
  "validate_release_candidate_manifest_contract d mode =
     (if mode \<noteq> ''runtime'' \<or> dget d ''status'' \<noteq> PStr ''RC_READY'' then []
      else concat (map (\<lambda>n. let v = dget d n in
             emit_if (\<not> is_list v \<or> elems v = []) n ''required when status is RC_READY'')
           [''verification_records'', ''review_closures'']))"

subsection \<open>Policy evaluation results\<close>

text \<open>The vocabulary of a list-valued output field, its duplicates and its order.\<close>

fun vocab_rows :: "string \<Rightarrow> string list \<Rightarrow> string list \<Rightarrow> nat \<Rightarrow> pyval list \<Rightarrow> log" where
  "vocab_rows field vocabulary seen i [] = []"
| "vocab_rows field vocabulary seen i (v # vs) =
     (if \<not> is_str v then vocab_rows field vocabulary seen (Suc i) vs
      else
        emit_if (str_of v \<in> set seen) (item_path (''result.'' @ field) i)
          ''must not duplicate another set-like output value'' @
        emit_if (str_of v \<notin> set vocabulary) (item_path (''result.'' @ field) i)
          ''must reference a declared policy vocabulary item'' @
        vocab_rows field vocabulary (str_of v # seen) (Suc i) vs)"

definition validate_policy_result_list_vocab ::
    "pydict \<Rightarrow> string \<Rightarrow> string list \<Rightarrow> bool \<Rightarrow> log" where
  "validate_policy_result_list_vocab result field vocabulary enforce_order =
     (let values = dget result field in
      if \<not> is_list values then []
      else
        vocab_rows field vocabulary [] 0 (elems values) @
        emit_if (enforce_order \<and>
            elems values \<noteq> map PStr (filter (\<lambda>x. x \<in> set (strs (elems values))) vocabulary))
          (''result.'' @ field) ''must use canonical declaration order'')"

definition is_provenance_path_char :: "char \<Rightarrow> bool" where
  "is_provenance_path_char c \<longleftrightarrow> is_alpha_c c \<or> is_digit_c c \<or> c \<in> set ''_./-''"

definition is_provenance_field_char :: "char \<Rightarrow> bool" where
  "is_provenance_field_char c \<longleftrightarrow> is_alpha_c c \<or> is_digit_c c \<or> c \<in> set ''_.[]-''"

text \<open>
  \<open>PROVENANCE_RE.match\<close>: a path ending in .yaml or .yml, a colon, a field path. Neither
  class holds a colon, so the colon splits the text; the final \<open>$\<close> lets one newline follow.
\<close>

definition provenance_file_ok :: "string \<Rightarrow> bool" where
  "provenance_file_ok p \<longleftrightarrow> list_all is_provenance_path_char p \<and>
     (ends_with ''.yaml'' p \<and> 5 < length p \<or> ends_with ''.yml'' p \<and> 4 < length p)"

definition provenance_match :: "string \<Rightarrow> bool" where
  "provenance_match s =
     (let file = takeWhile (\<lambda>c. c \<noteq> CHR '':'') s; rest = dropWhile (\<lambda>c. c \<noteq> CHR '':'') s;
          field = tl rest;
          body = (if field \<noteq> [] \<and> last field = CHR 0x0A then butlast field else field)
      in rest \<noteq> [] \<and> provenance_file_ok file \<and> body \<noteq> [] \<and>
         list_all is_provenance_field_char body)"

definition provenance_order_group :: "pyval \<Rightarrow> nat" where
  "provenance_order_group v =
     (if \<not> is_str v then 99
      else let s = str_of v in
        if starts_with ''config/risk_policy.yaml:'' s \<or> starts_with ''project_profiles/'' s then 0
        else if starts_with ''config/human_decision_policy.yaml:'' s then 1
        else if starts_with ''config/skill_routing.yaml:'' s then 2
        else if starts_with ''config/model_routing.yaml:'' s then 3
        else if starts_with ''config/workflow_policy.yaml:'' s then 4
        else 99)"

text \<open>The loop stops at the first value whose group is smaller than its predecessor's.\<close>

fun provenance_rows :: "string list \<Rightarrow> pyval option \<Rightarrow> nat \<Rightarrow> pyval list \<Rightarrow> log" where
  "provenance_rows seen prev i [] = []"
| "provenance_rows seen prev i (v # vs) =
     (if \<not> is_str v then provenance_rows seen (Some v) (Suc i) vs
      else
        emit_if (str_of v \<in> set seen) (item_path ''result.provenance'' i)
          ''must not duplicate another provenance path'' @
        emit_if (\<not> provenance_match (str_of v)) (item_path ''result.provenance'' i)
          ''must be a source path followed by a policy field path'' @
        (if (case prev of None \<Rightarrow> False
             | Some p \<Rightarrow> provenance_order_group v < provenance_order_group p)
         then [emit_at ''result.provenance'' ''must use canonical provenance order'']
         else provenance_rows (str_of v # seen) (Some v) (Suc i) vs))"

definition validate_policy_result_provenance :: "pydict \<Rightarrow> log" where
  "validate_policy_result_provenance result =
     (let values = dget result ''provenance'' in
      if \<not> is_list values then [] else provenance_rows [] None 0 (elems values))"

definition executable_fields :: "string list" where
  "executable_fields =
    [''required_human_triggers'', ''required_skills'', ''model_roles'', ''mandatory_gates'',
     ''legal_transitions'', ''authorized_transitions'', ''provenance'']"

text \<open>The issue rows of a fail-closed result: same code, distinct non-empty paths.\<close>

fun fail_closed_issue_rows :: "string \<Rightarrow> string list \<Rightarrow> nat \<Rightarrow> pyval list \<Rightarrow> log" where
  "fail_closed_issue_rows code seen i [] = []"
| "fail_closed_issue_rows code seen i (x # xs) =
     (if \<not> is_dict x then fail_closed_issue_rows code seen (Suc i) xs
      else let p = vget x ''path'' in
        emit_if (vget x ''code'' \<noteq> PStr code) (item_path ''result.issues'' i @ ''.code'')
          ''must match result.error_code'' @
        (if \<not> is_str p \<or> strip (str_of p) = [] then
           emit_at (item_path ''result.issues'' i @ ''.path'') ''must be a non-empty path''
             # fail_closed_issue_rows code seen (Suc i) xs
         else if str_of p \<in> set seen then
           emit_at (item_path ''result.issues'' i @ ''.path'')
             ''must not duplicate another issue path''
             # fail_closed_issue_rows code seen (Suc i) xs
         else fail_closed_issue_rows code (str_of p # seen) (Suc i) xs))"

definition fail_closed_rules :: "pydict \<Rightarrow> log" where
  "fail_closed_rules result =
     (let error_code = dget result ''error_code''; issue_items = dget result ''issues'' in
      emit_if (dget result ''risk_level'' \<noteq> PStr ''R3'') ''result.risk_level''
        ''must be R3 when fail_closed is true'' @
      emit_if (dget result ''human_gate'' \<noteq> PBool True) ''result.human_gate''
        ''must be true when fail_closed is true'' @
      emit_if (dget result ''decision_emitted'' \<noteq> PBool False) ''result.decision_emitted''
        ''must be false when fail_closed is true'' @
      concat (map (\<lambda>n. emit_if (dget result n \<noteq> PDict [] \<and> dget result n \<noteq> PList [])
          (''result.'' @ n) ''must be empty when fail_closed is true'') executable_fields) @
      (if \<not> is_str error_code \<or> strip (str_of error_code) = [] then
         [emit_at ''result.error_code'' ''required when fail_closed is true'']
       else emit_if (str_of error_code \<notin> set POLICY_ERROR_CODES) ''result.error_code''
         ''must be a registered policy error code'') @
      (if \<not> is_list issue_items \<or> elems issue_items = [] then
         [emit_at ''result.issues'' ''required when fail_closed is true'']
       else if is_str error_code then
         fail_closed_issue_rows (str_of error_code) [] 0 (elems issue_items)
       else []))"

definition decision_rules :: "pydict \<Rightarrow> log" where
  "decision_rules result =
     (let triggers = dget result ''required_human_triggers''; issues = dget result ''issues'' in
      emit_if (dget result ''decision_emitted'' \<noteq> PBool True) ''result.decision_emitted''
        ''must be true when fail_closed is false'' @
      emit_if (dget result ''error_code'' \<noteq> PNone) ''result.error_code''
        ''must be null when fail_closed is false'' @
      emit_if (issues \<noteq> PList [] \<and> issues \<noteq> PNone) ''result.issues''
        ''must be empty when fail_closed is false'' @
      emit_if (dget result ''risk_level'' = PStr ''R3'' \<and> dget result ''human_gate'' \<noteq> PBool True)
        ''result.human_gate'' ''must be true when risk_level is R3'' @
      emit_if (is_list triggers \<and> elems triggers \<noteq> [] \<and> dget result ''human_gate'' \<noteq> PBool True)
        ''result.human_gate'' ''must be true when required_human_triggers is non-empty'')"

definition model_roles_rules :: "pydict \<Rightarrow> log" where
  "model_roles_rules result =
     concat (map (\<lambda>(key, role).
        emit_if (\<not> mem_list key (map PStr POLICY_MODEL_ACTORS))
          (''result.model_roles.'' @ py_str key) ''must reference a declared model actor'' @
        emit_if (is_str role \<and> str_of role \<notin> set POLICY_MODEL_ROLE_IDS)
          (''result.model_roles.'' @ py_str key) ''must reference a declared model role'')
       (entries (dget result ''model_roles'')))"

text \<open>
  The two loops over the authorized transitions test membership in a set, which raises for a
  list or a mapping among them.
\<close>

definition transition_member_rows :: "pyval list \<Rightarrow> string \<Rightarrow> pyval list \<Rightarrow> log" where
  "transition_member_rows allowed msg targets =
     concat (map (\<lambda>(i, t). if \<not> hashable t then [Raise TypeError]
         else emit_if (\<not> mem_list t allowed) (item_path ''result.authorized_transitions'' i) msg)
       (numbered 0 targets))"

definition transition_rules :: "pydict \<Rightarrow> log" where
  "transition_rules result =
     (let legal = dget result ''legal_transitions'';
          authorized = dget result ''authorized_transitions'' in
      (if is_list legal \<and> is_list authorized then
         transition_member_rows (filter is_str (elems legal))
           ''must also be present in legal_transitions'' (elems authorized)
       else []) @
      (if dget result ''human_gate'' = PBool True \<and> is_list authorized then
         transition_member_rows [PStr ''WAITING_HUMAN'', PStr ''ABANDONED'']
           ''human-gated results may authorize only WAITING_HUMAN or ABANDONED''
           (elems authorized)
       else []))"

definition validate_policy_evaluation_result :: "pydict \<Rightarrow> log" where
  "validate_policy_evaluation_result d =
     (let r = dget d ''result'' in
      if \<not> is_dict r then []
      else let result = entries r; fail_closed = dget result ''fail_closed'' in
        emit_if (dget d ''policy_bundle_digest'' = PNone \<and> fail_closed \<noteq> PBool True)
          ''policy_bundle_digest''
          ''required unless evaluation failed before a usable policy bundle existed'' @
        (if fail_closed = PBool True then fail_closed_rules result
         else decision_rules result) @
        validate_policy_result_list_vocab result ''required_human_triggers''
          HUMAN_DECISION_TRIGGERS True @
        validate_policy_result_list_vocab result ''required_skills'' POLICY_SKILL_IDS True @
        validate_policy_result_list_vocab result ''mandatory_gates'' POLICY_GATE_IDS True @
        validate_policy_result_list_vocab result ''legal_transitions'' TASK_STATES False @
        validate_policy_result_list_vocab result ''authorized_transitions'' TASK_STATES False @
        validate_policy_result_provenance result @
        model_roles_rules result @
        transition_rules result)"

end
