(* ===== verification/Coding_Record.thy ===== *)
theory Coding_Record
  imports Contract_Rules
begin

text \<open>
  The validator of coding execution records (\<open>_validate_coding_execution_record\<close> of
  \<open>acgps/contracts.py\<close>) in the order of its blocks, the derived promotion predicate and the
  derived outcome. A block that reads a value under a condition returns no issues when the
  condition fails, as the source does.
\<close>

subsection \<open>Formats\<close>

definition is_safe_id_char :: "char \<Rightarrow> bool" where
  "is_safe_id_char c \<longleftrightarrow> is_upper_c c \<or> is_digit_c c \<or> c \<in> set ''_.-''"

definition is_coding_safe_id :: "string \<Rightarrow> bool" where
  "is_coding_safe_id s = (case s of
     [] \<Rightarrow> False
   | c # cs \<Rightarrow> (is_upper_c c \<or> is_digit_c c) \<and> length cs \<le> 127 \<and> list_all is_safe_id_char cs)"

definition is_coding_utc :: "string \<Rightarrow> bool" where
  "is_coding_utc s \<longleftrightarrow> match_pattern ''dddd-dd-ddTdd:dd:dd.dddZ'' s \<and> strptime_ok s"

definition is_git_oid :: "string \<Rightarrow> bool" where
  "is_git_oid s \<longleftrightarrow> length s = 40 \<and> list_all is_hex_c s"

function no_casefold_key_collisions :: "pyval \<Rightarrow> string \<Rightarrow> log"
  and collision_entries :: "(string \<times> string) list \<Rightarrow> pydict \<Rightarrow> string \<Rightarrow> log"
  and collision_items :: "nat \<Rightarrow> pyval list \<Rightarrow> string \<Rightarrow> log" where
  "no_casefold_key_collisions v path = (case v of
     PDict d \<Rightarrow> collision_entries [] d path
   | PList xs \<Rightarrow> collision_items 0 xs path
   | _ \<Rightarrow> [])"
| "collision_entries seen d path = (case d of
     [] \<Rightarrow> []
   | (k, child) # d' \<Rightarrow>
      (if \<not> is_str k then
         emit_at path ''object keys must be strings'' # collision_entries seen d' path
       else let key = str_of k; folded = casefold key in
         (case map_of seen folded of
            Some previous \<Rightarrow>
              emit_if (previous \<noteq> key) (path @ ''.'' @ key)
                (''case-fold-colliding key with '' @ repr_str previous)
          | None \<Rightarrow> []) @
         no_casefold_key_collisions child (path @ ''.'' @ key) @
         collision_entries (if map_of seen folded = None then (folded, key) # seen else seen)
           d' path))"
| "collision_items i xs path = (case xs of
     [] \<Rightarrow> []
   | x # xs' \<Rightarrow> no_casefold_key_collisions x (item_path path i) @ collision_items (Suc i) xs' path)"
  by pat_completeness auto
termination
  by (relation "measure (\<lambda>x. case x of
        Inl (v, p) \<Rightarrow> 2 * size v
      | Inr (Inl (s, d, p)) \<Rightarrow> 2 * size_list (size_prod size size) d + 1
      | Inr (Inr (i, xs, p)) \<Rightarrow> 2 * size_list size xs + 1)") auto

declare no_casefold_key_collisions.simps [simp del] collision_entries.simps [simp del]
  collision_items.simps [simp del]

definition validate_sorted_unique_relpaths :: "pyval \<Rightarrow> string \<Rightarrow> log" where
  "validate_sorted_unique_relpaths v path =
     (if \<not> is_list v \<or> \<not> list_all is_str (elems v) then []
      else let items = strs (elems v) in
        emit_if (items \<noteq> sorted_set items) path ''must be ASCII-ordered and unique'' @
        emit_if (\<not> distinct (map casefold items)) path
          ''must not contain case-fold-colliding paths'' @
        concat (map (\<lambda>s. emit_if (CHR 0x00 \<in> set s \<or> \<not> is_safe_relative_path s) path
          (''unsafe relative path: '' @ repr_str s)) items))"

subsection \<open>Local helpers of the validator\<close>

definition require_git_oid :: "pyval \<Rightarrow> string \<Rightarrow> string \<Rightarrow> log" where
  "require_git_oid m field path =
     (let v = vget m field in
      emit_if (is_str v \<and> \<not> is_git_oid (str_of v)) path
        ''expected 40-character lowercase Git object ID'')"

definition require_range :: "int \<Rightarrow> string \<Rightarrow> pyval \<Rightarrow> string \<Rightarrow> string \<Rightarrow> log" where
  "require_range bound msg m field path =
     (case vget m field of
        PInt i \<Rightarrow> emit_if (\<not> (0 \<le> i \<and> i \<le> bound)) path msg
      | _ \<Rightarrow> [])"

definition require_size :: "pyval \<Rightarrow> string \<Rightarrow> string \<Rightarrow> log" where
  "require_size = require_range (2 ^ 63 - 1) ''expected Size in 0..2^63-1''"

definition require_count :: "pyval \<Rightarrow> string \<Rightarrow> string \<Rightarrow> log" where
  "require_count = require_range (2 ^ 31 - 1) ''expected Count in 0..2^31-1''"

definition require_argv :: "pyval \<Rightarrow> string \<Rightarrow> string \<Rightarrow> bool \<Rightarrow> log" where
  "require_argv m field path argv_may_be_empty =
     (let v = vget m field in
      if \<not> is_list v then []
      else
        emit_if (\<not> argv_may_be_empty \<and> elems v = []) path
          ''expected nonempty direct argument vector'' @
        emit_if (list_ex (\<lambda>x. \<not> is_str x \<or> str_of x = [] \<or> CHR 0x00 \<in> set (str_of x)) (elems v))
          path ''argv entries must be nonempty strings without NUL'')"

definition require_windows_path :: "pyval \<Rightarrow> string \<Rightarrow> log" where
  "require_windows_path v path =
     emit_if (is_str v \<and> \<not> is_windows_absolute_path (str_of v)) path
       ''expected normalized absolute Windows path''"

definition row_path :: "nat \<Rightarrow> string" where
  "row_path i = item_path ''capabilities.operation_rows'' i"

subsection \<open>Identities, sizes and argument vectors\<close>

definition identity_checks :: "pydict \<Rightarrow> log" where
  "identity_checks d =
     concat (map (\<lambda>n. let v = dget d n in
         emit_if (is_str v \<and> \<not> is_coding_safe_id (str_of v)) n ''expected uppercase SafeId'')
       [''execution_id'', ''gate_id'', ''project_id'', ''task_id'']) @
     (let c = dget d ''created_at_utc'' in
      emit_if (is_str c \<and> \<not> is_coding_utc (str_of c)) ''created_at_utc''
        ''expected UTC timestamp with millisecond precision'')"

text \<open>\<open>row.get("class") in {...}\<close>: a set test, which raises for an unhashable class.\<close>

definition process_class :: "pyval \<Rightarrow> bool" where
  "process_class row \<longleftrightarrow>
     vget row ''class'' = PStr ''LOCAL_CHECK_PROCESS'' \<or>
     vget row ''class'' = PStr ''GIT_READ_ONLY_INSPECTION''"

definition class_guard :: "pyval \<Rightarrow> log" where
  "class_guard row = (if hashable (vget row ''class'') then [] else [Raise TypeError])"

definition operation_row_sizes :: "nat \<Rightarrow> pyval \<Rightarrow> log" where
  "operation_row_sizes i row =
     (if \<not> is_dict row then []
      else
        require_count row ''sequence'' (row_path i @ ''.sequence'') @
        class_guard row @
        require_argv row ''argv'' (row_path i @ ''.argv'') (\<not> process_class row) @
        concat (map (\<lambda>n. require_windows_path (vget row n) (row_path i @ ''.'' @ n))
          [''executable'', ''cwd'']))"

definition size_checks :: "pydict \<Rightarrow> log" where
  "size_checks d =
     (let packet = dget d ''packet''; baseline = dget d ''baseline'';
          executor = dget d ''executor''; capabilities = dget d ''capabilities'';
          clone_before = dget d ''clone_before''; clone_after = dget d ''clone_after'';
          attempt = dget d ''attempt''; process = dget d ''process'';
          events = dget d ''events''; agent_result = dget d ''agent_result'' in
      (let p = vget packet ''path'' in
       emit_if (is_str p \<and> \<not> is_safe_relative_path (str_of p)) ''packet.path''
         ''expected canonical relative path'') @
      require_size packet ''size_bytes'' ''packet.size_bytes'' @
      require_windows_path (vget baseline ''repository_path'') ''baseline.repository_path'' @
      require_git_oid baseline ''commit'' ''baseline.commit'' @
      require_git_oid baseline ''tree'' ''baseline.tree'' @
      require_windows_path (vget executor ''path'') ''executor.path'' @
      require_size executor ''size_bytes'' ''executor.size_bytes'' @
      require_argv executor ''argv'' ''executor.argv'' False @
      require_git_oid clone_before ''commit'' ''clone_before.commit'' @
      require_git_oid clone_before ''tree'' ''clone_before.tree'' @
      require_git_oid clone_after ''commit'' ''clone_after.commit'' @
      require_git_oid clone_after ''tree'' ''clone_after.tree'' @
      require_windows_path (vget clone_before ''path'') ''clone_before.path'' @
      require_count clone_before ''remote_count'' ''clone_before.remote_count'' @
      require_count attempt ''remaining_before'' ''attempt.remaining_before'' @
      require_count attempt ''remaining_after'' ''attempt.remaining_after'' @
      require_count attempt ''process_start_request_count''
        ''attempt.process_start_request_count'' @
      require_count process ''pid'' ''process.pid'' @
      require_count process ''descendant_count'' ''process.descendant_count'' @
      require_size events ''size_bytes'' ''events.size_bytes'' @
      concat (map (\<lambda>n. require_count events n (''events.'' @ n))
        [''parsed_count'', ''unknown_count'', ''prohibited_count'']) @
      require_size agent_result ''size_bytes'' ''agent_result.size_bytes'' @
      concat (map (\<lambda>(i, row). operation_row_sizes i row)
        (numbered 0 (elems (vget capabilities ''operation_rows'')))))"

subsection \<open>Packet, baseline and capabilities\<close>

definition baseline_checks :: "pydict \<Rightarrow> log" where
  "baseline_checks d =
     (let packet_id = vget (dget d ''packet'') ''packet_id'';
          baseline = dget d ''baseline'' in
      emit_if (is_str packet_id \<and> \<not> is_coding_safe_id (str_of packet_id)) ''packet.packet_id''
        ''expected uppercase SafeId'' @
      (if is_dict baseline then
         let prior = vget baseline ''before_state_sha256'';
             after = vget baseline ''after_state_sha256'' in
         emit_if (vget baseline ''unchanged'' \<noteq> PBool (is_str prior \<and> py_eq prior after))
           ''baseline.unchanged'' ''must equal before-state and after-state byte equality''
       else []))"

definition capabilities_complete :: "pyval \<Rightarrow> bool" where
  "capabilities_complete c \<longleftrightarrow>
     is_str (vget c ''effective_config_sha256'') \<and>
     is_str (vget c ''network_policy_sha256'') \<and>
     vget c ''automatic_resume_enabled'' = PBool False \<and>
     vget c ''hooks_enabled'' = PBool False \<and>
     vget c ''memories_enabled'' = PBool False \<and>
     vget c ''accepted_operation_classes'' = PList (map PStr CODING_OPERATION_CLASSES) \<and>
     vget c ''disabled_surfaces'' = PList (map PStr CODING_DISABLED_SURFACES)"

text \<open>\<open>source in {...}\<close>: again a set test on a value of the record.\<close>

definition source_rules :: "nat \<Rightarrow> pyval \<Rightarrow> log" where
  "source_rules i row =
     (let source = vget row ''source''; event_id = vget row ''event_id'' in
      (if hashable source then [] else [Raise TypeError]) @
      emit_if ((source = PStr ''CONTROLLER_EVENT'' \<or> source = PStr ''PROCESS_OBSERVATION'')
               \<and> event_id = PNone) (row_path i @ ''.event_id'')
        ''event and process observations require an event identity'' @
      emit_if ((source = PStr ''FILESYSTEM_DIFF'' \<or> source = PStr ''GIT_DIFF'')
               \<and> event_id \<noteq> PNone) (row_path i @ ''.event_id'')
        ''derived diff rows cannot assert an event identity'')"

definition operation_row_rules :: "nat \<Rightarrow> pyval \<Rightarrow> log" where
  "operation_row_rules i row =
     (if \<not> is_dict row then []
      else
        emit_if (\<not> eq_int (vget row ''sequence'') (int i)) (row_path i @ ''.sequence'')
          ''must be contiguous from zero'' @
        validate_sorted_unique_relpaths (vget row ''path_set'') (row_path i @ ''.path_set'') @
        class_guard row @
        source_rules i row @
        (if process_class row then
           emit_if (\<not> (is_str (vget row ''executable'') \<and> is_list (vget row ''argv'') \<and>
                       elems (vget row ''argv'') \<noteq> [] \<and> is_str (vget row ''cwd'')))
             (row_path i) ''process classes require executable, argv, and cwd''
         else
           emit_if (vget row ''executable'' \<noteq> PNone \<or> vget row ''argv'' \<noteq> PList [] \<or>
                    vget row ''cwd'' \<noteq> PNone)
             (row_path i) ''nonprocess classes require null process identity and empty argv''))"

definition patch_occurrences :: "pyval list \<Rightarrow> string list" where
  "patch_occurrences rows =
     concat (map (\<lambda>row. if vget row ''class'' = PStr ''APPROVED_FILE_PATCH''
                        then strs (elems (vget row ''path_set'')) else []) rows)"

definition capabilities_checks :: "pydict \<Rightarrow> log" where
  "capabilities_checks d =
     (let c = dget d ''capabilities''; rows = vget c ''operation_rows'' in
      if \<not> is_dict c then []
      else
        emit_if (vget c ''accepted_operation_classes'' \<noteq> PList (map PStr CODING_OPERATION_CLASSES))
          ''capabilities.accepted_operation_classes''
          ''must equal the exact five-class ASCII-ordered universe'' @
        emit_if (vget c ''disabled_surfaces'' \<noteq> PList (map PStr CODING_DISABLED_SURFACES))
          ''capabilities.disabled_surfaces'' ''must equal the exact disabled-surface universe'' @
        validate_sorted_unique_relpaths (vget c ''authorized_write_paths'')
          ''capabilities.authorized_write_paths'' @
        emit_if (vget c ''observations_complete'' \<noteq> PBool (capabilities_complete c))
          ''capabilities.observations_complete''
          ''must equal the completeness of the recorded capability observations'' @
        (if is_list rows then
           concat (map (\<lambda>(i, row). operation_row_rules i row) (numbered 0 (elems rows))) @
           emit_if (\<not> distinct (patch_occurrences (elems rows))) ''capabilities.operation_rows''
             ''approved patch paths must have exact one-row coverage''
         else []))"

definition executor_complete :: "pyval \<Rightarrow> bool" where
  "executor_complete e \<longleftrightarrow>
     isinstance_int (vget e ''size_bytes'') \<and> is_str (vget e ''sha256'') \<and>
     vget e ''authenticode_status'' = PStr ''VALID'' \<and> is_str (vget e ''signer'') \<and>
     is_str (vget e ''cli_version'')"

definition executor_checks :: "pydict \<Rightarrow> log" where
  "executor_checks d =
     (let e = dget d ''executor'' in
      emit_if (is_dict e \<and> vget e ''identity_complete'' \<noteq> PBool (executor_complete e))
        ''executor.identity_complete''
        ''must equal completeness of the observed artifact identity'')"

subsection \<open>Prelaunch gates, attempt and process\<close>

definition gate_row_bad :: "pyval \<Rightarrow> bool" where
  "gate_row_bad row \<longleftrightarrow> is_dict row \<and>
     (vget row ''status'' \<noteq> PStr ''PASS'' \<or> vget row ''blocker_ids'' \<noteq> PList [])"

definition prelaunch_checks :: "pydict \<Rightarrow> log" where
  "prelaunch_checks d =
     (let p = dget d ''prelaunch''; checked_at = vget p ''checked_at_utc'';
          rows = vget p ''gate_rows'' in
      if \<not> is_dict p then []
      else
        emit_if (is_str checked_at \<and> \<not> is_coding_utc (str_of checked_at))
          ''prelaunch.checked_at_utc'' ''expected UTC timestamp with millisecond precision'' @
        (if \<not> is_list rows \<or> map (\<lambda>row. vget row ''gate_id'') (elems rows) \<noteq>
              map PStr [''P0'', ''P1'', ''P2'', ''P3'', ''P4'', ''P5'', ''P6''] then
           [emit_at ''prelaunch.gate_rows'' ''must contain exactly P0 through P6 in order'']
         else
           emit_if (vget p ''state'' = PStr ''PASS'' \<and>
                    (list_ex gate_row_bad (elems rows) \<or> vget p ''blocker_ids'' \<noteq> PList []))
             ''prelaunch.state'' ''PASS requires seven passing rows and no blockers''))"

definition prelaunch_attempt_rules :: "pyval \<Rightarrow> log" where
  "prelaunch_attempt_rules a =
     emit_if (vget a ''number'' \<noteq> PNone \<or> vget a ''reserved_at_utc'' \<noteq> PNone \<or>
              vget a ''parent_candidate_id'' \<noteq> PNone) ''attempt.kind''
       ''PRELAUNCH must not reserve an attempt'' @
     emit_if (\<not> py_eq (vget a ''remaining_after'') (vget a ''remaining_before''))
       ''attempt.remaining_after'' ''PRELAUNCH must not consume budget'' @
     emit_if (\<not> eq_int (vget a ''process_start_request_count'') 0)
       ''attempt.process_start_request_count'' ''PRELAUNCH cannot request a process start''"

text \<open>\<open>remaining_before - 1\<close> raises when \<open>remaining_before\<close> is no number.\<close>

definition reserved_attempt_rules :: "pyval \<Rightarrow> log" where
  "reserved_attempt_rules a =
     (let number = vget a ''number''; kind = vget a ''kind'';
          parent_id = vget a ''parent_candidate_id''; reserved_at = vget a ''reserved_at_utc'' in
      (case num_of (vget a ''remaining_before'') of
         None \<Rightarrow> [Raise TypeError]
       | Some b \<Rightarrow> emit_if (num_of (vget a ''remaining_after'') \<noteq> Some (b - 1))
           ''attempt.remaining_after''
           ''a reserved attempt must decrement the budget exactly once'') @
      emit_if (\<not> is_str reserved_at \<or> \<not> is_coding_utc (str_of reserved_at))
        ''attempt.reserved_at_utc''
        ''a reserved attempt requires a millisecond UTC timestamp'' @
      emit_if (kind = PStr ''ORDINARY'' \<and> parent_id \<noteq> PNone) ''attempt.parent_candidate_id''
        ''ORDINARY attempts have no parent'' @
      emit_if (kind = PStr ''REMEDIATION'' \<and> (\<not> eq_int number 2 \<or> \<not> is_str parent_id))
        ''attempt.kind'' ''REMEDIATION requires Attempt 2 and a parent candidate'' @
      emit_if (\<not> eq_int (vget a ''process_start_request_count'') 1)
        ''attempt.process_start_request_count''
        ''a reserved attempt requires exactly one process-start request'')"

definition in_range_01 :: "pyval \<Rightarrow> bool" where
  "in_range_01 v = (case num_of v of None \<Rightarrow> False | Some r \<Rightarrow> 0 \<le> r \<and> r \<le> 1)"

definition attempt_checks :: "pydict \<Rightarrow> log" where
  "attempt_checks d =
     (let a = dget d ''attempt''; number = vget a ''number'';
          start_count = vget a ''process_start_request_count'' in
      if \<not> is_dict a then []
      else
        (if vget a ''kind'' = PStr ''PRELAUNCH'' then prelaunch_attempt_rules a
         else if eq_int number 1 \<or> eq_int number 2 then reserved_attempt_rules a
         else [emit_at ''attempt.number''
           ''attempt number is null exactly for PRELAUNCH and otherwise one or two'']) @
        emit_if (isinstance_int start_count \<and> \<not> in_range_01 start_count)
          ''attempt.process_start_request_count'' ''must be zero or one'')"

definition nonnull_issues :: "pyval \<Rightarrow> string \<Rightarrow> string list \<Rightarrow> log" where
  "nonnull_issues p msg names =
     concat (map (\<lambda>n. emit_if (vget p n \<noteq> PNone) (''process.'' @ n) msg) names)"

definition process_checks :: "pydict \<Rightarrow> log" where
  "process_checks d =
     (let p = dget d ''process'' in
      if \<not> is_dict p then []
      else if vget p ''start_requested'' = PBool False then
        nonnull_issues p ''must be null when no process start was requested''
          [''pid'', ''started_at_utc'', ''ended_at_utc'', ''exit_code'', ''error'',
           ''stdout_sha256'', ''stderr_sha256'']
      else if isinstance_int (vget p ''pid'') then
        concat (map (\<lambda>n. emit_if (vget p n = PNone) (''process.'' @ n)
            ''must be present for a created process'')
          [''started_at_utc'', ''ended_at_utc'', ''stdout_sha256'', ''stderr_sha256'']) @
        concat (map (\<lambda>n. emit_if (is_str (vget p n) \<and> \<not> is_coding_utc (str_of (vget p n)))
            (''process.'' @ n) ''expected UTC timestamp with millisecond precision'')
          [''started_at_utc'', ''ended_at_utc''])
      else if vget p ''start_requested'' = PBool True then
        emit_if (is_empty_text (vget p ''error'')) ''process.error''
          ''process creation failure requires a nonempty error'' @
        nonnull_issues p ''must be null when process creation fails''
          [''started_at_utc'', ''ended_at_utc'', ''exit_code'', ''stdout_sha256'',
           ''stderr_sha256'']
      else [])"

subsection \<open>Clones, patches and candidates\<close>

definition clone_checks :: "pydict \<Rightarrow> log" where
  "clone_checks d =
     (let prior = dget d ''clone_before''; after = dget d ''clone_after'';
          rows = elems (vget (dget d ''capabilities'') ''operation_rows'');
          patch_paths = sorted_set (patch_occurrences rows) in
      (if is_dict prior \<and> is_dict after then
         concat (map (\<lambda>n. emit_if (\<not> py_eq (vget after n) (vget prior n))
             (''clone_after.'' @ n) (''must equal clone_before.'' @ n))
           [''commit'', ''tree'', ''git_control_sha256''])
       else []) @
      (if is_dict after then
         validate_sorted_unique_relpaths (vget after ''changed_paths'')
           ''clone_after.changed_paths'' @
         emit_if (vget after ''changed_paths'' \<noteq> PList (map PStr patch_paths))
           ''clone_after.changed_paths''
           ''must exactly equal paths covered by approved patch rows''
       else []))"

definition first_candidate_ok :: "pyval \<Rightarrow> pyval \<Rightarrow> bool" where
  "first_candidate_ok candidate slot \<longleftrightarrow>
     vget candidate ''parent_candidate_id'' = PNone \<and>
     vget slot ''state_before'' = PStr ''EMPTY'' \<and>
     vget slot ''state_after'' = PStr ''FROZEN_REVIEW_V1'' \<and>
     vget slot ''historical_candidate_ids'' = PList []"

definition second_candidate_ok :: "pyval \<Rightarrow> pyval \<Rightarrow> pyval \<Rightarrow> bool" where
  "second_candidate_ok candidate slot attempt \<longleftrightarrow>
     (let parent = vget candidate ''parent_candidate_id'' in
      is_str parent \<and> is_dict attempt \<and>
      eq_int (vget attempt ''number'') 2 \<and>
      vget attempt ''kind'' = PStr ''REMEDIATION'' \<and>
      py_eq (vget attempt ''parent_candidate_id'') parent \<and>
      vget slot ''state_before'' = PStr ''EMPTY_FOR_REMEDIATION'' \<and>
      vget slot ''state_after'' = PStr ''FROZEN_REVIEW_V2'' \<and>
      py_eq (vget slot ''historical_candidate_ids'') (PList [parent]))"

text \<open>
  The conjuncts for version 2 are all evaluated, so \<open>attempt.get\<close> raises when the record
  has no attempt mapping.
\<close>

definition candidate_slot_checks :: "pydict \<Rightarrow> log" where
  "candidate_slot_checks d =
     (let candidate = dget d ''candidate''; slot = dget d ''slot''; attempt = dget d ''attempt'';
          frozen = (vget candidate ''status'' = PStr ''FROZEN_REVIEW'');
          version = vget candidate ''version'' in
      if \<not> is_dict candidate \<or> \<not> is_dict slot then []
      else
        emit_if (frozen \<and> \<not> py_eq (vget slot ''active_candidate_after'')
                             (vget candidate ''candidate_id''))
          ''slot.active_candidate_after'' ''must equal the frozen candidate identity'' @
        emit_if (frozen \<and> eq_int version 1 \<and> \<not> first_candidate_ok candidate slot)
          ''candidate.version'' ''Candidate v1 must derive from the EMPTY slot'' @
        (if frozen \<and> eq_int version 2 then
           (if \<not> is_dict attempt then [Raise AttributeError]
            else emit_if (\<not> second_candidate_ok candidate slot attempt) ''candidate.version''
              ''Candidate v2 requires the sole authorized remediation transition'')
         else []))"

definition hold_checks :: "pydict \<Rightarrow> log" where
  "hold_checks d =
     (let p = dget d ''prelaunch''; process = dget d ''process'';
          candidate = dget d ''candidate''; clone_after = dget d ''clone_after'' in
      (if vget p ''state'' = PStr ''HOLD'' then
         emit_if (vget p ''model_request_started'' \<noteq> PBool False)
           ''prelaunch.model_request_started'' ''must be false when prelaunch state is HOLD'' @
         emit_if (vget p ''process_start_requested'' \<noteq> PBool False)
           ''prelaunch.process_start_requested'' ''must be false when prelaunch state is HOLD'' @
         emit_if (is_dict process \<and> vget process ''start_requested'' \<noteq> PBool False)
           ''process.start_requested'' ''must be false when prelaunch state is HOLD''
       else []) @
      emit_if (vget candidate ''status'' = PStr ''FROZEN_REVIEW'' \<and> is_dict clone_after \<and>
               \<not> py_eq (vget candidate ''diff_sha256'') (vget clone_after ''diff_sha256''))
        ''candidate.diff_sha256'' ''must equal clone_after.diff_sha256'')"

subsection \<open>Promotion and outcome\<close>

definition rows_pass :: "pyval \<Rightarrow> bool" where
  "rows_pass rows \<longleftrightarrow> is_list rows \<and>
     list_all (\<lambda>(i, row). is_dict row \<and> vget row ''status'' = PStr ''PASS'' \<and>
                eq_int (vget row ''sequence'') (int i)) (numbered 0 (elems rows))"

definition promotion_parts :: "string list" where
  "promotion_parts =
    [''packet'', ''baseline'', ''slot'', ''attempt'', ''executor'', ''capabilities'',
     ''clone_before'', ''prelaunch'', ''process'', ''events'', ''agent_result'',
     ''clone_after'', ''candidate'']"

definition coding_promotion_ready :: "pydict \<Rightarrow> bool" where
  "coding_promotion_ready d =
     (let packet = dget d ''packet''; baseline = dget d ''baseline''; slot = dget d ''slot'';
          attempt = dget d ''attempt''; executor = dget d ''executor'';
          capabilities = dget d ''capabilities''; clone_before = dget d ''clone_before'';
          prelaunch = dget d ''prelaunch''; process = dget d ''process'';
          events = dget d ''events''; agent_result = dget d ''agent_result'';
          clone_after = dget d ''clone_after''; candidate = dget d ''candidate'';
          rows = vget capabilities ''operation_rows'';
          patch_paths = (if is_list rows then sorted_set (patch_occurrences (elems rows)) else [])
      in list_all (\<lambda>n. is_dict (dget d n)) promotion_parts \<and>
         vget packet ''validation_status'' = PStr ''PASS'' \<and>
         vget baseline ''unchanged'' = PBool True \<and>
         vget prelaunch ''state'' = PStr ''PASS'' \<and>
         (eq_int (vget attempt ''number'') 1 \<or> eq_int (vget attempt ''number'') 2) \<and>
         eq_int (vget attempt ''process_start_request_count'') 1 \<and>
         vget executor ''identity_complete'' = PBool True \<and>
         vget capabilities ''observations_complete'' = PBool True \<and>
         rows_pass rows \<and>
         vget clone_after ''changed_paths'' = PList (map PStr patch_paths) \<and>
         py_eq (vget clone_before ''commit'') (vget clone_after ''commit'') \<and>
         py_eq (vget clone_before ''tree'') (vget clone_after ''tree'') \<and>
         py_eq (vget clone_before ''git_control_sha256'') (vget clone_after ''git_control_sha256'') \<and>
         vget process ''start_requested'' = PBool True \<and>
         eq_int (vget process ''exit_code'') 0 \<and>
         vget process ''error'' = PNone \<and>
         vget process ''timed_out'' = PBool False \<and>
         vget process ''cancelled'' = PBool False \<and>
         vget process ''all_descendants_terminated'' = PBool True \<and>
         eq_int (vget events ''unknown_count'') 0 \<and>
         eq_int (vget events ''prohibited_count'') 0 \<and>
         vget events ''output_schema_valid'' = PBool True \<and>
         vget agent_result ''contract_valid'' = PBool True \<and>
         vget agent_result ''claims_match'' = PBool True \<and>
         vget agent_result ''claimed_status'' = PStr ''DONE'' \<and>
         vget candidate ''status'' = PStr ''FROZEN_REVIEW'' \<and>
         py_eq (vget candidate ''candidate_id'') (vget slot ''active_candidate_after'') \<and>
         py_eq (vget candidate ''diff_sha256'') (vget clone_after ''diff_sha256''))"

definition process_failed :: "pyval \<Rightarrow> bool" where
  "process_failed p \<longleftrightarrow>
     vget p ''start_requested'' \<noteq> PBool True \<or> vget p ''pid'' = PNone \<or>
     vget p ''error'' \<noteq> PNone \<or> vget p ''timed_out'' = PBool True \<or>
     vget p ''cancelled'' = PBool True \<or>
     vget p ''all_descendants_terminated'' \<noteq> PBool True \<or>
     isinstance_int (vget p ''exit_code'') \<and> \<not> eq_int (vget p ''exit_code'') 0"

definition coding_expected_outcome :: "pydict \<Rightarrow> bool \<Rightarrow> string option" where
  "coding_expected_outcome d promotion_ready =
     (let prelaunch = dget d ''prelaunch''; attempt = dget d ''attempt'';
          process = dget d ''process''; agent_result = dget d ''agent_result'' in
      if \<not> (is_dict prelaunch \<and> is_dict attempt \<and> is_dict process \<and> is_dict agent_result)
      then None
      else if vget prelaunch ''state'' = PStr ''HOLD'' then Some ''PRELAUNCH_HOLD''
      else if \<not> (eq_int (vget attempt ''number'') 1 \<or> eq_int (vget attempt ''number'') 2)
      then None
      else if process_failed process \<or> vget agent_result ''claimed_status'' = PStr ''FAILED''
      then Some ''ATTEMPT_FAILED''
      else if promotion_ready then Some ''CANDIDATE_READY''
      else Some ''ATTEMPT_HOLD'')"

definition none_candidate :: "pyval \<Rightarrow> bool" where
  "none_candidate c \<longleftrightarrow>
     vget c ''candidate_id'' = PNone \<and> vget c ''version'' = PNone \<and>
     vget c ''status'' = PStr ''NONE'' \<and> vget c ''parent_candidate_id'' = PNone \<and>
     vget c ''diff_sha256'' = PNone \<and> vget c ''file_set_sha256'' = PNone \<and>
     vget c ''checks_sha256'' = PNone"

definition outcome_checks :: "pydict \<Rightarrow> log" where
  "outcome_checks d =
     (let outcome = dget d ''outcome''; candidate = dget d ''candidate'';
          ready = coding_promotion_ready d in
      emit_if (outcome = PStr ''CANDIDATE_READY'' \<and> \<not> ready) ''outcome''
        ''CANDIDATE_READY requires all promotion predicates'' @
      (case coding_expected_outcome d ready of
         None \<Rightarrow> []
       | Some e \<Rightarrow> emit_if (outcome \<noteq> PStr e) ''outcome''
           (''must equal the derived terminal outcome '' @ e)) @
      (if is_dict candidate then
         emit_if (vget candidate ''promotion_predicates_passed'' \<noteq> PBool ready)
           ''candidate.promotion_predicates_passed''
           ''must equal the derived promotion predicate'' @
         emit_if (\<not> ready \<and> \<not> none_candidate candidate) ''candidate''
           ''non-promotable outcomes require the exact NONE candidate form''
       else []))"

definition validate_coding_execution_record :: "pydict \<Rightarrow> log" where
  "validate_coding_execution_record d =
     no_casefold_key_collisions (PDict d) ''$'' @
     identity_checks d @
     size_checks d @
     baseline_checks d @
     capabilities_checks d @
     executor_checks d @
     prelaunch_checks d @
     attempt_checks d @
     process_checks d @
     clone_checks d @
     candidate_slot_checks d @
     hold_checks d @
     outcome_checks d"

end
