(* ===== verification/Contracts.thy ===== *)
theory Contracts
  imports Contract_Rules Coding_Record
begin

text \<open>
  The contract registry and the public validator of \<open>acgps/contracts.py\<close>: \<open>get_contract\<close>,
  \<open>validate_contract\<close> and \<open>_validate_mapping\<close>. The second half is the specification a
  validated record satisfies (\<open>conforms\<close>: declared keys only, required keys there, every value
  of its declared type and vocabulary, at every depth), and the proof that the validator
  accepts nothing else.
\<close>

subsection \<open>The registry\<close>

definition current_version :: "string \<Rightarrow> int option" where
  "current_version name =
     (case map spec_version (filter (\<lambda>c. spec_name c = name) CONTRACTS) of
        [] \<Rightarrow> None
      | v # vs \<Rightarrow> Some (fold max vs (max v 0)))"

definition get_contract :: "string \<Rightarrow> int option \<Rightarrow> contract_spec res" where
  "get_contract name version =
     (case current_version name of
        None \<Rightarrow> Inl (PyError ''UnknownContractError'')
      | Some current \<Rightarrow>
          (let v = (case version of None \<Rightarrow> current | Some v \<Rightarrow> v) in
           case find (\<lambda>c. spec_name c = name \<and> spec_version c = v) CONTRACTS of
             Some c \<Rightarrow> Inr c
           | None \<Rightarrow> Inl (PyError ''UnsupportedContractVersionError'')))"

definition contract_names :: "string list" where
  "contract_names = sorted_set (map spec_name CONTRACTS)"

definition supported_versions :: "string \<Rightarrow> int list res" where
  "supported_versions name =
     (if current_version name = None then Inl (PyError ''UnknownContractError'')
      else Inr (sort (map spec_version (filter (\<lambda>c. spec_name c = name) CONTRACTS))))"

lemma get_contract_name: "get_contract name v = Inr c \<Longrightarrow> spec_name c = name \<and> c \<in> set CONTRACTS"
  by (auto simp: get_contract_def Let_def find_Some_iff split: option.splits)

lemma get_contract_version: "get_contract name (Some v) = Inr c \<Longrightarrow> spec_version c = v"
  by (auto simp: get_contract_def Let_def find_Some_iff split: option.splits)

subsection \<open>The validator\<close>

definition version_check :: "contract_spec \<Rightarrow> pydict \<Rightarrow> log" where
  "version_check spec d =
     (let v = dget d ''schema_version'' in
      if \<not> is_int v then
        [emit_at ''schema_version'' (''expected int, got '' @ type_name v)]
      else emit_if (v \<noteq> PInt (spec_version spec)) ''schema_version''
        (''expected '' @ int_str (spec_version spec) @ '', got '' @ py_repr v))"

text \<open>The keys no field declares; the issue's path is the key itself.\<close>

definition unexpected_keys :: "fields \<Rightarrow> pydict \<Rightarrow> log" where
  "unexpected_keys fs d =
     concat (map (\<lambda>p. if fst p \<in> set (declared_keys fs) then []
                      else [Emit (Issue (fst p) ''unexpected field'')]) d)"

text \<open>One field of the top level: its presence, type, text semantics, vocabulary, children.\<close>

definition validate_field :: "pydict \<Rightarrow> string \<Rightarrow> string \<times> field_spec \<Rightarrow> log" where
  "validate_field d mode p =
     (let n = fst p; f = snd p in
      case dlookup d n of
        None \<Rightarrow> emit_if (required f) n ''missing required field''
      | Some v \<Rightarrow>
         (if \<not> matches_expected_type v (expected_type f)
          then [unexpected_type n (expected_type f) v]
          else
            validate_runtime_semantics n v mode @
            emit_if (\<not> allow_empty f \<and> v = PStr []) n ''must not be empty'' @
            allowed_check n f v mode @
            (case sub_fields f of
               None \<Rightarrow> []
             | Some sub \<Rightarrow> (if is_dict v then validate_fields n (entries v) sub mode else [])) @
            (case item_fields f of
               None \<Rightarrow> []
             | Some sub \<Rightarrow> (if is_list v then
                 concat (map (\<lambda>(i, x).
                     if is_dict x then validate_fields (item_path n i) (entries x) sub mode
                     else [emit_at (item_path n i) ''expected mapping''])
                   (numbered 0 (elems v)))
                 else [])) @
            items_check n f v mode @
            map_values_check n f v mode))"

text \<open>The rules of a contract, selected by its name.\<close>

definition contract_rules :: "string \<Rightarrow> pydict \<Rightarrow> string \<Rightarrow> log" where
  "contract_rules name d mode =
     (if name = ''human_decision_request'' then validate_human_decision_request d
      else if name = ''task_state'' then validate_task_state_contract d mode
      else if name = ''verification_record'' then validate_verification_record d mode
      else if name = ''agent_result'' then validate_agent_result d
      else if name = ''review_finding'' then validate_review_finding d
      else if name = ''release_candidate_manifest'' then
        validate_release_candidate_manifest_contract d mode
      else if name = ''policy_evaluation_result'' then validate_policy_evaluation_result d
      else if name = ''coding_execution_record'' then validate_coding_execution_record d
      else [])"

definition validate_mapping :: "contract_spec \<Rightarrow> pydict \<Rightarrow> string \<Rightarrow> log" where
  "validate_mapping spec d mode =
     version_check spec d @
     unexpected_keys (spec_fields spec) d @
     concat (map (validate_field d mode) (spec_fields spec)) @
     contract_rules (spec_name spec) d mode"

definition validate_contract :: "string \<Rightarrow> pyval \<Rightarrow> string \<Rightarrow> guard" where
  "validate_contract name data mode =
     (if mode \<noteq> ''runtime'' \<and> mode \<noteq> ''template'' then Some (PyError ''ValueError'')
      else if \<not> is_dict data then
        (case get_contract name None of
           Inl e \<Rightarrow> Some e
         | Inr _ \<Rightarrow> Some (ContractValidationError name [Issue (PStr ''$'') ''expected mapping'']))
      else
        (let d = entries data; v = dget d ''schema_version'' in
         case get_contract name (case v of PInt i \<Rightarrow> Some i | _ \<Rightarrow> None) of
           Inl e \<Rightarrow> Some e
         | Inr spec \<Rightarrow> settle name (validate_mapping spec d mode)))"

subsection \<open>What an accepted record looks like\<close>

text \<open>
  The specification: a mapping conforms to a table of fields when its keys are declared, its
  required fields are there, and every value has one of the types of its field, is in the
  field's vocabulary, and conforms again where the field has a table of its own. The list
  items and the mapping values of a typed collection have the declared type, and in runtime
  mode no text is a template placeholder.
\<close>

definition no_placeholder :: "pyval \<Rightarrow> string \<Rightarrow> bool" where
  "no_placeholder v mode \<longleftrightarrow>
     (mode = ''runtime'' \<and> is_str v \<longrightarrow> str_of v \<notin> set TEMPLATE_PLACEHOLDERS)"

definition vocab_ok :: "field_spec \<Rightarrow> pyval \<Rightarrow> string \<Rightarrow> bool" where
  "vocab_ok f v mode = (case allowed_values f of
     None \<Rightarrow> True | Some vs \<Rightarrow> mem_list v vs \<or> is_allowed_template_placeholder v mode)"

definition typed_ok :: "pytype list \<Rightarrow> string \<Rightarrow> pyval \<Rightarrow> bool" where
  "typed_ok tys mode v \<longleftrightarrow> matches_expected_type v tys \<and> no_placeholder v mode"

definition collections_ok :: "field_spec \<Rightarrow> pyval \<Rightarrow> string \<Rightarrow> bool" where
  "collections_ok f v mode \<longleftrightarrow>
     (case item_type f of None \<Rightarrow> True | Some tys \<Rightarrow> list_all (typed_ok tys mode) (elems v)) \<and>
     (case map_value_type f of
        None \<Rightarrow> True | Some tys \<Rightarrow> list_all (\<lambda>p. typed_ok tys mode (snd p)) (entries v))"

function conforms :: "pydict \<Rightarrow> fields \<Rightarrow> string \<Rightarrow> bool" where
  "conforms d fs mode \<longleftrightarrow>
     (\<forall>p \<in> set d. fst p \<in> set (declared_keys fs)) \<and>
     (\<forall>p \<in> set fs. case dlookup d (fst p) of
        None \<Rightarrow> \<not> required (snd p)
      | Some v \<Rightarrow>
          typed_ok (expected_type (snd p)) mode v \<and>
          (v = PStr [] \<longrightarrow> allow_empty (snd p)) \<and>
          vocab_ok (snd p) v mode \<and> collections_ok (snd p) v mode \<and>
          (case sub_fields (snd p) of
             None \<Rightarrow> True
           | Some sub \<Rightarrow> (case v of PDict e \<Rightarrow> conforms e sub mode | _ \<Rightarrow> True)) \<and>
          (case item_fields (snd p) of
             None \<Rightarrow> True
           | Some sub \<Rightarrow> (\<forall>x \<in> set (elems v).
               (case x of PDict e \<Rightarrow> conforms e sub mode | _ \<Rightarrow> False))))"
  by pat_completeness auto
termination
  by (relation "measure (\<lambda>(d, fs, mode). size_list (\<lambda>q. size (snd q)) fs)")
    (auto dest!: sub_fields_size item_fields_size field_size)

declare conforms.simps [simp del]

subsection \<open>Acceptance is conformance\<close>

lemma semantics_no_placeholder:
  "validate_runtime_semantics path v mode = [] \<Longrightarrow> no_placeholder v mode"
  by (auto simp: validate_runtime_semantics_def no_placeholder_def Let_def)

lemma typed_check_Nil [accepts]:
  "typed_check path tys v mode = [] \<Longrightarrow> typed_ok tys mode v"
  by (auto simp: typed_check_def typed_ok_def semantics_no_placeholder split: if_splits)

lemma allowed_check_Nil [accepts]: "allowed_check path f v mode = [] \<Longrightarrow> vocab_ok f v mode"
  by (auto simp: allowed_check_def vocab_ok_def split: option.splits)

lemma items_check_Nil:
  assumes "items_check path f v mode = []"
  shows "case item_type f of None \<Rightarrow> True | Some tys \<Rightarrow> list_all (typed_ok tys mode) (elems v)"
proof (cases "item_type f")
  case (Some tys)
  show ?thesis
  proof (cases "is_list v")
    case True
    have all: "typed_check (item_path path i) tys x mode = []"
      if "(i, x) \<in> set (numbered 0 (elems v))" for i x
      using assms Some True that by (auto simp: items_check_def concat_map_Nil)
    have "typed_ok tys mode x" if "x \<in> set (elems v)" for x
      using numbered_mem_snd [OF that, of 0] all typed_check_Nil by blast
    then show ?thesis by (simp add: Some list_all_iff)
  qed (simp add: Some elems_def is_list_def list_all_iff split: pyval.splits)
qed simp

lemma map_values_check_Nil:
  assumes "map_values_check path f v mode = []"
  shows "case map_value_type f of None \<Rightarrow> True
         | Some tys \<Rightarrow> list_all (\<lambda>p. typed_ok tys mode (snd p)) (entries v)"
proof (cases "map_value_type f")
  case (Some tys)
  show ?thesis
  proof (cases "is_dict v")
    case True
    have "typed_ok tys mode (snd p)" if "p \<in> set (entries v)" for p
      using assms Some True that
      by (cases p) (force simp: map_values_check_def concat_map_Nil intro: typed_check_Nil)
    then show ?thesis by (simp add: Some list_all_iff)
  qed (simp add: Some entries_def is_dict_def list_all_iff split: pyval.splits)
qed simp

lemma collections_ok_Nil [accepts]:
  "items_check path f v mode = [] \<Longrightarrow> map_values_check path' f v mode = []
   \<Longrightarrow> collections_ok f v mode"
  unfolding collections_ok_def using items_check_Nil map_values_check_Nil by blast

text \<open>An item list is accepted when every item is a mapping that conforms.\<close>

lemma item_rows_Nil:
  assumes rows: "concat (map (\<lambda>q. case snd q of
        PDict e \<Rightarrow> validate_fields (item_path path (fst q)) e sub mode
      | _ \<Rightarrow> [emit_at (item_path path (fst q)) ''expected mapping'']) (numbered 0 xs)) = []"
    and IH: "\<And>i e. (i, PDict e) \<in> set (numbered 0 xs)
      \<Longrightarrow> validate_fields (item_path path i) e sub mode = [] \<Longrightarrow> conforms e sub mode"
  shows "\<forall>x \<in> set xs. (case x of PDict e \<Rightarrow> conforms e sub mode | _ \<Rightarrow> False)"
proof
  fix x assume "x \<in> set xs"
  from numbered_mem_snd [OF this, of 0] obtain i where i: "(i, x) \<in> set (numbered 0 xs)" ..
  with rows have "(case x of PDict e \<Rightarrow> validate_fields (item_path path i) e sub mode
      | _ \<Rightarrow> [emit_at (item_path path i) ''expected mapping'']) = []"
    unfolding concat_map_Nil by (metis fst_conv snd_conv)
  then show "case x of PDict e \<Rightarrow> conforms e sub mode | _ \<Rightarrow> False"
    using i IH by (auto split: pyval.splits)
qed

lemma validate_fields_conforms:
  "validate_fields path d fs mode = [] \<Longrightarrow> conforms d fs mode"
proof (induction path d fs mode rule: validate_fields.induct)
  case (1 path d fs mode)
  note nil = "1.prems" [unfolded validate_fields.simps [of path d fs mode] append_is_Nil_conv
      concat_map_Nil Let_def]
  have keys: "\<forall>p \<in> set d. fst p \<in> set (declared_keys fs)" using nil by auto
  have field: "case dlookup d n of
        None \<Rightarrow> \<not> required f
      | Some v \<Rightarrow> typed_ok (expected_type f) mode v \<and> (v = PStr [] \<longrightarrow> allow_empty f) \<and>
          vocab_ok f v mode \<and> collections_ok f v mode \<and>
          (case sub_fields f of None \<Rightarrow> True
           | Some sub \<Rightarrow> (case v of PDict e \<Rightarrow> conforms e sub mode | _ \<Rightarrow> True)) \<and>
          (case item_fields f of None \<Rightarrow> True
           | Some sub \<Rightarrow> (\<forall>x \<in> set (elems v).
               (case x of PDict e \<Rightarrow> conforms e sub mode | _ \<Rightarrow> False)))"
    if mem: "(n, f) \<in> set fs" for n f
  proof (cases "dlookup d n")
    case None
    then show ?thesis using nil mem by fastforce
  next
    case (Some v)
    let ?c = "path @ ''.'' @ n"
    note row = bspec [OF conjunct2 [OF nil] mem, unfolded fst_conv snd_conv Some option.case]
    have here: "matches_expected_type v (expected_type f)"
      "\<not> (\<not> allow_empty f \<and> v = PStr [])" "validate_runtime_semantics ?c v mode = []"
      "allowed_check ?c f v mode = []"
      "items_check ?c f v mode = []" "map_values_check ?c f v mode = []"
      using row by (simp_all split: if_splits)
    have sub_IH: "conforms e sub mode"
      if "sub_fields f = Some sub" "v = PDict e" "validate_fields ?c e sub mode = []" for e sub
      by (rule "1.IH"(1) [OF mem, of n f ?c v]) (use that here(1) Some in simp_all)
    have item_IH: "conforms e sub mode"
      if "item_fields f = Some sub" "is_list v" "(i, PDict e) \<in> set (numbered 0 (elems v))"
        "validate_fields (item_path ?c i) e sub mode = []" for e sub i
      by (rule "1.IH"(2) [OF mem, of n f ?c v sub "(i, PDict e)" e]) (use that here(1) Some in simp_all)
    have sub: "case sub_fields f of None \<Rightarrow> True
           | Some sub \<Rightarrow> (case v of PDict e \<Rightarrow> conforms e sub mode | _ \<Rightarrow> True)"
      using row here(1) sub_IH by (simp split: option.splits pyval.splits)
    have item: "\<forall>x \<in> set (elems v). (case x of PDict e \<Rightarrow> conforms e sub mode | _ \<Rightarrow> False)"
      if s: "item_fields f = Some sub" for sub
    proof (cases "is_list v")
      case True
      have rows: "concat (map (\<lambda>q. case snd q of
          PDict e \<Rightarrow> validate_fields (item_path ?c (fst q)) e sub mode
        | _ \<Rightarrow> [emit_at (item_path ?c (fst q)) ''expected mapping'']) (numbered 0 (elems v))) = []"
        using row s True by (simp split: if_splits)
      show ?thesis
        by (rule item_rows_Nil [OF rows]) (rule item_IH [OF s True])
    qed (simp add: elems_def is_list_def split: pyval.splits)
    show ?thesis
      using here sub item
      by (auto simp: Some typed_ok_def intro: accepts semantics_no_placeholder split: option.splits)
  qed
  show ?case
    by (subst conforms.simps) (use keys field in \<open>auto simp: split_paired_all\<close>)
qed

text \<open>One field of the top level, and the whole mapping.\<close>

lemma validate_field_Nil:
  assumes "validate_field d mode (n, f) = []"
  shows "case dlookup d n of
        None \<Rightarrow> \<not> required f
      | Some v \<Rightarrow> typed_ok (expected_type f) mode v \<and> (v = PStr [] \<longrightarrow> allow_empty f) \<and>
          vocab_ok f v mode \<and> collections_ok f v mode \<and>
          (case sub_fields f of None \<Rightarrow> True
           | Some sub \<Rightarrow> (case v of PDict e \<Rightarrow> conforms e sub mode | _ \<Rightarrow> True)) \<and>
          (case item_fields f of None \<Rightarrow> True
           | Some sub \<Rightarrow> (\<forall>x \<in> set (elems v).
               (case x of PDict e \<Rightarrow> conforms e sub mode | _ \<Rightarrow> False)))"
proof (cases "dlookup d n")
  case None
  then show ?thesis using assms by (simp add: validate_field_def)
next
  case (Some v)
  note row = assms [unfolded validate_field_def Let_def fst_conv snd_conv Some option.case]
  have here: "matches_expected_type v (expected_type f)"
    "\<not> (\<not> allow_empty f \<and> v = PStr [])" "validate_runtime_semantics n v mode = []"
    "allowed_check n f v mode = []" "items_check n f v mode = []" "map_values_check n f v mode = []"
    using row by (simp_all split: if_splits)
  have sub: "case sub_fields f of None \<Rightarrow> True
         | Some sub \<Rightarrow> (case v of PDict e \<Rightarrow> conforms e sub mode | _ \<Rightarrow> True)"
    using row here(1) by (auto intro: validate_fields_conforms split: option.splits pyval.splits)
  have item: "\<forall>x \<in> set (elems v). (case x of PDict e \<Rightarrow> conforms e sub mode | _ \<Rightarrow> False)"
    if s: "item_fields f = Some sub" for sub
  proof (cases "is_list v")
    case True
    have rows: "concat (map (\<lambda>(i, x).
          if is_dict x then validate_fields (item_path n i) (entries x) sub mode
          else [emit_at (item_path n i) ''expected mapping'']) (numbered 0 (elems v))) = []"
      using row s True by (simp split: if_splits)
    show ?thesis
    proof
      fix x assume "x \<in> set (elems v)"
      from numbered_mem_snd [OF this, of 0] obtain i where i: "(i, x) \<in> set (numbered 0 (elems v))" ..
      have "(if is_dict x then validate_fields (item_path n i) (entries x) sub mode
          else [emit_at (item_path n i) ''expected mapping'']) = []"
        using bspec [OF rows [unfolded concat_map_Nil] i] by simp
      then show "case x of PDict e \<Rightarrow> conforms e sub mode | _ \<Rightarrow> False"
        by (auto simp: is_dict_iff intro: validate_fields_conforms split: if_splits)
    qed
  qed (simp add: elems_def is_list_def split: pyval.splits)
  show ?thesis using here sub item
    by (auto simp: Some typed_ok_def intro: accepts semantics_no_placeholder split: option.splits)
qed

lemma validate_mapping_conforms:
  assumes nil: "validate_mapping spec d mode = []"
  shows "dget d ''schema_version'' = PInt (spec_version spec)" "conforms d (spec_fields spec) mode"
    "contract_rules (spec_name spec) d mode = []"
proof -
  show "dget d ''schema_version'' = PInt (spec_version spec)"
    using nil by (auto simp: validate_mapping_def version_check_def Let_def split: if_splits)
  show "contract_rules (spec_name spec) d mode = []" using nil by (simp add: validate_mapping_def)
  have keys: "\<forall>p \<in> set d. fst p \<in> set (declared_keys (spec_fields spec))"
    using nil by (fastforce simp: validate_mapping_def unexpected_keys_def concat_map_Nil)
  have "validate_field d mode p = []" if "p \<in> set (spec_fields spec)" for p
    using nil that by (auto simp: validate_mapping_def concat_map_Nil)
  then show "conforms d (spec_fields spec) mode"
    by (subst conforms.simps) (use keys validate_field_Nil in \<open>auto simp: split_paired_all\<close>)
qed

lemma validate_contract_PDict:
  "validate_contract name (PDict d) mode = None \<Longrightarrow>
     \<exists>spec. spec \<in> set CONTRACTS \<and> spec_name spec = name \<and> validate_mapping spec d mode = []"
  by (auto simp: validate_contract_def Let_def dest: get_contract_name split: if_splits sum.splits)

lemma validate_contract_None_dict: "validate_contract name v mode = None \<Longrightarrow> is_dict v"
  by (auto simp: validate_contract_def split: if_splits sum.splits)

text \<open>The name selects one contract: what an accepted record of a given name satisfies.\<close>

lemma accepted_conforms:
  assumes "validate_contract name (PDict d) mode = None"
    and "filter (\<lambda>c. spec_name c = name) CONTRACTS = [spec]"
  shows "dget d ''schema_version'' = PInt (spec_version spec)"
    "conforms d (spec_fields spec) mode" "contract_rules name d mode = []"
proof -
  obtain s where s: "s \<in> set CONTRACTS" "spec_name s = name" "validate_mapping s d mode = []"
    using validate_contract_PDict [OF assms(1)] by blast
  then have "s \<in> set (filter (\<lambda>c. spec_name c = name) CONTRACTS)" by simp
  then have "s = spec" by (simp add: assms(2))
  with validate_mapping_conforms [OF s(3)] s(2)
  show "dget d ''schema_version'' = PInt (spec_version spec)"
    "conforms d (spec_fields spec) mode" "contract_rules name d mode = []" by simp_all
qed

text \<open>
  A required field of an accepted record is there, with a value of its type; a field of a
  closed vocabulary has a value of it.
\<close>

lemma conforms_field:
  assumes "conforms d fs mode" "(n, f) \<in> set fs" "required f"
  shows "dhas d n" "typed_ok (expected_type f) mode (dget d n)" "vocab_ok f (dget d n) mode"
    "collections_ok f (dget d n) mode"
proof -
  from assms(1,2) have row: "case dlookup d n of None \<Rightarrow> \<not> required f
      | Some v \<Rightarrow> typed_ok (expected_type f) mode v \<and> vocab_ok f v mode \<and> collections_ok f v mode"
    by (subst (asm) conforms.simps) (fastforce split: option.splits)
  then show "dhas d n" "typed_ok (expected_type f) mode (dget d n)" "vocab_ok f (dget d n) mode"
    "collections_ok f (dget d n) mode"
    using assms(3) by (auto simp: dhas_def dget_def split: option.splits)
qed

lemma conforms_sub:
  assumes "conforms d fs mode" "(n, f) \<in> set fs" "sub_fields f = Some sub" "dget d n = PDict e"
  shows "conforms e sub mode"
  using assms(1,2,3,4)
  by (subst (asm) conforms.simps) (fastforce simp: dget_def split: option.splits)

lemma conforms_keys: "conforms d fs mode \<Longrightarrow> p \<in> set d \<Longrightarrow> fst p \<in> set (declared_keys fs)"
  by (subst (asm) conforms.simps) blast

lemma conforms_item:
  assumes "conforms d fs mode" "(n, f) \<in> set fs" "item_fields f = Some sub" "x \<in> set (elems (dget d n))"
  shows "\<exists>e. x = PDict e \<and> conforms e sub mode"
proof -
  from assms(4) have "dlookup d n = Some (dget d n)"
    by (auto simp: dget_def elems_def split: option.splits)
  with assms(1,2,3) have "\<forall>y \<in> set (elems (dget d n)).
      (case y of PDict e \<Rightarrow> conforms e sub mode | _ \<Rightarrow> False)"
    by (subst (asm) conforms.simps) (fastforce split: option.splits)
  from bspec [OF this assms(4)] show ?thesis by (cases x) auto
qed

lemma typed_ok_simps [simp]:
  "typed_ok [TyStr] mode v \<longleftrightarrow> is_str v \<and> no_placeholder v mode"
  "typed_ok [TyBool] mode v \<longleftrightarrow> is_bool v" "typed_ok [TyInt] mode v \<longleftrightarrow> is_int v"
  "typed_ok [TyList] mode v \<longleftrightarrow> is_list v" "typed_ok [TyDict] mode v \<longleftrightarrow> is_dict v"
  by (auto simp: typed_ok_def no_placeholder_def is_str_iff is_bool_iff is_int_iff is_list_iff
      is_dict_iff)

end
