(* ===== verification/Policy_Files.thy ===== *)
theory Policy_Files
  imports Contracts
begin

text \<open>
  How \<open>acgps/policy.py\<close> gets its documents: the strict YAML loader of
  \<open>acgps/yaml_loader.py\<close> (no anchors, no duplicate keys) and \<open>_load_yaml_mapping\<close> with the
  safety checks of \<open>_assert_safe_file\<close>. The file system and the YAML parser are outside the
  repository: a file is given by what the code asks about it (\<open>file_view\<close>), a mapping node by
  the results of constructing its keys and values. The helpers the policy validators share
  (\<open>_duplicate_item\<close>, \<open>_require_exact_fields\<close>, \<open>_require_string_list\<close>, \<open>sorted\<close>) are here.
\<close>

definition policy_error :: "string \<Rightarrow> string \<Rightarrow> string \<Rightarrow> exn" where
  "policy_error code path msg = PolicyEvaluationError code (PStr path) msg"

definition reject :: "bool \<Rightarrow> string \<Rightarrow> string \<Rightarrow> string \<Rightarrow> guard" where
  "reject b code path msg = fail_if b (policy_error code path msg)"

text \<open>A loop of guards, and a guard on the outcome of a step that may raise itself.\<close>

definition each :: "('a \<Rightarrow> guard) \<Rightarrow> 'a list \<Rightarrow> guard" where
  "each f xs = first_err (map f xs)"

definition after :: "'a res \<Rightarrow> ('a \<Rightarrow> guard) \<Rightarrow> guard" where
  "after m k = (case m of Inl e \<Rightarrow> Some e | Inr a \<Rightarrow> k a)"

text \<open>Raise for the first element, if there is one.\<close>

definition blame_first :: "('a \<Rightarrow> exn) \<Rightarrow> 'a list \<Rightarrow> guard" where
  "blame_first f xs = (case xs of [] \<Rightarrow> None | x # _ \<Rightarrow> Some (f x))"

lemma blame_first_None [simp]: "blame_first f xs = None \<longleftrightarrow> xs = []"
  by (simp add: blame_first_def split: list.splits)

text \<open>The simplifier need not look into the texts of errors.\<close>

lemma reject_cong [cong]: "b = b' \<Longrightarrow> reject b c p m = reject b' c p m"
  by simp

lemma policy_error_cong [cong]: "policy_error c p m = policy_error c p m"
  by (rule refl)

lemma reject_None [simp]: "reject b c p m = None \<longleftrightarrow> \<not> b"
  by (simp add: reject_def)

lemma each_None [simp]: "each f xs = None \<longleftrightarrow> (\<forall>x \<in> set xs. f x = None)"
  by (simp add: each_def)

lemma after_None [simp]: "after m k = None \<longleftrightarrow> (\<exists>a. m = Inr a \<and> k a = None)"
  by (cases m) (auto simp: after_def)

subsection \<open>The strict YAML loader\<close>

datatype yaml_error = DuplicateKey pyval | StrictYaml | BadEncoding | OtherError exn

text \<open>\<open>ANCHOR_OR_ALIAS_RE.search\<close>.\<close>

definition is_anchor_char :: "char \<Rightarrow> bool" where
  "is_anchor_char c \<longleftrightarrow> is_alpha_c c \<or> is_digit_c c \<or> c \<in> set ''_.-''"

fun anchor_after :: "bool \<Rightarrow> string \<Rightarrow> bool" where
  "anchor_after start [] = False"
| "anchor_after start (c # cs) =
     (start \<and> c \<in> set ''&*'' \<and> (case cs of [] \<Rightarrow> False | d # _ \<Rightarrow> is_anchor_char d)
      \<or> anchor_after (is_space c \<or> c \<in> set ''[{,'') cs)"

definition contains_yaml_anchor_or_alias :: "string \<Rightarrow> bool" where
  "contains_yaml_anchor_or_alias text = anchor_after True text"

text \<open>
  \<open>_construct_mapping\<close>: the pairs of a mapping node are constructed in order; a key that is
  already there stops the load, an unhashable key raises.
\<close>

fun construct_mapping ::
    "pydict \<Rightarrow> ((yaml_error + pyval) \<times> (yaml_error + pyval)) list \<Rightarrow> yaml_error + pydict" where
  "construct_mapping d [] = Inr d"
| "construct_mapping d ((kn, vn) # ns) =
     rbind kn (\<lambda>k.
       if \<not> hashable k then Inl (OtherError TypeError)
       else if mem_list k (map fst d) then Inl (DuplicateKey k)
       else rbind vn (\<lambda>v. construct_mapping (d @ [(k, v)]) ns))"

definition load_yaml_strict :: "(string \<Rightarrow> yaml_error + pyval) \<Rightarrow> string \<Rightarrow> yaml_error + pyval" where
  "load_yaml_strict yaml text =
     (if contains_yaml_anchor_or_alias text then Inl StrictYaml else yaml text)"

text \<open>
  What the strict loader promises: the keys of an accepted mapping are pairwise different for
  Python's equality, and they are the keys of the node in order.
\<close>

lemma construct_mapping_distinct:
  assumes "construct_mapping d ns = Inr e"
    and "\<forall>i j. i < j \<longrightarrow> j < length d \<longrightarrow> \<not> py_eq (fst (d ! i)) (fst (d ! j))"
  shows "\<forall>i j. i < j \<longrightarrow> j < length e \<longrightarrow> \<not> py_eq (fst (e ! i)) (fst (e ! j))"
  using assms
proof (induction d ns rule: construct_mapping.induct)
  case (2 d kn vn ns)
  from 2(2) obtain k v where kv: "kn = Inr k" "hashable k" "\<not> mem_list k (map fst d)" "vn = Inr v"
    "construct_mapping (d @ [(k, v)]) ns = Inr e"
    by (auto simp: rbind_Inr split: if_splits)
  have "\<not> py_eq (fst (d ! i)) k" if "i < length d" for i
    using kv(3) that by (auto simp: mem_list_def list_ex_iff)
  then have "\<forall>i j. i < j \<longrightarrow> j < length (d @ [(k, v)]) \<longrightarrow>
      \<not> py_eq (fst ((d @ [(k, v)]) ! i)) (fst ((d @ [(k, v)]) ! j))"
    using 2(3) by (auto simp: nth_append less_Suc_eq)
  with 2(1) [OF _ kv(3,5)] kv(2) show ?case by simp
qed simp

subsection \<open>Files\<close>

datatype file_view =
    NotAFile
  | FileView (fv_symlink: bool) (fv_contained: bool) (fv_load: "yaml_error + pyval")

definition load_yaml_mapping :: "(string \<Rightarrow> file_view) \<Rightarrow> string \<Rightarrow> pydict res" where
  "load_yaml_mapping fs path =
     (case fs path of
        NotAFile \<Rightarrow>
          Inl (policy_error ''POLICY_FILE_MISSING'' path ''required policy file is missing'')
      | FileView symlink inside loaded \<Rightarrow>
          guarded (first_err
            [reject symlink ''POLICY_PROFILE_REQUIRED_FILE_INVALID'' path
               ''symlink policy paths are not allowed'',
             reject (\<not> inside) ''POLICY_PROFILE_REQUIRED_FILE_INVALID'' path
               ''policy path escapes repository root''])
          (case loaded of
             Inl (DuplicateKey k) \<Rightarrow>
               Inl (policy_error ''POLICY_DUPLICATE_YAML_KEY''
                 (path @ '':'' @ (if k = PNone then ''<unknown>'' else py_str k))
                 ''duplicate YAML key detected'')
           | Inl StrictYaml \<Rightarrow>
               Inl (policy_error ''POLICY_MALFORMED'' path ''policy fixture cannot be parsed'')
           | Inl BadEncoding \<Rightarrow>
               Inl (policy_error ''POLICY_MALFORMED'' path ''policy fixture cannot be parsed'')
           | Inl (OtherError e) \<Rightarrow> Inl e
           | Inr (PDict d) \<Rightarrow> Inr d
           | Inr _ \<Rightarrow>
               Inl (policy_error ''POLICY_TYPE_ERROR'' path ''policy file must be a mapping'')))"

lemma load_yaml_mapping_Inr:
  "load_yaml_mapping fs path = Inr d \<longleftrightarrow> fs path = FileView False True (Inr (PDict d))"
  unfolding load_yaml_mapping_def
  by (cases "fs path")
    (simp_all only: file_view.case guarded_Inr first_err_None, auto split: sum.splits yaml_error.splits pyval.splits)

subsection \<open>Helpers of the validators\<close>

text \<open>\<open>_duplicate_item\<close>: the first item that equals an earlier one; unhashable items raise.\<close>

fun duplicate_from :: "nat \<Rightarrow> pyval list \<Rightarrow> pyval list \<Rightarrow> (nat \<times> pyval) option res" where
  "duplicate_from i seen [] = Inr None"
| "duplicate_from i seen (x # xs) =
     (if \<not> hashable x then Inl TypeError
      else if mem_list x seen then Inr (Some (i, x))
      else duplicate_from (Suc i) (x # seen) xs)"

definition duplicate_item :: "pyval list \<Rightarrow> (nat \<times> pyval) option res" where
  "duplicate_item xs = duplicate_from 0 [] xs"

text \<open>
  \<open>sorted\<close> on a set of hashable values: a set of strings or of numbers is sorted, a single
  element needs no comparison, everything else compares values of different types and raises.
\<close>

definition py_sorted :: "pyval list \<Rightarrow> pyval list res" where
  "py_sorted xs =
     (if length xs \<le> 1 then Inr xs
      else if list_all is_str xs then Inr (map PStr (sort (strs xs)))
      else if list_all (\<lambda>x. num_of x \<noteq> None) xs then Inr (sort_key (\<lambda>x. the (num_of x)) xs)
      else Inl TypeError)"

definition set_eq :: "pyval list \<Rightarrow> pyval list \<Rightarrow> bool" where
  "set_eq xs ys \<longleftrightarrow> list_all (\<lambda>x. mem_list x ys) xs \<and> list_all (\<lambda>y. mem_list y xs) ys"

text \<open>\<open>set(v)\<close>: what can be iterated, if every element is hashable.\<close>

definition py_set :: "pyval \<Rightarrow> pyval list res" where
  "py_set v = rbind (py_iter v) (\<lambda>xs. if list_all hashable xs then Inr xs else Inl TypeError)"

definition require_exact_fields :: "pydict \<Rightarrow> string list \<Rightarrow> string list \<Rightarrow> string \<Rightarrow> guard" where
  "require_exact_fields d allowed may_miss path = first_err
     [blame_first (\<lambda>m. policy_error ''POLICY_TYPE_ERROR'' (path @ '':'' @ m)
          (m @ '' missing required field''))
        (sort (filter (\<lambda>k. k \<notin> set may_miss \<and> \<not> dhas d k) allowed)),
      after (py_sorted (filter (\<lambda>k. \<not> mem_list k (map PStr allowed)) (map fst d)))
        (blame_first (\<lambda>u. policy_error ''POLICY_UNKNOWN_FIELD'' (path @ '':'' @ py_str u)
           (''unexpected policy field '' @ py_str u)))]"

definition require_string_list :: "pyval \<Rightarrow> string \<Rightarrow> guard" where
  "require_string_list v path = first_err
     [reject (\<not> is_list v) ''POLICY_TYPE_ERROR'' path ''expected list of strings'',
      after (duplicate_item (elems v)) (\<lambda>dup. case dup of
          None \<Rightarrow> None
        | Some (i, _) \<Rightarrow> Some (policy_error ''POLICY_DUPLICATE_SET_MEMBER'' (item_path path i)
            ''duplicate set-like policy value'')),
      each (\<lambda>(i, x). reject (\<not> (is_str x \<and> str_of x \<noteq> [])) ''POLICY_TYPE_ERROR''
             (item_path path i) ''expected non-empty string'') (numbered 0 (elems v))]"

definition require_mapping :: "pyval \<Rightarrow> string \<Rightarrow> guard" where
  "require_mapping v path = reject (\<not> is_dict v) ''POLICY_TYPE_ERROR'' path ''expected mapping''"

subsection \<open>What the helpers promise\<close>

text \<open>\<open>hashable\<close> values are scalars, on which Python's equality is an equivalence.\<close>

lemma py_eq_scalar: "hashable a \<Longrightarrow> py_eq a b \<longleftrightarrow> atom_eq a b"
  by (cases a) (auto simp: py_eq.simps)

lemma duplicate_from_None:
  "duplicate_from i seen xs = Inr None \<Longrightarrow>
     list_all hashable xs \<and> (\<forall>x \<in> set xs. \<not> mem_list x seen) \<and>
     (\<forall>j k. j < k \<longrightarrow> k < length xs \<longrightarrow> \<not> py_eq (xs ! j) (xs ! k))"
proof (induction i seen xs rule: duplicate_from.induct)
  case (2 i seen x xs)
  from 2(2) have x: "hashable x" "\<not> mem_list x seen"
    and rest: "duplicate_from (Suc i) (x # seen) xs = Inr None" by (auto split: if_splits)
  with 2(1) have IH: "list_all hashable xs" "\<forall>y \<in> set xs. \<not> mem_list y (x # seen)"
    "\<forall>j k. j < k \<longrightarrow> k < length xs \<longrightarrow> \<not> py_eq (xs ! j) (xs ! k)" by auto
  have "\<not> py_eq ((x # xs) ! j) ((x # xs) ! k)" if "j < k" "k < length (x # xs)" for j k
    using that IH by (cases j; cases k) auto
  with x IH show ?case by auto
qed simp

lemma duplicate_from_Some:
  "duplicate_from i seen xs = Inr (Some (k, y)) \<Longrightarrow>
     i \<le> k \<and> k < i + length xs \<and> xs ! (k - i) = y \<and>
     mem_list y (rev (take (k - i) xs) @ seen)"
proof (induction i seen xs rule: duplicate_from.induct)
  case (2 i seen x xs)
  show ?case
  proof (cases "mem_list x seen")
    case True
    then show ?thesis using 2(2) by (auto split: if_splits)
  next
    case False
    then have rest: "hashable x" "duplicate_from (Suc i) (x # seen) xs = Inr (Some (k, y))"
      using 2(2) by (auto split: if_splits)
    with 2(1) False have "Suc i \<le> k" "k < Suc i + length xs" "xs ! (k - Suc i) = y"
      "mem_list y (rev (take (k - Suc i) xs) @ x # seen)" by auto
    moreover from this obtain n where "k - i = Suc n" "k - Suc i = n" by (cases "k - i") auto
    ultimately show ?thesis by (auto simp: mem_list_def list_ex_iff)
  qed
qed simp

lemma require_string_list_None:
  assumes "require_string_list v path = None"
  shows "\<exists>ss. v = PList (map PStr ss) \<and> distinct ss \<and> [] \<notin> set ss"
proof -
  from assms obtain xs where xs: "v = PList xs" and dup: "duplicate_item xs = Inr None"
    and rows: "\<forall>p \<in> set (numbered 0 xs). is_str (snd p) \<and> str_of (snd p) \<noteq> []"
    by (fastforce simp: require_string_list_def is_list_iff split: option.splits)
  from rows have strs: "\<forall>x \<in> set xs. is_str x \<and> str_of x \<noteq> []"
    using numbered_ball [of 0 xs "\<lambda>x. is_str x \<and> str_of x \<noteq> []"] by simp
  then have eq: "map PStr (strs xs) = xs" by (intro map_PStr_strs) auto
  from duplicate_from_None [OF dup [unfolded duplicate_item_def]]
  have "\<forall>j k. j < k \<longrightarrow> k < length xs \<longrightarrow> xs ! j \<noteq> xs ! k"
    using strs by (metis py_eq_str(1) is_str_iff nth_mem order_less_trans)
  then have "distinct xs" unfolding distinct_conv_nth by (metis nat_neq_iff)
  then have "distinct (strs xs)" using eq by (metis distinct_map)
  moreover have "[] \<notin> set (strs xs)" using strs by (force simp: strs_set)
  ultimately show ?thesis using xs eq by metis
qed

lemma strs_length: "list_all is_str xs \<Longrightarrow> length (strs xs) = length xs"
  by (simp add: strs_def list_all_iff)

lemma py_sorted_length: "py_sorted xs = Inr ys \<Longrightarrow> length ys = length xs"
  by (auto simp: py_sorted_def strs_length split: if_splits)

lemma require_exact_fields_None:
  assumes "require_exact_fields d allowed may_miss path = None"
  shows "\<forall>k \<in> set allowed - set may_miss. dhas d k" "\<forall>p \<in> set d. \<exists>k \<in> set allowed. fst p = PStr k"
proof -
  have miss: "sort (filter (\<lambda>k. k \<notin> set may_miss \<and> \<not> dhas d k) allowed) = []"
    and "py_sorted (filter (\<lambda>k. \<not> mem_list k (map PStr allowed)) (map fst d)) = Inr []"
    using assms unfolding require_exact_fields_def first_err_None by auto
  then have "filter (\<lambda>k. \<not> mem_list k (map PStr allowed)) (map fst d) = []"
    by (metis length_0_conv py_sorted_length)
  then show "\<forall>p \<in> set d. \<exists>k \<in> set allowed. fst p = PStr k"
    by (fastforce simp: filter_empty_conv mem_list_strs)
  from arg_cong [OF miss, of length]
  have "filter (\<lambda>k. k \<notin> set may_miss \<and> \<not> dhas d k) allowed = []"
    by (simp only: length_sort list.size length_0_conv)
  then show "\<forall>k \<in> set allowed - set may_miss. dhas d k" by (auto simp: filter_empty_conv)
qed

lemma require_mapping_None [simp]: "require_mapping v path = None \<longleftrightarrow> is_dict v"
  by (simp add: require_mapping_def)

end
