(* ===== verification/Risk.thy ===== *)
theory Risk
  imports Policy_Files
begin

text \<open>
  Risk levels. The code keeps them as strings and ranks them with the dictionary
  \<open>RISK_ORDER\<close>; the specification uses the ordered type \<open>risk_level\<close>. The locale \<open>ladder\<close> states
  what the evaluator's escalation loop needs of a ranking, and proves once that such a loop
  ends at the highest of its start and its candidates, whatever their order.
\<close>

definition RISK_ORDER :: "(string \<times> nat) list" where
  "RISK_ORDER = [(''R0'', 0), (''R1'', 1), (''R2'', 2), (''R3'', 3)]"

text \<open>\<open>v in RISK_ORDER\<close> and \<open>RISK_ORDER[v]\<close>.\<close>

definition in_risk_order :: "pyval \<Rightarrow> bool res" where
  "in_risk_order v = in_set v (map (\<lambda>p. PStr (fst p)) RISK_ORDER)"

definition risk_order :: "pyval \<Rightarrow> nat res" where
  "risk_order v =
     (if \<not> hashable v then Inl TypeError
      else case v of
        PStr s \<Rightarrow> (case map_of RISK_ORDER s of None \<Rightarrow> Inl KeyError | Some n \<Rightarrow> Inr n)
      | _ \<Rightarrow> Inl KeyError)"

subsection \<open>The ordered type of levels\<close>

datatype risk_level = R0 | R1 | R2 | R3

definition rank :: "risk_level \<Rightarrow> nat" where
  "rank l = (case l of R0 \<Rightarrow> 0 | R1 \<Rightarrow> 1 | R2 \<Rightarrow> 2 | R3 \<Rightarrow> 3)"

lemma rank_simps [simp]: "rank R0 = 0" "rank R1 = 1" "rank R2 = 2" "rank R3 = 3"
  by (simp_all add: rank_def)

lemma rank_inj [simp]: "rank a = rank b \<longleftrightarrow> a = b"
  by (cases a; cases b) auto

instantiation risk_level :: linorder
begin

definition less_eq_risk_level :: "risk_level \<Rightarrow> risk_level \<Rightarrow> bool" where
  "less_eq_risk_level a b \<longleftrightarrow> rank a \<le> rank b"

definition less_risk_level :: "risk_level \<Rightarrow> risk_level \<Rightarrow> bool" where
  "less_risk_level a b \<longleftrightarrow> rank a < rank b"

instance
  by standard (auto simp: less_eq_risk_level_def less_risk_level_def)

end

definition level_name :: "risk_level \<Rightarrow> string" where
  "level_name l = (case l of R0 \<Rightarrow> ''R0'' | R1 \<Rightarrow> ''R1'' | R2 \<Rightarrow> ''R2'' | R3 \<Rightarrow> ''R3'')"

definition level_of :: "pyval \<Rightarrow> risk_level option" where
  "level_of v = (if v = PStr ''R0'' then Some R0 else if v = PStr ''R1'' then Some R1
     else if v = PStr ''R2'' then Some R2 else if v = PStr ''R3'' then Some R3 else None)"

lemma level_of_name [simp]: "level_of (PStr (level_name l)) = Some l"
  by (cases l) (auto simp: level_of_def level_name_def)

lemma level_of_Some: "level_of v = Some l \<longleftrightarrow> v = PStr (level_name l)"
  by (cases l) (auto simp: level_of_def level_name_def)

lemma risk_order_level: "risk_order v = Inr n \<longleftrightarrow> (\<exists>l. level_of v = Some l \<and> n = rank l)"
  by (auto simp: risk_order_def RISK_ORDER_def level_of_def split: pyval.splits if_splits)

lemma in_risk_order_level: "in_risk_order v = Inr b \<Longrightarrow> b \<longleftrightarrow> level_of v \<noteq> None"
  by (cases v) (auto simp: in_risk_order_def in_set_def RISK_ORDER_def level_of_def)

lemma less_level_rank: "a < b \<longleftrightarrow> rank a < rank b" "a \<le> b \<longleftrightarrow> rank a \<le> rank b"
  by (simp_all add: less_risk_level_def less_eq_risk_level_def)

lemma R3_top [simp]: "(l :: risk_level) \<le> R3" "R3 \<le> l \<longleftrightarrow> l = R3"
  by (cases l; simp add: less_level_rank)+

subsection \<open>Escalation\<close>

text \<open>
  A loop that visits candidates and replaces its level by the candidate when the candidate is
  higher.
\<close>

locale ladder =
  fixes higher :: "'l::linorder \<Rightarrow> 'l \<Rightarrow> bool"
    and climb :: "'l \<Rightarrow> 'l list \<Rightarrow> 'l"
  assumes higher_less: "higher a b \<longleftrightarrow> b < a"
    and climb_Nil: "climb l [] = l"
    and climb_Cons: "climb l (c # cs) = climb (if higher c l then c else l) cs"
begin

lemma climb_Max: "climb l cs = Max (insert l (set cs))"
proof (induction cs arbitrary: l)
  case Nil
  then show ?case by (simp add: climb_Nil)
next
  case (Cons c cs)
  have "climb l (c # cs) = Max (insert (max c l) (set cs))"
    using Cons by (simp add: climb_Cons higher_less max_def not_less)
  also have "\<dots> = Max (insert l (insert c (set cs)))"
    by (cases "set cs = {}") (simp_all add: max.assoc max.left_commute max.commute)
  finally show ?case by simp
qed

lemma climb_ge: "l \<le> climb l cs" "c \<in> set cs \<Longrightarrow> c \<le> climb l cs"
  by (simp_all add: climb_Max)

lemma climb_mem: "climb l cs \<in> insert l (set cs)"
  unfolding climb_Max by (rule Max_in) simp_all

lemma climb_perm: "set cs = set ds \<Longrightarrow> climb l cs = climb l ds"
  by (simp add: climb_Max)

lemma climb_mono: "set cs \<subseteq> set ds \<Longrightarrow> climb l cs \<le> climb l ds"
  unfolding climb_Max by (rule Max_mono) auto

end

end
