(* ===== verification/Policy_Schema.thy ===== *)
theory Policy_Schema
  imports Risk
begin

text \<open>
  The schema validation of the policy documents of \<open>acgps/policy.py\<close>: one definition per
  validator, each a sequence of guards in the order of the source. \<open>policy_docs\<close> holds the
  six documents \<open>load_policy_bundle\<close> reads.
\<close>

record policy_docs =
  doc_workflow :: pydict
  doc_risk :: pydict
  doc_human :: pydict
  doc_skills :: pydict
  doc_models :: pydict
  doc_routing :: pydict

definition POLICY_FILES :: "(string \<times> string) list" where
  "POLICY_FILES =
    [(''workflow'', ''config/workflow_policy.yaml''),
     (''risk'', ''config/risk_policy.yaml''),
     (''human'', ''config/human_decision_policy.yaml''),
     (''skills'', ''config/skill_routing.yaml''),
     (''models'', ''config/model_routing.yaml''),
     (''routing_features'', ''config/policy_routing_features.yaml'')]"

definition POLICY_IDS :: "(string \<times> string) list" where
  "POLICY_IDS =
    [(''config/workflow_policy.yaml'', ''global-workflow-v1''),
     (''config/risk_policy.yaml'', ''global-risk-v1''),
     (''config/human_decision_policy.yaml'', ''human-decision-v1''),
     (''config/skill_routing.yaml'', ''skill-routing-v1''),
     (''config/model_routing.yaml'', ''model-routing-v1''),
     (''config/policy_routing_features.yaml'', ''policy-routing-features-v1'')]"

definition POLICY_ROUTING_FEATURE_IDS :: "string list" where
  "POLICY_ROUTING_FEATURE_IDS =
    [''approved_plan'', ''before_integration'', ''behavior_change'', ''bug_fix'',
     ''critical_browser_flow'', ''critical_user_flow'', ''design_system_change'',
     ''failing_test'', ''formal_feature'', ''formal_milestone'',
     ''high_fidelity_experience'', ''integration'', ''isolated_review_work'',
     ''multi_file'', ''multi_step'', ''new_ui'', ''parallel_tasks'',
     ''public_contract_change'', ''rc_candidate'', ''regression'', ''responsive_layout'',
     ''risk_R2'', ''risk_R3'', ''two_or_more_independent_tasks'',
     ''unclear_runtime_behavior'', ''unexpected_failure'', ''web_ui_change'']"

definition doc_of :: "policy_docs \<Rightarrow> string \<Rightarrow> pydict" where
  "doc_of p key =
     (if key = ''workflow'' then doc_workflow p else if key = ''risk'' then doc_risk p
      else if key = ''human'' then doc_human p else if key = ''skills'' then doc_skills p
      else if key = ''models'' then doc_models p else doc_routing p)"

subsection \<open>Shared guards\<close>

definition require_policy_id :: "pydict \<Rightarrow> string \<Rightarrow> guard" where
  "require_policy_id d path =
     (let v = dget d ''policy_id'' in first_err
       [reject (\<not> (is_str v \<and> str_of v \<noteq> [])) ''POLICY_TYPE_ERROR'' (path @ '':policy_id'')
          ''policy_id must be a non-empty string'',
        reject (map_of POLICY_IDS path \<noteq> Some (str_of v)) ''POLICY_UNKNOWN_ID''
          (path @ '':policy_id'') ''unknown policy_id''])"

definition require_known_feature_list :: "pyval \<Rightarrow> string \<Rightarrow> guard" where
  "require_known_feature_list v path = first_err
     [require_string_list v path,
      each (\<lambda>(i, f). reject (\<not> mem_list f (map PStr POLICY_ROUTING_FEATURE_IDS))
              ''POLICY_UNKNOWN_ID'' (item_path path i) ''unknown routing feature'')
        (numbered 0 (elems v))]"

text \<open>A field that is there must be a bool (\<open>type(v) is bool\<close>).\<close>

definition require_bool :: "pyval \<Rightarrow> string \<Rightarrow> string \<Rightarrow> guard" where
  "require_bool v path msg = reject (\<not> is_bool v) ''POLICY_TYPE_ERROR'' path msg"

text \<open>Two sets of keys must be equal: the first missing key, else the first extra one.\<close>

definition require_same_keys ::
    "string list \<Rightarrow> pydict \<Rightarrow> string \<Rightarrow> string \<Rightarrow> string \<Rightarrow> guard" where
  "require_same_keys names d path miss_msg extra_msg =
     (if set_eq (map PStr names) (map fst d) then None
      else
        let missing = sort (filter (\<lambda>n. \<not> mem_list (PStr n) (map fst d)) (remdups names)) in
        after (py_sorted (filter (\<lambda>k. \<not> mem_list k (map PStr names)) (map fst d)))
          (\<lambda>extra. first_err
            [blame_first (\<lambda>m. policy_error ''POLICY_UNKNOWN_ID'' (path @ ''.'' @ m) miss_msg) missing,
             blame_first (\<lambda>x. policy_error ''POLICY_UNKNOWN_ID'' (path @ ''.'' @ py_str x) extra_msg)
               extra]))"

subsection \<open>Workflow policy\<close>

definition validate_transition_row :: "pyval list \<Rightarrow> string \<Rightarrow> pyval \<times> pyval \<Rightarrow> guard" where
  "validate_transition_row states path row =
     (let here = path @ '':transitions.'' @ py_str (fst row) in first_err
       [reject (\<not> mem_list (fst row) states) ''POLICY_UNKNOWN_ID'' here
          ''unknown transition source state'',
        require_string_list (snd row) here,
        each (\<lambda>(i, t). reject (\<not> mem_list t states) ''POLICY_UNKNOWN_ID'' (item_path here i)
               ''unknown workflow transition target'') (numbered 0 (elems (snd row)))])"

definition validate_workflow_policy :: "pydict \<Rightarrow> guard" where
  "validate_workflow_policy w =
     (let path = ''config/workflow_policy.yaml'';
          states = dget w ''task_states''; transitions = dget w ''transitions'' in first_err
       [require_exact_fields w
          [''schema_version'', ''policy_id'', ''task_states'', ''transitions'', ''mandatory_rules'']
          [] path,
        require_policy_id w path,
        require_string_list states (path @ '':task_states''),
        each (\<lambda>(i, s). reject (\<not> mem_list s (map PStr TASK_STATES)) ''POLICY_UNKNOWN_ID''
               (item_path (path @ '':task_states'') i) ''unknown workflow state'')
          (numbered 0 (elems states)),
        reject (\<not> is_dict transitions) ''POLICY_TYPE_ERROR'' (path @ '':transitions'')
          ''workflow transitions must be a mapping'',
        require_same_keys (strs (elems states)) (entries transitions) (path @ '':transitions'')
          ''workflow state is missing a transition row'' ''unknown transition source state'',
        each (validate_transition_row (elems states) path) (entries transitions),
        require_string_list (dget w ''mandatory_rules'') (path @ '':mandatory_rules'')])"

subsection \<open>Risk policy\<close>

definition validate_level_row :: "string \<Rightarrow> pyval \<times> pyval \<Rightarrow> guard" where
  "validate_level_row path row =
     (let here = path @ '':levels.'' @ py_str (fst row); c = entries (snd row);
          desc = dget c ''description''; gates = dget c ''required_gates'' in first_err
       [after (in_risk_order (fst row)) (\<lambda>known.
          reject (\<not> known) ''POLICY_UNKNOWN_ID'' here ''unknown risk level''),
        reject (\<not> is_dict (snd row)) ''POLICY_TYPE_ERROR'' here ''risk level must be a mapping'',
        require_exact_fields c [''description'', ''required_gates''] [] here,
        reject (\<not> (is_str desc \<and> str_of desc \<noteq> [])) ''POLICY_TYPE_ERROR''
          (here @ ''.description'') ''risk level description must be a non-empty string'',
        require_string_list gates (here @ ''.required_gates''),
        reject (elems gates = []) ''POLICY_TYPE_ERROR'' (here @ ''.required_gates'')
          ''risk level must declare at least one mandatory gate'',
        each (\<lambda>(i, g). reject (\<not> mem_list g (map PStr POLICY_GATE_IDS)) ''POLICY_UNKNOWN_ID''
               (item_path (here @ ''.required_gates'') i) ''unknown gate id'')
          (numbered 0 (elems gates))])"

definition validate_trigger_row :: "pydict \<Rightarrow> string \<Rightarrow> pyval \<times> pyval \<Rightarrow> guard" where
  "validate_trigger_row levels path row = first_err
     [reject (\<not> is_str (fst row) \<or> \<not> is_str (snd row)) ''POLICY_TYPE_ERROR''
        (path @ '':triggers'') ''risk trigger ids and levels must be strings'',
      after (in_set (snd row) (map fst levels)) (\<lambda>known.
        reject (\<not> known) ''POLICY_UNKNOWN_ID'' (path @ '':triggers.'' @ py_str (fst row))
          ''unknown risk level'')]"

text \<open>
  \<open>_validate_risk_rule_conflicts\<close>: two rules for one trigger with one priority must name the
  same level. \<open>seen\<close> maps (trigger, priority) to the last level.
\<close>

type_synonym rule_table = "((pyval \<times> pyval) \<times> pyval) list"

definition rule_shape :: "pydict \<Rightarrow> nat \<Rightarrow> pyval \<Rightarrow> guard" where
  "rule_shape risk i rule =
     (let here = item_path ''config/risk_policy.yaml:rules'' i; r = entries rule;
          t = dget r ''trigger'' in first_err
       [reject (\<not> is_dict rule) ''POLICY_TYPE_ERROR'' here ''risk rule must be a mapping'',
        after (py_sorted (filter (\<lambda>k. \<not> mem_list k (map PStr [''trigger'', ''priority'', ''risk_level'']))
            (map fst r)))
          (blame_first (\<lambda>u. policy_error ''POLICY_UNKNOWN_FIELD'' (here @ '':'' @ py_str u)
             (''unexpected policy field '' @ py_str u))),
        require_exact_fields r [''trigger'', ''priority'', ''risk_level''] [] here,
        reject (\<not> (is_str t \<and> str_of t \<noteq> [])) ''POLICY_TYPE_ERROR'' (here @ ''.trigger'')
          ''risk rule trigger must be a non-empty string'',
        reject (\<not> is_int (dget r ''priority'')) ''POLICY_TYPE_ERROR'' (here @ ''.priority'')
          ''risk rule priority must be an integer'',
        after (py_in (dget r ''risk_level'') (dget_or risk ''levels'' (PDict []))) (\<lambda>known.
          reject (\<not> known) ''POLICY_UNKNOWN_ID'' (here @ ''.risk_level'')
            ''risk rule must reference a declared risk level'')])"

fun rule_conflicts :: "pydict \<Rightarrow> nat \<Rightarrow> rule_table \<Rightarrow> pyval list \<Rightarrow> guard" where
  "rule_conflicts risk i seen [] = None"
| "rule_conflicts risk i seen (rule # rules) =
     (let r = entries rule; key = (dget r ''trigger'', dget r ''priority'');
          level = dget r ''risk_level'' in
      case rule_shape risk i rule of
        Some e \<Rightarrow> Some e
      | None \<Rightarrow>
         (if (case map_of seen key of None \<Rightarrow> False | Some p \<Rightarrow> p \<noteq> PNone \<and> \<not> py_eq p level)
          then Some (policy_error ''POLICY_CONFLICT'' (item_path ''config/risk_policy.yaml:rules'' i)
                 ''conflicting equal-priority policy rules'')
          else rule_conflicts risk (Suc i) ((key, level) # seen) rules))"

definition validate_risk_rule_conflicts :: "pydict \<Rightarrow> guard" where
  "validate_risk_rule_conflicts risk =
     after (py_iter (dget_or risk ''rules'' (PList []))) (rule_conflicts risk 0 [])"

definition validate_risk_policy :: "pydict \<Rightarrow> guard" where
  "validate_risk_policy risk =
     (let path = ''config/risk_policy.yaml'';
          levels = dget risk ''levels''; triggers = dget risk ''triggers'' in first_err
       [require_exact_fields risk
          [''schema_version'', ''policy_id'', ''default_level'', ''unknown_trigger_behavior'',
           ''levels'', ''triggers'', ''highest_applicable_level_wins'',
           ''project_profile_may_lower_risk'', ''rules''] [''rules''] path,
        require_policy_id risk path,
        reject (\<not> is_dict levels) ''POLICY_TYPE_ERROR'' (path @ '':levels'')
          ''risk levels must be a mapping'',
        require_same_keys (map fst RISK_ORDER) (entries levels) (path @ '':levels'')
          ''required risk level is undeclared'' ''unknown risk level'',
        each (validate_level_row path) (entries levels),
        reject (\<not> is_dict triggers) ''POLICY_TYPE_ERROR'' (path @ '':triggers'')
          ''risk triggers must be a mapping'',
        each (validate_trigger_row (entries levels) path) (entries triggers),
        require_bool (dget risk ''highest_applicable_level_wins'')
          (path @ '':highest_applicable_level_wins'') ''must be a boolean'',
        require_bool (dget risk ''project_profile_may_lower_risk'')
          (path @ '':project_profile_may_lower_risk'') ''must be a boolean'',
        validate_risk_rule_conflicts risk])"

subsection \<open>Human decision policy\<close>

definition validate_human_trigger_row :: "string \<Rightarrow> pyval \<times> pyval \<Rightarrow> guard" where
  "validate_human_trigger_row path row =
     (let here = path @ '':triggers.'' @ py_str (fst row); c = entries (snd row) in first_err
       [reject (\<not> mem_list (fst row) (map PStr HUMAN_DECISION_TRIGGERS)) ''POLICY_UNKNOWN_ID''
          here ''unknown human trigger'',
        reject (\<not> is_dict (snd row)) ''POLICY_TYPE_ERROR'' here
          ''human trigger config must be a mapping'',
        require_exact_fields c [''examples''] [] here,
        require_string_list (dget c ''examples'') (here @ ''.examples'')])"

definition validate_human_policy :: "pydict \<Rightarrow> guard" where
  "validate_human_policy human =
     (let path = ''config/human_decision_policy.yaml''; triggers = dget human ''triggers'' in
      first_err
       [require_exact_fields human
          [''schema_version'', ''policy_id'', ''default_without_response'', ''triggers'',
           ''do_not_escalate''] [] path,
        require_policy_id human path,
        reject (dget human ''default_without_response'' \<noteq> PStr ''PAUSE'') ''POLICY_UNKNOWN_ID''
          (path @ '':default_without_response'') ''unknown default behavior'',
        reject (\<not> is_dict triggers) ''POLICY_TYPE_ERROR'' (path @ '':triggers'')
          ''human triggers must be a mapping'',
        each (validate_human_trigger_row path) (entries triggers),
        require_string_list (dget human ''do_not_escalate'') (path @ '':do_not_escalate'')])"

subsection \<open>Skill routing\<close>

text \<open>
  \<open>_validate_primary_routes\<close>: only the list form of the routes is checked, for duplicates.
\<close>

definition validate_primary_routes :: "pydict \<Rightarrow> string \<Rightarrow> guard" where
  "validate_primary_routes skills path =
     after (call_get (dget_or skills ''primary_discovery'' (PDict [])) ''routes'' (PDict []))
       (\<lambda>routes.
          if is_dict routes then None
          else first_err
            [reject (\<not> is_list routes) ''POLICY_TYPE_ERROR'' (path @ '':primary_discovery.routes'')
               ''primary discovery routes must be a mapping or list'',
             after (duplicate_item (map (\<lambda>item. vget item ''route_id'')
                 (filter is_dict (elems routes))))
               (\<lambda>dup. case dup of
                  None \<Rightarrow> None
                | Some (i, _) \<Rightarrow> Some (policy_error ''POLICY_DUPLICATE_DISCOVERY_ROUTE''
                    (item_path (path @ '':primary_discovery.routes'') i @ ''.route_id'')
                    ''duplicate primary discovery route detected''))])"

definition EXTRA_ROUTE_TARGETS :: "string list" where
  "EXTRA_ROUTE_TARGETS = [''grill_with_docs'', ''concise_spec'', ''superpowers_brainstorming'']"

definition EXTRA_SKILL_IDS :: "string list" where
  "EXTRA_SKILL_IDS =
    [''superpowers_tdd'', ''superpowers_systematic_debugging'', ''superpowers_git_worktrees'',
     ''superpowers_subagent_driven'', ''browser_qa'']"

definition validate_route_row :: "string \<Rightarrow> pyval \<times> pyval \<Rightarrow> guard" where
  "validate_route_row path row = first_err
     [reject (\<not> is_str (fst row) \<or> \<not> is_str (snd row)) ''POLICY_TYPE_ERROR''
        (path @ '':primary_discovery.routes'') ''routes must map strings to strings'',
      reject (\<not> mem_list (snd row) (map PStr (POLICY_SKILL_IDS @ EXTRA_ROUTE_TARGETS)))
        ''POLICY_UNKNOWN_ID'' (path @ '':primary_discovery.routes.'' @ py_str (fst row))
        ''unknown primary discovery target'']"

definition validate_skill_row :: "string \<Rightarrow> pyval \<times> pyval \<Rightarrow> guard" where
  "validate_skill_row path row =
     (let here = path @ '':skills.'' @ py_str (fst row); r = entries (snd row) in first_err
       [reject (\<not> mem_list (fst row) (map PStr (POLICY_SKILL_IDS @ EXTRA_SKILL_IDS)))
          ''POLICY_UNKNOWN_ID'' here ''unknown policy skill id'',
        reject (\<not> is_dict (snd row)) ''POLICY_TYPE_ERROR'' here ''skill rule must be a mapping'',
        require_exact_fields r [''always'', ''when_any'', ''when_all'']
          [''always'', ''when_any'', ''when_all''] here,
        reject (dhas r ''always'' \<and> \<not> is_bool (dget r ''always'')) ''POLICY_TYPE_ERROR''
          (here @ ''.always'') ''always must be a boolean'',
        (if dhas r ''when_any'' then
           require_known_feature_list (dget r ''when_any'') (here @ ''.when_any'') else None),
        (if dhas r ''when_all'' then
           require_known_feature_list (dget r ''when_all'') (here @ ''.when_all'') else None)])"

definition validate_skill_policy :: "pydict \<Rightarrow> guard" where
  "validate_skill_policy skills =
     (let path = ''config/skill_routing.yaml'';
          primary = dget skills ''primary_discovery''; p = entries primary;
          routes = dget p ''routes''; rules = dget skills ''skills'' in first_err
       [require_exact_fields skills
          [''schema_version'', ''policy_id'', ''primary_discovery'', ''skills'',
           ''exception_requires_record''] [] path,
        require_policy_id skills path,
        require_mapping primary (path @ '':primary_discovery''),
        require_exact_fields p [''exclusive'', ''routes''] [] (path @ '':primary_discovery''),
        require_bool (dget p ''exclusive'') (path @ '':primary_discovery.exclusive'')
          ''exclusive must be a boolean'',
        (if is_list routes then first_err
           [validate_primary_routes skills path,
            reject True ''POLICY_TYPE_ERROR'' (path @ '':primary_discovery.routes'') ''expected mapping'']
         else None),
        require_mapping routes (path @ '':primary_discovery.routes''),
        each (validate_route_row path) (entries routes),
        require_mapping rules (path @ '':skills''),
        each (validate_skill_row path) (entries rules),
        require_bool (dget skills ''exception_requires_record'')
          (path @ '':exception_requires_record'') ''exception_requires_record must be a boolean''])"

subsection \<open>Model routing\<close>

definition validate_role_row :: "string \<Rightarrow> pyval \<times> pyval \<Rightarrow> guard" where
  "validate_role_row path row =
     (let here = path @ '':roles.'' @ py_str (fst row); c = entries (snd row);
          capability = dget c ''capability''; role = dget c ''model_role'' in first_err
       [reject (\<not> mem_list (fst row) (map PStr (POLICY_MODEL_ROLE_IDS @
            [''deep_research'', ''coder_mechanical'', ''coder_integration''])))
          ''POLICY_UNKNOWN_ID'' here ''unknown model role'',
        reject (\<not> is_dict (snd row)) ''POLICY_TYPE_ERROR'' here
          ''model role config must be a mapping'',
        require_exact_fields c [''capability'', ''independent_context'', ''model_role'']
          [''independent_context'', ''model_role''] here,
        reject (\<not> (is_str capability \<and> str_of capability \<noteq> [])) ''POLICY_TYPE_ERROR''
          (here @ ''.capability'') ''capability must be a non-empty string'',
        reject (dhas c ''independent_context'' \<and> \<not> is_bool (dget c ''independent_context''))
          ''POLICY_TYPE_ERROR'' (here @ ''.independent_context'')
          ''independent_context must be a boolean'',
        reject (dhas c ''model_role'' \<and> \<not> (is_str role \<and> str_of role \<noteq> []))
          ''POLICY_TYPE_ERROR'' (here @ ''.model_role'') ''model_role must be a non-empty string''])"

definition validate_model_policy :: "pydict \<Rightarrow> guard" where
  "validate_model_policy models =
     (let path = ''config/model_routing.yaml''; roles = dget models ''roles'' in first_err
       [require_exact_fields models [''schema_version'', ''policy_id'', ''roles'', ''escalate_when'']
          [] path,
        require_policy_id models path,
        require_mapping roles (path @ '':roles''),
        each (validate_role_row path) (entries roles),
        require_string_list (dget models ''escalate_when'') (path @ '':escalate_when'')])"

subsection \<open>Routing features\<close>

definition validate_attribute_row :: "string \<Rightarrow> pyval \<times> pyval \<Rightarrow> guard" where
  "validate_attribute_row path row =
     (let here = path @ '':task_attributes.'' @ py_str (fst row); c = entries (snd row);
          allowed = dget c ''allowed_values'';
          maps = dget_or c ''maps_to_features'' (PDict []) in first_err
       [reject (\<not> is_str (fst row) \<or> \<not> is_dict (snd row)) ''POLICY_TYPE_ERROR'' here
          ''task attribute config must be a mapping'',
        require_exact_fields c [''allowed_values'', ''maps_to_features''] [] here,
        require_string_list allowed (here @ ''.allowed_values''),
        reject (\<not> is_dict maps) ''POLICY_TYPE_ERROR'' (here @ ''.maps_to_features'')
          ''maps_to_features must be a mapping'',
        each (\<lambda>(v, features). first_err
          [reject (\<not> mem_list v (elems allowed)) ''POLICY_UNKNOWN_ATTRIBUTE_VALUE''
             (here @ ''.maps_to_features.'' @ py_str v) ''unknown task attribute value'',
           require_known_feature_list features (here @ ''.maps_to_features.'' @ py_str v)])
          (entries maps)])"

definition validate_condition_row :: "string \<Rightarrow> pyval \<times> pyval \<Rightarrow> guard" where
  "validate_condition_row path row =
     (let here = path @ '':risk_conditions.'' @ py_str (fst row) in first_err
       [after (in_risk_order (fst row)) (\<lambda>known.
          reject (\<not> known) ''POLICY_UNKNOWN_ID'' here ''unknown risk level''),
        require_known_feature_list (snd row) here])"

definition validate_skill_feature_row :: "string \<Rightarrow> pyval \<times> pyval \<Rightarrow> guard" where
  "validate_skill_feature_row path row =
     (let here = path @ '':skill_rule_features.'' @ py_str (fst row); r = entries (snd row) in
      first_err
       [reject (\<not> mem_list (fst row) (map PStr POLICY_SKILL_IDS)) ''POLICY_UNKNOWN_ID'' here
          ''unknown policy skill id'',
        reject (\<not> is_dict (snd row)) ''POLICY_TYPE_ERROR'' here ''skill rule must be a mapping'',
        require_exact_fields r [''always'', ''when_any''] [''always'', ''when_any''] here,
        reject (dhas r ''always'' \<and> \<not> is_bool (dget r ''always'')) ''POLICY_TYPE_ERROR''
          (here @ ''.always'') ''always must be a boolean'',
        (if dhas r ''when_any'' then
           require_known_feature_list (dget r ''when_any'') (here @ ''.when_any'') else None)])"

definition validate_actor_row :: "string \<Rightarrow> pyval \<times> pyval \<Rightarrow> guard" where
  "validate_actor_row path row =
     (let here = path @ '':model_role_rules.'' @ py_str (fst row) in first_err
       [reject (\<not> mem_list (fst row) (map PStr POLICY_MODEL_ACTORS)) ''POLICY_UNKNOWN_ID'' here
          ''unknown model actor'',
        reject (\<not> is_dict (snd row)) ''POLICY_TYPE_ERROR'' here
          ''model role rule must be a mapping'',
        each (\<lambda>(selector, role). first_err
          [(if selector = PStr ''always'' then None
            else after (in_risk_order selector) (\<lambda>known.
              reject (\<not> known) ''POLICY_UNKNOWN_ID'' (here @ ''.'' @ py_str selector)
                ''unknown model role selector'')),
           reject (\<not> mem_list role (map PStr POLICY_MODEL_ROLE_IDS)) ''POLICY_UNKNOWN_ID''
             (here @ ''.'' @ py_str selector) ''unknown model role''])
          (entries (snd row))])"

definition validate_routing_features_policy :: "pydict \<Rightarrow> guard" where
  "validate_routing_features_policy routing =
     (let path = ''config/policy_routing_features.yaml'';
          attrs = dget routing ''task_attributes''; conditions = dget routing ''risk_conditions'';
          skills = dget routing ''skill_rule_features''; actors = dget routing ''model_role_rules'';
          canonical = dget routing ''canonical_order''; c = entries canonical;
          inputs = dget c ''set_like_inputs'' in first_err
       [require_exact_fields routing
          [''schema_version'', ''policy_id'', ''task_attributes'', ''risk_conditions'',
           ''skill_rule_features'', ''model_role_rules'', ''canonical_order''] [] path,
        require_policy_id routing path,
        reject (\<not> is_dict attrs) ''POLICY_TYPE_ERROR'' (path @ '':task_attributes'')
          ''task attributes must be a mapping'',
        each (validate_attribute_row path) (entries attrs),
        require_mapping conditions (path @ '':risk_conditions''),
        each (validate_condition_row path) (entries conditions),
        require_mapping skills (path @ '':skill_rule_features''),
        each (validate_skill_feature_row path) (entries skills),
        require_mapping actors (path @ '':model_role_rules''),
        each (validate_actor_row path) (entries actors),
        require_mapping canonical (path @ '':canonical_order''),
        require_exact_fields c [''set_like_inputs'', ''order_source''] [] (path @ '':canonical_order''),
        require_string_list inputs (path @ '':canonical_order.set_like_inputs''),
        each (\<lambda>f. reject (\<not> mem_list f [PStr ''risk_triggers'', PStr ''human_triggers''])
                ''POLICY_UNKNOWN_ID'' (path @ '':canonical_order.set_like_inputs'')
                ''unknown canonical input field'') (elems inputs),
        reject (dget c ''order_source'' \<noteq> PStr ''policy_declaration_order'') ''POLICY_UNKNOWN_ID''
          (path @ '':canonical_order.order_source'') ''unknown canonical order source''])"

subsection \<open>All documents\<close>

text \<open>
  The version test compares by value (\<open>!= 1\<close>), the \<open>default_level\<close> test is a membership test
  on whatever \<open>levels\<close> is.
\<close>

definition validate_policy_schemas :: "policy_docs \<Rightarrow> guard" where
  "validate_policy_schemas p = first_err
     [each (\<lambda>(key, path). reject (\<not> eq_int (dget (doc_of p key) ''schema_version'') 1)
             ''POLICY_UNSUPPORTED_VERSION'' (path @ '':schema_version'')
             ''unsupported policy schema version'') POLICY_FILES,
      after (py_in (dget (doc_risk p) ''default_level'')
          (dget_or (doc_risk p) ''levels'' (PDict []))) (\<lambda>known.
        reject (\<not> known) ''POLICY_UNKNOWN_ID'' ''config/risk_policy.yaml:default_level''
          ''default risk level is undeclared''),
      reject (dget (doc_risk p) ''unknown_trigger_behavior'' \<noteq> PStr ''fail_closed'')
        ''POLICY_CONFLICT'' ''config/risk_policy.yaml:unknown_trigger_behavior''
        ''unknown trigger behavior must be fail_closed'',
      validate_workflow_policy (doc_workflow p),
      validate_risk_policy (doc_risk p),
      validate_human_policy (doc_human p),
      validate_skill_policy (doc_skills p),
      validate_model_policy (doc_models p),
      validate_routing_features_policy (doc_routing p)]"

definition validate_cross_file_references :: "policy_docs \<Rightarrow> guard" where
  "validate_cross_file_references p =
     (let skills = dget_or (doc_skills p) ''skills'' (PDict []);
          models = dget_or (doc_models p) ''roles'' (PDict []);
          here = ''config/policy_routing_features.yaml'' in first_err
       [reject (\<not> is_dict skills \<or> \<not> is_dict models) ''POLICY_TYPE_ERROR''
          ''config/skill_routing.yaml'' ''skill and model policies must be mappings'',
        validate_primary_routes (doc_skills p) ''config/skill_routing.yaml'',
        after (py_iter (dget_or (doc_routing p) ''skill_rule_features'' (PDict []))) (each (\<lambda>s.
          after (py_in s skills) (\<lambda>known. reject (\<not> known) ''POLICY_UNKNOWN_ID''
            (here @ '':skill_rule_features.'' @ py_str s) (''unknown skill rule '' @ py_str s)))),
        after (py_items (dget_or (doc_routing p) ''model_role_rules'' (PDict []))) (each (\<lambda>(actor, rule).
          first_err
           [reject (\<not> is_dict rule) ''POLICY_TYPE_ERROR''
              (here @ '':model_role_rules.'' @ py_str actor) ''model role rule must be a mapping'',
            each (\<lambda>(_, role). after (py_in role models) (\<lambda>known. reject (\<not> known)
                ''POLICY_UNKNOWN_ID'' (here @ '':model_role_rules.'' @ py_str actor)
                (''unknown model role '' @ py_str role))) (entries rule)]))])"

end
