(* ===== verification/Policy_Load.thy ===== *)
theory Policy_Load
  imports Policy_Schema
begin

text \<open>
  Project profiles and the policy bundle of \<open>acgps/policy.py\<close>: \<open>_validate_project_profile\<close>,
  \<open>_load_project_profiles\<close>, \<open>load_policy_bundle\<close>, and the fixture overlay
  \<open>_deep_merge_mapping\<close>. The file system is a function from logical paths to what the code
  asks of the file, the directory listing a list of paths, the digest a function of the
  documents.
\<close>

definition PROFILE_REQUIRED_FIELDS :: "(string \<times> pytype) list" where
  "PROFILE_REQUIRED_FIELDS =
    [(''schema_version'', TyInt), (''profile_id'', TyStr), (''project_name'', TyStr),
     (''project_type'', TyStr), (''required_files'', TyDict), (''critical_surfaces'', TyList),
     (''risk_overrides'', TyDict), (''pilot_restrictions'', TyList), (''commands'', TyDict)]"

text \<open>
  The issue of a failed contract, as the profile loader reports it: the first issue decides.
  A key that is no string has no \<open>startswith\<close>.
\<close>

definition profile_contract_error :: "string \<Rightarrow> issue \<Rightarrow> exn" where
  "profile_contract_error path i =
     (case issue_path i of
        PStr p \<Rightarrow>
          (if starts_with ''required_files'' p then
             policy_error ''POLICY_PROFILE_REQUIRED_FILE_INVALID'' (path @ '':'' @ p)
               ''profile required_files entry is unsafe or missing''
           else policy_error ''POLICY_TYPE_ERROR'' (path @ '':'' @ p) (issue_message i))
      | _ \<Rightarrow> AttributeError)"

definition profile_contract_check :: "string \<Rightarrow> pydict \<Rightarrow> guard" where
  "profile_contract_check path profile =
     (case validate_contract ''project_profile'' (PDict profile) ''runtime'' of
        Some (ContractValidationError _ (i # _)) \<Rightarrow> Some (profile_contract_error path i)
      | other \<Rightarrow> other)"

definition validate_override_row :: "pydict \<Rightarrow> string \<Rightarrow> pyval \<times> pyval \<Rightarrow> guard" where
  "validate_override_row risk path row =
     (let here = path @ '':risk_overrides''; key = fst row; level = snd row in first_err
       [reject (\<not> (is_str key \<and> str_of key \<noteq> [])) ''POLICY_TYPE_ERROR'' here
          ''risk_overrides keys must be non-empty strings'',
        after (in_risk_order level) (\<lambda>known.
          reject (\<not> known) ''POLICY_UNKNOWN_ID'' (here @ ''.'' @ py_str key)
            ''risk override must reference a declared risk level''),
        after (call_get_any (dget_or risk ''triggers'' (PDict [])) key PNone) (\<lambda>global.
          if dget risk ''project_profile_may_lower_risk'' \<noteq> PBool False then None
          else after (in_risk_order global) (\<lambda>known.
            if \<not> known then None
            else after (risk_order level) (\<lambda>n. after (risk_order global) (\<lambda>g.
              reject (n < g) ''POLICY_PROFILE_DOWNGRADE_FORBIDDEN'' (here @ ''.'' @ py_str key)
                ''project profile may not lower global risk level''))))])"

definition validate_project_profile :: "string \<Rightarrow> pydict \<Rightarrow> pydict \<Rightarrow> guard" where
  "validate_project_profile path profile risk = first_err
     [profile_contract_check path profile,
      after (py_sorted (filter (\<lambda>k. \<not> mem_list k (map (\<lambda>p. PStr (fst p)) PROFILE_REQUIRED_FIELDS))
          (map fst profile)))
        (blame_first (\<lambda>u. policy_error ''POLICY_UNKNOWN_FIELD'' (path @ '':'' @ py_str u)
           (''unexpected profile field '' @ py_str u))),
      each (\<lambda>(n, ty). first_err
        [reject (\<not> dhas profile n) ''POLICY_TYPE_ERROR'' (path @ '':'' @ n)
           (n @ '' missing required field''),
         reject (\<not> matches_type ty (dget profile n)) ''POLICY_TYPE_ERROR'' (path @ '':'' @ n)
           (n @ '' has invalid type'')]) PROFILE_REQUIRED_FIELDS,
      reject (\<not> eq_int (dget profile ''schema_version'') 1) ''POLICY_UNSUPPORTED_VERSION''
        (path @ '':schema_version'') ''unsupported profile schema version'',
      each (\<lambda>n. each (\<lambda>(i, v). reject (\<not> (is_str v \<and> str_of v \<noteq> [])) ''POLICY_TYPE_ERROR''
              (path @ '':'' @ item_path n i) (n @ '' entries must be non-empty strings''))
            (numbered 0 (elems (dget profile n)))) [''critical_surfaces'', ''pilot_restrictions''],
      each (validate_override_row risk path) (entries (dget profile ''risk_overrides'')),
      each (\<lambda>(k, v). reject (\<not> is_str k \<or> \<not> is_str v \<or> \<not> is_safe_relative_path (str_of v))
             ''POLICY_PROFILE_REQUIRED_FILE_INVALID'' (path @ '':required_files.'' @ py_str k)
             ''profile required_files entry is unsafe or missing'')
        (entries (dget profile ''required_files''))]"

subsection \<open>The registry of profiles\<close>

definition profile_entry :: "string \<Rightarrow> pydict \<Rightarrow> pyval" where
  "profile_entry path profile =
     PDict [(PStr ''source_path'', PStr path), (PStr ''profile'', PDict profile)]"

definition add_profile ::
    "(string \<Rightarrow> file_view) \<Rightarrow> pydict \<Rightarrow> string \<Rightarrow> pydict \<Rightarrow> pydict res" where
  "add_profile fs risk path registry =
     rbind (load_yaml_mapping fs path) (\<lambda>profile.
       guarded (validate_project_profile path profile risk)
         (rbind (subscript (PDict profile) ''profile_id'') (\<lambda>pid.
           rbind (in_set pid (map fst registry)) (\<lambda>dup.
             guarded (reject dup ''POLICY_DUPLICATE_PROFILE_ID'' (path @ '':profile_id'')
                 ''duplicate profile_id detected'')
               (Inr (dset registry pid (profile_entry path profile)))))))"

definition load_project_profiles ::
    "(string \<Rightarrow> file_view) \<Rightarrow> string list option \<Rightarrow> pydict \<Rightarrow> pydict res" where
  "load_project_profiles fs listing risk =
     (case listing of
        None \<Rightarrow> Inr []
      | Some paths \<Rightarrow> rfold (add_profile fs risk) (sort paths) [])"

subsection \<open>The bundle\<close>

record policy_bundle =
  bundle_workflow :: pydict
  bundle_risk :: pydict
  bundle_human :: pydict
  bundle_skills :: pydict
  bundle_models :: pydict
  bundle_routing :: pydict
  bundle_profiles :: pydict
  bundle_digest :: string

definition load_policy_docs :: "(string \<Rightarrow> file_view) \<Rightarrow> policy_docs res" where
  "load_policy_docs fs =
     (let load = (\<lambda>key. load_yaml_mapping fs (the (map_of POLICY_FILES key))) in
      rbind (load ''workflow'') (\<lambda>w. rbind (load ''risk'') (\<lambda>r. rbind (load ''human'') (\<lambda>h.
      rbind (load ''skills'') (\<lambda>s. rbind (load ''models'') (\<lambda>m.
      rbind (load ''routing_features'') (\<lambda>f.
        Inr \<lparr>doc_workflow = w, doc_risk = r, doc_human = h, doc_skills = s, doc_models = m,
             doc_routing = f\<rparr>)))))))"

definition load_policy_bundle ::
    "(policy_docs \<Rightarrow> pydict \<Rightarrow> string res) \<Rightarrow> (string \<Rightarrow> file_view) \<Rightarrow> string list option
     \<Rightarrow> policy_bundle res" where
  "load_policy_bundle digest fs listing =
     rbind (load_policy_docs fs) (\<lambda>p.
       guarded (validate_policy_schemas p)
         (rbind (load_project_profiles fs listing (doc_risk p)) (\<lambda>profiles.
           guarded (validate_cross_file_references p)
             (rbind (digest p profiles) (\<lambda>dg.
               Inr \<lparr>bundle_workflow = doc_workflow p, bundle_risk = doc_risk p,
                    bundle_human = doc_human p, bundle_skills = doc_skills p,
                    bundle_models = doc_models p, bundle_routing = doc_routing p,
                    bundle_profiles = profiles, bundle_digest = dg\<rparr>)))))"

subsection \<open>Fixture overlays\<close>

text \<open>
  \<open>_deep_merge_mapping\<close>: mappings merge, everything else is replaced. The keys of a mapping
  are scalars, so \<open>merged.get(key)\<close> does not raise.
\<close>

definition dfind_or_None :: "pydict \<Rightarrow> pyval \<Rightarrow> pyval" where
  "dfind_or_None d k = (case dfind d k of None \<Rightarrow> PNone | Some v \<Rightarrow> v)"

function deep_merge_mapping :: "pydict \<Rightarrow> pydict \<Rightarrow> pydict" where
  "deep_merge_mapping base [] = base"
| "deep_merge_mapping base ((k, v) # overlay) =
     deep_merge_mapping
       (dset base k (case v of
          PDict e \<Rightarrow>
            (case dfind_or_None base k of
               PDict b \<Rightarrow> PDict (deep_merge_mapping b e)
             | _ \<Rightarrow> v)
        | _ \<Rightarrow> v)) overlay"
  by pat_completeness auto
termination
  by (relation "measure (\<lambda>(b, ov). size_list (size_prod size size) ov)") auto

end
