(* ===== verification/Policy_Eval.thy ===== *)
theory Policy_Eval
  imports Policy_Load
begin

text \<open>
  The policy evaluator of \<open>acgps/policy.py\<close>: validation of an input record
  (\<open>_prevalidate_input\<close>), the decision (\<open>_evaluate_normalized\<close>), the check of the result
  against its contract and the policy bundle, and \<open>evaluate_policy\<close>, which turns every
  exception into a fail-closed result. The documents of the bundle are arbitrary mappings;
  wherever the code calls \<open>.get\<close> on a value of the wrong type the model raises as Python does.
  \<open>INPUT_FIELDS\<close> is a set; the order in which its loop visits it is the parameter \<open>order\<close>.
\<close>

definition INPUT_FIELDS :: "string list" where
  "INPUT_FIELDS =
    [''current_state'', ''risk_triggers'', ''human_triggers'', ''task_attributes'',
     ''project_profile_id'']"

definition WRAPPER_FIELDS :: "string list" where
  "WRAPPER_FIELDS = [''schema_version'', ''input'']"

definition PUBLIC_INPUT_WRAPPER_FIELDS :: "string list" where
  "PUBLIC_INPUT_WRAPPER_FIELDS =
    [''schema_version'', ''evaluation_id'', ''project_id'', ''task_id'', ''input'',
     ''created_at_utc'']"

subsection \<open>Fail-closed results\<close>

definition fail_closed_result :: "string \<Rightarrow> pyval \<Rightarrow> string \<Rightarrow> pyval" where
  "fail_closed_result code path msg =
     (let code' = (if code \<in> set POLICY_ERROR_CODES then code else ''POLICY_MALFORMED'') in
      PDict
       [(PStr ''decision_emitted'', PBool False),
        (PStr ''risk_level'', PStr ''R3''),
        (PStr ''human_gate'', PBool True),
        (PStr ''required_human_triggers'', PList []),
        (PStr ''required_skills'', PList []),
        (PStr ''model_roles'', PDict []),
        (PStr ''mandatory_gates'', PList []),
        (PStr ''legal_transitions'', PList []),
        (PStr ''authorized_transitions'', PList []),
        (PStr ''provenance'', PList []),
        (PStr ''fail_closed'', PBool True),
        (PStr ''error_code'', PStr code'),
        (PStr ''issues'', PList [PDict
          [(PStr ''code'', PStr code'), (PStr ''path'', path), (PStr ''message'', PStr msg)]])])"

subsection \<open>Normalizing the input\<close>

definition looks_like_public_input :: "pydict \<Rightarrow> bool" where
  "looks_like_public_input d =
     list_ex (dhas d) (filter (\<lambda>f. f \<notin> set WRAPPER_FIELDS) PUBLIC_INPUT_WRAPPER_FIELDS)"

text \<open>How a contract issue of a public input is reported.\<close>

definition public_input_error :: "issue \<Rightarrow> exn" where
  "public_input_error i =
     (let p = issue_path i; m = issue_message i in
      if m = ''unexpected field'' then
        PolicyEvaluationError ''POLICY_UNKNOWN_FIELD'' p
          (''unknown PolicyEvaluationInput field '' @ py_str p)
      else if starts_with ''expected'' m then PolicyEvaluationError ''POLICY_TYPE_ERROR'' p m
      else PolicyEvaluationError ''POLICY_MALFORMED'' p m)"

definition public_contract_check :: "pydict \<Rightarrow> guard" where
  "public_contract_check d =
     (case validate_contract ''policy_evaluation_input'' (PDict d) ''runtime'' of
        Some (ContractValidationError _ (i # _)) \<Rightarrow> Some (public_input_error i)
      | other \<Rightarrow> other)"

definition wrapper_checks :: "pydict \<Rightarrow> guard" where
  "wrapper_checks d = first_err
     [each (\<lambda>p. fail_if (\<not> mem_list (fst p) (map PStr WRAPPER_FIELDS))
              (PolicyEvaluationError ''POLICY_UNKNOWN_FIELD'' (fst p)
                (''unknown PolicyEvaluationInput wrapper field '' @ py_str (fst p)))) d,
      reject (\<not> is_int (dget d ''schema_version'')) ''POLICY_TYPE_ERROR'' ''schema_version''
        ''schema_version must be an integer'',
      reject (dget d ''schema_version'' \<noteq> PInt 1) ''POLICY_UNSUPPORTED_VERSION''
        ''schema_version'' ''unsupported PolicyEvaluationInput schema version'',
      reject (\<not> is_dict (dget d ''input'')) ''POLICY_TYPE_ERROR'' ''input''
        ''input must be a mapping'']"

definition normalize_input :: "pyval \<Rightarrow> pydict res" where
  "normalize_input record =
     (case record of
        PDict d \<Rightarrow>
          (if looks_like_public_input d then
             guarded (public_contract_check d) (Inr (entries (dget d ''input'')))
           else if dhas d ''schema_version'' \<or> dhas d ''input'' then
             guarded (wrapper_checks d) (Inr (entries (dget d ''input'')))
           else Inr d)
      | _ \<Rightarrow> Inl (policy_error ''POLICY_TYPE_ERROR'' ''input''
               ''PolicyEvaluationInput must be a mapping''))"

subsection \<open>Prevalidation\<close>

definition validate_task_attributes :: "pyval \<Rightarrow> pydict \<Rightarrow> guard" where
  "validate_task_attributes attrs routing =
     (let vocab = dget_or routing ''task_attributes'' (PDict []) in first_err
       [reject (\<not> is_dict attrs) ''POLICY_TYPE_ERROR'' ''input.task_attributes''
          ''task_attributes must be a mapping'',
        each (\<lambda>(k, v). let here = ''input.task_attributes.'' @ py_str k in first_err
          [reject (\<not> is_str k \<or> \<not> is_str v) ''POLICY_TYPE_ERROR'' here
             ''task attribute keys and values must be strings'',
           after (py_in k vocab) (\<lambda>known. reject (\<not> known) ''POLICY_UNKNOWN_ATTRIBUTE'' here
             (''unknown task attribute '' @ py_str k)),
           after (rbind (subscript vocab (str_of k)) (\<lambda>row.
               rbind (call_get row ''allowed_values'' (PList [])) (py_in v)))
             (\<lambda>known. reject (\<not> known) ''POLICY_UNKNOWN_ATTRIBUTE_VALUE'' here
               (''unknown value '' @ py_str v @ '' for task attribute '' @ py_str k))])
          (entries attrs)])"

definition trigger_list_check :: "pydict \<Rightarrow> string \<Rightarrow> guard" where
  "trigger_list_check d field =
     (let v = dget d field; here = ''input.'' @ field; singular = butlast field in first_err
       [reject (\<not> is_list v) ''POLICY_TYPE_ERROR'' here (field @ '' must be a list''),
        each (\<lambda>(i, x). reject (\<not> is_str x) ''POLICY_TYPE_ERROR'' (item_path here i)
               (singular @ '' must be a string'')) (numbered 0 (elems v)),
        after (duplicate_item (elems v)) (\<lambda>dup. case dup of
            None \<Rightarrow> None
          | Some (i, x) \<Rightarrow> Some (policy_error ''POLICY_DUPLICATE_SET_MEMBER'' (item_path here i)
              (''duplicate '' @ singular @ '' '' @ py_str x)))])"

definition input_checks :: "string list \<Rightarrow> pydict \<Rightarrow> policy_bundle \<Rightarrow> guard" where
  "input_checks order d b =
     (let state = dget d ''current_state''; profile_id = dget d ''project_profile_id'' in first_err
       [each (\<lambda>p. reject (\<not> mem_list (fst p) (map PStr INPUT_FIELDS)) ''POLICY_UNKNOWN_FIELD''
               (''input.'' @ py_str (fst p))
               (''unknown PolicyEvaluationInput field '' @ py_str (fst p))) d,
        each (\<lambda>f. reject (\<not> dhas d f) ''POLICY_TYPE_ERROR'' (''input.'' @ f)
               (f @ '' is required'')) order,
        reject (\<not> is_str state) ''POLICY_TYPE_ERROR'' ''input.current_state''
          ''current_state must be a string'',
        after (py_set (dget_or (bundle_workflow b) ''task_states'' (PList []))) (\<lambda>states.
          reject (\<not> mem_list state states) ''POLICY_UNKNOWN_ID'' ''input.current_state''
            (''unknown current_state '' @ py_str state)),
        trigger_list_check d ''risk_triggers'',
        trigger_list_check d ''human_triggers'',
        validate_task_attributes (dget d ''task_attributes'') (bundle_routing b),
        each (\<lambda>(i, t). after (py_in t (dget_or (bundle_human b) ''triggers'' (PDict []))) (\<lambda>known.
            reject (\<not> known) ''POLICY_UNKNOWN_ID'' (item_path ''input.human_triggers'' i)
              (''unknown human trigger '' @ py_str t)))
          (numbered 0 (elems (dget d ''human_triggers''))),
        reject (profile_id \<noteq> PNone \<and> \<not> is_str profile_id) ''POLICY_TYPE_ERROR''
          ''input.project_profile_id'' ''project_profile_id must be a string or null'',
        (if is_str profile_id then
           after (in_set profile_id (map fst (bundle_profiles b))) (\<lambda>known.
             reject (\<not> known) ''POLICY_UNKNOWN_ID'' ''input.project_profile_id''
               (''unknown project_profile_id '' @ py_str profile_id))
         else None)])"

definition prevalidate_input :: "string list \<Rightarrow> pyval \<Rightarrow> policy_bundle \<Rightarrow> pydict res" where
  "prevalidate_input order record b =
     rbind (normalize_input record) (\<lambda>d. guarded (input_checks order d b) (Inr d))"

subsection \<open>The decision\<close>

text \<open>\<open>_profile_record\<close>: the source path and the profile of a registered id.\<close>

definition profile_record :: "policy_bundle \<Rightarrow> pyval \<Rightarrow> (pyval \<times> pyval) res" where
  "profile_record b profile_id =
     (if profile_id = PNone then Inr (PNone, PNone)
      else rbind (call_get_any (PDict (bundle_profiles b)) profile_id PNone) (\<lambda>record.
        if \<not> is_dict record then Inr (PNone, PNone)
        else let source = vget record ''source_path''; profile = vget record ''profile'' in
          Inr (if is_str source then source else PNone,
               if is_dict profile then profile else PNone)))"

definition canonical_order :: "pyval list \<Rightarrow> pyval list \<Rightarrow> pyval list res" where
  "canonical_order values declared =
     rbind (py_set (PList values)) (\<lambda>present. rfilter (\<lambda>x. in_set x present) declared)"

definition canonical_provenance :: "string list \<Rightarrow> string list" where
  "canonical_provenance values = keep_first [] values"

text \<open>The first unknown trigger stops the evaluation.\<close>

definition known_trigger_checks :: "pyval \<Rightarrow> pyval \<Rightarrow> pyval list \<Rightarrow> guard" where
  "known_trigger_checks global overrides triggers =
     each (\<lambda>(i, t). after (rbind (py_in t global) (\<lambda>g. if g then Inr True else py_in t overrides))
            (\<lambda>known. reject (\<not> known) ''POLICY_UNKNOWN_ID'' (item_path ''input.risk_triggers'' i)
              (''unknown risk trigger '' @ py_str t)))
       (numbered 0 triggers)"

text \<open>
  The declaration order of triggers: those of the risk policy, then the profile's own, sorted.
\<close>

definition trigger_order :: "pyval \<Rightarrow> pyval \<Rightarrow> pyval list res" where
  "trigger_order global overrides =
     rbind (py_iter global) (\<lambda>gs. rbind (py_set overrides) (\<lambda>os. rbind (py_set global) (\<lambda>gset.
       rbind (py_sorted (filter (\<lambda>o'. \<not> mem_list o' gset) os)) (\<lambda>own. Inr (gs @ own)))))"

text \<open>\<open>d[k]\<close> for a key of any type.\<close>

definition subscript_any :: "pyval \<Rightarrow> pyval \<Rightarrow> pyval res" where
  "subscript_any v k = (case v of
     PDict d \<Rightarrow> (if \<not> hashable k then Inl TypeError
                else case dfind d k of None \<Rightarrow> Inl KeyError | Some w \<Rightarrow> Inr w)
   | _ \<Rightarrow> Inl TypeError)"

text \<open>
  One step of the loop over the triggers. The state is the risk level so far and the
  provenance; a profile that has the trigger replaces the global level, never by a lower one.
\<close>

definition profile_path :: "pyval \<Rightarrow> pyval \<Rightarrow> string" where
  "profile_path source profile_id =
     (if truthy source then py_str source
      else ''project_profiles/'' @ py_str profile_id @ ''.yaml'')"

definition trigger_step ::
    "pyval \<Rightarrow> pyval \<Rightarrow> bool \<Rightarrow> string \<Rightarrow> pyval \<Rightarrow> pyval \<times> string list \<Rightarrow> (pyval \<times> string list) res"
where
  "trigger_step global overrides has_profile ppath t st =
     rbind (call_get_any global t PNone) (\<lambda>g.
     let prov = snd st @ (if g = PNone then [] else [''config/risk_policy.yaml:triggers.'' @ py_str t]);
         unknown = policy_error ''POLICY_UNKNOWN_ID'' ''input.risk_triggers''
           (''unknown risk trigger '' @ py_str t);
         raise_to = (\<lambda>level prov'.
           if level = PNone then Inl unknown
           else rbind (risk_order level) (\<lambda>n. rbind (risk_order (fst st)) (\<lambda>m.
             Inr (if m < n then level else fst st, prov')))) in
     rbind (if has_profile then py_in t overrides else Inr False) (\<lambda>own.
       if \<not> own then raise_to g prov
       else rbind (subscript_any overrides t) (\<lambda>p.
         let here = ppath @ '':risk_overrides.'' @ py_str t in
         rbind (if g = PNone then Inr False
                else rbind (risk_order p) (\<lambda>n. rbind (risk_order g) (\<lambda>m. Inr (n < m))))
           (\<lambda>lower. guarded (reject lower ''POLICY_PROFILE_DOWNGRADE_FORBIDDEN'' here
               ''project profile may not lower global risk level'')
             (raise_to p (prov @ [here]))))))"

definition risk_decision ::
    "policy_bundle \<Rightarrow> pyval \<Rightarrow> pyval list \<Rightarrow> (pyval \<times> string list) res" where
  "risk_decision b profile_id triggers =
     rbind (profile_record b profile_id) (\<lambda>(source, profile).
       let global = dget_or (bundle_risk b) ''triggers'' (PDict []);
           overrides = (if profile = PNone then PDict []
                        else dget_or (entries profile) ''risk_overrides'' (PDict [])) in
       guarded (known_trigger_checks global overrides triggers)
         (rbind (trigger_order global overrides) (\<lambda>decl.
         rbind (canonical_order triggers decl) (\<lambda>ordered.
           rfold (trigger_step global overrides (profile \<noteq> PNone) (profile_path source profile_id))
             ordered
             (dget_or (bundle_risk b) ''default_level'' (PStr ''R0''),
              if ordered = [] then [''config/risk_policy.yaml:default_level''] else [])))))"

subsection \<open>Routing\<close>

text \<open>\<open>_derive_routing_features\<close>: the set of features, as the list of its insertions.\<close>

definition attribute_features :: "pyval \<Rightarrow> pyval \<times> pyval \<Rightarrow> pyval list \<Rightarrow> pyval list res" where
  "attribute_features vocab row acc =
     rbind (call_get_any vocab (fst row) (PDict [])) (\<lambda>c.
     rbind (call_get c ''maps_to_features'' (PDict [])) (\<lambda>m.
     rbind (call_get_any m (snd row) (PList [])) (\<lambda>v.
     rbind (py_set v) (\<lambda>fs. Inr (acc @ fs)))))"

definition derive_routing_features :: "pyval \<Rightarrow> pyval \<Rightarrow> pydict \<Rightarrow> pyval list res" where
  "derive_routing_features attrs level routing =
     rbind (call_get_any (dget_or routing ''risk_conditions'' (PDict [])) level (PList [])) (\<lambda>v.
     rbind (py_set v) (\<lambda>base.
     rbind (py_items attrs) (\<lambda>rows.
       rfold (attribute_features (dget_or routing ''task_attributes'' (PDict []))) rows base)))"

text \<open>\<open>any(feature in features for feature in ...)\<close>, which stops at the first hit.\<close>

fun any_feature :: "pyval list \<Rightarrow> pyval list \<Rightarrow> bool res" where
  "any_feature features [] = Inr False"
| "any_feature features (f # fs) =
     rbind (in_set f features) (\<lambda>hit. if hit then Inr True else any_feature features fs)"

definition skill_required :: "pyval list \<Rightarrow> pyval \<times> pyval \<Rightarrow> bool res" where
  "skill_required features row =
     rbind (call_get (snd row) ''always'' PNone) (\<lambda>always.
       if always = PBool True then Inr True
       else rbind (call_get (snd row) ''when_any'' (PList [])) (\<lambda>v.
         rbind (py_iter v) (any_feature features)))"

definition derive_required_skills :: "pyval list \<Rightarrow> pydict \<Rightarrow> pyval list res" where
  "derive_required_skills features routing =
     rbind (py_items (dget_or routing ''skill_rule_features'' (PDict []))) (\<lambda>rows.
     rbind (rfilter (skill_required features) rows) (\<lambda>kept. Inr (map fst kept)))"

definition actor_role :: "pyval \<Rightarrow> pyval \<times> pyval \<Rightarrow> pydict \<Rightarrow> pydict res" where
  "actor_role level row roles =
     rbind (py_in (PStr ''always'') (snd row)) (\<lambda>always.
       if always then
         rbind (subscript (snd row) ''always'') (\<lambda>r. Inr (dset roles (fst row) r))
       else rbind (py_in level (snd row)) (\<lambda>own.
         if own then rbind (subscript_any (snd row) level) (\<lambda>r. Inr (dset roles (fst row) r))
         else Inr roles))"

definition derive_model_roles :: "pyval \<Rightarrow> pydict \<Rightarrow> pydict res" where
  "derive_model_roles level routing =
     rbind (py_items (dget_or routing ''model_role_rules'' (PDict []))) (\<lambda>rows.
       rfold (actor_role level) rows [])"

subsection \<open>Transitions and gates\<close>

definition gated_states :: "pyval list" where
  "gated_states = [PStr ''WAITING_HUMAN'', PStr ''ABANDONED'']"

definition human_gate_of :: "pyval list \<Rightarrow> pyval \<Rightarrow> bool" where
  "human_gate_of triggers level \<longleftrightarrow> triggers \<noteq> [] \<or> level = PStr ''R3''"

definition transitions_from :: "policy_bundle \<Rightarrow> pyval \<Rightarrow> pyval list res" where
  "transitions_from b state =
     rbind (call_get_any (dget_or (bundle_workflow b) ''transitions'' (PDict [])) state (PList []))
       py_iter"

definition authorize :: "bool \<Rightarrow> pyval list \<Rightarrow> pyval list res" where
  "authorize gate legal =
     (if gate then rfilter (\<lambda>s. in_set s gated_states) legal else Inr legal)"

definition level_gates :: "policy_bundle \<Rightarrow> pyval \<Rightarrow> pyval list res" where
  "level_gates b level =
     rbind (call_get_any (dget_or (bundle_risk b) ''levels'' (PDict [])) level (PDict [])) (\<lambda>c.
     rbind (call_get c ''required_gates'' (PList [])) py_iter)"

definition decision_result ::
    "pyval \<Rightarrow> bool \<Rightarrow> pyval list \<Rightarrow> pyval list \<Rightarrow> pydict \<Rightarrow> pyval list \<Rightarrow> pyval list
     \<Rightarrow> pyval list \<Rightarrow> string list \<Rightarrow> pyval" where
  "decision_result level gate triggers needed roles gates legal authorized provenance =
     PDict
      [(PStr ''decision_emitted'', PBool True),
       (PStr ''risk_level'', level),
       (PStr ''human_gate'', PBool gate),
       (PStr ''required_human_triggers'', PList triggers),
       (PStr ''required_skills'', PList needed),
       (PStr ''model_roles'', PDict roles),
       (PStr ''mandatory_gates'', PList gates),
       (PStr ''legal_transitions'', PList legal),
       (PStr ''authorized_transitions'', PList authorized),
       (PStr ''provenance'', PList (map PStr provenance)),
       (PStr ''fail_closed'', PBool False),
       (PStr ''error_code'', PNone),
       (PStr ''issues'', PList [])]"

definition all_provenance ::
    "string list \<Rightarrow> pyval list \<Rightarrow> pyval list \<Rightarrow> pydict \<Rightarrow> pyval \<Rightarrow> string list" where
  "all_provenance base triggers needed roles state = canonical_provenance
     (base @ map (\<lambda>t. ''config/human_decision_policy.yaml:triggers.'' @ py_str t) triggers
      @ map (\<lambda>s. ''config/skill_routing.yaml:skills.'' @ py_str s) needed
      @ map (\<lambda>p. ''config/model_routing.yaml:roles.'' @ py_str (snd p)) roles
      @ [''config/workflow_policy.yaml:transitions.'' @ py_str state])"

definition evaluate_normalized :: "pydict \<Rightarrow> policy_bundle \<Rightarrow> pyval res" where
  "evaluate_normalized d b =
     rbind (py_iter (dget_or d ''risk_triggers'' (PList []))) (\<lambda>risk_triggers.
     rbind (risk_decision b (dget d ''project_profile_id'') risk_triggers) (\<lambda>(level, prov).
     rbind (py_iter (dget_or d ''human_triggers'' (PList []))) (\<lambda>given.
     rbind (py_iter (dget_or (bundle_human b) ''triggers'' (PDict []))) (\<lambda>declared.
     rbind (canonical_order given declared) (\<lambda>triggers.
     let gate = human_gate_of triggers level in
     rbind (subscript (PDict d) ''current_state'') (\<lambda>state.
     rbind (transitions_from b state) (\<lambda>legal.
     rbind (authorize gate legal) (\<lambda>authorized.
     rbind (derive_routing_features (dget_or d ''task_attributes'' (PDict [])) level
              (bundle_routing b)) (\<lambda>features.
     rbind (derive_required_skills features (bundle_routing b)) (\<lambda>needed.
     rbind (derive_model_roles level (bundle_routing b)) (\<lambda>roles.
     rbind (level_gates b level) (\<lambda>gates.
       Inr (decision_result level gate triggers needed roles gates legal authorized
              (all_provenance prov triggers needed roles state))))))))))))))"

subsection \<open>The public entry point\<close>

definition result_envelope :: "pyval \<Rightarrow> pyval \<Rightarrow> pyval" where
  "result_envelope digest result = PDict
     [(PStr ''schema_version'', PInt 1),
      (PStr ''evaluation_id'', PStr ''INTERNAL''),
      (PStr ''project_id'', PStr ''ACGPS''),
      (PStr ''task_id'', PStr ''POLICY_EVALUATION''),
      (PStr ''policy_bundle_digest'', digest),
      (PStr ''result'', result),
      (PStr ''created_at_utc'', PStr ''1970-01-01T00:00:00Z'')]"

definition result_contract_check :: "pyval \<Rightarrow> guard" where
  "result_contract_check envelope =
     (case validate_contract ''policy_evaluation_result'' envelope ''runtime'' of
        Some (ContractValidationError _ (i # _)) \<Rightarrow>
          Some (PolicyEvaluationError ''POLICY_MALFORMED'' (issue_path i) (issue_message i))
      | other \<Rightarrow> other)"

definition validate_policy_result_contract :: "pyval \<Rightarrow> policy_bundle \<Rightarrow> guard" where
  "validate_policy_result_contract result b =
     (let levels = dget_or (bundle_risk b) ''levels'' (PDict []);
          level = vget result ''risk_level'' in first_err
       [result_contract_check (result_envelope (PStr (bundle_digest b)) result),
        (if vget result ''fail_closed'' = PBool True \<or> vget result ''decision_emitted'' = PBool False
         then None
         else first_err
           [after (py_in level levels) (\<lambda>known. reject (\<not> known) ''POLICY_UNKNOWN_ID''
              ''result.risk_level'' ''result risk level is undeclared''),
            after (rbind (subscript_any levels level) (\<lambda>c. call_get c ''required_gates'' PNone))
              (\<lambda>gates. reject (\<not> py_eq (vget result ''mandatory_gates'') gates) ''POLICY_CONFLICT''
                 ''result.mandatory_gates''
                 ''mandatory gates must match the selected risk level declaration'')])])"

record public_context =
  ctx_evaluation_id :: string
  ctx_project_id :: string
  ctx_task_id :: string
  ctx_created_at :: string

definition text_or :: "pyval \<Rightarrow> string \<Rightarrow> string" where
  "text_or v dflt = (case v of PStr s \<Rightarrow> s | _ \<Rightarrow> dflt)"

definition public_input_context :: "pyval \<Rightarrow> public_context option" where
  "public_input_context record =
     (case record of
        PDict d \<Rightarrow>
          (if \<not> looks_like_public_input d then None
           else let stamp = text_or (dget d ''created_at_utc'') [] in
             Some \<lparr>ctx_evaluation_id = text_or (dget d ''evaluation_id'') ''UNKNOWN'',
                   ctx_project_id = text_or (dget d ''project_id'') ''UNKNOWN'',
                   ctx_task_id = text_or (dget d ''task_id'') ''UNKNOWN'',
                   ctx_created_at = (if match_pattern ''dddd-dd-ddTdd:dd:ddZ'' stamp then stamp
                                     else ''1970-01-01T00:00:00Z'')\<rparr>)
      | _ \<Rightarrow> None)"

definition wrapped_result :: "public_context \<Rightarrow> pyval \<Rightarrow> pyval \<Rightarrow> pyval" where
  "wrapped_result c result digest = PDict
     [(PStr ''schema_version'', PInt 1),
      (PStr ''evaluation_id'', PStr (ctx_evaluation_id c)),
      (PStr ''project_id'', PStr (ctx_project_id c)),
      (PStr ''task_id'', PStr (ctx_task_id c)),
      (PStr ''policy_bundle_digest'', digest),
      (PStr ''result'', result),
      (PStr ''created_at_utc'', PStr (ctx_created_at c))]"

text \<open>
  \<open>_wrap_public_result\<close>: a wrapper that is no valid record carries a fail-closed result
  instead; any exception but a validation error leaves the function.
\<close>

definition wrap_public_result :: "public_context \<Rightarrow> pyval \<Rightarrow> pyval \<Rightarrow> pyval res" where
  "wrap_public_result c result digest =
     (case validate_contract ''policy_evaluation_result'' (wrapped_result c result digest)
             ''runtime'' of
        None \<Rightarrow> Inr (wrapped_result c result digest)
      | Some (ContractValidationError _ (i # _)) \<Rightarrow>
          Inr (wrapped_result c
            (fail_closed_result ''POLICY_MALFORMED'' (issue_path i) (issue_message i)) digest)
      | Some e \<Rightarrow> Inl e)"

definition fail_closed_of :: "exn \<Rightarrow> pyval" where
  "fail_closed_of e =
     (case e of
        PolicyEvaluationError code path msg \<Rightarrow> fail_closed_result code path msg
      | _ \<Rightarrow> fail_closed_result ''POLICY_MALFORMED'' (PStr ''policy'')
               (''policy evaluation failed closed: '' @ exn_class e))"

definition evaluated :: "string list \<Rightarrow> pyval \<Rightarrow> policy_bundle \<Rightarrow> pyval res" where
  "evaluated order record b =
     rbind (prevalidate_input order record b) (\<lambda>d.
     rbind (evaluate_normalized d b) (\<lambda>result.
       guarded (validate_policy_result_contract result b) (Inr result)))"

text \<open>
  \<open>evaluate_policy\<close>; \<open>source\<close> is the bundle that was passed or the outcome of loading one.
\<close>

definition evaluate_policy :: "string list \<Rightarrow> pyval \<Rightarrow> policy_bundle res \<Rightarrow> pyval res" where
  "evaluate_policy order record source =
     (let digest = (case source of Inl _ \<Rightarrow> PNone | Inr b \<Rightarrow> PStr (bundle_digest b));
          result = (case rbind source (evaluated order record) of
                      Inl e \<Rightarrow> fail_closed_of e | Inr r \<Rightarrow> r) in
      case public_input_context record of
        None \<Rightarrow> Inr result
      | Some c \<Rightarrow> wrap_public_result c result digest)"

end
