(* ===== verification/Policy_Result.thy ===== *)
theory Policy_Result
  imports Policy_Eval
begin

text \<open>
  What the contract of policy results gives: an accepted result is either fail-closed in the
  strict sense or a decision that respects its human gate. Only one rule of the contract can
  raise something other than a validation error (the membership test on authorized
  transitions); the lemmas on \<open>quiet\<close> logs show that no other part of the validator does.
\<close>

subsection \<open>Validators that raise nothing else\<close>

definition quiet :: "log \<Rightarrow> bool" where
  "quiet l \<longleftrightarrow> first_raise l = None"

lemma quiet_simps [simp]:
  "quiet []" "quiet (Emit i # l) = quiet l" "\<not> quiet (Raise e # l)" "quiet (emit_if b p m)"
  "quiet (emit_at p m # l) = quiet l"
  by (simp_all add: quiet_def emit_if_def emit_at_def)

lemma quiet_append [simp]: "quiet (k @ l) \<longleftrightarrow> quiet k \<and> quiet l"
  by (simp add: quiet_def first_raise_append split: option.splits)

lemma quiet_concat [simp]: "quiet (concat ls) \<longleftrightarrow> (\<forall>l \<in> set ls. quiet l)"
  by (induction ls) auto

lemma quiet_settle: "quiet l \<Longrightarrow> l \<noteq> [] \<Longrightarrow> \<exists>i is. settle name l = Some (ContractValidationError name (i # is))"
  using log_empty [of l] by (auto simp: quiet_def settle_def split: list.splits)

lemma settle_cases:
  "quiet l \<Longrightarrow> settle name l = None \<or> (\<exists>i is. settle name l = Some (ContractValidationError name (i # is)))"
  using quiet_settle by (cases "l = []") auto

lemma quiet_semantics [simp]: "quiet (validate_runtime_semantics path v mode)"
  by (simp add: validate_runtime_semantics_def Let_def)

lemma quiet_typed [simp]: "quiet (typed_check path tys v mode)"
  by (simp add: typed_check_def unexpected_type_def)

lemma quiet_checks [simp]:
  "quiet (allowed_check path f v mode)" "quiet (items_check path f v mode)"
  "quiet (map_values_check path f v mode)"
  by (auto simp: allowed_check_def items_check_def map_values_check_def split: option.splits)

lemma quiet_fields [simp]: "quiet (validate_fields path d fs mode)"
proof (induction path d fs mode rule: validate_fields.induct)
  case (1 path d fs mode)
  show ?case
    by (subst validate_fields.simps)
      (use 1 in \<open>auto simp: Let_def unexpected_type_def split: option.splits pyval.splits\<close>)
qed

lemma quiet_field [simp]: "quiet (validate_field d mode p)"
  by (auto simp: validate_field_def Let_def unexpected_type_def split: option.splits)

lemma quiet_mapping: "quiet (validate_mapping spec d mode) \<longleftrightarrow> quiet (contract_rules (spec_name spec) d mode)"
  by (auto simp: validate_mapping_def version_check_def unexpected_keys_def Let_def)

subsection \<open>The registered contract of policy results\<close>

lemma result_contract:
  "filter (\<lambda>c. spec_name c = ''policy_evaluation_result'') CONTRACTS =
     [\<lparr>spec_name = ''policy_evaluation_result'', spec_version = 1,
       spec_fields = policy_evaluation_result_contract\<rparr>]"
  by (simp add: CONTRACTS_def)

lemma get_result_contract:
  "get_contract ''policy_evaluation_result'' (Some 1) =
     Inr \<lparr>spec_name = ''policy_evaluation_result'', spec_version = 1,
          spec_fields = policy_evaluation_result_contract\<rparr>"
  by (simp add: get_contract_def current_version_def CONTRACTS_def)

lemma validate_wrapped:
  "validate_contract ''policy_evaluation_result'' (wrapped_result c r dg) ''runtime'' =
     settle ''policy_evaluation_result''
       (validate_mapping \<lparr>spec_name = ''policy_evaluation_result'', spec_version = 1,
          spec_fields = policy_evaluation_result_contract\<rparr> (entries (wrapped_result c r dg)) ''runtime'')"
  by (simp add: validate_contract_def wrapped_result_def get_result_contract)

lemma envelope_wrapped:
  "result_envelope dg r = wrapped_result
     \<lparr>ctx_evaluation_id = ''INTERNAL'', ctx_project_id = ''ACGPS'',
      ctx_task_id = ''POLICY_EVALUATION'', ctx_created_at = ''1970-01-01T00:00:00Z''\<rparr> r dg"
  by (simp add: result_envelope_def wrapped_result_def)

lemma wrapped_get [simp]:
  "dget (entries (wrapped_result c r dg)) ''result'' = r"
  "dget (entries (wrapped_result c r dg)) ''policy_bundle_digest'' = dg"
  by (simp_all add: wrapped_result_def)

subsection \<open>The rules of policy results, as a specification\<close>

lemma quiet_vocab_rows [simp]: "quiet (vocab_rows field vocabulary seen i vs)"
  by (induction field vocabulary seen i vs rule: vocab_rows.induct) auto

lemma quiet_list_vocab [simp]: "quiet (validate_policy_result_list_vocab r field vs b)"
  by (simp add: validate_policy_result_list_vocab_def Let_def)

lemma quiet_provenance_rows [simp]: "quiet (provenance_rows seen prev i vs)"
  by (induction seen prev i vs rule: provenance_rows.induct) auto

lemma quiet_provenance [simp]: "quiet (validate_policy_result_provenance r)"
  by (simp add: validate_policy_result_provenance_def Let_def)

lemma quiet_issue_rows [simp]: "quiet (fail_closed_issue_rows code seen i xs)"
  by (induction code seen i xs rule: fail_closed_issue_rows.induct) (auto simp: Let_def)

lemma quiet_mode_rules [simp]: "quiet (fail_closed_rules r)" "quiet (decision_rules r)"
  "quiet (model_roles_rules r)"
  by (auto simp: fail_closed_rules_def decision_rules_def model_roles_rules_def Let_def)

lemma quiet_result_rules:
  "quiet (validate_policy_evaluation_result d) \<longleftrightarrow>
     (is_dict (dget d ''result'') \<longrightarrow> quiet (transition_rules (entries (dget d ''result''))))"
  by (auto simp: validate_policy_evaluation_result_def Let_def)

lemma member_rows_Nil:
  assumes "transition_member_rows allowed msg ts = []" "t \<in> set ts"
  shows "hashable t \<and> mem_list t allowed"
proof -
  from numbered_mem_snd [OF assms(2), of 0] obtain i where "(i, t) \<in> set (numbered 0 ts)" ..
  with assms(1) show ?thesis
    unfolding transition_member_rows_def concat_map_Nil by (force split: if_splits)
qed

text \<open>
  What a consumer may rely on when a result emits a decision: it authorizes only legal
  transitions, a gated decision authorizes nothing but waiting for the human or abandoning,
  and the gate is closed whenever the level is R3 or a human trigger applies.
\<close>

definition gate_respected :: "pyval \<Rightarrow> bool" where
  "gate_respected r \<longleftrightarrow>
     (let authorized = elems (vget r ''authorized_transitions'');
          gate = vget r ''human_gate'' in
      list_all (\<lambda>t. t \<in> set (elems (vget r ''legal_transitions''))) authorized \<and>
      (gate = PBool True \<longrightarrow> list_all (\<lambda>t. t \<in> set gated_states) authorized) \<and>
      (vget r ''risk_level'' = PStr ''R3'' \<longrightarrow> gate = PBool True) \<and>
      (elems (vget r ''required_human_triggers'') \<noteq> [] \<longrightarrow> gate = PBool True))"

text \<open>A strict fail-closed result: no decision, R3, gated, nothing executable, a registered code.\<close>

definition closed_shut :: "pyval \<Rightarrow> bool" where
  "closed_shut r \<longleftrightarrow>
     vget r ''decision_emitted'' = PBool False \<and> vget r ''risk_level'' = PStr ''R3'' \<and>
     vget r ''human_gate'' = PBool True \<and> vget r ''fail_closed'' = PBool True \<and>
     list_all (\<lambda>f. vget r f = PList [] \<or> vget r f = PDict []) executable_fields \<and>
     is_str (vget r ''error_code'') \<and> str_of (vget r ''error_code'') \<in> set POLICY_ERROR_CODES \<and>
     elems (vget r ''issues'') \<noteq> []"

lemma closed_shut_empty:
  assumes "closed_shut r" "f \<in> set executable_fields"
  shows "elems (vget r f) = []"
proof -
  from assms have "vget r f = PList [] \<or> vget r f = PDict []"
    unfolding closed_shut_def list_all_iff by blast
  then show ?thesis by (auto simp: elems_def)
qed

lemma closed_shut_gate:
  assumes "closed_shut r"
  shows "gate_respected r"
proof -
  have "elems (vget r ''authorized_transitions'') = []"
    by (rule closed_shut_empty [OF assms]) (simp add: executable_fields_def)
  moreover have "vget r ''human_gate'' = PBool True" using assms unfolding closed_shut_def by blast
  ultimately show ?thesis by (simp add: gate_respected_def Let_def)
qed

lemma fail_closed_result_eq:
  obtains code' where "code' \<in> set POLICY_ERROR_CODES"
    and "fail_closed_result code path msg = PDict
       [(PStr ''decision_emitted'', PBool False), (PStr ''risk_level'', PStr ''R3''),
        (PStr ''human_gate'', PBool True), (PStr ''required_human_triggers'', PList []),
        (PStr ''required_skills'', PList []), (PStr ''model_roles'', PDict []),
        (PStr ''mandatory_gates'', PList []), (PStr ''legal_transitions'', PList []),
        (PStr ''authorized_transitions'', PList []), (PStr ''provenance'', PList []),
        (PStr ''fail_closed'', PBool True), (PStr ''error_code'', PStr code'),
        (PStr ''issues'', PList [PDict
          [(PStr ''code'', PStr code'), (PStr ''path'', path), (PStr ''message'', PStr msg)]])]"
proof
  have "''POLICY_MALFORMED'' \<in> set POLICY_ERROR_CODES" by (simp add: POLICY_ERROR_CODES_def)
  then show "(if code \<in> set POLICY_ERROR_CODES then code else ''POLICY_MALFORMED'')
      \<in> set POLICY_ERROR_CODES" by simp
qed (simp only: fail_closed_result_def Let_def)

lemma fail_closed_result_shut: "closed_shut (fail_closed_result code path msg)"
proof -
  obtain code' where "code' \<in> set POLICY_ERROR_CODES"
    "fail_closed_result code path msg = PDict
       [(PStr ''decision_emitted'', PBool False), (PStr ''risk_level'', PStr ''R3''),
        (PStr ''human_gate'', PBool True), (PStr ''required_human_triggers'', PList []),
        (PStr ''required_skills'', PList []), (PStr ''model_roles'', PDict []),
        (PStr ''mandatory_gates'', PList []), (PStr ''legal_transitions'', PList []),
        (PStr ''authorized_transitions'', PList []), (PStr ''provenance'', PList []),
        (PStr ''fail_closed'', PBool True), (PStr ''error_code'', PStr code'),
        (PStr ''issues'', PList [PDict
          [(PStr ''code'', PStr code'), (PStr ''path'', path), (PStr ''message'', PStr msg)]])]"
    by (rule fail_closed_result_eq)
  then show ?thesis by (simp add: closed_shut_def executable_fields_def)
qed

text \<open>The fields of an accepted result have their types.\<close>

lemma accepted_result_fields:
  assumes "validate_contract ''policy_evaluation_result'' (wrapped_result c r dg) ''runtime'' = None"
  shows "is_dict r" "conforms (entries r) POLICY_EVALUATION_RESULT_FIELDS ''runtime''"
    "validate_policy_evaluation_result (entries (wrapped_result c r dg)) = []"
proof -
  let ?d = "entries (wrapped_result c r dg)"
  have d: "wrapped_result c r dg = PDict ?d" by (simp add: wrapped_result_def)
  have "validate_contract ''policy_evaluation_result'' (PDict ?d) ''runtime'' = None"
    using assms d by simp
  note acc = accepted_conforms [OF this result_contract, unfolded contract_spec.select_convs]
  from acc(3) show "validate_policy_evaluation_result ?d = []" by (simp add: contract_rules_def)
  let ?f = "FieldSpec [TyDict] True True None (Some POLICY_EVALUATION_RESULT_FIELDS) None None None"
  have mem: "(''result'', ?f) \<in> set policy_evaluation_result_contract"
    by (simp add: policy_evaluation_result_contract_def)
  have "typed_ok [TyDict] ''runtime'' (dget ?d ''result'')"
    using conforms_field(2) [OF acc(2) mem] by simp
  then show "is_dict r" by simp
  then have "dget ?d ''result'' = PDict (entries r)" by (auto simp: is_dict_iff)
  with conforms_sub [OF acc(2) mem] show "conforms (entries r) POLICY_EVALUATION_RESULT_FIELDS ''runtime''"
    by simp
qed

lemma accepted_result_types:
  assumes "conforms d POLICY_EVALUATION_RESULT_FIELDS ''runtime''"
  shows "is_bool (dget d ''fail_closed'')" "is_bool (dget d ''human_gate'')"
    "is_list (dget d ''authorized_transitions'')" "is_list (dget d ''legal_transitions'')"
    "is_list (dget d ''required_human_triggers'')"
    "\<forall>t \<in> set (elems (dget d ''authorized_transitions'')). is_str t"
proof -
  have field: "typed_ok (expected_type f) ''runtime'' (dget d n)"
      "collections_ok f (dget d n) ''runtime''"
    if "(n, f) \<in> set POLICY_EVALUATION_RESULT_FIELDS" "required f" for n f
    using conforms_field [OF assms that] by auto
  note F = POLICY_EVALUATION_RESULT_FIELDS_def
  show "is_bool (dget d ''fail_closed'')" "is_bool (dget d ''human_gate'')"
    using field(1) [of "''fail_closed''" "simple_field [TyBool]"]
      field(1) [of "''human_gate''" "simple_field [TyBool]"] by (simp_all add: F)
  show "is_list (dget d ''authorized_transitions'')" "is_list (dget d ''legal_transitions'')"
    "is_list (dget d ''required_human_triggers'')"
    using field(1) [of "''authorized_transitions''" STRING_LIST]
      field(1) [of "''legal_transitions''" STRING_LIST]
      field(1) [of "''required_human_triggers''" STRING_LIST] by (simp_all add: F STRING_LIST_def)
  have "collections_ok STRING_LIST (dget d ''authorized_transitions'') ''runtime''"
    by (rule field(2)) (simp_all add: F, simp add: STRING_LIST_def)
  then show "\<forall>t \<in> set (elems (dget d ''authorized_transitions'')). is_str t"
    by (simp add: collections_ok_def STRING_LIST_def list_all_iff)
qed

lemma decision_gate:
  assumes rules: "validate_policy_evaluation_result d = []"
    and res: "dget d ''result'' = PDict e"
    and types: "conforms e POLICY_EVALUATION_RESULT_FIELDS ''runtime''"
    and open_: "dget e ''fail_closed'' = PBool False"
  shows "gate_respected (PDict e)"
proof -
  note ty = accepted_result_types [OF types]
  have trans: "transition_rules e = []" and dec: "decision_rules e = []"
    using rules res open_ by (simp_all add: validate_policy_evaluation_result_def Let_def)
  let ?auth = "elems (dget e ''authorized_transitions'')"
  have legal: "t \<in> set (elems (dget e ''legal_transitions''))" if t: "t \<in> set ?auth" for t
  proof -
    have rows: "transition_member_rows (filter is_str (elems (dget e ''legal_transitions'')))
        ''must also be present in legal_transitions'' ?auth = []"
      using trans ty by (simp add: transition_rules_def Let_def)
    from t ty(6) obtain s where s: "t = PStr s" by (auto simp: is_str_iff)
    from member_rows_Nil [OF rows t] show ?thesis by (simp add: s)
  qed
  have gated: "t \<in> set gated_states"
    if t: "t \<in> set ?auth" and g: "dget e ''human_gate'' = PBool True" for t
  proof -
    have rows: "transition_member_rows gated_states
        ''human-gated results may authorize only WAITING_HUMAN or ABANDONED'' ?auth = []"
      using trans ty g by (simp add: transition_rules_def Let_def gated_states_def)
    from t ty(6) obtain s where s: "t = PStr s" by (auto simp: is_str_iff)
    from member_rows_Nil [OF rows t] show ?thesis by (simp add: s)
  qed
  have "dget e ''risk_level'' = PStr ''R3'' \<Longrightarrow> dget e ''human_gate'' = PBool True"
    "elems (dget e ''required_human_triggers'') \<noteq> [] \<Longrightarrow> dget e ''human_gate'' = PBool True"
    using dec ty(5) by (simp_all add: decision_rules_def Let_def)
  with legal gated show ?thesis by (simp add: gate_respected_def Let_def list_all_iff)
qed

lemma accepted_decision:
  assumes "validate_contract ''policy_evaluation_result'' (wrapped_result c r dg) ''runtime'' = None"
    and "vget r ''fail_closed'' = PBool False"
  shows "gate_respected r"
  using accepted_result_fields [OF assms(1)] assms(2)
  by (auto simp: is_dict_iff intro!: decision_gate [of "entries (wrapped_result c r dg)"])

subsection \<open>Results of the evaluator\<close>

text \<open>The stages of a successful evaluation.\<close>

lemma evaluate_normalizedE:
  assumes "evaluate_normalized d b = Inr r"
  obtains given_risks level base given declared triggers gate state legal authorized features
    needed roles gates
  where "py_iter (dget_or d ''risk_triggers'' (PList [])) = Inr given_risks"
    "risk_decision b (dget d ''project_profile_id'') given_risks = Inr (level, base)"
    "py_iter (dget_or d ''human_triggers'' (PList [])) = Inr given"
    "py_iter (dget_or (bundle_human b) ''triggers'' (PDict [])) = Inr declared"
    "canonical_order given declared = Inr triggers"
    "gate = human_gate_of triggers level"
    "subscript (PDict d) ''current_state'' = Inr state"
    "transitions_from b state = Inr legal"
    "authorize gate legal = Inr authorized"
    "derive_routing_features (dget_or d ''task_attributes'' (PDict [])) level (bundle_routing b) =
       Inr features"
    "derive_required_skills features (bundle_routing b) = Inr needed"
    "derive_model_roles level (bundle_routing b) = Inr roles"
    "level_gates b level = Inr gates"
    "r = decision_result level gate triggers needed roles gates legal authorized
       (all_provenance base triggers needed roles state)"
  using assms
  by (clarsimp simp: evaluate_normalized_def rbind_Inr Let_def)

lemma evaluate_normalized_shape:
  assumes "evaluate_normalized d b = Inr r"
  shows "\<exists>level gate triggers needed roles gates legal authorized prov.
    r = decision_result level gate triggers needed roles gates legal authorized prov"
  using assms by (elim evaluate_normalizedE) blast

lemma evaluated_Inr:
  "evaluated order record b = Inr r \<longleftrightarrow>
     (\<exists>d. prevalidate_input order record b = Inr d \<and> evaluate_normalized d b = Inr r \<and>
          validate_policy_result_contract r b = None)"
  by (auto simp: evaluated_def rbind_Inr guarded_Inr)

lemma result_contract_check_None:
  "result_contract_check v = None \<longleftrightarrow>
     validate_contract ''policy_evaluation_result'' v ''runtime'' = None"
  by (simp add: result_contract_check_def split: option.splits exn.splits list.splits)

lemma evaluated_contract:
  assumes "evaluated order record b = Inr r"
  shows "validate_contract ''policy_evaluation_result'' (result_envelope (PStr (bundle_digest b)) r)
           ''runtime'' = None"
  using assms
  by (auto simp: evaluated_Inr validate_policy_result_contract_def Let_def result_contract_check_None
      split: option.splits)

lemma evaluated_decision:
  assumes "evaluated order record b = Inr r"
  shows "vget r ''fail_closed'' = PBool False" "vget r ''decision_emitted'' = PBool True"
    "gate_respected r"
proof -
  from assms show closed: "vget r ''fail_closed'' = PBool False"
    and "vget r ''decision_emitted'' = PBool True"
    by (auto simp: evaluated_Inr decision_result_def dest!: evaluate_normalized_shape)
  show "gate_respected r"
    by (rule accepted_decision [OF evaluated_contract [OF assms, unfolded envelope_wrapped] closed])
qed

lemma wrap_total:
  assumes "quiet (validate_policy_evaluation_result (entries (wrapped_result c r dg)))"
  shows "wrap_public_result c r dg = Inr (wrapped_result c r dg) \<or>
    (\<exists>p m. wrap_public_result c r dg =
       Inr (wrapped_result c (fail_closed_result ''POLICY_MALFORMED'' p m) dg))"
proof -
  have "quiet (validate_mapping \<lparr>spec_name = ''policy_evaluation_result'', spec_version = 1,
      spec_fields = policy_evaluation_result_contract\<rparr> (entries (wrapped_result c r dg)) ''runtime'')"
    using assms by (simp add: quiet_mapping contract_rules_def)
  from settle_cases [OF this, of "''policy_evaluation_result''"]
  show ?thesis unfolding wrap_public_result_def validate_wrapped by (elim disjE exE) auto
qed

lemma fail_closed_quiet:
  "quiet (validate_policy_evaluation_result (entries (wrapped_result c (fail_closed_result e p m) dg)))"
proof -
  have "elems (vget (fail_closed_result e p m) ''authorized_transitions'') = []"
    by (rule closed_shut_empty [OF fail_closed_result_shut]) (simp add: executable_fields_def)
  moreover have "fail_closed_result e p m = PDict (entries (fail_closed_result e p m))"
    by (simp add: fail_closed_result_def Let_def)
  ultimately have "elems (dget (entries (fail_closed_result e p m)) ''authorized_transitions'') = []"
    by (metis vget_PDict)
  then have "quiet (transition_rules (entries (fail_closed_result e p m)))"
    by (auto simp: transition_rules_def transition_member_rows_def Let_def)
  then show ?thesis by (simp add: quiet_result_rules)
qed

lemma accepted_quiet:
  assumes "validate_contract ''policy_evaluation_result'' (result_envelope dg r) ''runtime'' = None"
  shows "quiet (validate_policy_evaluation_result (entries (wrapped_result c r dg')))"
proof -
  have nil: "validate_policy_evaluation_result (entries (result_envelope dg r)) = []"
    using accepted_result_fields(3) [OF assms [unfolded envelope_wrapped]] by (simp add: envelope_wrapped)
  have "dget (entries (result_envelope dg r)) ''result'' = r" by (simp add: envelope_wrapped)
  with nil have "is_dict r \<longrightarrow> quiet (transition_rules (entries r))"
    using quiet_result_rules [of "entries (result_envelope dg r)"] by simp
  then show ?thesis by (simp add: quiet_result_rules)
qed

text \<open>The part of an answer that decides, in and out of the public wrapper.\<close>

definition result_part :: "pyval \<Rightarrow> pyval \<Rightarrow> pyval" where
  "result_part record v =
     (case public_input_context record of None \<Rightarrow> v | Some _ \<Rightarrow> vget v ''result'')"

lemma wrapped_result_part: "vget (wrapped_result c r dg) ''result'' = r"
  by (simp add: wrapped_result_def)

text \<open>A step-by-step reading of \<open>evaluate_policy\<close>: every answer comes from one of two cases.\<close>

lemma evaluate_policy_cases:
  obtains (closed) v where "evaluate_policy order record source = Inr v"
      "\<exists>e p m. result_part record v = fail_closed_result e p m"
    | (decided) b r v where "source = Inr b" "evaluated order record b = Inr r"
      "evaluate_policy order record source = Inr v" "result_part record v = r"
proof (cases "rbind source (evaluated order record)")
  case (Inl e)
  then have shut: "\<exists>c p m. fail_closed_of e = fail_closed_result c p m"
    by (auto simp: fail_closed_of_def split: exn.splits)
  then obtain co p m where eq: "fail_closed_of e = fail_closed_result co p m" by blast
  show ?thesis
  proof (cases "public_input_context record")
    case None
    show ?thesis
      by (rule closed [of "fail_closed_of e"])
        (use None Inl eq in \<open>auto simp: evaluate_policy_def result_part_def\<close>)
  next
    case (Some c)
    let ?dg = "case source of Inl _ \<Rightarrow> PNone | Inr b \<Rightarrow> PStr (bundle_digest b)"
    have ep: "evaluate_policy order record source = wrap_public_result c (fail_closed_result co p m) ?dg"
      using Some Inl eq by (simp add: evaluate_policy_def)
    from wrap_total [OF fail_closed_quiet, of c co p m ?dg] show ?thesis
      using closed Some unfolding ep [symmetric] result_part_def
      by (elim disjE exE) (auto simp: wrapped_result_part)
  qed
next
  case (Inr r)
  then obtain b where b: "source = Inr b" "evaluated order record b = Inr r" by (auto simp: rbind_Inr)
  show ?thesis
  proof (cases "public_input_context record")
    case None
    then show ?thesis using decided [OF b] b by (simp add: evaluate_policy_def result_part_def)
  next
    case (Some c)
    have ep: "evaluate_policy order record source = wrap_public_result c r (PStr (bundle_digest b))"
      using Some b by (simp add: evaluate_policy_def)
    from wrap_total [OF accepted_quiet [OF evaluated_contract [OF b(2)]], of c "PStr (bundle_digest b)"]
    show ?thesis
      using decided [OF b] closed Some unfolding ep [symmetric] result_part_def
      by (elim disjE exE) (auto simp: wrapped_result_part)
  qed
qed

end
