(* ===== verification/Policy_Wf.thy ===== *)
theory Policy_Wf
  imports Policy_Load
begin

text \<open>
  Well-formed policy bundles: what \<open>load_policy_bundle\<close> guarantees of the documents it returns
  and what the evaluator relies on. Each predicate is the abstract content of one validator;
  the lemmas show that the validator accepts nothing else.
\<close>

definition vocab_list :: "string list \<Rightarrow> pyval \<Rightarrow> bool" where
  "vocab_list vocabulary v \<longleftrightarrow>
     is_list v \<and> distinct (elems v) \<and> list_all (\<lambda>x. mem_list x (map PStr vocabulary)) (elems v)"

definition workflow_ok :: "pydict \<Rightarrow> bool" where
  "workflow_ok w \<longleftrightarrow>
     (let states = dget w ''task_states''; rows = dget w ''transitions'' in
      vocab_list TASK_STATES states \<and> is_dict rows \<and>
      list_all (\<lambda>s. s \<in> fst ` set (entries rows)) (elems states) \<and>
      list_all (\<lambda>(k, v). k \<in> set (elems states) \<and> vocab_list (strs (elems states)) v)
        (entries rows))"

definition level_row_ok :: "pyval \<Rightarrow> bool" where
  "level_row_ok c \<longleftrightarrow>
     vocab_list POLICY_GATE_IDS (vget c ''required_gates'') \<and> elems (vget c ''required_gates'') \<noteq> []"

definition risk_ok :: "pydict \<Rightarrow> bool" where
  "risk_ok r \<longleftrightarrow>
     (let levels = dget r ''levels''; triggers = dget r ''triggers'' in
      level_of (dget r ''default_level'') \<noteq> None \<and>
      is_dict levels \<and> list_all (\<lambda>(k, c). level_of k \<noteq> None \<and> level_row_ok c) (entries levels) \<and>
      list_all (\<lambda>n. dhas (entries levels) n) (map fst RISK_ORDER) \<and>
      is_dict triggers \<and> list_all (\<lambda>(k, v). is_str k \<and> level_of v \<noteq> None) (entries triggers))"

definition human_ok :: "pydict \<Rightarrow> bool" where
  "human_ok h \<longleftrightarrow>
     is_dict (dget h ''triggers'') \<and>
     list_all (\<lambda>(k, _). mem_list k (map PStr HUMAN_DECISION_TRIGGERS)) (entries (dget h ''triggers''))"

text \<open>
  A profile may keep or raise the level of a global trigger; lowering one is allowed only
  under an explicit policy switch.
\<close>

definition overrides_ok :: "pydict \<Rightarrow> pyval \<Rightarrow> bool" where
  "overrides_ok r overrides \<longleftrightarrow>
     is_dict overrides \<and>
     list_all (\<lambda>(k, v). is_str k \<and>
       (case level_of v of
          None \<Rightarrow> False
        | Some l \<Rightarrow>
            dget r ''project_profile_may_lower_risk'' = PBool False \<longrightarrow>
            (case level_of (vget (dget r ''triggers'') (str_of k)) of
               None \<Rightarrow> True | Some g \<Rightarrow> g \<le> l))) (entries overrides)"

definition profile_ok :: "pydict \<Rightarrow> pydict \<Rightarrow> bool" where
  "profile_ok r p \<longleftrightarrow>
     overrides_ok r (dget p ''risk_overrides'') \<and> is_str (dget p ''profile_id'') \<and>
     list_all (\<lambda>(k, v). is_str v \<and> is_safe_relative_path (str_of v))
       (entries (dget p ''required_files''))"

definition registry_ok :: "pydict \<Rightarrow> pydict \<Rightarrow> bool" where
  "registry_ok r reg \<longleftrightarrow>
     distinct (map fst reg) \<and>
     list_all (\<lambda>(k, v). is_str k \<and> is_dict (vget v ''profile'') \<and>
       profile_ok r (entries (vget v ''profile'')) \<and>
       dget (entries (vget v ''profile'')) ''profile_id'' = k) reg"

definition bundle_ok :: "policy_bundle \<Rightarrow> bool" where
  "bundle_ok b \<longleftrightarrow>
     workflow_ok (bundle_workflow b) \<and> risk_ok (bundle_risk b) \<and> human_ok (bundle_human b) \<and>
     registry_ok (bundle_risk b) (bundle_profiles b)"

subsection \<open>Lists and keys\<close>

lemma mem_list_str_keys: "set ks \<subseteq> range PStr \<Longrightarrow> mem_list v ks \<longleftrightarrow> v \<in> set ks"
  by (induction ks) auto

lemma each_numbered:
  "(\<And>i x. f (i, x) = None \<longleftrightarrow> P x) \<Longrightarrow> each f (numbered 0 xs) = None \<longleftrightarrow> (\<forall>x \<in> set xs. P x)"
  using numbered_ball [of 0 xs P] by (auto simp: split_paired_all)

lemma string_list_vocab:
  assumes "require_string_list v path = None"
    and "\<forall>x \<in> set (elems v). mem_list x (map PStr vocabulary)"
  shows "vocab_list vocabulary v"
proof -
  obtain ss where "v = PList (map PStr ss)" "distinct ss"
    using require_string_list_None [OF assms(1)] by blast
  then show ?thesis using assms(2)
    by (auto simp: vocab_list_def list_all_iff distinct_map inj_on_def)
qed

lemma same_keys_None:
  assumes "require_same_keys names d path m x = None"
  shows "set (map fst d) = PStr ` set names"
proof -
  have eq: "set_eq (map PStr names) (map fst d)"
  proof (rule ccontr)
    assume ne: "\<not> set_eq (map PStr names) (map fst d)"
    from assms ne obtain ex where
        miss: "sort (filter (\<lambda>n. \<not> mem_list (PStr n) (map fst d)) (remdups names)) = []"
        and ex: "py_sorted (filter (\<lambda>k. \<not> mem_list k (map PStr names)) (map fst d)) = Inr ex" "ex = []"
      by (auto simp: require_same_keys_def Let_def)
    from ex have "length (filter (\<lambda>k. \<not> mem_list k (map PStr names)) (map fst d)) = 0"
      using py_sorted_length [OF ex(1)] by simp
    then have extra: "\<forall>k \<in> set (map fst d). mem_list k (map PStr names)"
      by (simp only: length_0_conv filter_empty_conv) blast
    from arg_cong [OF miss, of length] have "\<forall>n \<in> set names. mem_list (PStr n) (map fst d)"
      by (simp only: length_sort list.size length_0_conv filter_empty_conv set_remdups) blast
    with extra have "set_eq (map PStr names) (map fst d)"
      by (simp add: set_eq_def list_all_iff)
    with ne show False ..
  qed
  show ?thesis
  proof
    show "set (map fst d) \<subseteq> PStr ` set names"
      using eq by (auto simp: set_eq_def list_all_iff mem_list_strs)
    show "PStr ` set names \<subseteq> set (map fst d)"
      using eq by (auto simp: set_eq_def list_all_iff)
  qed
qed

subsection \<open>Validators guarantee well-formedness\<close>

lemma validate_workflow_ok: "validate_workflow_policy w = None \<Longrightarrow> workflow_ok w"
proof -
  assume acc: "validate_workflow_policy w = None"
  let ?p = "''config/workflow_policy.yaml''"
  let ?states = "dget w ''task_states''" and ?rows = "dget w ''transitions''"
  note g = first_err_mem [OF acc [unfolded validate_workflow_policy_def Let_def]]
  have lst: "require_string_list ?states (?p @ '':task_states'') = None"
    by (rule g) (simp only: listed)
  have known: "each (\<lambda>(i, s). reject (\<not> mem_list s (map PStr TASK_STATES)) ''POLICY_UNKNOWN_ID''
       (item_path (?p @ '':task_states'') i) ''unknown workflow state'') (numbered 0 (elems ?states)) = None"
    by (rule g) (simp only: listed)
  have "reject (\<not> is_dict ?rows) ''POLICY_TYPE_ERROR'' (?p @ '':transitions'')
          ''workflow transitions must be a mapping'' = None"
    by (rule g) (simp only: listed)
  then have dict: "is_dict ?rows" by simp
  have same: "require_same_keys (strs (elems ?states)) (entries ?rows) (?p @ '':transitions'')
       ''workflow state is missing a transition row'' ''unknown transition source state'' = None"
    by (rule g) (simp only: listed)
  have rows: "each (validate_transition_row (elems ?states) ?p) (entries ?rows) = None"
    by (rule g) (simp only: listed)
  obtain ss where ss: "?states = PList (map PStr ss)"
    using require_string_list_None [OF lst] by blast
  have states: "vocab_list TASK_STATES ?states"
  proof (rule string_list_vocab [OF lst])
    show "\<forall>x \<in> set (elems ?states). mem_list x (map PStr TASK_STATES)"
      using known by (subst (asm) each_numbered) simp_all
  qed
  have keys: "set (map fst (entries ?rows)) = set (elems ?states)"
    using same_keys_None [OF same] by (simp add: ss)
  have row: "vocab_list (strs (elems ?states)) v" if "(k, v) \<in> set (entries ?rows)" for k v
  proof -
    from rows that have "validate_transition_row (elems ?states) ?p (k, v) = None" by simp
    note r = first_err_mem [OF this [unfolded validate_transition_row_def Let_def fst_conv snd_conv]]
    have rl: "require_string_list v (?p @ '':transitions.'' @ py_str k) = None"
      by (rule r) (simp only: listed)
    have rt: "each (\<lambda>(i, t). reject (\<not> mem_list t (elems ?states)) ''POLICY_UNKNOWN_ID''
         (item_path (?p @ '':transitions.'' @ py_str k) i) ''unknown workflow transition target'')
         (numbered 0 (elems v)) = None"
      by (rule r) (simp only: listed)
    then have "\<forall>x \<in> set (elems v). mem_list x (elems ?states)"
      by (subst (asm) each_numbered) simp_all
    then show ?thesis by (intro string_list_vocab [OF rl]) (simp add: ss)
  qed
  have "list_all (\<lambda>s. s \<in> fst ` set (entries ?rows)) (elems ?states)"
    using keys by (simp only: list_all_iff set_map) simp
  moreover have "list_all (\<lambda>(k, v). k \<in> set (elems ?states) \<and> vocab_list (strs (elems ?states)) v)
        (entries ?rows)"
    unfolding list_all_iff
  proof (rule ballI, rule case_prodI2, rule conjI)
    fix x k v assume x: "x \<in> set (entries ?rows)" "x = (k, v)"
    then show "k \<in> set (elems ?states)" using keys by force
    from x show "vocab_list (strs (elems ?states)) v" by (intro row) simp
  qed
  ultimately show ?thesis using states dict by (simp only: workflow_ok_def Let_def simp_thms)
qed

lemma validate_level_row_ok:
  assumes "validate_level_row path (k, c) = None"
  shows "level_of k \<noteq> None" "level_row_ok c"
proof -
  let ?h = "path @ '':levels.'' @ py_str k" and ?gates = "dget (entries c) ''required_gates''"
  note g = first_err_mem [OF assms [unfolded validate_level_row_def Let_def fst_conv snd_conv]]
  have "after (in_risk_order k) (\<lambda>known. reject (\<not> known) ''POLICY_UNKNOWN_ID'' ?h ''unknown risk level'') = None"
    by (rule g) (simp only: listed)
  then show "level_of k \<noteq> None" by (auto dest: in_risk_order_level)
  have "reject (\<not> is_dict c) ''POLICY_TYPE_ERROR'' ?h ''risk level must be a mapping'' = None"
    by (rule g) (simp only: listed)
  then have c: "vget c ''required_gates'' = ?gates" by (auto simp: is_dict_iff)
  have lst: "require_string_list ?gates (path @ '':levels.'' @ py_str k @ ''.required_gates'') = None"
    by (rule g) (simp only: listed)
  have "each (\<lambda>(i, x). reject (\<not> mem_list x (map PStr POLICY_GATE_IDS)) ''POLICY_UNKNOWN_ID''
      (item_path (path @ '':levels.'' @ py_str k @ ''.required_gates'') i) ''unknown gate id'')
      (numbered 0 (elems ?gates)) = None"
    by (rule g) (simp only: listed)
  then have "\<forall>x \<in> set (elems ?gates). mem_list x (map PStr POLICY_GATE_IDS)"
    by (subst (asm) each_numbered) simp_all
  moreover have "reject (elems ?gates = []) ''POLICY_TYPE_ERROR''
      (path @ '':levels.'' @ py_str k @ ''.required_gates'')
      ''risk level must declare at least one mandatory gate'' = None"
    by (rule g) (simp only: listed)
  ultimately show "level_row_ok c"
    unfolding level_row_ok_def c using string_list_vocab [OF lst] by simp
qed

lemma validate_risk_ok:
  assumes acc: "validate_risk_policy r = None"
    and def: "after (py_in (dget r ''default_level'') (dget_or r ''levels'' (PDict [])))
      (\<lambda>known. reject (\<not> known) c p m) = None"
  shows "risk_ok r"
proof -
  let ?p = "''config/risk_policy.yaml''" and ?levels = "dget r ''levels''" and ?trig = "dget r ''triggers''"
  note g = first_err_mem [OF acc [unfolded validate_risk_policy_def Let_def]]
  have "reject (\<not> is_dict ?levels) ''POLICY_TYPE_ERROR'' (?p @ '':levels'')
      ''risk levels must be a mapping'' = None" by (rule g) (simp only: listed)
  then have levels: "is_dict ?levels" by simp
  have "reject (\<not> is_dict ?trig) ''POLICY_TYPE_ERROR'' (?p @ '':triggers'')
      ''risk triggers must be a mapping'' = None" by (rule g) (simp only: listed)
  then have trig: "is_dict ?trig" by simp
  have "require_same_keys (map fst RISK_ORDER) (entries ?levels) (?p @ '':levels'')
      ''required risk level is undeclared'' ''unknown risk level'' = None"
    by (rule g) (simp only: listed)
  note keys = same_keys_None [OF this]
  have rows: "each (validate_level_row ?p) (entries ?levels) = None"
    by (rule g) (simp only: listed)
  have trows: "each (validate_trigger_row (entries ?levels) ?p) (entries ?trig) = None"
    by (rule g) (simp only: listed)
  have name: "level_of v \<noteq> None" if "mem_list v (map fst (entries ?levels))" for v
  proof -
    from keys have "set (map fst (entries ?levels)) \<subseteq> range PStr" by auto
    with that have "v \<in> set (map fst (entries ?levels))" by (simp only: mem_list_str_keys)
    with keys have "v \<in> PStr ` set (map fst RISK_ORDER)" by simp
    then show ?thesis by (auto simp: RISK_ORDER_def level_of_def)
  qed
  have "level_of (dget r ''default_level'') \<noteq> None"
  proof (rule name)
    have "dget_or r ''levels'' (PDict []) = ?levels"
      using levels by (auto simp: dget_or_def dget_def split: option.splits)
    with def levels show "mem_list (dget r ''default_level'') (map fst (entries ?levels))"
      by (auto simp: is_dict_iff py_in_def in_set_def split: if_splits)
  qed
  moreover have "level_of k \<noteq> None \<and> level_row_ok c" if "(k, c) \<in> set (entries ?levels)" for k c
  proof -
    from rows that have "validate_level_row ?p (k, c) = None" by simp
    then show ?thesis using validate_level_row_ok by blast
  qed
  moreover have "list_all (\<lambda>n. dhas (entries ?levels) n) (map fst RISK_ORDER)"
    using keys by (auto simp: list_all_iff dhas_iff_key)
  moreover have "is_str k \<and> level_of v \<noteq> None" if "(k, v) \<in> set (entries ?trig)" for k v
  proof -
    from trows that have row: "validate_trigger_row (entries ?levels) ?p (k, v) = None" by simp
    then have "is_str k" "in_set v (map fst (entries ?levels)) = Inr True"
      unfolding validate_trigger_row_def first_err_None by auto
    then show ?thesis using name [of v] by (auto simp: in_set_def split: if_splits)
  qed
  ultimately show ?thesis using levels trig
    unfolding risk_ok_def Let_def list_all_iff by fast
qed

lemma validate_human_ok:
  assumes acc: "validate_human_policy h = None"
  shows "human_ok h"
proof -
  let ?p = "''config/human_decision_policy.yaml''" and ?t = "dget h ''triggers''"
  note g = first_err_mem [OF acc [unfolded validate_human_policy_def Let_def]]
  have "reject (\<not> is_dict ?t) ''POLICY_TYPE_ERROR'' (?p @ '':triggers'')
      ''human triggers must be a mapping'' = None" by (rule g) (simp only: listed)
  then have t: "is_dict ?t" by simp
  have rows: "each (validate_human_trigger_row ?p) (entries ?t) = None"
    by (rule g) (simp only: listed)
  have "mem_list k (map PStr HUMAN_DECISION_TRIGGERS)" if "(k, c) \<in> set (entries ?t)" for k c
  proof -
    from rows that have "validate_human_trigger_row ?p (k, c) = None" by simp
    note r = first_err_mem [OF this [unfolded validate_human_trigger_row_def Let_def fst_conv snd_conv]]
    have "reject (\<not> mem_list k (map PStr HUMAN_DECISION_TRIGGERS)) ''POLICY_UNKNOWN_ID''
        (?p @ '':triggers.'' @ py_str k) ''unknown human trigger'' = None"
      by (rule r) (simp only: listed)
    then show ?thesis by simp
  qed
  with t show ?thesis unfolding human_ok_def list_all_iff by fast
qed

subsection \<open>Profiles\<close>

lemma dfind_PStr: "dfind d (PStr k) = dlookup d k"
  by (rule dfind_str)

lemma validate_override_ok:
  assumes acc: "validate_override_row r path (k, v) = None" and trig: "is_dict (dget r ''triggers'')"
  shows "is_str k" "\<exists>l. level_of v = Some l \<and>
    (dget r ''project_profile_may_lower_risk'' = PBool False \<longrightarrow>
       (case level_of (vget (dget r ''triggers'') (str_of k)) of None \<Rightarrow> True | Some g \<Rightarrow> g \<le> l))"
proof -
  note g = first_err_mem [OF acc [unfolded validate_override_row_def Let_def fst_conv snd_conv]]
  let ?h = "path @ '':risk_overrides''"
  have "reject (\<not> (is_str k \<and> str_of k \<noteq> [])) ''POLICY_TYPE_ERROR'' ?h
      ''risk_overrides keys must be non-empty strings'' = None" by (rule g) (simp only: listed)
  then show k: "is_str k" by simp
  have "after (in_risk_order v) (\<lambda>known. reject (\<not> known) ''POLICY_UNKNOWN_ID''
      (?h @ ''.'' @ py_str k) ''risk override must reference a declared risk level'') = None"
    by (rule g) (simp only: listed)
  then obtain l where l: "level_of v = Some l" by (auto dest: in_risk_order_level)
  then have rl: "risk_order v = Inr (rank l)" by (auto simp: risk_order_level)
  let ?g = "vget (dget r ''triggers'') (str_of k)"
  have "dget_or r ''triggers'' (PDict []) = dget r ''triggers''"
    using trig by (auto simp: dget_or_def dget_def split: option.splits)
  then have glob: "call_get_any (dget_or r ''triggers'' (PDict [])) k PNone = Inr ?g"
    using trig k by (auto simp: is_dict_iff is_str_iff dget_or_def dget_def split: option.splits)
  have "after (call_get_any (dget_or r ''triggers'' (PDict [])) k PNone) (\<lambda>global.
          if dget r ''project_profile_may_lower_risk'' \<noteq> PBool False then None
          else after (in_risk_order global) (\<lambda>known.
            if \<not> known then None
            else after (risk_order v) (\<lambda>n. after (risk_order global) (\<lambda>g.
              reject (n < g) ''POLICY_PROFILE_DOWNGRADE_FORBIDDEN'' (?h @ ''.'' @ py_str k)
                ''project profile may not lower global risk level'')))) = None"
    by (rule g) (simp only: listed)
  then have low: "dget r ''project_profile_may_lower_risk'' = PBool False \<Longrightarrow>
      \<exists>b. in_risk_order ?g = Inr b \<and> (b \<longrightarrow> (\<exists>n. risk_order ?g = Inr n \<and> n \<le> rank l))"
    unfolding glob by (auto simp: rl not_less split: if_splits)
  have "case level_of ?g of None \<Rightarrow> True | Some g \<Rightarrow> g \<le> l"
    if may: "dget r ''project_profile_may_lower_risk'' = PBool False"
  proof (cases "level_of ?g")
    case (Some g)
    from low [OF may] obtain b where b: "in_risk_order ?g = Inr b"
      "b \<longrightarrow> (\<exists>n. risk_order ?g = Inr n \<and> n \<le> rank l)" by blast
    from in_risk_order_level [OF b(1)] Some have b by simp
    with b(2) obtain n where "risk_order ?g = Inr n" "n \<le> rank l" by blast
    with Some show ?thesis by (auto simp: risk_order_level less_level_rank)
  qed simp
  with l show "\<exists>l. level_of v = Some l \<and>
    (dget r ''project_profile_may_lower_risk'' = PBool False \<longrightarrow>
       (case level_of ?g of None \<Rightarrow> True | Some g \<Rightarrow> g \<le> l))" by blast
qed

lemma validate_profile_ok:
  assumes acc: "validate_project_profile path p r = None" and trig: "is_dict (dget r ''triggers'')"
  shows "profile_ok r p"
proof -
  note g = first_err_mem [OF acc [unfolded validate_project_profile_def]]
  have fields: "each (\<lambda>(n, ty). first_err
        [reject (\<not> dhas p n) ''POLICY_TYPE_ERROR'' (path @ '':'' @ n) (n @ '' missing required field''),
         reject (\<not> matches_type ty (dget p n)) ''POLICY_TYPE_ERROR'' (path @ '':'' @ n)
           (n @ '' has invalid type'')]) PROFILE_REQUIRED_FIELDS = None"
    by (rule g) (simp only: listed)
  have ty: "matches_type ty (dget p n)" if "(n, ty) \<in> set PROFILE_REQUIRED_FIELDS" for n ty
    using bspec [OF fields [unfolded each_None] that] by simp
  have types: "is_dict (dget p ''risk_overrides'')" "is_str (dget p ''profile_id'')"
    "is_dict (dget p ''required_files'')"
    using ty [of "''risk_overrides''" TyDict] ty [of "''profile_id''" TyStr]
      ty [of "''required_files''" TyDict] by (simp_all add: PROFILE_REQUIRED_FIELDS_def)
  have over: "each (validate_override_row r path) (entries (dget p ''risk_overrides'')) = None"
    by (rule g) (simp only: listed)
  have files: "each (\<lambda>(k, v). reject (\<not> is_str k \<or> \<not> is_str v \<or> \<not> is_safe_relative_path (str_of v))
             ''POLICY_PROFILE_REQUIRED_FILE_INVALID'' (path @ '':required_files.'' @ py_str k)
             ''profile required_files entry is unsafe or missing'')
        (entries (dget p ''required_files'')) = None"
    by (rule g) (simp only: listed)
  have row: "is_str k \<and> (case level_of v of None \<Rightarrow> False
        | Some l \<Rightarrow> dget r ''project_profile_may_lower_risk'' = PBool False \<longrightarrow>
            (case level_of (vget (dget r ''triggers'') (str_of k)) of
               None \<Rightarrow> True | Some g \<Rightarrow> g \<le> l))"
    if "(k, v) \<in> set (entries (dget p ''risk_overrides''))" for k v
  proof -
    from over that have "validate_override_row r path (k, v) = None" by simp
    note o = validate_override_ok [OF this trig]
    from o(2) obtain l where "level_of v = Some l"
      "dget r ''project_profile_may_lower_risk'' = PBool False \<longrightarrow>
       (case level_of (vget (dget r ''triggers'') (str_of k)) of None \<Rightarrow> True | Some g \<Rightarrow> g \<le> l)" by blast
    with o(1) show ?thesis by simp
  qed
  have safe: "is_str v \<and> is_safe_relative_path (str_of v)"
    if "(k, v) \<in> set (entries (dget p ''required_files''))" for k v
    using bspec [OF files [unfolded each_None] that] by simp
  show ?thesis unfolding profile_ok_def overrides_ok_def list_all_iff
    using types row safe by fast
qed

lemma dset_fresh: "\<forall>p \<in> set d. \<not> atom_eq (fst p) k \<Longrightarrow> dset d k v = d @ [(k, v)]"
  by (induction d) auto

lemma add_profile_ok:
  assumes "add_profile fs r path reg = Inr reg'" and reg: "registry_ok r reg"
    and trig: "is_dict (dget r ''triggers'')"
  shows "registry_ok r reg'"
proof -
  from assms(1) obtain p pid where p: "validate_project_profile path p r = None"
    and pid: "subscript (PDict p) ''profile_id'' = Inr pid"
    and fresh: "in_set pid (map fst reg) = Inr False"
    and reg': "reg' = dset reg pid (profile_entry path p)"
    by (auto simp: add_profile_def rbind_Inr guarded_Inr)
  note ok = validate_profile_ok [OF p trig]
  from pid have dg: "dget p ''profile_id'' = pid"
    by (auto simp: subscript_def dget_def split: option.splits)
  with ok obtain s where s: "pid = PStr s" by (auto simp: profile_ok_def is_str_iff)
  with fresh have new: "pid \<notin> set (map fst reg)" by (simp only: in_set_str sum.inject) simp
  then have "\<forall>q \<in> set reg. \<not> atom_eq (fst q) pid" by (force simp: s)
  then have "reg' = reg @ [(pid, profile_entry path p)]" by (simp add: reg' dset_fresh)
  with reg new ok dg s show ?thesis
    by (simp add: registry_ok_def profile_entry_def)
qed

lemma add_profiles_ok:
  assumes "rfold (add_profile fs r) paths reg = Inr reg'" "registry_ok r reg"
    "is_dict (dget r ''triggers'')"
  shows "registry_ok r reg'"
  using assms(1,2)
proof (induction paths arbitrary: reg)
  case (Cons path paths)
  then obtain reg1 where "add_profile fs r path reg = Inr reg1"
    "rfold (add_profile fs r) paths reg1 = Inr reg'" by (auto simp: rbind_Inr)
  with Cons add_profile_ok [OF _ Cons.prems(2) assms(3)] show ?case by blast
qed simp

lemma load_profiles_ok:
  assumes "load_project_profiles fs listing r = Inr reg" "is_dict (dget r ''triggers'')"
  shows "registry_ok r reg"
  using assms add_profiles_ok [of fs r _ "[]" reg]
  by (auto simp: load_project_profiles_def registry_ok_def split: option.splits)

lemma load_bundle_ok:
  assumes "load_policy_bundle digest fs listing = Inr b"
  shows "bundle_ok b"
proof -
  from assms obtain p profiles dg where p: "validate_policy_schemas p = None"
    and prof: "load_project_profiles fs listing (doc_risk p) = Inr profiles"
    and b: "b = \<lparr>bundle_workflow = doc_workflow p, bundle_risk = doc_risk p,
        bundle_human = doc_human p, bundle_skills = doc_skills p, bundle_models = doc_models p,
        bundle_routing = doc_routing p, bundle_profiles = profiles, bundle_digest = dg\<rparr>"
    by (auto simp: load_policy_bundle_def rbind_Inr guarded_Inr)
  note g = first_err_mem [OF p [unfolded validate_policy_schemas_def]]
  have w: "validate_workflow_policy (doc_workflow p) = None" by (rule g) (simp only: listed)
  have r: "validate_risk_policy (doc_risk p) = None" by (rule g) (simp only: listed)
  have h: "validate_human_policy (doc_human p) = None" by (rule g) (simp only: listed)
  have d: "after (py_in (dget (doc_risk p) ''default_level'')
          (dget_or (doc_risk p) ''levels'' (PDict []))) (\<lambda>known.
        reject (\<not> known) ''POLICY_UNKNOWN_ID'' ''config/risk_policy.yaml:default_level''
          ''default risk level is undeclared'') = None" by (rule g) (simp only: listed)
  note risk = validate_risk_ok [OF r d]
  then have "is_dict (dget (doc_risk p) ''triggers'')" by (simp add: risk_ok_def Let_def)
  from load_profiles_ok [OF prof this] show ?thesis
    by (simp add: bundle_ok_def b validate_workflow_ok [OF w] risk validate_human_ok [OF h])
qed

end
