(* ===== verification/Policy_Risk.thy ===== *)
theory Policy_Risk
  imports Policy_Result Policy_Wf
begin

text \<open>
  The risk decision against its specification. \<open>governing\<close> is the level that applies to one
  trigger (the profile's override, else the global declaration), \<open>escalate\<close> the highest level
  reached from the default. The loop of \<open>_evaluate_normalized\<close> refines \<open>escalate\<close>; what the
  locale \<open>ladder\<close> proves about such a climb is then true of the code.
\<close>

fun escalate :: "risk_level \<Rightarrow> risk_level list \<Rightarrow> risk_level" where
  "escalate l [] = l"
| "escalate l (c # cs) = escalate (if l < c then c else l) cs"

interpretation climb: ladder "\<lambda>a b. b < a" escalate
  by unfold_locales auto

definition applied_level :: "pyval \<Rightarrow> pyval \<Rightarrow> pyval \<Rightarrow> pyval" where
  "applied_level global overrides t =
     (case dfind (entries overrides) t of
        Some p \<Rightarrow> p
      | None \<Rightarrow> dfind_or_None (entries global) t)"

definition global_triggers :: "policy_bundle \<Rightarrow> pyval" where
  "global_triggers b = dget_or (bundle_risk b) ''triggers'' (PDict [])"

definition profile_overrides :: "policy_bundle \<Rightarrow> pyval \<Rightarrow> pyval" where
  "profile_overrides b profile_id =
     (case profile_record b profile_id of
        Inr (_, PDict p) \<Rightarrow> dget_or p ''risk_overrides'' (PDict [])
      | _ \<Rightarrow> PDict [])"

definition governing :: "policy_bundle \<Rightarrow> pyval \<Rightarrow> pyval \<Rightarrow> pyval" where
  "governing b profile_id t = applied_level (global_triggers b) (profile_overrides b profile_id) t"

subsection \<open>One step of the loop\<close>

lemma atom_eq_commute: "atom_eq a b = atom_eq b a"
  by (auto simp: atom_eq_def split: option.splits)

lemma mem_keys_dfind:
  assumes "hashable t"
  shows "mem_list t (map fst d) \<longleftrightarrow> dfind d t \<noteq> None"
proof -
  have "py_eq k t \<longleftrightarrow> atom_eq k t" for k
    using assms by (cases k) (auto simp: py_eq.simps atom_eq_def split: pyval.splits)
  then show ?thesis
    by (induction d) (auto simp: dfind_def mem_list_def)
qed

lemma call_get_any_Inr:
  "call_get_any v k x = Inr w \<longleftrightarrow>
     (\<exists>d. v = PDict d \<and> hashable k \<and> w = (case dfind d k of None \<Rightarrow> x | Some u \<Rightarrow> u))"
  by (auto simp: call_get_any_def split: pyval.splits)

lemma subscript_any_Inr:
  "subscript_any v k = Inr w \<longleftrightarrow> (\<exists>d. v = PDict d \<and> hashable k \<and> dfind d k = Some w)"
  by (auto simp: subscript_any_def split: pyval.splits option.splits)

lemma py_in_dict_Inr: "py_in t (PDict d) = Inr b \<longleftrightarrow> hashable t \<and> b = (dfind d t \<noteq> None)"
  by (auto simp: py_in_def in_set_def mem_keys_dfind)

lemma risk_order_PNone [simp]: "risk_order PNone = Inl KeyError"
  by (simp add: risk_order_def)

lemma dfind_Nil [simp]: "dfind [] t = None"
  by (simp add: dfind_def)

lemma py_in_absent: "py_in t v = Inr False \<Longrightarrow> dfind (entries v) t = None"
  by (cases v) (simp_all add: py_in_dict_Inr entries_def)

lemma trigger_step_level:
  assumes "trigger_step global overrides has_profile ppath t (level, prov) = Inr (level', prov')"
    and no_profile: "\<not> has_profile \<Longrightarrow> overrides = PDict []"
  shows "\<exists>l c. level_of level = Some l \<and> level_of (applied_level global overrides t) = Some c \<and>
    level_of level' = Some (if l < c then c else l) \<and>
    (\<forall>g. level_of (dfind_or_None (entries global) t) = Some g \<longrightarrow> g \<le> c)"
proof -
  from assms(1) obtain g own where g: "call_get_any global t PNone = Inr g"
    and own: "(if has_profile then py_in t overrides else Inr False) = Inr own"
    by (auto simp: trigger_step_def rbind_Inr Let_def)
  from g obtain gd where gd: "global = PDict gd" "hashable t" "g = dfind_or_None gd t"
    by (auto simp: call_get_any_Inr dfind_or_None_def)
  show ?thesis
  proof (cases own)
    case False
    have "dfind (entries overrides) t = None"
      using own no_profile False by (cases has_profile) (auto simp: py_in_absent)
    then have "applied_level global overrides t = g"
      by (simp add: applied_level_def gd)
    moreover from assms(1) g own False obtain n m where "risk_order g = Inr n" "risk_order level = Inr m"
      "level' = (if m < n then g else level)"
      by (auto simp: trigger_step_def rbind_Inr Let_def split: if_splits)
    ultimately show ?thesis
      by (auto simp: risk_order_level less_level_rank gd)
  next
    case True
    from assms(1) g own True obtain p n m where
        p: "subscript_any overrides t = Inr p" and ranks: "risk_order p = Inr n" "risk_order level = Inr m"
        "level' = (if m < n then p else level)"
        and keep: "g \<noteq> PNone \<Longrightarrow> \<exists>k. risk_order g = Inr k \<and> \<not> n < k"
      by (auto simp: trigger_step_def rbind_Inr guarded_Inr Let_def split: if_splits)
    from p have "applied_level global overrides t = p"
      by (auto simp: applied_level_def subscript_any_Inr)
    moreover from ranks obtain l c where lc: "level_of level = Some l" "level_of p = Some c"
        "n = rank c" "m = rank l" by (auto simp: risk_order_level)
    moreover have "k \<le> c" if "level_of g = Some k" for k
    proof -
      from that have "g \<noteq> PNone" by (auto simp: level_of_def)
      with keep lc that show ?thesis by (auto simp: risk_order_level less_level_rank)
    qed
    ultimately show ?thesis using ranks(3) by (auto simp: less_level_rank gd)
  qed
qed

subsection \<open>The loop\<close>

lemma trigger_loop_level:
  assumes "rfold (trigger_step global overrides has_profile ppath) ts (level, prov) = Inr (level', prov')"
    and "\<not> has_profile \<Longrightarrow> overrides = PDict []" and "level_of level = Some l"
  shows "\<exists>cs. map (\<lambda>t. level_of (applied_level global overrides t)) ts = map Some cs \<and>
    level_of level' = Some (escalate l cs)"
  using assms
proof (induction ts arbitrary: level prov l)
  case Nil
  then show ?case by auto
next
  case (Cons t ts)
  from Cons.prems(1) obtain lv pv where
      step: "trigger_step global overrides has_profile ppath t (level, prov) = Inr (lv, pv)" and
      rest: "rfold (trigger_step global overrides has_profile ppath) ts (lv, pv) = Inr (level', prov')"
    by (auto simp: rbind_Inr)
  from trigger_step_level [OF step Cons.prems(2)] Cons.prems(3) obtain c where
      c: "level_of (applied_level global overrides t) = Some c"
         "level_of lv = Some (if l < c then c else l)" by auto
  from Cons.IH [OF rest Cons.prems(2) c(2)] obtain cs where
      "map (\<lambda>t. level_of (applied_level global overrides t)) ts = map Some cs"
      "level_of level' = Some (escalate (if l < c then c else l) cs)" by auto
  with c(1) show ?case by (intro exI [of _ "c # cs"]) simp
qed

lemma trigger_loop_no_lowering:
  assumes "rfold (trigger_step global overrides has_profile ppath) ts st = Inr st'"
    and "\<not> has_profile \<Longrightarrow> overrides = PDict []" and "t \<in> set ts"
  shows "\<exists>c. level_of (applied_level global overrides t) = Some c \<and>
    (\<forall>g. level_of (dfind_or_None (entries global) t) = Some g \<longrightarrow> g \<le> c)"
  using assms
proof (induction ts arbitrary: st)
  case (Cons u us)
  from Cons.prems(1) obtain s1 where
      step: "trigger_step global overrides has_profile ppath u st = Inr s1" and
      rest: "rfold (trigger_step global overrides has_profile ppath) us s1 = Inr st'"
    by (auto simp: rbind_Inr)
  show ?case
  proof (cases "t = u")
    case True
    obtain a1 b1 a2 b2 where "st = (a1, b1)" "s1 = (a2, b2)" by (cases st; cases s1)
    with trigger_step_level [OF step [unfolded this] Cons.prems(2)] True show ?thesis by auto
  next
    case False
    with Cons.IH [OF rest Cons.prems(2)] Cons.prems(3) show ?thesis by simp
  qed
qed simp

subsection \<open>The triggers the loop visits\<close>

text \<open>Python sets of strings: membership, order and duplicates.\<close>

lemma py_set_strs [simp]: "py_set (PList (map PStr ss)) = Inr (map PStr ss)"
  by (simp add: py_set_def list_all_iff)

lemma in_set_strs: "in_set x (map PStr ss) = Inr True \<longleftrightarrow> (\<exists>s \<in> set ss. x = PStr s)"
  by (auto simp: in_set_def mem_list_strs)

lemma rfilter_cong: "(\<And>x. x \<in> set xs \<Longrightarrow> p x = q x) \<Longrightarrow> rfilter p xs = rfilter q xs"
  by (induction xs) auto

lemma rfilter_Inr:
  "rfilter p xs = Inr ys \<Longrightarrow> ys = filter (\<lambda>x. p x = Inr True) xs \<and> (\<forall>x \<in> set xs. \<exists>b. p x = Inr b)"
  by (induction xs arbitrary: ys) (auto simp: rbind_Inr split: if_splits)

lemma in_set_cong: "set ss = set ss' \<Longrightarrow> in_set x (map PStr ss) = in_set x (map PStr ss')"
  by (cases "hashable x") (auto simp: in_set_def mem_list_strs)

lemma canonical_order_cong:
  "set ss = set ss' \<Longrightarrow> canonical_order (map PStr ss) decl = canonical_order (map PStr ss') decl"
  by (simp add: canonical_order_def in_set_cong [of ss ss'])

lemma canonical_order_Inr:
  "canonical_order (map PStr ss) decl = Inr ys \<Longrightarrow>
     ys = filter (\<lambda>x. \<exists>s \<in> set ss. x = PStr s) decl"
  by (auto simp: canonical_order_def in_set_strs dest!: rfilter_Inr)

lemma known_checks_set:
  "known_trigger_checks global overrides ts = None \<longleftrightarrow>
     (\<forall>t \<in> set ts. rbind (py_in t global) (\<lambda>g. if g then Inr True else py_in t overrides) = Inr True)"
proof -
  have "known_trigger_checks global overrides ts = None \<longleftrightarrow>
    (\<forall>p \<in> set (numbered 0 ts).
       rbind (py_in (snd p) global) (\<lambda>g. if g then Inr True else py_in (snd p) overrides) = Inr True)"
    by (auto simp: known_trigger_checks_def split_beta)
  also have "\<dots> \<longleftrightarrow>
     (\<forall>t \<in> set ts. rbind (py_in t global) (\<lambda>g. if g then Inr True else py_in t overrides) = Inr True)"
    by (rule numbered_ball)
  finally show ?thesis .
qed

lemma py_sorted_set:
  assumes "py_sorted xs = Inr ys"
  shows "set ys = set xs"
proof (cases "list_all is_str xs")
  case True
  then have "map PStr (strs xs) = xs" by (intro map_PStr_strs) (simp add: list_all_iff)
  then have "PStr ` set (strs xs) = set xs" by (metis set_map)
  then show ?thesis using assms True by (auto simp: py_sorted_def split: if_splits)
qed (use assms in \<open>auto simp: py_sorted_def split: if_splits\<close>)

subsection \<open>The risk decision\<close>

lemma profile_record_cases:
  assumes "profile_record b pid = Inr (source, profile)"
  shows "profile = PNone \<or> is_dict profile"
    "profile_overrides b pid =
       (if profile = PNone then PDict [] else dget_or (entries profile) ''risk_overrides'' (PDict []))"
proof -
  show c: "profile = PNone \<or> is_dict profile"
    using assms by (auto simp: profile_record_def rbind_Inr Let_def split: if_splits)
  show "profile_overrides b pid =
       (if profile = PNone then PDict [] else dget_or (entries profile) ''risk_overrides'' (PDict []))"
    using c assms by (auto simp: profile_overrides_def is_dict_iff split: pyval.splits)
qed

lemma risk_decisionE:
  assumes "risk_decision b pid ts = Inr (level, prov)"
  obtains source profile decl ordered where "profile_record b pid = Inr (source, profile)"
    "known_trigger_checks (global_triggers b) (profile_overrides b pid) ts = None"
    "trigger_order (global_triggers b) (profile_overrides b pid) = Inr decl"
    "canonical_order ts decl = Inr ordered"
    "profile = PNone \<longrightarrow> profile_overrides b pid = PDict []"
    "rfold (trigger_step (global_triggers b) (profile_overrides b pid) (profile \<noteq> PNone)
        (profile_path source pid)) ordered
      (dget_or (bundle_risk b) ''default_level'' (PStr ''R0''),
       if ordered = [] then [''config/risk_policy.yaml:default_level''] else []) = Inr (level, prov)"
proof -
  from assms obtain source profile where pr: "profile_record b pid = Inr (source, profile)"
    by (auto simp: risk_decision_def rbind_Inr)
  note po = profile_record_cases(2) [OF pr]
  let ?o = "profile_overrides b pid"
  from assms obtain decl ordered where
    "known_trigger_checks (global_triggers b) ?o ts = None"
    "trigger_order (global_triggers b) ?o = Inr decl" "canonical_order ts decl = Inr ordered"
    "rfold (trigger_step (global_triggers b) ?o (profile \<noteq> PNone) (profile_path source pid)) ordered
      (dget_or (bundle_risk b) ''default_level'' (PStr ''R0''),
       if ordered = [] then [''config/risk_policy.yaml:default_level''] else []) = Inr (level, prov)"
    unfolding risk_decision_def pr po [symmetric] global_triggers_def [symmetric]
    by (auto simp: rbind_Inr guarded_Inr Let_def po [symmetric])
  with pr po that show ?thesis by simp
qed

text \<open>Every given trigger is visited: it is declared globally or by the profile.\<close>

lemma ordered_triggers:
  assumes known: "known_trigger_checks (PDict g) (PDict ov) (map PStr ss) = None"
    and decl: "trigger_order (PDict g) (PDict ov) = Inr decl"
    and ord: "canonical_order (map PStr ss) decl = Inr ordered"
  shows "set ordered = PStr ` set ss"
proof -
  from decl obtain own where own: "py_sorted (filter (\<lambda>o'. \<not> mem_list o' (map fst g)) (map fst ov)) = Inr own"
    and decl': "decl = map fst g @ own"
    by (auto simp: trigger_order_def py_set_def rbind_Inr split: if_splits)
  have "PStr s \<in> set decl" if s: "s \<in> set ss" for s
  proof -
    from known s have "rbind (py_in (PStr s) (PDict g)) (\<lambda>b. if b then Inr True else py_in (PStr s) (PDict ov))
        = (Inr True :: bool res)" unfolding known_checks_set by (metis image_eqI list.set_map)
    then have "PStr s \<in> set (map fst g) \<or> PStr s \<in> set (map fst ov)"
      by (auto simp: rbind_Inr dhas_iff_key split: if_splits)
    then show ?thesis using py_sorted_set [OF own] by (auto simp: decl')
  qed
  with canonical_order_Inr [OF ord] show ?thesis by auto
qed

text \<open>
  The level the evaluator settles on, for a bundle whose trigger tables are mappings.
\<close>

lemma risk_decision_escalates:
  assumes dec: "risk_decision b pid (map PStr ss) = Inr (level, prov)"
    and dicts: "is_dict (global_triggers b)" "is_dict (profile_overrides b pid)"
    and dflt: "level_of (dget_or (bundle_risk b) ''default_level'' (PStr ''R0'')) = Some l"
  shows "\<exists>cs. map (\<lambda>s. level_of (governing b pid (PStr s))) ss = map Some cs \<and>
    level_of level = Some (Max (insert l (set cs)))"
proof -
  let ?f = "\<lambda>t. level_of (governing b pid t)"
  from dec obtain source profile decl ordered where r:
    "profile_record b pid = Inr (source, profile)"
    "known_trigger_checks (global_triggers b) (profile_overrides b pid) (map PStr ss) = None"
    "trigger_order (global_triggers b) (profile_overrides b pid) = Inr decl"
    "canonical_order (map PStr ss) decl = Inr ordered"
    "profile = PNone \<longrightarrow> profile_overrides b pid = PDict []"
    "rfold (trigger_step (global_triggers b) (profile_overrides b pid) (profile \<noteq> PNone)
        (profile_path source pid)) ordered
      (dget_or (bundle_risk b) ''default_level'' (PStr ''R0''),
       if ordered = [] then [''config/risk_policy.yaml:default_level''] else []) = Inr (level, prov)"
    by (rule risk_decisionE)
  from trigger_loop_level [OF r(6) _ dflt] r(5) obtain cs where
    cs: "map ?f ordered = map Some cs" "level_of level = Some (escalate l cs)"
    by (auto simp: governing_def)
  from dicts ordered_triggers r(2-4) have vis: "set ordered = PStr ` set ss"
    by (auto simp: is_dict_iff)
  from arg_cong [OF cs(1), of set] have img: "?f ` PStr ` set ss = Some ` set cs"
    by (simp only: set_map vis)
  let ?ds = "map (\<lambda>s. the (?f (PStr s))) ss"
  have some: "?f (PStr s) = Some (the (?f (PStr s)))" if "s \<in> set ss" for s
  proof -
    from that have "?f (PStr s) \<in> Some ` set cs" unfolding img [symmetric] by blast
    then show ?thesis by auto
  qed
  then have ds: "map (\<lambda>s. ?f (PStr s)) ss = map Some ?ds" by simp
  have "Some ` set ?ds = ?f ` PStr ` set ss"
    using some by (simp add: image_image)
  then have "Some ` set ?ds = Some ` set cs" by (simp only: img)
  then have "set ?ds = set cs" by (simp only: inj_image_eq_iff [OF inj_Some])
  with ds cs(2) show ?thesis by (intro exI [of _ ?ds] conjI) (simp_all only: climb.climb_Max)
qed

lemma risk_decision_keeps_profile_up:
  assumes dec: "risk_decision b pid (map PStr ss) = Inr (level, prov)"
    and dicts: "is_dict (global_triggers b)" "is_dict (profile_overrides b pid)" and s: "s \<in> set ss"
  shows "\<exists>c. level_of (governing b pid (PStr s)) = Some c \<and>
    (\<forall>g. level_of (vget (global_triggers b) s) = Some g \<longrightarrow> g \<le> c)"
proof -
  from dec obtain source profile decl ordered where r:
    "profile_record b pid = Inr (source, profile)"
    "known_trigger_checks (global_triggers b) (profile_overrides b pid) (map PStr ss) = None"
    "trigger_order (global_triggers b) (profile_overrides b pid) = Inr decl"
    "canonical_order (map PStr ss) decl = Inr ordered"
    "profile = PNone \<longrightarrow> profile_overrides b pid = PDict []"
    "rfold (trigger_step (global_triggers b) (profile_overrides b pid) (profile \<noteq> PNone)
        (profile_path source pid)) ordered
      (dget_or (bundle_risk b) ''default_level'' (PStr ''R0''),
       if ordered = [] then [''config/risk_policy.yaml:default_level''] else []) = Inr (level, prov)"
    by (rule risk_decisionE)
  from dicts ordered_triggers r(2-4) s have "PStr s \<in> set ordered" by (auto simp: is_dict_iff)
  from trigger_loop_no_lowering [OF r(6) _ this] r(5) dicts(1) show ?thesis
    by (auto simp: governing_def is_dict_iff dfind_or_None_def dfind_str dget_def)
qed

text \<open>The decision depends on the set of triggers only.\<close>

lemma known_checks_cong:
  "set ss = set ss' \<Longrightarrow>
     known_trigger_checks g ov (map PStr ss) = None \<longleftrightarrow> known_trigger_checks g ov (map PStr ss') = None"
  by (simp add: known_checks_set)

lemma risk_decision_cong:
  assumes "set ss = set ss'" "risk_decision b pid (map PStr ss) = Inr x"
  shows "risk_decision b pid (map PStr ss') = Inr x"
proof -
  from assms(2) have "risk_decision b pid (map PStr ss) = Inr (fst x, snd x)" by simp
  then show ?thesis
    using known_checks_cong [OF assms(1)] canonical_order_cong [OF assms(1)] assms(2)
    by (auto simp: risk_decision_def rbind_Inr guarded_Inr Let_def split: prod.splits)
qed

end
