(* ===== verification/Policy_Sample.thy ===== *)
theory Policy_Sample
  imports Policy_Risk
begin

text \<open>
  A small policy root, in the format of \<open>config/*.yaml\<close> and \<open>project_profiles/\<close>, on which
  the properties of the policy engine are instantiated.
\<close>

definition sample_workflow :: pydict where
  "sample_workflow =
    [kv ''schema_version'' (PInt 1), kv ''policy_id'' (PStr ''global-workflow-v1''),
     kv ''task_states'' (PList [PStr ''DRAFT'', PStr ''WAITING_HUMAN'', PStr ''ABANDONED'']),
     kv ''transitions'' (PDict
       [kv ''DRAFT'' (PList [PStr ''WAITING_HUMAN'', PStr ''ABANDONED'', PStr ''DRAFT'']),
        kv ''WAITING_HUMAN'' (PList [PStr ''DRAFT'']), kv ''ABANDONED'' (PList [])]),
     kv ''mandatory_rules'' (PList [PStr ''no_self_approval''])]"

definition sample_level :: "string \<Rightarrow> pyval" where
  "sample_level g =
     PDict [kv ''description'' (PStr ''level''), kv ''required_gates'' (PList [PStr g])]"

definition sample_risk :: pydict where
  "sample_risk =
    [kv ''schema_version'' (PInt 1), kv ''policy_id'' (PStr ''global-risk-v1''),
     kv ''default_level'' (PStr ''R0''), kv ''unknown_trigger_behavior'' (PStr ''fail_closed''),
     kv ''levels'' (PDict
       [kv ''R0'' (sample_level ''focused_check''), kv ''R1'' (sample_level ''spec''),
        kv ''R2'' (sample_level ''plan''), kv ''R3'' (sample_level ''human_approval'')]),
     kv ''triggers'' (PDict [kv ''docs'' (PStr ''R0''), kv ''api'' (PStr ''R1''), kv ''prod'' (PStr ''R3'')]),
     kv ''highest_applicable_level_wins'' (PBool True),
     kv ''project_profile_may_lower_risk'' (PBool False)]"

definition sample_human :: pydict where
  "sample_human =
    [kv ''schema_version'' (PInt 1), kv ''policy_id'' (PStr ''human-decision-v1''),
     kv ''default_without_response'' (PStr ''PAUSE''),
     kv ''triggers'' (PDict
       [kv ''H1_PRODUCT_INTENT'' (PDict [kv ''examples'' (PList [PStr ''scope''])]),
        kv ''H3_RISK_ACCEPTANCE'' (PDict [kv ''examples'' (PList [PStr ''risk''])])]),
     kv ''do_not_escalate'' (PList [PStr ''typos''])]"

definition sample_skills :: pydict where
  "sample_skills =
    [kv ''schema_version'' (PInt 1), kv ''policy_id'' (PStr ''skill-routing-v1''),
     kv ''primary_discovery'' (PDict
       [kv ''exclusive'' (PBool True),
        kv ''routes'' (PDict [kv ''default'' (PStr ''concise_spec'')])]),
     kv ''skills'' (PDict
       [kv ''superpowers_writing_plans'' (PDict [kv ''when_any'' (PList [PStr ''multi_file''])])]),
     kv ''exception_requires_record'' (PBool True)]"

definition sample_models :: pydict where
  "sample_models =
    [kv ''schema_version'' (PInt 1), kv ''policy_id'' (PStr ''model-routing-v1''),
     kv ''roles'' (PDict [kv ''planner_architect'' (PDict [kv ''capability'' (PStr ''planning'')])]),
     kv ''escalate_when'' (PList [PStr ''blocked''])]"

definition sample_routing :: pydict where
  "sample_routing =
    [kv ''schema_version'' (PInt 1), kv ''policy_id'' (PStr ''policy-routing-features-v1''),
     kv ''task_attributes'' (PDict
       [kv ''size'' (PDict
         [kv ''allowed_values'' (PList [PStr ''large'', PStr ''small'']),
          kv ''maps_to_features'' (PDict [kv ''large'' (PList [PStr ''multi_file''])])])]),
     kv ''risk_conditions'' (PDict [kv ''R2'' (PList [PStr ''risk_R2''])]),
     kv ''skill_rule_features'' (PDict
       [kv ''superpowers_writing_plans'' (PDict [kv ''when_any'' (PList [PStr ''multi_file''])])]),
     kv ''model_role_rules'' (PDict
       [kv ''planner'' (PDict [kv ''always'' (PStr ''planner_architect'')])]),
     kv ''canonical_order'' (PDict
       [kv ''set_like_inputs'' (PList [PStr ''risk_triggers'', PStr ''human_triggers'']),
        kv ''order_source'' (PStr ''policy_declaration_order'')])]"

definition sample_profile :: pydict where
  "sample_profile =
    [kv ''schema_version'' (PInt 1), kv ''profile_id'' (PStr ''P1''),
     kv ''project_name'' (PStr ''demo''), kv ''project_type'' (PStr ''library''),
     kv ''required_files'' (PDict [kv ''readme'' (PStr ''docs/README.md'')]),
     kv ''critical_surfaces'' (PList [PStr ''api'']),
     kv ''risk_overrides'' (PDict [kv ''api'' (PStr ''R2'')]),
     kv ''pilot_restrictions'' (PList []), kv ''commands'' (PDict [])]"

definition sample_fs :: "string \<Rightarrow> file_view" where
  "sample_fs path =
     (if path = ''config/workflow_policy.yaml'' then FileView False True (Inr (PDict sample_workflow))
      else if path = ''config/risk_policy.yaml'' then FileView False True (Inr (PDict sample_risk))
      else if path = ''config/human_decision_policy.yaml'' then
        FileView False True (Inr (PDict sample_human))
      else if path = ''config/skill_routing.yaml'' then FileView False True (Inr (PDict sample_skills))
      else if path = ''config/model_routing.yaml'' then FileView False True (Inr (PDict sample_models))
      else if path = ''config/policy_routing_features.yaml'' then
        FileView False True (Inr (PDict sample_routing))
      else if path = ''project_profiles/p1.yaml'' then
        FileView False True (Inr (PDict sample_profile))
      else NotAFile)"

definition sample_digest :: "policy_docs \<Rightarrow> pydict \<Rightarrow> string res" where
  "sample_digest p profiles = Inr (replicate 64 (CHR ''a''))"

definition sample_listing :: "string list option" where
  "sample_listing = Some [''project_profiles/p1.yaml'']"

definition sample_registry :: pydict where
  "sample_registry = [kv ''P1'' (PDict
     [kv ''source_path'' (PStr ''project_profiles/p1.yaml''), kv ''profile'' (PDict sample_profile)])]"

definition sample_bundle :: policy_bundle where
  "sample_bundle =
     \<lparr>bundle_workflow = sample_workflow, bundle_risk = sample_risk, bundle_human = sample_human,
      bundle_skills = sample_skills, bundle_models = sample_models,
      bundle_routing = sample_routing, bundle_profiles = sample_registry,
      bundle_digest = replicate 64 (CHR ''a'')\<rparr>"

definition sample_input :: "string list \<Rightarrow> string list \<Rightarrow> pyval \<Rightarrow> pydict" where
  "sample_input risks humans profile =
    [kv ''current_state'' (PStr ''DRAFT''), kv ''risk_triggers'' (PList (map PStr risks)),
     kv ''human_triggers'' (PList (map PStr humans)),
     kv ''task_attributes'' (PDict [kv ''size'' (PStr ''large'')]),
     kv ''project_profile_id'' profile]"

subsection \<open>Evaluations of the sample\<close>

definition sample_gates :: "string \<Rightarrow> pyval list" where
  "sample_gates g = [PStr g]"

definition sample_legal :: "pyval list" where
  "sample_legal = [PStr ''WAITING_HUMAN'', PStr ''ABANDONED'', PStr ''DRAFT'']"

definition sample_raised :: pyval where
  "sample_raised = decision_result (PStr ''R2'') False [] [PStr ''superpowers_writing_plans'']
     [kv ''planner'' (PStr ''planner_architect'')] (sample_gates ''plan'') sample_legal sample_legal
     [''config/risk_policy.yaml:triggers.docs'', ''config/risk_policy.yaml:triggers.api'',
      ''project_profiles/p1.yaml:risk_overrides.api'',
      ''config/skill_routing.yaml:skills.superpowers_writing_plans'',
      ''config/model_routing.yaml:roles.planner_architect'',
      ''config/workflow_policy.yaml:transitions.DRAFT'']"

definition sample_gated :: pyval where
  "sample_gated = decision_result (PStr ''R3'') True [PStr ''H1_PRODUCT_INTENT'']
     [PStr ''superpowers_writing_plans''] [kv ''planner'' (PStr ''planner_architect'')]
     (sample_gates ''human_approval'') sample_legal [PStr ''WAITING_HUMAN'', PStr ''ABANDONED'']
     [''config/risk_policy.yaml:triggers.prod'',
      ''config/human_decision_policy.yaml:triggers.H1_PRODUCT_INTENT'',
      ''config/skill_routing.yaml:skills.superpowers_writing_plans'',
      ''config/model_routing.yaml:roles.planner_architect'',
      ''config/workflow_policy.yaml:transitions.DRAFT'']"

lemma sample_load: "load_policy_bundle sample_digest sample_fs sample_listing = Inr sample_bundle"
  by code_simp

lemma sample_raised_eval:
  "evaluate_normalized (sample_input [''api'', ''docs''] [] (PStr ''P1'')) sample_bundle = Inr sample_raised"
  by code_simp

lemma sample_gated_eval:
  "evaluated INPUT_FIELDS (PDict (sample_input [''prod''] [''H1_PRODUCT_INTENT''] PNone)) sample_bundle
     = Inr sample_gated"
  by code_simp

lemma sample_bundle_ok: "bundle_ok sample_bundle"
  by (rule load_bundle_ok [OF sample_load])

lemma sample_input_get:
  "dget (sample_input rs hs p) ''risk_triggers'' = PList (map PStr rs)"
  "dget (sample_input rs hs p) ''human_triggers'' = PList (map PStr hs)"
  "dget (sample_input rs hs p) ''project_profile_id'' = p"
  by (simp_all add: sample_input_def)

end
