(* ===== verification/Policy_Props.thy ===== *)
theory Policy_Props
  imports Policy_Sample
begin

text \<open>
  The properties of the policy engine: every answer is safe, the highest applicable risk
  wins, profiles only raise risk, the order of triggers is irrelevant, unknown or duplicate
  triggers stop the evaluation, a loaded bundle is well-formed. Each property stands with the
  witness that applies it to the sample policy root.
\<close>

subsection \<open>Consequences of a well-formed bundle\<close>

lemma bundle_ok_dicts:
  assumes "bundle_ok b"
  shows "is_dict (global_triggers b)" "global_triggers b = dget (bundle_risk b) ''triggers''"
    "dget_or (bundle_risk b) ''default_level'' (PStr ''R0'') = dget (bundle_risk b) ''default_level''"
    "level_of (dget (bundle_risk b) ''default_level'') \<noteq> None"
proof -
  have trig: "is_dict (dget (bundle_risk b) ''triggers'')"
    and dl: "level_of (dget (bundle_risk b) ''default_level'') \<noteq> None"
    using assms by (simp_all add: bundle_ok_def risk_ok_def Let_def)
  then show eq: "global_triggers b = dget (bundle_risk b) ''triggers''"
    by (auto simp: global_triggers_def dget_or_def dget_def split: option.splits)
  with trig show "is_dict (global_triggers b)" by simp
  from dl show "dget_or (bundle_risk b) ''default_level'' (PStr ''R0'') =
      dget (bundle_risk b) ''default_level''"
    by (auto simp: dget_or_def dget_def level_of_def split: option.splits)
  show "level_of (dget (bundle_risk b) ''default_level'') \<noteq> None" by (rule dl)
qed

lemma registry_row:
  assumes "registry_ok r reg" "call_get_any (PDict reg) pid PNone = Inr v" "v \<noteq> PNone"
  shows "is_dict (vget v ''profile'')" "profile_ok r (entries (vget v ''profile''))"
proof -
  from assms(2,3) obtain k where "(k, v) \<in> set reg"
    by (auto simp: call_get_any_def dfind_def find_Some_iff split: option.splits if_splits)
      (metis nth_mem)
  with assms(1) show "is_dict (vget v ''profile'')" "profile_ok r (entries (vget v ''profile''))"
    by (auto simp: registry_ok_def list_all_iff)
qed

lemma bundle_ok_overrides:
  assumes "bundle_ok b"
  shows "is_dict (profile_overrides b pid)"
proof (cases "profile_record b pid")
  case (Inr sp)
  obtain source profile where sp: "sp = (source, profile)" by (cases sp)
  show ?thesis
  proof (cases "profile = PNone")
    case False
    from Inr sp False obtain v where v: "call_get_any (PDict (bundle_profiles b)) pid PNone = Inr v"
      "is_dict v" "profile = vget v ''profile''"
      by (auto simp: profile_record_def rbind_Inr Let_def split: if_splits)
    from v(2) have "v \<noteq> PNone" by auto
    with v have "profile_ok (bundle_risk b) (entries profile)"
      using assms registry_row(2) [of "bundle_risk b" "bundle_profiles b" pid v]
      by (simp add: bundle_ok_def)
    then have "is_dict (dget (entries profile) ''risk_overrides'')"
      by (simp add: profile_ok_def overrides_ok_def)
    moreover from this have "dget_or (entries profile) ''risk_overrides'' (PDict []) =
        dget (entries profile) ''risk_overrides''"
      by (auto simp: dget_or_def dget_def split: option.splits)
    ultimately show ?thesis using profile_record_cases(2) [OF Inr [unfolded sp]] False by simp
  qed (use profile_record_cases(2) [OF Inr [unfolded sp]] in simp)
qed (simp add: profile_overrides_def)

lemma triggers_given: "dget d f = PList xs \<Longrightarrow> dget_or d f x = PList xs"
  by (auto simp: dget_or_def dget_def split: option.splits)

lemma risk_part:
  assumes "evaluate_normalized d b = Inr r" "dget d ''risk_triggers'' = PList ts"
  obtains level prov where "risk_decision b (dget d ''project_profile_id'') ts = Inr (level, prov)"
    "vget r ''risk_level'' = level"
  using assms(1)
  by (elim evaluate_normalizedE) (simp add: triggers_given [OF assms(2)] decision_result_def)

subsection \<open>Safety of every answer\<close>

text \<open>C1. \<open>evaluate_policy\<close> always returns. Its result is either a strict fail-closed result,
  or a decision of the given bundle that respects the human gate: a gated decision authorizes
  nothing but WAITING_HUMAN and ABANDONED, authorized transitions are legal, level R3 and
  human triggers close the gate. This holds for every input value and every bundle, well-formed
  or not.\<close>

theorem evaluate_policy_safe:
  "\<exists>v. evaluate_policy order input source = Inr v \<and>
     (closed_shut (result_part input v) \<or>
      (\<exists>b r. source = Inr b \<and> evaluated order input b = Inr r \<and> result_part input v = r)) \<and>
     gate_respected (result_part input v)"
proof (rule evaluate_policy_cases [of order "input" source])
  fix v assume v: "evaluate_policy order input source = Inr v"
    "\<exists>e p m. result_part input v = fail_closed_result e p m"
  then have "closed_shut (result_part input v)" using fail_closed_result_shut by force
  with v(1) closed_shut_gate show ?thesis by blast
next
  fix b r v assume "source = Inr b" and r: "evaluated order input b = Inr r"
    and "evaluate_policy order input source = Inr v" "result_part input v = r"
  then show ?thesis using evaluated_decision(3) [OF r] by (intro exI [of _ v]) simp
qed

text \<open>When no bundle could be loaded, the answer is fail-closed, whatever the input.\<close>

lemma evaluate_policy_unloadable:
  "\<exists>v. evaluate_policy order input (Inl e) = Inr v \<and> closed_shut (result_part input v)"
  by (rule evaluate_policy_cases [of order "input" "Inl e"]) (auto simp: fail_closed_result_shut)

subsection \<open>Risk\<close>

text \<open>C3. The highest applicable level wins: the level of a decision is the maximum of the
  default level and of the levels governing the given triggers (the profile's override of a
  trigger, else its global level).\<close>

theorem highest_risk_wins:
  assumes "bundle_ok b" "evaluate_normalized d b = Inr r"
    and "dget d ''risk_triggers'' = PList (map PStr ss)"
  shows "\<exists>l0 cs. level_of (dget (bundle_risk b) ''default_level'') = Some l0 \<and>
    map (\<lambda>s. level_of (governing b (dget d ''project_profile_id'') (PStr s))) ss = map Some cs \<and>
    level_of (vget r ''risk_level'') = Some (Max (insert l0 (set cs)))"
proof -
  obtain l0 where l0: "level_of (dget (bundle_risk b) ''default_level'') = Some l0"
    using bundle_ok_dicts(4) [OF assms(1)] by blast
  from risk_part [OF assms(2,3)] obtain level prov where
      "risk_decision b (dget d ''project_profile_id'') (map PStr ss) = Inr (level, prov)"
      "vget r ''risk_level'' = level" by blast
  with risk_decision_escalates [OF this(1) bundle_ok_dicts(1) [OF assms(1)]
      bundle_ok_overrides [OF assms(1)], of l0] l0 bundle_ok_dicts(3) [OF assms(1)]
  show ?thesis by auto
qed

lemma highest_risk_wins_witness:
  "\<exists>l0 cs. level_of (dget (bundle_risk sample_bundle) ''default_level'') = Some l0 \<and>
    map (\<lambda>s. level_of (governing sample_bundle (PStr ''P1'') (PStr s))) [''api'', ''docs''] =
      map Some cs \<and>
    level_of (vget sample_raised ''risk_level'') = Some (Max (insert l0 (set cs)))"
  using highest_risk_wins [OF sample_bundle_ok sample_raised_eval sample_input_get(1)]
  by (simp only: sample_input_get)

text \<open>C4. A profile never lowers the risk of a trigger: whenever the evaluator answers, each
  given trigger is governed by a level at least as high as its global one, whether or not the
  policy switch for lowering is set.\<close>

theorem profile_never_lowers_risk:
  assumes "bundle_ok b" "evaluate_normalized d b = Inr r"
    and "dget d ''risk_triggers'' = PList (map PStr ss)" "s \<in> set ss"
  shows "\<exists>c. level_of (governing b (dget d ''project_profile_id'') (PStr s)) = Some c \<and>
    (\<forall>g. level_of (vget (global_triggers b) s) = Some g \<longrightarrow> g \<le> c)"
proof -
  from risk_part [OF assms(2,3)] obtain level prov where
      "risk_decision b (dget d ''project_profile_id'') (map PStr ss) = Inr (level, prov)" by blast
  from risk_decision_keeps_profile_up [OF this bundle_ok_dicts(1) [OF assms(1)]
      bundle_ok_overrides [OF assms(1)] assms(4)] show ?thesis .
qed

lemma profile_never_lowers_risk_witness:
  "\<exists>c. level_of (governing sample_bundle (PStr ''P1'') (PStr ''api'')) = Some c \<and>
    (\<forall>g. level_of (vget (global_triggers sample_bundle) ''api'') = Some g \<longrightarrow> g \<le> c)"
  using profile_never_lowers_risk [OF sample_bundle_ok sample_raised_eval sample_input_get(1), of "''api''"]
  by (simp add: sample_input_get)

text \<open>The input with other trigger lists.\<close>

definition with_triggers :: "pydict \<Rightarrow> string list \<Rightarrow> string list \<Rightarrow> pydict" where
  "with_triggers d risks humans =
     dset (dset d (PStr ''risk_triggers'') (PList (map PStr risks)))
       (PStr ''human_triggers'') (PList (map PStr humans))"

lemma with_triggers_get:
  "dlookup (with_triggers d rs hs) ''risk_triggers'' = Some (PList (map PStr rs))"
  "dlookup (with_triggers d rs hs) ''human_triggers'' = Some (PList (map PStr hs))"
  "k \<noteq> ''risk_triggers'' \<Longrightarrow> k \<noteq> ''human_triggers'' \<Longrightarrow> dlookup (with_triggers d rs hs) k = dlookup d k"
  by (simp_all add: with_triggers_def dlookup_dset)

lemma evaluate_with_triggers:
  "evaluate_normalized (with_triggers d rs hs) b =
     rbind (risk_decision b (dget d ''project_profile_id'') (map PStr rs)) (\<lambda>(level, prov).
     rbind (py_iter (dget_or (bundle_human b) ''triggers'' (PDict []))) (\<lambda>declared.
     rbind (canonical_order (map PStr hs) declared) (\<lambda>triggers.
     let gate = human_gate_of triggers level in
     rbind (subscript (PDict d) ''current_state'') (\<lambda>state.
     rbind (transitions_from b state) (\<lambda>legal.
     rbind (authorize gate legal) (\<lambda>authorized.
     rbind (derive_routing_features (dget_or d ''task_attributes'' (PDict [])) level
              (bundle_routing b)) (\<lambda>features.
     rbind (derive_required_skills features (bundle_routing b)) (\<lambda>needed.
     rbind (derive_model_roles level (bundle_routing b)) (\<lambda>roles.
     rbind (level_gates b level) (\<lambda>gates.
       Inr (decision_result level gate triggers needed roles gates legal authorized
              (all_provenance prov triggers needed roles state))))))))))))"
  by (simp add: evaluate_normalized_def dget_or_def dget_def subscript_def with_triggers_get)

text \<open>C5. Only the set of triggers matters: evaluating with the risk or human triggers in another
  order, or with repetitions, gives the same result, provenance included.\<close>

theorem trigger_order_irrelevant:
  assumes "set rs = set rs'" "set hs = set hs'"
  shows "evaluate_normalized (with_triggers d rs hs) b = Inr r \<longleftrightarrow>
    evaluate_normalized (with_triggers d rs' hs') b = Inr r"
proof -
  have "risk_decision b pid (map PStr rs) = Inr x \<longleftrightarrow> risk_decision b pid (map PStr rs') = Inr x" for pid x
    using risk_decision_cong [OF assms(1)] risk_decision_cong [OF assms(1) [symmetric]] by blast
  then show ?thesis
    unfolding evaluate_with_triggers canonical_order_cong [OF assms(2)] rbind_Inr by simp
qed

lemma trigger_order_irrelevant_witness:
  "evaluate_normalized (with_triggers (sample_input [] [] (PStr ''P1'')) [''docs'', ''api''] [])
     sample_bundle = Inr sample_raised \<longleftrightarrow>
   evaluate_normalized (with_triggers (sample_input [] [] (PStr ''P1'')) [''api'', ''docs'', ''api''] [])
     sample_bundle = Inr sample_raised"
  by (rule trigger_order_irrelevant) auto

subsection \<open>Unknown triggers\<close>

lemma profile_record_total:
  assumes "hashable pid"
  shows "\<exists>sp. profile_record b pid = Inr sp"
  using assms by (auto simp: profile_record_def call_get_any_def Let_def)

lemma known_checks_dicts:
  assumes "known_trigger_checks (PDict g) (PDict ov) (map PStr ss) = Some e"
  shows "\<exists>i < length ss. \<not> dhas g (ss ! i) \<and> \<not> dhas ov (ss ! i) \<and>
    e = policy_error ''POLICY_UNKNOWN_ID'' (item_path ''input.risk_triggers'' i)
      (''unknown risk trigger '' @ ss ! i)"
proof -
  have "Some e \<in> (\<lambda>(i, t). after (rbind (py_in t (PDict g)) (\<lambda>k. if k then Inr True else py_in t (PDict ov)))
      (\<lambda>known. reject (\<not> known) ''POLICY_UNKNOWN_ID'' (item_path ''input.risk_triggers'' i)
        (''unknown risk trigger '' @ py_str t))) ` set (numbered 0 (map PStr ss))"
    using first_err_Some_mem [OF assms [unfolded known_trigger_checks_def each_def]]
    by (simp only: list.set_map)
  then obtain i t where it: "(i, t) \<in> set (numbered 0 (map PStr ss))"
    and e: "Some e = after (rbind (py_in t (PDict g)) (\<lambda>k. if k then Inr True else py_in t (PDict ov)))
      (\<lambda>known. reject (\<not> known) ''POLICY_UNKNOWN_ID'' (item_path ''input.risk_triggers'' i)
        (''unknown risk trigger '' @ py_str t))" by (auto simp only: image_iff split: prod.splits)
  from it have i: "i < length ss" "t = PStr (ss ! i)" by (auto simp: numbered_set)
  with e have "Some e = reject (\<not> (dhas g (ss ! i) \<or> dhas ov (ss ! i))) ''POLICY_UNKNOWN_ID''
      (item_path ''input.risk_triggers'' i) (''unknown risk trigger '' @ ss ! i)"
    by (simp only: py_in_simps rbind_simps if_bool_eq_disj py_str_PStr)
      (cases "dhas g (ss ! i)"; simp add: after_def)
  then show ?thesis using i(1) by (intro exI [of _ i]) (auto simp: reject_def fail_if_def split: if_splits)
qed

text \<open>C6. A risk trigger that neither the risk policy nor the profile declares stops the
  evaluation with POLICY_UNKNOWN_ID at the index of the first such trigger.\<close>

theorem unknown_trigger_blocks:
  assumes "bundle_ok b" "hashable (dget d ''project_profile_id'')"
    and ss: "dget d ''risk_triggers'' = PList (map PStr ss)" and t: "t \<in> set ss"
    and unknown: "\<not> dhas (entries (global_triggers b)) t"
      "\<not> dhas (entries (profile_overrides b (dget d ''project_profile_id''))) t"
  shows "\<exists>i < length ss. evaluate_normalized d b = Inl (policy_error ''POLICY_UNKNOWN_ID''
      (item_path ''input.risk_triggers'' i) (''unknown risk trigger '' @ ss ! i))"
proof -
  let ?pid = "dget d ''project_profile_id''"
  obtain g ov where g: "global_triggers b = PDict g" and ov: "profile_overrides b ?pid = PDict ov"
    using bundle_ok_dicts(1) [OF assms(1)] bundle_ok_overrides [OF assms(1), of ?pid]
    by (auto simp: is_dict_iff)
  obtain source profile where pr: "profile_record b ?pid = Inr (source, profile)"
    using profile_record_total [OF assms(2), of b] by force
  have "known_trigger_checks (PDict g) (PDict ov) (map PStr ss) \<noteq> None"
    unfolding known_checks_set using t unknown by (auto simp: g ov)
  then obtain e where e: "known_trigger_checks (PDict g) (PDict ov) (map PStr ss) = Some e" by blast
  have "risk_decision b ?pid (map PStr ss) = Inl e"
    unfolding risk_decision_def pr rbind_simps case_prod_conv Let_def
      profile_record_cases(2) [OF pr, symmetric] global_triggers_def [symmetric]
    by (simp add: g ov e)
  then have "evaluate_normalized d b = Inl e"
    by (simp add: evaluate_normalized_def triggers_given [OF ss])
  with known_checks_dicts [OF e] show ?thesis by auto
qed

lemma unknown_trigger_blocks_witness:
  "\<exists>i < length [''docs'', ''mystery'']. evaluate_normalized (sample_input [''docs'', ''mystery''] [] PNone)
      sample_bundle = Inl (policy_error ''POLICY_UNKNOWN_ID'' (item_path ''input.risk_triggers'' i)
        (''unknown risk trigger '' @ [''docs'', ''mystery''] ! i))"
proof (rule unknown_trigger_blocks [OF sample_bundle_ok _
      sample_input_get(1) [of "[''docs'', ''mystery'']" "[]" PNone], of "''mystery''"])
  show "\<not> dhas (entries (global_triggers sample_bundle)) ''mystery''"
    by (simp add: bundle_ok_dicts(2) [OF sample_bundle_ok]) (simp add: sample_bundle_def sample_risk_def)
qed (simp_all add: sample_input_get profile_overrides_def profile_record_def)

subsection \<open>The human gate\<close>

lemma dict_field: "is_dict (dget d f) \<Longrightarrow> dget_or d f x = dget d f"
  by (auto simp: dget_or_def dget_def split: option.splits)

lemma gated_filter:
  assumes "rfilter (\<lambda>s. in_set s gated_states) legal = Inr auth"
  shows "auth = filter (\<lambda>s. s \<in> set gated_states) legal"
proof -
  have "in_set x gated_states = Inr True \<longleftrightarrow> x \<in> set gated_states" for x
    by (auto simp: in_set_def gated_states_def)
  then show ?thesis using rfilter_Inr [OF assms] by simp
qed

text \<open>C7. The human gate, functionally: the reported human triggers are the given ones in
  declaration order; the gate is closed exactly when there is one or the level is R3; the legal
  transitions are the row of the current state; a closed gate filters them down to
  WAITING_HUMAN and ABANDONED, an open gate authorizes all of them.\<close>

theorem human_gate_spec:
  assumes "bundle_ok b" "evaluate_normalized d b = Inr r"
    and hs: "dget d ''human_triggers'' = PList (map PStr hs)"
  shows "let declared = map fst (entries (dget (bundle_human b) ''triggers''));
             legal = elems (vget r ''legal_transitions'');
             gate = (filter (\<lambda>x. x \<in> PStr ` set hs) declared \<noteq> [] \<or> vget r ''risk_level'' = PStr ''R3'') in
    vget r ''required_human_triggers'' = PList (filter (\<lambda>x. x \<in> PStr ` set hs) declared) \<and>
    vget r ''human_gate'' = PBool gate \<and>
    transitions_from b (dget d ''current_state'') = Inr legal \<and>
    vget r ''authorized_transitions'' =
      PList (if gate then filter (\<lambda>s. s \<in> set gated_states) legal else legal)"
  using assms(2)
proof (rule evaluate_normalizedE)
  fix given_risks level base given declared triggers gate state legal authorized features needed roles gates
  assume e: "py_iter (dget_or d ''human_triggers'' (PList [])) = Inr given"
    "py_iter (dget_or (bundle_human b) ''triggers'' (PDict [])) = Inr declared"
    "canonical_order given declared = Inr triggers" "gate = human_gate_of triggers level"
    "subscript (PDict d) ''current_state'' = Inr state" "transitions_from b state = Inr legal"
    "authorize gate legal = Inr authorized"
    and r: "r = decision_result level gate triggers needed roles gates legal authorized
       (all_provenance base triggers needed roles state)"
  from e(1) have given: "given = map PStr hs" by (simp add: triggers_given [OF hs])
  have "is_dict (dget (bundle_human b) ''triggers'')"
    using assms(1) by (simp add: bundle_ok_def human_ok_def)
  with e(2) have decl: "declared = map fst (entries (dget (bundle_human b) ''triggers''))"
    by (auto simp: dict_field is_dict_iff)
  have trig: "triggers = filter (\<lambda>x. x \<in> PStr ` set hs) declared"
    using canonical_order_Inr [OF e(3) [unfolded given]] by (simp add: image_iff Bex_def conj_commute)
  have st: "state = dget d ''current_state''"
    using e(5) by (auto simp: subscript_def dget_def split: option.splits)
  have auth: "authorized = (if gate then filter (\<lambda>s. s \<in> set gated_states) legal else legal)"
    using e(7) gated_filter by (auto simp: authorize_def split: if_splits)
  have fields: "vget r ''risk_level'' = level" "vget r ''human_gate'' = PBool gate"
    "vget r ''required_human_triggers'' = PList triggers" "vget r ''legal_transitions'' = PList legal"
    "vget r ''authorized_transitions'' = PList authorized"
    by (simp_all add: r decision_result_def)
  show ?thesis
    unfolding Let_def fields decl [symmetric] trig [symmetric] projections
    using e(6) auth by (simp only: st human_gate_of_def e(4))
qed

lemma human_gate_spec_witness:
  "let declared = map fst (entries (dget (bundle_human sample_bundle) ''triggers''));
       legal = elems (vget sample_raised ''legal_transitions'');
       gate = (filter (\<lambda>x. x \<in> PStr ` set []) declared \<noteq> [] \<or> vget sample_raised ''risk_level'' = PStr ''R3'') in
    vget sample_raised ''required_human_triggers'' = PList (filter (\<lambda>x. x \<in> PStr ` set []) declared) \<and>
    vget sample_raised ''human_gate'' = PBool gate \<and>
    transitions_from sample_bundle (PStr ''DRAFT'') = Inr legal \<and>
    vget sample_raised ''authorized_transitions'' =
      PList (if gate then filter (\<lambda>s. s \<in> set gated_states) legal else legal)"
  using human_gate_spec [OF sample_bundle_ok sample_raised_eval sample_input_get(2)]
  by (simp add: sample_input_def)

subsection \<open>Gates of the level\<close>

lemma level_row:
  assumes "risk_ok rk" "level_of level = Some l"
  shows "\<exists>c. dlookup (entries (dget rk ''levels'')) (str_of level) = Some c \<and> level_row_ok c"
proof -
  from assms(2) have lv: "level = PStr (level_name l)" by (simp add: level_of_Some)
  have "level_name l \<in> set (map fst RISK_ORDER)" by (cases l) (simp_all add: level_name_def RISK_ORDER_def)
  moreover have "\<forall>n \<in> set (map fst RISK_ORDER). dhas (entries (dget rk ''levels'')) n"
    using assms(1) unfolding risk_ok_def Let_def list_all_iff by blast
  ultimately have "dhas (entries (dget rk ''levels'')) (level_name l)" by blast
  then obtain c where c: "dlookup (entries (dget rk ''levels'')) (level_name l) = Some c"
    by (auto simp: dhas_def)
  from dlookup_mem [OF this] assms(1) have "level_row_ok c"
    by (auto simp: risk_ok_def Let_def list_all_iff)
  with c lv show ?thesis by simp
qed

text \<open>C8. The mandatory gates of a decision are the non-empty list of registered gates that the
  policy declares for the decided level.\<close>

theorem mandatory_gates_of_level:
  assumes "bundle_ok b" "evaluate_normalized d b = Inr r"
    and "dget d ''risk_triggers'' = PList (map PStr ss)"
  shows "vget r ''mandatory_gates'' =
      vget (vget (dget (bundle_risk b) ''levels'') (str_of (vget r ''risk_level''))) ''required_gates'' \<and>
    elems (vget r ''mandatory_gates'') \<noteq> [] \<and> vocab_list POLICY_GATE_IDS (vget r ''mandatory_gates'')"
proof -
  obtain l0 where l0: "level_of (dget (bundle_risk b) ''default_level'') = Some l0"
    using bundle_ok_dicts(4) [OF assms(1)] by blast
  from risk_part [OF assms(2,3)] obtain level0 prov where
      dec: "risk_decision b (dget d ''project_profile_id'') (map PStr ss) = Inr (level0, prov)"
      "vget r ''risk_level'' = level0" by blast
  with risk_decision_escalates [OF dec(1) bundle_ok_dicts(1) [OF assms(1)]
      bundle_ok_overrides [OF assms(1)], of l0] l0 bundle_ok_dicts(3) [OF assms(1)]
  obtain l where l: "level_of (vget r ''risk_level'') = Some l" by auto
  have rk: "risk_ok (bundle_risk b)" using assms(1) by (simp add: bundle_ok_def)
  then have dict: "is_dict (dget (bundle_risk b) ''levels'')" by (simp add: risk_ok_def Let_def)
  from level_row [OF rk l] obtain c where c:
    "dlookup (entries (dget (bundle_risk b) ''levels'')) (str_of (vget r ''risk_level'')) = Some c"
    "level_row_ok c" by blast
  then have row: "vget (dget (bundle_risk b) ''levels'') (str_of (vget r ''risk_level'')) = c"
    using dict by (auto simp: is_dict_iff dget_def)
  from assms(2) show ?thesis
  proof (rule evaluate_normalizedE)
    fix given_risks level base given declared triggers gate state legal authorized features needed roles gates
    assume g: "level_gates b level = Inr gates"
      and r: "r = decision_result level gate triggers needed roles gates legal authorized
        (all_provenance base triggers needed roles state)"
    then have lv: "vget r ''risk_level'' = level" and mg: "vget r ''mandatory_gates'' = PList gates"
      by (simp_all add: decision_result_def)
    from l lv have s: "level = PStr (str_of level)" by (auto simp: level_of_Some)
    have "call_get_any (dget_or (bundle_risk b) ''levels'' (PDict [])) level (PDict []) = Inr c"
      unfolding dict_field [OF dict]
      using c(1) dict by (subst s) (auto simp: is_dict_iff dget_or_def lv)
    with g obtain v where v: "call_get c ''required_gates'' (PList []) = Inr v" "py_iter v = Inr gates"
      by (auto simp: level_gates_def rbind_Inr)
    from c(2) have vl: "vocab_list POLICY_GATE_IDS (vget c ''required_gates'')"
      "elems (vget c ''required_gates'') \<noteq> []" by (simp_all add: level_row_ok_def)
    then have lst: "is_list (vget c ''required_gates'')" by (simp add: vocab_list_def)
    with v have "PList gates = vget c ''required_gates''"
      by (cases c) (auto simp: is_list_iff call_get_def triggers_given vget_def)
    with vl show ?thesis unfolding mg row by simp
  qed
qed

lemma mandatory_gates_of_level_witness:
  "vget sample_raised ''mandatory_gates'' =
      vget (vget (dget (bundle_risk sample_bundle) ''levels'') (str_of (vget sample_raised ''risk_level'')))
        ''required_gates'' \<and>
    elems (vget sample_raised ''mandatory_gates'') \<noteq> [] \<and>
    vocab_list POLICY_GATE_IDS (vget sample_raised ''mandatory_gates'')"
  by (rule mandatory_gates_of_level [OF sample_bundle_ok sample_raised_eval sample_input_get(1)])

subsection \<open>Accepted inputs\<close>

lemma trigger_list_ok:
  assumes "trigger_list_check d f = None"
  shows "\<exists>ss. dget d f = PList (map PStr ss) \<and> distinct ss"
proof -
  let ?v = "dget d f"
  note g = first_err_mem [OF assms [unfolded trigger_list_check_def Let_def]]
  have "reject (\<not> is_list ?v) ''POLICY_TYPE_ERROR'' (''input.'' @ f) (f @ '' must be a list'') = None"
    by (rule g) (simp only: list.set insert_iff simp_thms)
  then obtain xs where xs: "?v = PList xs" by (auto simp: is_list_iff)
  have "each (\<lambda>(i, x). reject (\<not> is_str x) ''POLICY_TYPE_ERROR'' (item_path (''input.'' @ f) i)
      (butlast f @ '' must be a string'')) (numbered 0 (elems ?v)) = None"
    by (rule g) (simp only: list.set insert_iff simp_thms)
  then have strs: "\<forall>x \<in> set xs. is_str x" by (subst (asm) each_numbered) (simp_all add: xs)
  have "after (duplicate_item (elems ?v)) (\<lambda>dup. case dup of None \<Rightarrow> None
      | Some (i, x) \<Rightarrow> Some (policy_error ''POLICY_DUPLICATE_SET_MEMBER'' (item_path (''input.'' @ f) i)
          (''duplicate '' @ butlast f @ '' '' @ py_str x))) = None"
    by (rule g) (simp only: list.set insert_iff simp_thms)
  then obtain a where a: "duplicate_item xs = Inr a"
    "(case a of None \<Rightarrow> None
      | Some (i, x) \<Rightarrow> Some (policy_error ''POLICY_DUPLICATE_SET_MEMBER'' (item_path (''input.'' @ f) i)
          (''duplicate '' @ butlast f @ '' '' @ py_str x))) = None" by (auto simp only: xs projections after_None)
  then have dup: "duplicate_item xs = Inr None" by (cases a) auto
  have eq: "map PStr (strs xs) = xs" by (rule map_PStr_strs [OF strs])
  from duplicate_from_None [OF dup [unfolded duplicate_item_def]]
  have "\<forall>j k. j < k \<longrightarrow> k < length xs \<longrightarrow> xs ! j \<noteq> xs ! k"
    using strs by (metis py_eq_str(1) is_str_iff nth_mem order_less_trans)
  then have "distinct xs" unfolding distinct_conv_nth by (metis nat_neq_iff)
  then have "distinct (strs xs)" using eq by (metis distinct_map)
  with xs eq show ?thesis by metis
qed

text \<open>What the guards of \<open>input_checks\<close> say one by one.\<close>

lemma input_keys:
  assumes "input_checks order d b = None" "set order = set INPUT_FIELDS"
  shows "set (map fst d) = PStr ` set INPUT_FIELDS"
proof -
  note g = first_err_mem [OF assms(1) [unfolded input_checks_def Let_def]]
  have "each (\<lambda>p. reject (\<not> mem_list (fst p) (map PStr INPUT_FIELDS)) ''POLICY_UNKNOWN_FIELD''
      (''input.'' @ py_str (fst p)) (''unknown PolicyEvaluationInput field '' @ py_str (fst p))) d = None"
    by (rule g) (simp only: list.set insert_iff simp_thms)
  then have "set (map fst d) \<subseteq> PStr ` set INPUT_FIELDS" by (auto simp: mem_list_strs)
  moreover have "each (\<lambda>f. reject (\<not> dhas d f) ''POLICY_TYPE_ERROR'' (''input.'' @ f)
      (f @ '' is required'')) order = None"
    by (rule g) (simp only: list.set insert_iff simp_thms)
  then have "PStr ` set INPUT_FIELDS \<subseteq> set (map fst d)" by (auto simp: assms(2) dhas_iff_key)
  ultimately show ?thesis by blast
qed

lemma input_triggers:
  assumes "input_checks order d b = None" "human_ok (bundle_human b)"
  shows "\<exists>rs. dget d ''risk_triggers'' = PList (map PStr rs) \<and> distinct rs"
    "\<exists>hs. dget d ''human_triggers'' = PList (map PStr hs) \<and> distinct hs \<and>
       list_all (dhas (entries (dget (bundle_human b) ''triggers''))) hs"
proof -
  note g = first_err_mem [OF assms(1) [unfolded input_checks_def Let_def]]
  have "trigger_list_check d ''risk_triggers'' = None" by (rule g) (simp only: list.set insert_iff simp_thms)
  then show "\<exists>rs. dget d ''risk_triggers'' = PList (map PStr rs) \<and> distinct rs" by (rule trigger_list_ok)
  have "trigger_list_check d ''human_triggers'' = None" by (rule g) (simp only: list.set insert_iff simp_thms)
  then obtain hs where hs: "dget d ''human_triggers'' = PList (map PStr hs)" "distinct hs"
    using trigger_list_ok by blast
  have ht: "is_dict (dget (bundle_human b) ''triggers'')" using assms(2) by (simp add: human_ok_def)
  have "each (\<lambda>(i, t). after (py_in t (dget_or (bundle_human b) ''triggers'' (PDict []))) (\<lambda>known.
        reject (\<not> known) ''POLICY_UNKNOWN_ID'' (item_path ''input.human_triggers'' i)
          (''unknown human trigger '' @ py_str t)))
      (numbered 0 (elems (dget d ''human_triggers''))) = None"
    by (rule g) (simp only: list.set insert_iff simp_thms)
  then have "\<forall>t \<in> set (map PStr hs). py_in t (dget (bundle_human b) ''triggers'') = Inr True"
    by (subst (asm) each_numbered) (auto simp: hs dict_field [OF ht])
  then have "list_all (dhas (entries (dget (bundle_human b) ''triggers''))) hs"
    using ht by (auto simp: list_all_iff is_dict_iff)
  with hs show "\<exists>hs. dget d ''human_triggers'' = PList (map PStr hs) \<and> distinct hs \<and>
       list_all (dhas (entries (dget (bundle_human b) ''triggers''))) hs" by blast
qed

lemma input_state:
  assumes "input_checks order d b = None" "workflow_ok (bundle_workflow b)"
  shows "dget d ''current_state'' \<in> set (elems (dget (bundle_workflow b) ''task_states''))"
proof -
  note g = first_err_mem [OF assms(1) [unfolded input_checks_def Let_def]]
  have st: "is_list (dget (bundle_workflow b) ''task_states'')"
    and vs: "\<forall>x \<in> set (elems (dget (bundle_workflow b) ''task_states'')). is_str x"
    using assms(2) by (auto simp: workflow_ok_def Let_def vocab_list_def list_all_iff mem_list_strs)
  have "after (py_set (dget_or (bundle_workflow b) ''task_states'' (PList []))) (\<lambda>states.
      reject (\<not> mem_list (dget d ''current_state'') states) ''POLICY_UNKNOWN_ID'' ''input.current_state''
        (''unknown current_state '' @ py_str (dget d ''current_state''))) = None"
    by (rule g) (simp only: list.set insert_iff simp_thms)
  then have "mem_list (dget d ''current_state'') (elems (dget (bundle_workflow b) ''task_states''))"
    using st by (auto simp: is_list_iff py_set_def triggers_given split: if_splits)
  then show ?thesis using vs by (subst (asm) mem_list_str_keys) (auto simp: is_str_iff)
qed

lemma input_profile:
  assumes "input_checks order d b = None"
  shows "dget d ''project_profile_id'' = PNone \<or>
     dget d ''project_profile_id'' \<in> set (map fst (bundle_profiles b))"
proof -
  note g = first_err_mem [OF assms [unfolded input_checks_def Let_def]]
  let ?pid = "dget d ''project_profile_id''"
  have "reject (?pid \<noteq> PNone \<and> \<not> is_str ?pid) ''POLICY_TYPE_ERROR'' ''input.project_profile_id''
      ''project_profile_id must be a string or null'' = None"
    by (rule g) (simp only: list.set insert_iff simp_thms)
  moreover have "(if is_str ?pid then
      after (in_set ?pid (map fst (bundle_profiles b))) (\<lambda>known.
        reject (\<not> known) ''POLICY_UNKNOWN_ID'' ''input.project_profile_id''
          (''unknown project_profile_id '' @ py_str ?pid)) else None) = None"
    by (rule g) (simp only: list.set insert_iff simp_thms)
  ultimately show ?thesis by (auto simp: is_str_iff)
qed

text \<open>C9. An input that passes prevalidation names exactly the five input fields, gives its risk
  and human triggers as duplicate-free lists of strings, starts from a state the workflow
  policy declares, and uses declared human triggers and a registered profile only. The set of
  field names may be visited in any order.\<close>

theorem accepted_input:
  assumes "bundle_ok b" "prevalidate_input order record b = Inr d" "set order = set INPUT_FIELDS"
  shows "set (map fst d) = PStr ` set INPUT_FIELDS \<and>
    (\<exists>rs. dget d ''risk_triggers'' = PList (map PStr rs) \<and> distinct rs) \<and>
    (\<exists>hs. dget d ''human_triggers'' = PList (map PStr hs) \<and> distinct hs \<and>
       list_all (dhas (entries (dget (bundle_human b) ''triggers''))) hs) \<and>
    dget d ''current_state'' \<in> set (elems (dget (bundle_workflow b) ''task_states'')) \<and>
    (dget d ''project_profile_id'' = PNone \<or>
     dget d ''project_profile_id'' \<in> set (map fst (bundle_profiles b)))"
proof -
  from assms(2) have acc: "input_checks order d b = None"
    by (auto simp: prevalidate_input_def rbind_Inr guarded_Inr)
  from assms(1) have ok: "human_ok (bundle_human b)" "workflow_ok (bundle_workflow b)"
    by (simp_all add: bundle_ok_def)
  show ?thesis
    by (intro conjI input_keys [OF acc assms(3)] input_triggers [OF acc ok(1)]
        input_state [OF acc ok(2)] input_profile [OF acc])
qed

lemma accepted_input_witness:
  "set (map fst (sample_input [''prod''] [''H1_PRODUCT_INTENT''] PNone)) = PStr ` set INPUT_FIELDS \<and>
    (\<exists>rs. dget (sample_input [''prod''] [''H1_PRODUCT_INTENT''] PNone) ''risk_triggers'' =
       PList (map PStr rs) \<and> distinct rs) \<and>
    (\<exists>hs. dget (sample_input [''prod''] [''H1_PRODUCT_INTENT''] PNone) ''human_triggers'' =
       PList (map PStr hs) \<and> distinct hs \<and>
       list_all (dhas (entries (dget (bundle_human sample_bundle) ''triggers''))) hs) \<and>
    dget (sample_input [''prod''] [''H1_PRODUCT_INTENT''] PNone) ''current_state''
      \<in> set (elems (dget (bundle_workflow sample_bundle) ''task_states'')) \<and>
    (dget (sample_input [''prod''] [''H1_PRODUCT_INTENT''] PNone) ''project_profile_id'' = PNone \<or>
     dget (sample_input [''prod''] [''H1_PRODUCT_INTENT''] PNone) ''project_profile_id''
       \<in> set (map fst (bundle_profiles sample_bundle)))"
proof (rule accepted_input [OF sample_bundle_ok _ refl])
  show "prevalidate_input INPUT_FIELDS (PDict (sample_input [''prod''] [''H1_PRODUCT_INTENT''] PNone))
      sample_bundle = Inr (sample_input [''prod''] [''H1_PRODUCT_INTENT''] PNone)"
    using sample_gated_eval unfolding evaluated_Inr
    by (auto simp: prevalidate_input_def normalize_input_def looks_like_public_input_def rbind_Inr
        guarded_Inr sample_input_def PUBLIC_INPUT_WRAPPER_FIELDS_def WRAPPER_FIELDS_def)
qed

subsection \<open>Loaded bundles\<close>

text \<open>C10. A bundle that loads is well-formed: the workflow's states are known task states with a
  closed transition table; all four risk levels are declared with registered, non-empty gates
  and the default and every trigger have one of them; human triggers are known; profile ids
  are unique, required files are safe relative paths, and no profile lowers a global risk
  level unless the policy allows lowering.\<close>

theorem loaded_bundle_wellformed:
  assumes "load_policy_bundle digest fs listing = Inr b"
  shows "workflow_ok (bundle_workflow b) \<and> risk_ok (bundle_risk b) \<and> human_ok (bundle_human b) \<and>
    registry_ok (bundle_risk b) (bundle_profiles b)"
  using load_bundle_ok [OF assms] by (simp add: bundle_ok_def)

lemma loaded_bundle_wellformed_witness:
  "workflow_ok (bundle_workflow sample_bundle) \<and> risk_ok (bundle_risk sample_bundle) \<and>
    human_ok (bundle_human sample_bundle) \<and>
    registry_ok (bundle_risk sample_bundle) (bundle_profiles sample_bundle)"
  by (rule loaded_bundle_wellformed [OF sample_load])



end
