(* ===== verification/Path_Safety.thy ===== *)
theory Path_Safety
  imports Contracts "HOL-Library.Sublist"
begin

text \<open>
  What the path checks of the contract validator are for. A relative path is walked part by
  part from a base directory, as an operating system does: an empty part and \<open>.\<close> stay,
  \<open>..\<close> goes up, any other part goes down. A path the validator accepts only goes down, so
  the walk never leaves the base. The second part computes the field name the validator reads
  off an issue path such as \<open>evidence_paths[3]\<close>, which is how the check reaches list items.
\<close>

subsection \<open>Walking a path\<close>

definition walk_part :: "string list \<Rightarrow> string \<Rightarrow> string list" where
  "walk_part dir p =
     (if p = [] \<or> p = ''.'' then dir else if p = ''..'' then butlast dir else dir @ [p])"

text \<open>The directories the walk visits, the base first.\<close>

fun walk :: "string list \<Rightarrow> string list \<Rightarrow> string list list" where
  "walk dir [] = [dir]"
| "walk dir (p # ps) = dir # walk (walk_part dir p) ps"

definition resolve :: "string list \<Rightarrow> string \<Rightarrow> string list" where
  "resolve base s = last (walk base (split_on (CHR ''/'') s))"

text \<open>Every visited directory is the base or below it, and the end is strictly below.\<close>

definition stays_below :: "string list \<Rightarrow> string \<Rightarrow> bool" where
  "stays_below base s \<longleftrightarrow>
     (\<forall>dir \<in> set (walk base (split_on (CHR ''/'') s)). prefix base dir) \<and>
     strict_prefix base (resolve base s)"

lemma walk_nonempty [simp]: "walk dir ps \<noteq> []"
  by (cases ps) auto

lemma walk_down:
  "list_all (\<lambda>p. \<not> is_dot_part p) ps \<Longrightarrow>
     (\<forall>d \<in> set (walk dir ps). prefix dir d) \<and> last (walk dir ps) = dir @ ps"
proof (induction ps arbitrary: dir)
  case (Cons p ps)
  have down: "walk_part dir p = dir @ [p]"
    using Cons.prems by (simp add: walk_part_def is_dot_part_def)
  from Cons.prems have "list_all (\<lambda>p. \<not> is_dot_part p) ps" by simp
  from Cons.IH [OF this, of "dir @ [p]"] show ?case
    by (auto simp: down intro: append_prefixD)
qed simp

lemma safe_parts: "is_safe_relative_path s \<Longrightarrow> list_all (\<lambda>p. \<not> is_dot_part p) (split_on (CHR ''/'') s)"
  by (simp add: is_safe_relative_path_def split: if_splits)

lemma safe_resolve: "is_safe_relative_path s \<Longrightarrow> resolve base s = base @ split_on (CHR ''/'') s"
  unfolding resolve_def by (simp add: walk_down [OF safe_parts])

lemma safe_stays_below:
  assumes "is_safe_relative_path s"
  shows "stays_below base s"
  unfolding stays_below_def safe_resolve [OF assms]
  using walk_down [OF safe_parts [OF assms], of base] by (simp add: strict_prefix_def)

text \<open>Two different safe paths name two different places.\<close>

lemma safe_resolve_inject:
  "is_safe_relative_path s \<Longrightarrow> is_safe_relative_path t \<Longrightarrow>
     resolve base s = resolve base t \<longleftrightarrow> s = t"
  by (simp add: safe_resolve) (metis split_on_join)

subsection \<open>Field names of list items\<close>

lemma digit_char_is_digit: "n < 10 \<Longrightarrow> is_digit_c (digit_char n)"
  by (simp add: digit_char_def is_digit_c_def)

lemma nat_str_digits: "\<forall>c \<in> set (nat_str n). is_digit_c c"
proof (induction n rule: nat_str.induct)
  case (1 n)
  show ?case
    by (subst nat_str.simps) (use 1 in \<open>auto simp: digit_char_is_digit\<close>)
qed

lemma nat_str_nonempty [simp]: "nat_str n \<noteq> []"
  by (subst nat_str.simps) simp

lemma bracket_no_digit [simp]: "\<not> is_digit_c (CHR ''['')" "\<not> is_digit_c (CHR ''.'')"
  by (simp_all add: is_digit_c_def)

lemma strip_index_item [simp]: "strip_index (item_path p i) = p"
proof -
  let ?ns = "rev (nat_str i)"
  have digits: "\<And>c. c \<in> set ?ns \<Longrightarrow> is_digit_c c" using nat_str_digits by auto
  have "rev (item_path p i) = CHR '']'' # ?ns @ CHR ''['' # rev p" by (simp add: item_path_def)
  then have "index_suffix (item_path p i) = Some p"
    using digits by (simp add: index_suffix_def Let_def takeWhile_append dropWhile_append)
  then show ?thesis by (simp add: strip_index_def)
qed

lemma split_on_none: "c \<notin> set s \<Longrightarrow> split_on c s = [s]"
  by (induction s) auto

lemma item_path_no_dot: "CHR ''.'' \<notin> set n \<Longrightarrow> CHR ''.'' \<notin> set (item_path n i)"
  using nat_str_digits [of i] by (auto simp: item_path_def)

lemma semantic_parts_item: "CHR ''.'' \<notin> set n \<Longrightarrow> semantic_path_parts (item_path n i) = [n]"
  by (simp add: semantic_path_parts_def semantic_field_name_def split_on_none item_path_no_dot)

lemma split_on_append: "c \<notin> set n \<Longrightarrow> split_on c (n @ [c] @ s) = n # split_on c s"
  by (induction n) auto

text \<open>The items of a path collection are checked as paths.\<close>

lemma item_path_semantics:
  assumes "validate_runtime_semantics (item_path n i) (PStr s) ''runtime'' = []"
    and "n \<in> set PATH_COLLECTION_FIELDS" "CHR ''.'' \<notin> set n"
  shows "is_safe_relative_path s"
proof -
  have rel: "is_path_semantic_path (item_path n i)"
    "\<not> is_absolute_path_semantic_path (item_path n i)"
    using assms(2,3) by (simp_all add: is_path_semantic_path_def
        is_absolute_path_semantic_path_def semantic_parts_item Let_def)
  show ?thesis using assms(1) rel by (simp add: validate_runtime_semantics_def Let_def)
qed

text \<open>
  So are the values of a mapping of paths: the issue path of a value is the name of the
  field, a dot and the key.
\<close>

lemma value_path_semantics:
  assumes nil: "validate_runtime_semantics (n @ ''.'' @ k) (PStr s) ''runtime'' = []"
    and n: "n \<in> set PATH_COLLECTION_FIELDS" "CHR ''.'' \<notin> set n" "strip_index n = n"
    and k: "CHR ''.'' \<notin> set k" "n \<notin> {''executor'', ''clone_before''}"
  shows "is_safe_relative_path s"
proof -
  have parts: "semantic_path_parts (n @ ''.'' @ k) = [n, strip_index k]"
    using split_on_append [OF n(2), of k] n(2,3) k(1)
    by (simp add: semantic_path_parts_def semantic_field_name_def split_on_none)
  have rel: "is_path_semantic_path (n @ ''.'' @ k)"
    "\<not> is_absolute_path_semantic_path (n @ ''.'' @ k)"
    unfolding is_path_semantic_path_def is_absolute_path_semantic_path_def Let_def parts
    using n(1) k(2) by auto
  show ?thesis using nil rel by (simp add: validate_runtime_semantics_def Let_def)
qed

end
