(* ===== verification/Contract_Sample.thy ===== *)
theory Contract_Sample
  imports Contracts
begin

text \<open>
  Accepted records of several contracts, on which the properties of the contract validator
  are instantiated. The coding execution record is the one of the repository's own tests.
\<close>

definition sha_a :: pyval where "sha_a = PStr (replicate 64 (CHR ''a''))"
definition sha_b :: pyval where "sha_b = PStr (replicate 64 (CHR ''b''))"
definition sha_c :: pyval where "sha_c = PStr (replicate 64 (CHR ''c''))"
definition git_a :: pyval where "git_a = PStr (replicate 40 (CHR ''1''))"
definition git_b :: pyval where "git_b = PStr (replicate 40 (CHR ''2''))"

definition win_path :: "string list \<Rightarrow> pyval" where
  "win_path parts = PStr (join [CHR 0x5C] parts)"

definition sample_gate_row :: "string \<Rightarrow> pyval" where
  "sample_gate_row g =
     PDict [kv ''gate_id'' (PStr g), kv ''status'' (PStr ''PASS''), kv ''evidence_sha256'' sha_a,
       kv ''blocker_ids'' (PList [])]"

text \<open>An attempt that froze its first candidate.\<close>

definition cr_packet :: pyval where
  "cr_packet = PDict
    [kv ''packet_id'' (PStr ''PACKET-1''),
     kv ''path'' (PStr ''packets/task-1.json''), kv ''sha256'' sha_a,
     kv ''size_bytes'' (PInt 512), kv ''role'' (PStr ''TASK_PACKET''),
     kv ''validation_status'' (PStr ''PASS'')]"

definition cr_baseline :: pyval where
  "cr_baseline = PDict
    [kv ''repository_path'' (win_path [''C:'', ''work'', ''baseline'']),
     kv ''commit'' git_a, kv ''tree'' git_b, kv ''before_state_sha256'' sha_a,
     kv ''after_state_sha256'' sha_a, kv ''unchanged'' (PBool True)]"

definition cr_slot :: pyval where
  "cr_slot = PDict
    [kv ''slot_id'' (PStr ''SLOT-1''), kv ''state_before'' (PStr ''EMPTY''),
     kv ''state_after'' (PStr ''FROZEN_REVIEW_V1''), kv ''active_candidate_before'' PNone,
     kv ''active_candidate_after'' (PStr ''CANDIDATE-1''),
     kv ''historical_candidate_ids'' (PList [])]"

definition cr_attempt :: pyval where
  "cr_attempt = PDict
    [kv ''number'' (PInt 1),
     kv ''reserved_at_utc'' (PStr ''2026-08-24T00:00:00.000Z''),
     kv ''parent_candidate_id'' PNone, kv ''kind'' (PStr ''ORDINARY''),
     kv ''remaining_before'' (PInt 2), kv ''remaining_after'' (PInt 1),
     kv ''process_start_request_count'' (PInt 1)]"

definition cr_executor :: pyval where
  "cr_executor = PDict
    [kv ''path'' (win_path [''C:'', ''tools'', ''codex.exe'']),
     kv ''size_bytes'' (PInt 1024), kv ''sha256'' sha_b,
     kv ''authenticode_status'' (PStr ''VALID''), kv ''signer'' (PStr ''OpenAI''),
     kv ''cli_version'' (PStr ''0.145.0''), kv ''identity_complete'' (PBool True),
     kv ''argv'' (strl [''codex'', ''exec'']), kv ''model'' (PStr ''gpt-5.6-sol''),
     kv ''reasoning_effort'' (PStr ''high''), kv ''auth_mode'' (PStr ''CHATGPT_SUBSCRIPTION''),
     kv ''sandbox'' (PStr ''ISOLATED_CLONE''), kv ''approval_policy'' (PStr ''NEVER''),
     kv ''platform'' (PStr ''WINDOWS_11_X64_NTFS_PYTHON_3_13_ELEVATED_PRIVATE_DESKTOP'')]"

definition cr_capabilities :: pyval where
  "cr_capabilities = PDict
    [kv ''boundary_mode'' (PStr ''FIVE_CLASS_OPERATION_AND_PROMOTION_POLICY''),
     kv ''shell_identity_present'' (PBool True),
     kv ''accepted_operation_classes'' (strl [''APPROVED_FILE_PATCH'', ''GIT_READ_ONLY_INSPECTION'', ''LOCAL_CHECK_PROCESS'', ''TARGETED_TEXT_SEARCH'', ''WORKSPACE_READ'']),
     kv ''effective_config_sha256'' sha_a, kv ''automatic_resume_enabled'' (PBool False),
     kv ''hooks_enabled'' (PBool False), kv ''memories_enabled'' (PBool False),
     kv ''disabled_surfaces'' (strl [''APPS'', ''AUTOMATIC_RESUME'', ''BROWSER'', ''HOOKS'', ''MCP'', ''MEMORIES'', ''MODEL_SEARCH'', ''MULTI_AGENT'', ''PLUGINS'']),
     kv ''authorized_write_paths'' (strl [''acgps/example.py'']),
     kv ''check_allowlist_sha256'' sha_a, kv ''git_read_allowlist_sha256'' sha_b,
     kv ''network_policy_sha256'' sha_b, kv ''observations_complete'' (PBool True),
     kv ''operation_rows'' (PList [PDict [kv ''sequence'' (PInt 0),
     kv ''class'' (PStr ''APPROVED_FILE_PATCH''), kv ''source'' (PStr ''FILESYSTEM_DIFF''),
     kv ''event_id'' PNone, kv ''executable'' PNone, kv ''argv'' (PList []), kv ''cwd'' PNone,
     kv ''path_set'' (strl [''acgps/example.py'']), kv ''status'' (PStr ''PASS''),
     kv ''evidence_sha256'' sha_c]])]"

definition cr_clone_before :: pyval where
  "cr_clone_before = PDict
    [kv ''path'' (win_path [''C:'', ''work'', ''clone'']),
     kv ''commit'' git_a, kv ''tree'' git_b, kv ''index_sha256'' sha_a,
     kv ''status_sha256'' sha_b, kv ''git_control_sha256'' sha_c,
     kv ''file_inventory_sha256'' sha_a, kv ''remote_count'' (PInt 0),
     kv ''independent_git'' (PBool True), kv ''detached'' (PBool True),
     kv ''clean'' (PBool True)]"

definition cr_prelaunch :: pyval where
  "cr_prelaunch = PDict
    [kv ''state'' (PStr ''PASS''),
     kv ''checked_at_utc'' (PStr ''2026-08-24T00:00:00.000Z''),
     kv ''gate_rows'' (PList (map sample_gate_row [''P0'', ''P1'', ''P2'', ''P3'', ''P4'', ''P5'', ''P6''])),
     kv ''model_request_started'' (PBool True), kv ''process_start_requested'' (PBool True),
     kv ''blocker_ids'' (PList [])]"

definition cr_process :: pyval where
  "cr_process = PDict
    [kv ''start_requested'' (PBool True), kv ''pid'' (PInt 1234),
     kv ''started_at_utc'' (PStr ''2026-08-24T00:00:01.000Z''),
     kv ''ended_at_utc'' (PStr ''2026-08-24T00:01:00.000Z''), kv ''exit_code'' (PInt 0),
     kv ''timed_out'' (PBool False), kv ''cancelled'' (PBool False), kv ''error'' PNone,
     kv ''descendant_count'' (PInt 0), kv ''all_descendants_terminated'' (PBool True),
     kv ''stdout_sha256'' sha_a, kv ''stderr_sha256'' sha_b]"

definition cr_events :: pyval where
  "cr_events = PDict
    [kv ''jsonl_sha256'' sha_a, kv ''size_bytes'' (PInt 128),
     kv ''parsed_count'' (PInt 1), kv ''unknown_count'' (PInt 0),
     kv ''prohibited_count'' (PInt 0), kv ''final_response_sha256'' sha_b,
     kv ''output_schema_valid'' (PBool True)]"

definition cr_agent_result :: pyval where
  "cr_agent_result = PDict
    [kv ''path'' (PStr ''artifacts/agent-result.json''),
     kv ''sha256'' sha_a, kv ''size_bytes'' (PInt 256), kv ''contract_valid'' (PBool True),
     kv ''claimed_status'' (PStr ''DONE''), kv ''claims_match'' (PBool True)]"

definition cr_clone_after :: pyval where
  "cr_clone_after = PDict
    [kv ''commit'' git_a, kv ''tree'' git_b,
     kv ''index_sha256'' sha_a, kv ''status_sha256'' sha_b, kv ''git_control_sha256'' sha_c,
     kv ''file_inventory_sha256'' sha_b, kv ''changed_paths'' (strl [''acgps/example.py'']),
     kv ''diff_sha256'' sha_c]"

definition cr_candidate :: pyval where
  "cr_candidate = PDict
    [kv ''candidate_id'' (PStr ''CANDIDATE-1''),
     kv ''version'' (PInt 1), kv ''status'' (PStr ''FROZEN_REVIEW''),
     kv ''parent_candidate_id'' PNone, kv ''diff_sha256'' sha_c, kv ''file_set_sha256'' sha_a,
     kv ''checks_sha256'' sha_b, kv ''promotion_predicates_passed'' (PBool True)]"

definition sample_candidate_ready :: pydict where
  "sample_candidate_ready =
    [kv ''schema_version'' (PInt 2),
     kv ''execution_id'' (PStr ''EXECUTION-1''),
     kv ''gate_id'' (PStr ''GATE-1''),
     kv ''project_id'' (PStr ''ACGPS''),
     kv ''task_id'' (PStr ''TASK-1''),
     kv ''packet'' cr_packet,
     kv ''baseline'' cr_baseline,
     kv ''slot'' cr_slot,
     kv ''attempt'' cr_attempt,
     kv ''executor'' cr_executor,
     kv ''capabilities'' cr_capabilities,
     kv ''clone_before'' cr_clone_before,
     kv ''prelaunch'' cr_prelaunch,
     kv ''process'' cr_process,
     kv ''events'' cr_events,
     kv ''agent_result'' cr_agent_result,
     kv ''clone_after'' cr_clone_after,
     kv ''candidate'' cr_candidate,
     kv ''outcome'' (PStr ''CANDIDATE_READY''),
     kv ''created_at_utc'' (PStr ''2026-08-24T00:00:00.000Z'')]"

definition sample_task_state :: pydict where
  "sample_task_state =
    [kv ''schema_version'' (PInt 1),
     kv ''task_id'' (PStr ''TASK-1''),
     kv ''project_id'' (PStr ''ACGPS''),
     kv ''state'' (PStr ''WAITING_HUMAN''),
     kv ''updated_at_utc'' (PStr ''2026-08-24T00:00:00Z''),
     kv ''evidence'' (PList []),
     kv ''pending_decision_id'' (PStr ''DECISION-1'')]"

definition sample_verification :: pydict where
  "sample_verification =
    [kv ''schema_version'' (PInt 1),
     kv ''verification_id'' (PStr ''VERIFICATION-1''),
     kv ''project_id'' (PStr ''ACGPS''),
     kv ''task_id'' (PStr ''TASK-1''),
     kv ''baseline_hash'' sha_a,
     kv ''checks'' (PList [PDict [kv ''name'' (PStr ''unit''), kv ''command'' (PStr ''pytest''),
      kv ''exit_code'' (PInt 0), kv ''result_summary'' (PStr ''ok''),
      kv ''output_path'' (PStr ''out/unit.txt'')]]),
     kv ''requirements_checked'' (strl [''REQ-1'']),
     kv ''failed_requirements'' (PList []),
     kv ''verified_at_utc'' (PStr ''2026-08-24T00:00:00Z''),
     kv ''verifier_role'' (PStr ''VERIFIER''),
     kv ''recommendation'' (PStr ''VERIFIED'')]"

definition sample_decision_request :: pydict where
  "sample_decision_request =
    [kv ''schema_version'' (PInt 1),
     kv ''decision_id'' (PStr ''DECISION-1''),
     kv ''project_id'' (PStr ''ACGPS''),
     kv ''task_id'' (PStr ''TASK-1''),
     kv ''stage'' (PStr ''SPEC_READY''),
     kv ''risk_level'' (PStr ''R2''),
     kv ''trigger'' (PStr ''H1_PRODUCT_INTENT''),
     kv ''question'' (PStr ''Which one?''),
     kv ''recommended_option'' (PStr ''A1''),
     kv ''recommendation_rationale'' (PStr ''cheaper''),
     kv ''options'' (PList [PDict [kv ''id'' (PStr ''A1''), kv ''description'' (PStr ''d''),
      kv ''benefits'' (PList []), kv ''costs'' (PList []), kv ''risks'' (PList []),
      kv ''reversible'' (PBool True)], PDict [kv ''id'' (PStr ''B1''),
      kv ''description'' (PStr ''d''), kv ''benefits'' (PList []), kv ''costs'' (PList []),
      kv ''risks'' (PList []), kv ''reversible'' (PBool True)]]),
     kv ''default_without_response'' (PStr ''PAUSE''),
     kv ''evidence_paths'' (strl [''docs/spec.md'']),
     kv ''created_at_utc'' (PStr ''2026-08-24T00:00:00Z''),
     kv ''status'' (PStr ''PENDING'')]"

definition sample_manifest :: pydict where
  "sample_manifest =
    [kv ''schema_version'' (PInt 1),
     kv ''rc_id'' (PStr ''RC-1''),
     kv ''project_id'' (PStr ''ACGPS''),
     kv ''version'' (PStr ''1.0.0''),
     kv ''created_at_utc'' (PStr ''2026-08-24T00:00:00Z''),
     kv ''source_artifact'' (PDict [kv ''path'' (PStr ''dist/src.zip''), kv ''sha256'' sha_a]),
     kv ''build_artifacts'' (PList []),
     kv ''verification_records'' (strl [''records/v1.json'']),
     kv ''review_closures'' (strl [''reviews/r1.json'']),
     kv ''known_limitations'' (PList []),
     kv ''residual_risks'' (PList []),
     kv ''rollback_plan_path'' (PStr ''docs/rollback.md''),
     kv ''human_release_authorization'' PNone,
     kv ''status'' (PStr ''RC_READY'')]"

text \<open>The coding record is checked field by field and rule by rule.\<close>

lemma candidate_ready_fields:
  "concat (map (validate_field sample_candidate_ready ''runtime'') (take 10 CODING_EXECUTION_FIELDS)) = []"
  "concat (map (validate_field sample_candidate_ready ''runtime'') (take 2 (drop 10 CODING_EXECUTION_FIELDS))) = []"
  "concat (map (validate_field sample_candidate_ready ''runtime'') (drop 12 CODING_EXECUTION_FIELDS)) = []"
  by code_simp+

lemma candidate_ready_keys:
  "version_check \<lparr>spec_name = n, spec_version = 2, spec_fields = CODING_EXECUTION_FIELDS\<rparr>
     sample_candidate_ready = []"
  "unexpected_keys CODING_EXECUTION_FIELDS sample_candidate_ready = []"
  by code_simp+

lemma candidate_ready_collisions:
  "no_casefold_key_collisions (PDict sample_candidate_ready) ''$'' = []"
  by code_simp

lemma candidate_ready_sizes: "size_checks sample_candidate_ready = []"
  by code_simp

lemma candidate_ready_rules:
  "identity_checks sample_candidate_ready = []" "baseline_checks sample_candidate_ready = []"
  "capabilities_checks sample_candidate_ready = []" "executor_checks sample_candidate_ready = []"
  "prelaunch_checks sample_candidate_ready = []" "attempt_checks sample_candidate_ready = []"
  by code_simp+

lemma candidate_ready_results:
  "process_checks sample_candidate_ready = []" "clone_checks sample_candidate_ready = []"
  "candidate_slot_checks sample_candidate_ready = []" "hold_checks sample_candidate_ready = []"
  "outcome_checks sample_candidate_ready = []"
  by code_simp+

lemma coding_spec:
  "get_contract ''coding_execution_record'' (Some 2) = Inr
     \<lparr>spec_name = ''coding_execution_record'', spec_version = 2, spec_fields = CODING_EXECUTION_FIELDS\<rparr>"
  by (simp add: get_contract_def current_version_def CONTRACTS_def)

lemma sample_candidate_ready_ok:
  "validate_contract ''coding_execution_record'' (PDict sample_candidate_ready) ''runtime'' = None"
proof -
  let ?f = "validate_field sample_candidate_ready ''runtime''" and ?F = CODING_EXECUTION_FIELDS
  have "concat (map ?f (drop 10 ?F)) = []"
    by (rule concat_map_Nil_split [of _ 2])
      (use candidate_ready_fields(2,3) in \<open>simp_all only: drop_drop add_num_simps numeral_plus_numeral\<close>)
  then have fields: "concat (map ?f ?F) = []"
    by (rule concat_map_Nil_split [OF candidate_ready_fields(1)])
  have version: "dget sample_candidate_ready ''schema_version'' = PInt 2"
    by (simp add: sample_candidate_ready_def)
  have rules: "contract_rules ''coding_execution_record'' sample_candidate_ready ''runtime'' = []"
    by (simp add: contract_rules_def validate_coding_execution_record_def candidate_ready_collisions
        candidate_ready_sizes candidate_ready_rules candidate_ready_results)
  show ?thesis
    by (simp add: validate_contract_def Let_def version coding_spec validate_mapping_def
        candidate_ready_keys fields rules)
qed

lemma sample_task_state_ok:
  "validate_contract ''task_state'' (PDict sample_task_state) ''runtime'' = None"
  by code_simp

lemma sample_verification_ok:
  "validate_contract ''verification_record'' (PDict sample_verification) ''runtime'' = None"
  by code_simp

lemma sample_decision_request_ok:
  "validate_contract ''human_decision_request'' (PDict sample_decision_request) ''runtime'' = None"
  by code_simp

lemma sample_manifest_ok:
  "validate_contract ''release_candidate_manifest'' (PDict sample_manifest) ''runtime'' = None"
  by code_simp

end
