(* ===== verification/Contract_Props.thy ===== *)
theory Contract_Props
  imports Path_Safety Contract_Sample
begin

text \<open>
  The properties of the contract validator of \<open>acgps/contracts.py\<close>: what an accepted record
  of each kind promises, over \<open>conforms\<close> and the rules of the contracts.
\<close>

subsection \<open>Helpers\<close>

lemma runtime_no_placeholder: "no_placeholder (PStr s) ''runtime'' \<longleftrightarrow> s \<notin> set TEMPLATE_PLACEHOLDERS"
  by (simp add: no_placeholder_def)

text \<open>The check of one declared field of an accepted record.\<close>

lemma accepted_field:
  assumes "validate_contract name (PDict d) mode = None"
  obtains spec where "spec \<in> set CONTRACTS" "spec_name spec = name"
    "conforms d (spec_fields spec) mode" "\<And>p. p \<in> set (spec_fields spec) \<Longrightarrow> validate_field d mode p = []"
proof -
  obtain s where s: "s \<in> set CONTRACTS" "spec_name s = name" "validate_mapping s d mode = []"
    using validate_contract_PDict [OF assms] by blast
  have "validate_field d mode p = []" if "p \<in> set (spec_fields s)" for p
    using s(3) that by (auto simp: validate_mapping_def concat_map_Nil)
  with s validate_mapping_conforms(2) [OF s(3)] show ?thesis by (intro that [of s]) auto
qed

lemma validate_field_items:
  assumes "validate_field d mode (n, f) = []" "dlookup d n = Some v"
  shows "items_check n f v mode = []" "map_values_check n f v mode = []"
    "validate_runtime_semantics n v mode = []"
  using assms by (auto simp: validate_field_def Let_def split: if_splits)

text \<open>In every contract, a field that collects paths is a list of texts, or the mapping of the profile.\<close>

definition item_path_fields :: "string list" where
  "item_path_fields = [''evidence_paths'', ''review_closures'', ''source_paths'', ''verification_records'']"

lemma path_fields_typed:
  "list_all (\<lambda>c. list_all (\<lambda>(n, f).
      (n \<in> set item_path_fields \<longrightarrow> item_type f = Some [TyStr] \<and> expected_type f = [TyList]) \<and>
      (n = ''required_files'' \<longrightarrow> map_value_type f = Some [TyStr])) (spec_fields c)) CONTRACTS"
  by code_simp

lemma item_path_fields_facts:
  "n \<in> set item_path_fields \<Longrightarrow> n \<in> set PATH_COLLECTION_FIELDS \<and> CHR ''.'' \<notin> set n"
  by (auto simp: item_path_fields_def PATH_COLLECTION_FIELDS_def)

lemma accepted_path_item:
  assumes ok: "validate_contract name (PDict d) ''runtime'' = None"
    and n: "n \<in> set item_path_fields" and there: "dlookup d n = Some v"
    and x: "x \<in> set (elems v)"
  shows "\<exists>s. x = PStr s \<and> is_safe_relative_path s"
proof -
  obtain spec where spec: "spec \<in> set CONTRACTS" "conforms d (spec_fields spec) ''runtime''"
    "\<And>p. p \<in> set (spec_fields spec) \<Longrightarrow> validate_field d ''runtime'' p = []"
    using accepted_field [OF ok] by metis
  have "PStr n \<in> set (declared_keys (spec_fields spec))"
    using conforms_keys [OF spec(2) dlookup_mem [OF there]] by simp
  then obtain f where f: "(n, f) \<in> set (spec_fields spec)" by (auto simp: declared_keys_def)
  have ty: "item_type f = Some [TyStr]"
    using path_fields_typed spec(1) f n unfolding list_all_iff by fastforce
  have items: "items_check n f v ''runtime'' = []"
    by (rule validate_field_items(1) [OF spec(3) [OF f] there])
  have list: "is_list v" using x by (cases v) (auto simp: elems_def)
  obtain i where i: "(i, x) \<in> set (numbered 0 (elems v))" using numbered_mem_snd [OF x] by blast
  have "typed_check (item_path n i) [TyStr] x ''runtime'' = []"
    using items i ty list by (auto simp: items_check_def concat_map_Nil)
  then obtain s where s: "x = PStr s" "validate_runtime_semantics (item_path n i) (PStr s) ''runtime'' = []"
    by (auto simp: typed_check_def is_str_iff split: if_splits)
  show ?thesis
    using item_path_semantics [OF s(2)] item_path_fields_facts [OF n] s(1) by blast
qed

text \<open>The table of a contract is selected by its name.\<close>

lemma contract_selected:
  "filter (\<lambda>c. spec_name c = ''task_state'') CONTRACTS =
     [\<lparr>spec_name = ''task_state'', spec_version = 1, spec_fields = task_state_contract\<rparr>]"
  "filter (\<lambda>c. spec_name c = ''verification_record'') CONTRACTS =
     [\<lparr>spec_name = ''verification_record'', spec_version = 1, spec_fields = verification_record_contract\<rparr>]"
  "filter (\<lambda>c. spec_name c = ''human_decision_request'') CONTRACTS =
     [\<lparr>spec_name = ''human_decision_request'', spec_version = 1, spec_fields = human_decision_request_contract\<rparr>]"
  "filter (\<lambda>c. spec_name c = ''coding_execution_record'') CONTRACTS =
     [\<lparr>spec_name = ''coding_execution_record'', spec_version = 2, spec_fields = CODING_EXECUTION_FIELDS\<rparr>]"
  by (simp_all add: CONTRACTS_def)

lemmas selected = accepted_conforms [OF _ contract_selected(1)] accepted_conforms [OF _ contract_selected(2)]
  accepted_conforms [OF _ contract_selected(3)] accepted_conforms [OF _ contract_selected(4)]

subsection \<open>Every accepted record\<close>

text \<open>
  C12. What the validator accepts conforms to the contract of its name: it is at the declared
  version, has declared keys only and every required one, each value has the type and the
  vocabulary of its field at every depth, and the rules between fields of the contract hold.
\<close>

theorem accepted_record_conforms:
  assumes "validate_contract name (PDict d) mode = None"
  shows "\<exists>spec \<in> set CONTRACTS. spec_name spec = name \<and>
    dget d ''schema_version'' = PInt (spec_version spec) \<and>
    conforms d (spec_fields spec) mode \<and> contract_rules name d mode = []"
  using validate_contract_PDict [OF assms] validate_mapping_conforms by metis

theorem accepted_record_conforms_witness:
  "\<exists>spec \<in> set CONTRACTS. spec_name spec = ''task_state'' \<and>
    dget sample_task_state ''schema_version'' = PInt (spec_version spec) \<and>
    conforms sample_task_state (spec_fields spec) ''runtime'' \<and>
    contract_rules ''task_state'' sample_task_state ''runtime'' = []"
  by (rule accepted_record_conforms [OF sample_task_state_ok])



subsection \<open>Task states and verification records\<close>

text \<open>
  C14. In an accepted task state the pending decision and the waiting state go together: the
  state is WAITING_HUMAN exactly when a decision with a non-blank identity is pending.
\<close>

theorem waiting_iff_pending:
  assumes ok: "validate_contract ''task_state'' (PDict d) ''runtime'' = None"
  shows "dget d ''state'' = PStr ''WAITING_HUMAN'' \<longleftrightarrow>
    (\<exists>p. dget d ''pending_decision_id'' = PStr p \<and> strip p \<noteq> [])"
proof -
  have "contract_rules ''task_state'' d ''runtime'' = []" by (rule selected(3) [OF ok])
  then have "validate_task_state_contract d ''runtime'' = []" by (simp add: contract_rules_def)
  then show ?thesis
    by (auto simp: validate_task_state_contract_def Let_def is_empty_text_def is_str_iff
        split: if_splits)
qed

theorem waiting_iff_pending_witness:
  "dget sample_task_state ''state'' = PStr ''WAITING_HUMAN'' \<longleftrightarrow>
    (\<exists>p. dget sample_task_state ''pending_decision_id'' = PStr p \<and> strip p \<noteq> [])"
  by (rule waiting_iff_pending [OF sample_task_state_ok])

lemma verification_rule_checks:
  assumes "validate_verification_record d ''runtime'' = []"
    and "dget d ''recommendation'' = PStr ''VERIFIED''" "PDict e \<in> set (elems (dget d ''checks''))"
  shows "eq_int (dget e ''exit_code'') 0"
proof -
  obtain i where i: "(i, PDict e) \<in> set (numbered 0 (elems (dget d ''checks'')))"
    using numbered_mem_snd [OF assms(3)] by blast
  have "is_list (dget d ''checks'')" using assms(3) by (cases "dget d ''checks''") (auto simp: elems_def)
  then show ?thesis using assms(1,2) i
    by (fastforce simp: validate_verification_record_def concat_map_Nil Let_def)
qed

text \<open>
  C15. A verification record that recommends VERIFIED lists at least one check and one
  requirement, every check of it is a mapping whose exit code is the integer 0, and it lists
  no failed requirement.
\<close>

theorem verified_means_passed:
  assumes ok: "validate_contract ''verification_record'' (PDict d) ''runtime'' = None"
    and verified: "dget d ''recommendation'' = PStr ''VERIFIED''"
  shows "elems (dget d ''checks'') \<noteq> [] \<and> elems (dget d ''requirements_checked'') \<noteq> [] \<and>
    dget d ''failed_requirements'' = PList [] \<and>
    (\<forall>x \<in> set (elems (dget d ''checks'')). \<exists>e. x = PDict e \<and> dget e ''exit_code'' = PInt 0)"
proof -
  note conf = selected(5) [OF ok, simplified]
  have "contract_rules ''verification_record'' d ''runtime'' = []" by (rule selected(6) [OF ok])
  then have rules: "validate_verification_record d ''runtime'' = []" by (simp add: contract_rules_def)
  have "typed_ok [TyList] ''runtime'' (dget d ''failed_requirements'')"
    using conforms_field(2) [OF conf, of "''failed_requirements''" STRING_LIST]
    by (simp add: verification_record_contract_def STRING_LIST_def)
  then have failed: "dget d ''failed_requirements'' = PList []"
    using rules verified
    by (auto simp: validate_verification_record_def Let_def is_list_iff)
  have "\<exists>e. x = PDict e \<and> dget e ''exit_code'' = PInt 0" if x: "x \<in> set (elems (dget d ''checks''))" for x
  proof -
    obtain e where e: "x = PDict e" "conforms e VERIFICATION_CHECK_FIELDS ''runtime''"
      using conforms_item [OF conf, of "''checks''" _ VERIFICATION_CHECK_FIELDS, OF _ _ x]
      by (auto simp: verification_record_contract_def)
    have "is_int (dget e ''exit_code'')"
      using conforms_field(2) [OF e(2), of "''exit_code''" "simple_field [TyInt]"]
      by (simp add: VERIFICATION_CHECK_FIELDS_def)
    then show ?thesis
      using verification_rule_checks [OF rules verified] x e(1) eq_int_PInt by blast
  qed
  with rules verified failed show ?thesis
    by (simp add: validate_verification_record_def Let_def)
qed

theorem verified_means_passed_witness:
  "elems (dget sample_verification ''checks'') \<noteq> [] \<and>
     dget sample_verification ''failed_requirements'' = PList []"
  using verified_means_passed [OF sample_verification_ok] by (simp add: sample_verification_def)

subsection \<open>Decision requests\<close>

text \<open>
  An accepted decision request offers at least one option; the identities of its options
  are texts, no two options share one, and the recommended option is one of them.
\<close>

lemma decision_options_wellformed:
  assumes ok: "validate_contract ''human_decision_request'' (PDict d) mode = None"
  shows "\<exists>ids. ids \<noteq> [] \<and> distinct ids \<and>
    map (\<lambda>x. vget x ''id'') (elems (dget d ''options'')) = map PStr ids \<and>
    (\<exists>r \<in> set ids. dget d ''recommended_option'' = PStr r)"
proof -
  note conf = selected(8) [OF ok, simplified]
  have "contract_rules ''human_decision_request'' d mode = []" by (rule selected(9) [OF ok])
  then have rules: "validate_human_decision_request d = []" by (simp add: contract_rules_def)
  let ?xs = "elems (dget d ''options'')"
  have items: "\<forall>x \<in> set ?xs. is_dict x \<and> is_str (vget x ''id'')"
  proof
    fix x assume x: "x \<in> set ?xs"
    obtain e where e: "x = PDict e" "conforms e HUMAN_DECISION_OPTION_FIELDS mode"
      using conforms_item [OF conf, of "''options''" _ HUMAN_DECISION_OPTION_FIELDS, OF _ _ x]
      by (auto simp: human_decision_request_contract_def)
    with conforms_field(2) [OF e(2), of "''id''" "simple_field [TyStr]"]
    show "is_dict x \<and> is_str (vget x ''id'')" by (simp add: HUMAN_DECISION_OPTION_FIELDS_def)
  qed
  then have ids: "map (\<lambda>x. vget x ''id'') ?xs = map PStr (option_id_values ?xs)"
    by (simp add: option_id_values_def filter_id_conv map_PStr_strs)
  have "typed_ok [TyList] mode (dget d ''options'')" "typed_ok [TyStr] mode (dget d ''recommended_option'')"
    using conforms_field(2) [OF conf, of "''options''"]
      conforms_field(2) [OF conf, of "''recommended_option''" "simple_field [TyStr]"]
    by (simp_all add: human_decision_request_contract_def)
  with rules have "?xs \<noteq> []" "distinct (option_id_values ?xs)"
    "str_of (dget d ''recommended_option'') \<in> set (option_id_values ?xs)"
    "is_str (dget d ''recommended_option'')"
    by (auto simp: validate_human_decision_request_def Let_def split: if_splits)
  with ids show ?thesis
    by (intro exI [of _ "option_id_values ?xs"]) (auto simp: is_str_iff)
qed

lemma decision_options_wellformed_witness:
  "\<exists>ids. ids \<noteq> [] \<and> distinct ids \<and>
    map (\<lambda>x. vget x ''id'') (elems (dget sample_decision_request ''options'')) = map PStr ids \<and>
    (\<exists>r \<in> set ids. dget sample_decision_request ''recommended_option'' = PStr r)"
  by (rule decision_options_wellformed [OF sample_decision_request_ok])

subsection \<open>Coding execution records\<close>

lemma coding_rules:
  assumes "validate_contract ''coding_execution_record'' (PDict d) ''runtime'' = None"
  shows "identity_checks d = []" "size_checks d = []" "baseline_checks d = []"
    "capabilities_checks d = []" "executor_checks d = []" "prelaunch_checks d = []"
    "attempt_checks d = []" "process_checks d = []" "clone_checks d = []"
    "candidate_slot_checks d = []" "hold_checks d = []" "outcome_checks d = []"
  using selected(12) [OF assms]
  by (simp_all add: contract_rules_def validate_coding_execution_record_def)

lemma coding_part:
  assumes ok: "validate_contract ''coding_execution_record'' (PDict d) ''runtime'' = None"
    and "(n, FieldSpec [TyDict] True True None (Some fs) None None None) \<in> set CODING_EXECUTION_FIELDS"
  shows "\<exists>e. dget d n = PDict e \<and> conforms e fs ''runtime''"
proof -
  note conf = selected(11) [OF ok, simplified]
  from conforms_field(2) [OF conf assms(2)] obtain e where e: "dget d n = PDict e"
    by (auto simp: is_dict_iff)
  with conforms_sub [OF conf assms(2) _ e] show ?thesis by simp
qed

lemma coding_process_typed:
  assumes ok: "validate_contract ''coding_execution_record'' (PDict d) ''runtime'' = None"
  shows "vget (dget d ''process'') ''pid'' = PNone \<or> is_int (vget (dget d ''process'') ''pid'')"
    "is_dict (dget d ''process'')"
proof -
  obtain e where e: "dget d ''process'' = PDict e" "conforms e CODING_PROCESS_FIELDS ''runtime''"
    using coding_part [OF ok, of "''process''" CODING_PROCESS_FIELDS]
    by (auto simp: CODING_EXECUTION_FIELDS_def)
  have "typed_ok [TyInt, TyNone] ''runtime'' (dget e ''pid'')"
    using conforms_field(2) [OF e(2), of "''pid''" "simple_field [TyInt, TyNone]"]
    by (simp add: CODING_PROCESS_FIELDS_def)
  then show "vget (dget d ''process'') ''pid'' = PNone \<or> is_int (vget (dget d ''process'') ''pid'')"
    "is_dict (dget d ''process'')" using e(1) by (auto simp: typed_ok_def)
qed

text \<open>A promotable record has a process that did not fail.\<close>

lemma ready_process:
  assumes ok: "validate_contract ''coding_execution_record'' (PDict d) ''runtime'' = None"
    and ready: "coding_promotion_ready d"
  shows "\<not> process_failed (dget d ''process'')"
proof -
  let ?p = "dget d ''process''"
  have p: "vget ?p ''start_requested'' = PBool True" "eq_int (vget ?p ''exit_code'') 0"
    "vget ?p ''error'' = PNone" "vget ?p ''timed_out'' = PBool False"
    "vget ?p ''cancelled'' = PBool False" "vget ?p ''all_descendants_terminated'' = PBool True"
    using ready by (simp_all add: coding_promotion_ready_def Let_def)
  have "vget ?p ''pid'' \<noteq> PNone"
    using coding_rules(8) [OF ok] coding_process_typed(2) [OF ok] p
    by (auto simp: process_checks_def Let_def is_empty_text_def)
  with p show ?thesis by (simp add: process_failed_def)
qed

lemma ready_expected:
  assumes ok: "validate_contract ''coding_execution_record'' (PDict d) ''runtime'' = None"
    and ready: "coding_promotion_ready d"
  shows "coding_expected_outcome d True = Some ''CANDIDATE_READY''"
proof -
  have parts: "is_dict (dget d n)" if "n \<in> set promotion_parts" for n
    using ready that by (simp add: coding_promotion_ready_def Let_def list_all_iff)
  then have "is_dict (dget d ''prelaunch'')" "is_dict (dget d ''attempt'')"
    "is_dict (dget d ''process'')" "is_dict (dget d ''agent_result'')"
    by (simp_all add: promotion_parts_def)
  moreover have "vget (dget d ''prelaunch'') ''state'' = PStr ''PASS''"
    "eq_int (vget (dget d ''attempt'') ''number'') 1 \<or> eq_int (vget (dget d ''attempt'') ''number'') 2"
    "vget (dget d ''agent_result'') ''claimed_status'' = PStr ''DONE''"
    using ready by (simp_all add: coding_promotion_ready_def Let_def)
  ultimately show ?thesis
    using ready_process [OF ok ready] by (simp add: coding_expected_outcome_def Let_def)
qed

text \<open>
  C17. The promotion predicate decides a coding record: an accepted record has the outcome
  CANDIDATE_READY exactly when the predicate derived from its evidence holds, its promotion
  flag says the same, and a record that is not promotable carries the empty candidate.
\<close>

theorem candidate_ready_iff_promotable:
  assumes ok: "validate_contract ''coding_execution_record'' (PDict d) ''runtime'' = None"
  shows "(dget d ''outcome'' = PStr ''CANDIDATE_READY'' \<longleftrightarrow> coding_promotion_ready d) \<and>
    vget (dget d ''candidate'') ''promotion_predicates_passed'' = PBool (coding_promotion_ready d) \<and>
    (\<not> coding_promotion_ready d \<longrightarrow> none_candidate (dget d ''candidate''))"
proof -
  note out = coding_rules(12) [OF ok, unfolded outcome_checks_def Let_def]
  have "is_dict (dget d ''candidate'')"
    using coding_part [OF ok, of "''candidate''" CODING_CANDIDATE_FIELDS]
    by (auto simp: CODING_EXECUTION_FIELDS_def)
  then have flag: "vget (dget d ''candidate'') ''promotion_predicates_passed'' = PBool (coding_promotion_ready d)"
    "\<not> coding_promotion_ready d \<longrightarrow> none_candidate (dget d ''candidate'')"
    using out by auto
  have "dget d ''outcome'' = PStr ''CANDIDATE_READY''" if ready: "coding_promotion_ready d"
    using out ready ready_expected [OF ok ready] by simp
  moreover have "coding_promotion_ready d" if "dget d ''outcome'' = PStr ''CANDIDATE_READY''"
    using out that by auto
  ultimately show ?thesis using flag by blast
qed

theorem candidate_ready_iff_promotable_witness:
  "vget (dget sample_candidate_ready ''candidate'') ''promotion_predicates_passed'' = PBool True \<and>
    coding_promotion_ready sample_candidate_ready"
  using candidate_ready_iff_promotable [OF sample_candidate_ready_ok]
  by (simp add: sample_candidate_ready_def cr_candidate_def)

text \<open>What a promotable record says of its prelaunch gates, its budget and its changed files.\<close>

lemma promotable_gates:
  assumes "prelaunch_checks d = []" "is_dict (dget d ''prelaunch'')"
    "vget (dget d ''prelaunch'') ''state'' = PStr ''PASS''"
    "\<forall>r \<in> set (elems (vget (dget d ''prelaunch'') ''gate_rows'')). is_dict r"
  shows "map (\<lambda>r. (vget r ''gate_id'', vget r ''status'')) (elems (vget (dget d ''prelaunch'') ''gate_rows'')) =
    map (\<lambda>g. (PStr g, PStr ''PASS'')) [''P0'', ''P1'', ''P2'', ''P3'', ''P4'', ''P5'', ''P6'']"
proof -
  let ?rows = "elems (vget (dget d ''prelaunch'') ''gate_rows'')"
  let ?ids = "[''P0'', ''P1'', ''P2'', ''P3'', ''P4'', ''P5'', ''P6'']"
  have ids: "map (\<lambda>r. vget r ''gate_id'') ?rows = map PStr ?ids"
    using assms(1,2) unfolding prelaunch_checks_def Let_def by (simp only: split: if_splits) auto
  have "\<not> list_ex gate_row_bad ?rows"
    using assms(1-3) ids by (simp add: prelaunch_checks_def Let_def split: if_splits)
  then have pass: "\<forall>r \<in> set ?rows. vget r ''status'' = PStr ''PASS''"
    using assms(4) by (auto simp: list_ex_iff gate_row_bad_def)
  have "map (\<lambda>r. (vget r ''gate_id'', vget r ''status'')) ?rows =
      map (\<lambda>v. (v, PStr ''PASS'')) (map (\<lambda>r. vget r ''gate_id'') ?rows)"
    using pass by simp
  then show ?thesis by (simp only: ids map_map comp_def)
qed

lemma num_of_PInt: "is_int v \<Longrightarrow> num_of v = Some (of_int i) \<Longrightarrow> v = PInt i"
  by (auto simp: is_int_iff)

lemma promotable_budget:
  assumes checks: "attempt_checks d = []" and a: "dget d ''attempt'' = PDict a"
    and typed: "conforms a CODING_ATTEMPT_FIELDS ''runtime''"
    and number: "eq_int (dget a ''number'') 1 \<or> eq_int (dget a ''number'') 2"
  shows "\<exists>n b. n \<in> {1, 2} \<and> dget a ''number'' = PInt n \<and> dget a ''remaining_before'' = PInt b \<and>
    dget a ''remaining_after'' = PInt (b - 1) \<and> dget a ''process_start_request_count'' = PInt 1"
proof -
  have ints: "is_int (dget a ''remaining_before'')" "is_int (dget a ''remaining_after'')"
    "is_int (dget a ''process_start_request_count'')"
    using conforms_field(2) [OF typed, of "''remaining_before''"]
      conforms_field(2) [OF typed, of "''remaining_after''"]
      conforms_field(2) [OF typed, of "''process_start_request_count''"]
    by (simp_all add: CODING_ATTEMPT_FIELDS_def)
  have "typed_ok [TyInt, TyNone] ''runtime'' (dget a ''number'')"
    using conforms_field(2) [OF typed, of "''number''"] by (simp add: CODING_ATTEMPT_FIELDS_def)
  with number have n: "dget a ''number'' = PInt 1 \<or> dget a ''number'' = PInt 2"
    by (auto simp: typed_ok_def is_int_iff)
  then have not_prelaunch: "dget a ''kind'' \<noteq> PStr ''PRELAUNCH''"
    using checks a by (auto simp: attempt_checks_def prelaunch_attempt_rules_def Let_def)
  obtain b where b: "dget a ''remaining_before'' = PInt b" using ints(1) by (auto simp: is_int_iff)
  have "reserved_attempt_rules (PDict a) = []"
    using checks a number not_prelaunch by (simp add: attempt_checks_def Let_def)
  then have spent: "num_of (dget a ''remaining_after'') = Some (of_int (b - 1))"
    "eq_int (dget a ''process_start_request_count'') 1"
    using b by (simp_all add: reserved_attempt_rules_def Let_def)
  have "dget a ''remaining_after'' = PInt (b - 1)" by (rule num_of_PInt [OF ints(2) spent(1)])
  moreover have "dget a ''process_start_request_count'' = PInt 1"
    using spent(2) ints(3) by (simp add: eq_int_PInt)
  ultimately show ?thesis using b n by auto
qed

lemma promotable_changes:
  assumes caps: "capabilities_checks d = []" and clone: "clone_checks d = []"
    and c: "is_dict (dget d ''capabilities'')" "is_dict (dget d ''clone_after'')"
    and rows: "is_list (vget (dget d ''capabilities'') ''operation_rows'')"
  defines "occ \<equiv> patch_occurrences (elems (vget (dget d ''capabilities'') ''operation_rows''))"
  shows "vget (dget d ''clone_after'') ''changed_paths'' = PList (map PStr (sorted_set occ)) \<and>
    distinct occ \<and> (\<forall>p \<in> set occ. is_safe_relative_path p)"
proof -
  have same: "vget (dget d ''clone_after'') ''changed_paths'' = PList (map PStr (sorted_set occ))"
    and safe: "validate_sorted_unique_relpaths (vget (dget d ''clone_after'') ''changed_paths'')
      ''clone_after.changed_paths'' = []"
    using clone c(2) by (auto simp: clone_checks_def Let_def occ_def)
  have "distinct occ" using caps c(1) rows by (simp add: capabilities_checks_def Let_def occ_def)
  moreover have "\<forall>p \<in> set occ. is_safe_relative_path p"
    using safe unfolding same
    by (auto simp: validate_sorted_unique_relpaths_def concat_map_Nil list_all_iff Let_def)
  ultimately show ?thesis using same by blast
qed

lemma frozen_candidate:
  assumes "candidate_slot_checks d = []"
    and "is_dict (dget d ''candidate'')" "is_dict (dget d ''slot'')" "is_dict (dget d ''attempt'')"
    and "vget (dget d ''candidate'') ''status'' = PStr ''FROZEN_REVIEW''"
  shows "(vget (dget d ''candidate'') ''version'' = PInt 1 \<longrightarrow>
      first_candidate_ok (dget d ''candidate'') (dget d ''slot'')) \<and>
    (vget (dget d ''candidate'') ''version'' = PInt 2 \<longrightarrow>
      second_candidate_ok (dget d ''candidate'') (dget d ''slot'') (dget d ''attempt''))"
  using assms by (auto simp: candidate_slot_checks_def Let_def split: if_splits)



subsection \<open>Timestamps\<close>

text \<open>The text of a moment of the calendar to the second, in the years 1 to 9999.\<close>

definition pad2 :: "nat \<Rightarrow> string" where
  "pad2 n = [digit_char (n div 10), digit_char (n mod 10)]"

definition pad4 :: "nat \<Rightarrow> string" where
  "pad4 n = pad2 (n div 100) @ pad2 (n mod 100)"

definition calendar :: "nat \<Rightarrow> nat \<Rightarrow> nat \<Rightarrow> nat \<Rightarrow> nat \<Rightarrow> nat \<Rightarrow> bool" where
  "calendar y m d h mi sec \<longleftrightarrow> 1 \<le> y \<and> y \<le> 9999 \<and> 1 \<le> m \<and> m \<le> 12 \<and> 1 \<le> d \<and>
     d \<le> days_in_month y m \<and> h \<le> 23 \<and> mi \<le> 59 \<and> sec \<le> 59"

definition utc_text :: "nat \<Rightarrow> nat \<Rightarrow> nat \<Rightarrow> nat \<Rightarrow> nat \<Rightarrow> nat \<Rightarrow> string" where
  "utc_text y m d h mi sec =
     pad4 y @ ''-'' @ pad2 m @ ''-'' @ pad2 d @ ''T'' @ pad2 h @ '':'' @ pad2 mi @ '':'' @ pad2 sec @ ''Z''"

lemma digit_val_char: "n < 10 \<Longrightarrow> digit_val (digit_char n) = n"
  by (simp add: digit_val_def digit_char_def)

lemma digit_char_val: "is_digit_c c \<Longrightarrow> digit_char (digit_val c) = c"
  by (simp add: digit_val_def digit_char_def is_digit_c_def Let_def)

lemma digit_val_bound: "is_digit_c c \<Longrightarrow> digit_val c \<le> 9"
  by (auto simp: digit_val_def is_digit_c_def Let_def)

lemma digits_val_pad2: "n < 100 \<Longrightarrow> digits_val (pad2 n) = n"
  by (simp add: digits_val_def pad2_def digit_val_char)

lemma digits_val_pad4: "n < 10000 \<Longrightarrow> digits_val (pad4 n) = n"
  by (simp add: digits_val_def pad4_def pad2_def digit_val_char)

lemma pad2_digits: "is_digit_c a \<Longrightarrow> is_digit_c b \<Longrightarrow> pad2 (digits_val [a, b]) = [a, b]"
  using digit_val_bound [of b] by (simp add: digits_val_def pad2_def digit_char_val)

lemma pad4_digits:
  "is_digit_c a \<Longrightarrow> is_digit_c b \<Longrightarrow> is_digit_c c \<Longrightarrow> is_digit_c e \<Longrightarrow>
     pad4 (digits_val [a, b, c, e]) = [a, b, c, e]"
proof -
  assume d: "is_digit_c a" "is_digit_c b" "is_digit_c c" "is_digit_c e"
  have "digits_val [a, b, c, e] = 100 * digits_val [a, b] + digits_val [c, e]"
    by (simp add: digits_val_def)
  moreover have "digits_val [c, e] < 100"
    using digit_val_bound [OF d(3)] digit_val_bound [OF d(4)] by (simp add: digits_val_def)
  ultimately show ?thesis
    using pad2_digits [OF d(1,2)] pad2_digits [OF d(3,4)] by (simp add: pad4_def)
qed

lemma pad_shape:
  "n < 100 \<Longrightarrow> \<exists>a b. pad2 n = [a, b] \<and> is_digit_c a \<and> is_digit_c b"
  by (simp add: pad2_def digit_char_is_digit)

lemma match_pattern_Cons:
  "match_pattern (p # ps) s \<longleftrightarrow>
     (\<exists>c cs. s = c # cs \<and> (if p = CHR ''d'' then is_digit_c c else c = p) \<and> match_pattern ps cs)"
  by (cases s) auto

text \<open>The two shapes: the text of a moment has the pattern, and a text of the pattern splits.\<close>

lemma utc_text_pattern:
  assumes "y < 10000" "m < 100" "d < 100" "h < 100" "mi < 100" "sec < 100"
  shows "match_pattern ''dddd-dd-ddTdd:dd:ddZ'' (utc_text y m d h mi sec)"
  using assms by (simp add: utc_text_def pad4_def pad2_def digit_char_is_digit)

lemma utc_text_fields:
  assumes "y < 10000" "m < 100" "d < 100" "h < 100" "mi < 100" "sec < 100"
  shows "strptime_ok (utc_text y m d h mi sec) \<longleftrightarrow> 1 \<le> y \<and> 1 \<le> m \<and> m \<le> 12 \<and> 1 \<le> d \<and>
    d \<le> days_in_month y m \<and> h \<le> 23 \<and> mi \<le> 59 \<and> sec \<le> 59"
proof -
  have four: "length (pad4 y) = 4" and two: "\<And>n. length (pad2 n) = 2"
    by (simp_all add: pad4_def pad2_def)
  have parts: "take 4 (utc_text y m d h mi sec) = pad4 y"
    "take 2 (drop 5 (utc_text y m d h mi sec)) = pad2 m"
    "take 2 (drop 8 (utc_text y m d h mi sec)) = pad2 d"
    "take 2 (drop 11 (utc_text y m d h mi sec)) = pad2 h"
    "take 2 (drop 14 (utc_text y m d h mi sec)) = pad2 mi"
    "take 2 (drop 17 (utc_text y m d h mi sec)) = pad2 sec"
    by (simp_all add: utc_text_def four two)
  show ?thesis
    using assms by (simp add: strptime_ok_def parts digits_val_pad2 digits_val_pad4 Let_def)
qed

lemma utc_text_split:
  assumes "match_pattern ''dddd-dd-ddTdd:dd:ddZ'' s"
  shows "s = utc_text (digits_val (take 4 s)) (digits_val (take 2 (drop 5 s)))
    (digits_val (take 2 (drop 8 s))) (digits_val (take 2 (drop 11 s)))
    (digits_val (take 2 (drop 14 s))) (digits_val (take 2 (drop 17 s)))"
  using assms
  by (auto simp: match_pattern_Cons utc_text_def pad4_digits pad2_digits)

lemma year_bound:
  assumes "match_pattern ''dddd-dd-ddTdd:dd:ddZ'' s"
  shows "digits_val (take 4 s) \<le> 9999"
proof -
  obtain a b c e r where s: "s = a # b # c # e # r" "is_digit_c a" "is_digit_c b" "is_digit_c c" "is_digit_c e"
    using assms by (auto simp: match_pattern_Cons)
  show ?thesis
    using s(2-5) [THEN digit_val_bound] by (simp add: s(1) digits_val_def)
qed


end
