(* ===== verification/Store_Base.thy ===== *)
theory Store_Base
  imports Path_Safety
begin

text \<open>
  What the operations of \<open>acgps/workflow_store.py\<close> share: the errors they raise, safe
  identifiers, the lexical checks of \<open>safe_state_path\<close>, and the text of a validation error.
  The checks of \<open>safe_state_path\<close> for symbolic links read the file system and are left out;
  \<open>Path.is_absolute\<close> is the one of a POSIX host.
\<close>

definition store_error :: "string \<Rightarrow> string \<Rightarrow> string \<Rightarrow> bool \<Rightarrow> guard" where
  "store_error code path message b = fail_if b (WorkflowStoreError code path message)"

lemma store_error_None [simp]: "store_error code path message b = None \<longleftrightarrow> \<not> b"
  by (simp add: store_error_def)

lemma store_error_False [simp]: "store_error code path message False = None"
  by simp

subsection \<open>Identifiers\<close>

definition is_id_char :: "char \<Rightarrow> bool" where
  "is_id_char c \<longleftrightarrow> is_alpha_c c \<or> is_digit_c c \<or> c \<in> set ''_.-''"

definition is_safe_id :: "string \<Rightarrow> bool" where
  "is_safe_id s = (case s of
     [] \<Rightarrow> False
   | c # cs \<Rightarrow> (is_alpha_c c \<or> is_digit_c c) \<and> length cs \<le> 127 \<and> list_all is_id_char cs)"

definition require_safe_id :: "pyval \<Rightarrow> string \<Rightarrow> guard" where
  "require_safe_id v path =
     store_error ''WORKFLOW_INVALID_INPUT'' path ''value must be a safe id''
       (\<not> is_str v \<or> \<not> is_safe_id (str_of v))"

definition require_mapping_at :: "pyval \<Rightarrow> string \<Rightarrow> guard" where
  "require_mapping_at v path =
     store_error ''WORKFLOW_INVALID_INPUT'' path ''record must be a mapping'' (\<not> is_dict v)"

lemma require_safe_id_None [simp]:
  "require_safe_id v path = None \<longleftrightarrow> is_str v \<and> is_safe_id (str_of v)"
  by (simp add: require_safe_id_def)

lemma require_mapping_at_None [simp]: "require_mapping_at v path = None \<longleftrightarrow> is_dict v"
  by (simp add: require_mapping_at_def)

text \<open>The identifiers of a coding record are safe ids of the store, in upper case.\<close>

lemma coding_id_is_safe: "is_coding_safe_id s \<Longrightarrow> is_safe_id s"
  by (auto simp: is_coding_safe_id_def is_safe_id_def is_safe_id_char_def is_id_char_def
      is_alpha_c_def list_all_iff split: list.splits)

subsection \<open>Paths of the state root\<close>

text \<open>
  \<open>PureWindowsPath(s).drive\<close> of a text without backslashes is non-empty for a UNC prefix
  and for a colon in second place after anything but a separator.
\<close>

definition has_windows_drive :: "string \<Rightarrow> bool" where
  "has_windows_drive s =
     (case s of c # d # _ \<Rightarrow> (c = CHR ''/'' \<and> d = CHR ''/'') \<or> (c \<noteq> CHR ''/'' \<and> d = CHR '':'') | _ \<Rightarrow> False)"

definition safe_state_path :: "pyval \<Rightarrow> guard" where
  "safe_state_path v =
     (let s = str_of v; bad = store_error ''WORKFLOW_INVALID_INPUT'' ''path'' in
      first_err
        [bad ''path must be a non-empty relative POSIX string'' (\<not> is_str v \<or> s = []),
         bad ''path must use POSIX separators'' (CHR 0x5C \<in> set s),
         bad ''Windows drive prefixes are not allowed'' (has_windows_drive s \<or> has_drive s),
         bad ''absolute paths are not allowed'' (starts_with ''/'' s),
         bad ''path must not contain empty, current, or parent segments''
           (list_ex is_dot_part (split_on (CHR ''/'') s))])"

lemma safe_state_path_relative:
  "safe_state_path (PStr s) = None \<Longrightarrow> is_safe_relative_path s"
  by (auto simp: safe_state_path_def is_safe_relative_path_def Let_def list_all_iff list_ex_iff)

text \<open>A path built of safe identifiers between fixed directories passes.\<close>

lemma safe_id_chars:
  assumes "is_safe_id s" "c \<in> set s"
  shows "is_alpha_c c \<or> is_digit_c c \<or> c \<in> set ''_.-''"
  using assms by (cases s) (auto simp: is_safe_id_def list_all_iff is_id_char_def)

lemma safe_id_no_sep:
  assumes "is_safe_id s"
  shows "CHR ''/'' \<notin> set s" "CHR 0x5C \<notin> set s" "\<not> is_dot_part s"
proof -
  show "CHR ''/'' \<notin> set s" "CHR 0x5C \<notin> set s"
    using safe_id_chars [OF assms, of "CHR ''/''"] safe_id_chars [OF assms, of "CHR 0x5C"]
    by (auto simp: is_alpha_c_def is_upper_c_def is_lower_c_def is_digit_c_def)
  show "\<not> is_dot_part s"
    using assms by (auto simp: is_safe_id_def is_dot_part_def is_alpha_c_def is_upper_c_def
        is_lower_c_def is_digit_c_def)
qed

text \<open>A directory, a safe identifier and a file name: the paths of locks, slots and decisions.\<close>

lemma split_on_three:
  "c \<notin> set a \<Longrightarrow> c \<notin> set b \<Longrightarrow> c \<notin> set f \<Longrightarrow> split_on c (a @ [c] @ b @ [c] @ f) = [a, b, f]"
  using split_on_append [of c a "b @ [c] @ f"] split_on_append [of c b f] split_on_none [of c f]
  by simp

lemma dir_id_file_path:
  assumes g: "is_safe_id g"
    and a: "CHR ''/'' \<notin> set a" "CHR 0x5C \<notin> set a" "\<not> is_dot_part a" "CHR '':'' \<notin> set (take 2 a)" "2 \<le> length a"
    and f: "CHR ''/'' \<notin> set f" "CHR 0x5C \<notin> set f" "\<not> is_dot_part f"
  shows "safe_state_path (PStr (a @ ''/'' @ g @ ''/'' @ f)) = None"
proof -
  obtain x y r where xy: "a = x # y # r" using a(5) by (cases a; cases "tl a") auto
  have "split_on (CHR ''/'') (a @ ''/'' @ g @ ''/'' @ f) = [a, g, f]"
    using split_on_three [of "CHR ''/''" a g f] a(1) f(1) safe_id_no_sep(1) [OF g] by simp
  then show ?thesis
    using a f safe_id_no_sep [OF g] xy
    by (auto simp: safe_state_path_def Let_def has_windows_drive_def has_drive_def starts_with_def)
qed

subsection \<open>The text of an error\<close>

text \<open>
  \<open>str(exc)\<close> of an error of the program; the text CPython gives its own exceptions is not
  modelled, the name of the class stands for it.
\<close>

definition exn_text :: "exn \<Rightarrow> string" where
  "exn_text e = (case e of
     ContractValidationError name is \<Rightarrow>
       name @ '' failed validation: '' @
       join ''; '' (map (\<lambda>i. py_str (issue_path i) @ '': '' @ issue_message i) is)
   | WorkflowStoreError code path message \<Rightarrow> code @ '': '' @ path @ '': '' @ message
   | AppError _ message \<Rightarrow> message
   | e \<Rightarrow> exn_class e)"

end
