(* ===== verification/Coding_Slot.thy ===== *)
theory Coding_Slot
  imports Store_Base
begin

text \<open>
  The coding execution slot of \<open>acgps/workflow_store.py\<close>: the stored state of a gate, its
  validator, and the operations that initialize a slot, reserve an attempt, retire a candidate
  and publish a record. The store is the map from gates to the JSON value in their slot file.
  The operations run under the lock of the gate, so each is one step; whether the lock is
  granted is the argument \<open>lock\<close>, which gives the exception \<open>acquire_task_lock\<close> raises, if any.
  JSON text itself is not modelled: a file gives back the value written to it.
\<close>

type_synonym slot_files = "string \<Rightarrow> pyval option"

definition corrupt :: "string \<Rightarrow> string \<Rightarrow> bool \<Rightarrow> guard" where
  "corrupt path message b =
     store_error ''WORKFLOW_STATE_CORRUPT'' (''coding_execution'' @ path) message b"

definition invalid :: "string \<Rightarrow> string \<Rightarrow> bool \<Rightarrow> guard" where
  "invalid path message b =
     store_error ''WORKFLOW_INVALID_INPUT'' (''coding_execution'' @ path) message b"

lemma corrupt_None [simp]: "corrupt path message b = None \<longleftrightarrow> \<not> b"
  by (simp add: corrupt_def)

lemma invalid_None [simp]: "invalid path message b = None \<longleftrightarrow> \<not> b"
  by (simp add: invalid_def)

lemma no_error [simp]: "corrupt path message False = None" "invalid path message False = None"
  by simp_all

text \<open>Membership in a set of texts raises for an unhashable value.\<close>

definition hash_guard :: "pyval \<Rightarrow> guard" where
  "hash_guard v = fail_if (\<not> hashable v) TypeError"

definition has_keys :: "pydict \<Rightarrow> string list \<Rightarrow> bool" where
  "has_keys d ks \<longleftrightarrow> set (map fst d) = set (map PStr ks)"

definition int_of :: "pyval \<Rightarrow> int" where
  "int_of v = (case v of PInt i \<Rightarrow> i | _ \<Rightarrow> 0)"

lemma int_of_PInt [simp]: "int_of (PInt i) = i"
  by (simp add: int_of_def)

subsection \<open>The stored state\<close>

definition CODING_EXECUTION_STATE_FIELDS :: "string list" where
  "CODING_EXECUTION_STATE_FIELDS =
    [''schema_version'', ''gate_id'', ''task_id'', ''gate_binding'', ''state'',
     ''remaining_attempts'', ''active_candidate_id'', ''historical_candidate_ids'',
     ''remediation_authorization_id'', ''reserved_attempt'', ''records'']"

definition CODING_EXECUTION_RESERVATION_FIELDS :: "string list" where
  "CODING_EXECUTION_RESERVATION_FIELDS =
    [''number'', ''reserved_at_utc'', ''parent_candidate_id'', ''kind'', ''remaining_before'',
     ''remaining_after'']"

definition CODING_EXECUTION_SLOT_STATES :: "string list" where
  "CODING_EXECUTION_SLOT_STATES =
    [''EMPTY'', ''FROZEN_REVIEW_V1'', ''REJECTED_HOLD_V1'', ''EMPTY_FOR_REMEDIATION'',
     ''FROZEN_REVIEW_V2'']"

text \<open>The answer of an operation: a copy of the state without its records.\<close>

definition coding_execution_public_state :: "pydict \<Rightarrow> pyval" where
  "coding_execution_public_state st =
     PDict [(PStr ''gate_id'', dget st ''gate_id''), (PStr ''task_id'', dget st ''task_id''),
       (PStr ''gate_binding'', dget st ''gate_binding''), (PStr ''state'', dget st ''state''),
       (PStr ''remaining_attempts'', dget st ''remaining_attempts''),
       (PStr ''active_candidate_id'', dget st ''active_candidate_id''),
       (PStr ''historical_candidate_ids'', dget st ''historical_candidate_ids''),
       (PStr ''remediation_authorization_id'', dget st ''remediation_authorization_id''),
       (PStr ''reserved_attempt'',
         if is_dict (dget st ''reserved_attempt'') then dget st ''reserved_attempt'' else PNone)]"

text \<open>What every attempt of a gate has to share: packet, baseline, executor, capabilities.\<close>

definition coding_execution_record_binding :: "pydict \<Rightarrow> pyval" where
  "coding_execution_record_binding r =
     (let baseline = dget r ''baseline''; c = dget r ''capabilities'' in
      PDict [(PStr ''packet'', dget r ''packet''),
        (PStr ''baseline'', PDict [(PStr ''repository_path'', vget baseline ''repository_path''),
           (PStr ''commit'', vget baseline ''commit''), (PStr ''tree'', vget baseline ''tree'')]),
        (PStr ''executor'', dget r ''executor''),
        (PStr ''capabilities'', PDict
          [(PStr ''authorized_write_paths'', vget c ''authorized_write_paths''),
           (PStr ''check_allowlist_sha256'', vget c ''check_allowlist_sha256''),
           (PStr ''effective_config_sha256'', vget c ''effective_config_sha256''),
           (PStr ''git_read_allowlist_sha256'', vget c ''git_read_allowlist_sha256''),
           (PStr ''network_policy_sha256'', vget c ''network_policy_sha256'')])])"

subsection \<open>The validator\<close>

definition identity_part :: "pydict \<Rightarrow> pyval \<Rightarrow> guard list" where
  "identity_part d gate =
     [corrupt '''' ''coding execution state fields are invalid''
        (\<not> has_keys d CODING_EXECUTION_STATE_FIELDS),
      corrupt ''.schema_version'' ''unsupported coding execution state''
        (\<not> eq_int (dget d ''schema_version'') 2),
      require_safe_id (dget d ''gate_id'') ''coding_execution.gate_id'',
      require_safe_id (dget d ''task_id'') ''coding_execution.task_id'',
      corrupt ''.gate_id'' ''gate identity mismatch'' (\<not> py_eq (dget d ''gate_id'') gate)]"

definition phase_part :: "pydict \<Rightarrow> guard list" where
  "phase_part d =
     (let state = dget d ''state''; binding = dget d ''gate_binding'';
          remaining = dget d ''remaining_attempts'' in
      [hash_guard state,
       corrupt ''.state'' ''unknown coding execution slot state''
         (\<not> mem_list state (map PStr CODING_EXECUTION_SLOT_STATES)),
       (if binding = PNone then None
        else first_err
          [require_mapping_at binding ''coding_execution.gate_binding'',
           corrupt ''.gate_binding'' ''gate binding fields are invalid''
             (\<not> has_keys (entries binding) [''packet'', ''baseline'', ''executor'', ''capabilities''])]),
       corrupt ''.remaining_attempts'' ''remaining attempts must be zero, one, or two''
         (\<not> is_int remaining \<or> int_of remaining \<notin> {0, 1, 2})])"

definition candidate_part :: "pydict \<Rightarrow> guard list" where
  "candidate_part d =
     (let state = str_of (dget d ''state''); active = dget d ''active_candidate_id'';
          historical = dget d ''historical_candidate_ids'';
          authorization = dget d ''remediation_authorization_id'' in
      [(if active = PNone then None
        else require_safe_id active ''coding_execution.active_candidate_id''),
       corrupt ''.active_candidate_id'' ''empty states cannot have an active candidate''
         (state \<in> {''EMPTY'', ''EMPTY_FOR_REMEDIATION''} \<and> active \<noteq> PNone),
       corrupt ''.active_candidate_id'' ''frozen review states require a candidate''
         (starts_with ''FROZEN_REVIEW'' state \<and> active = PNone),
       corrupt ''.historical_candidate_ids'' ''historical IDs must be a list''
         (\<not> is_list historical \<or> \<not> list_all is_str (elems historical)),
       corrupt ''.historical_candidate_ids'' ''historical IDs must be sorted and unique''
         (strs (elems historical) \<noteq> sorted_set (strs (elems historical))),
       first_err (map (\<lambda>x. require_safe_id x ''coding_execution.historical_candidate_ids'')
         (elems historical)),
       corrupt ''.active_candidate_id'' ''active candidate cannot be historical''
         (mem_list active (elems historical)),
       (if authorization = PNone then None
        else require_safe_id authorization ''coding_execution.remediation_authorization_id''),
       corrupt ''.remediation_authorization_id''
         ''remediation state requires an authorization identity''
         (state = ''EMPTY_FOR_REMEDIATION'' \<and> authorization = PNone)])"

definition reservation_part :: "pydict \<Rightarrow> guard" where
  "reservation_part d =
     (let r = dget d ''reserved_attempt''; e = entries r;
          remaining = int_of (dget d ''remaining_attempts'') in
      if r = PNone then None
      else first_err
        [require_mapping_at r ''coding_execution.reserved_attempt'',
         corrupt ''.reserved_attempt'' ''reservation fields are invalid''
           (\<not> has_keys e CODING_EXECUTION_RESERVATION_FIELDS),
         corrupt ''.reserved_attempt'' ''reservation budget does not match state''
           (\<not> (eq_int (dget e ''number'') 1 \<or> eq_int (dget e ''number'') 2) \<or>
            \<not> eq_int (dget e ''remaining_after'') remaining),
         corrupt ''.reserved_attempt'' ''reservation did not decrement exactly once''
           (\<not> eq_int (dget e ''remaining_before'') (remaining + 1)),
         hash_guard (dget e ''kind''),
         corrupt ''.reserved_attempt.kind'' ''unknown attempt kind''
           (dget e ''kind'' \<noteq> PStr ''ORDINARY'' \<and> dget e ''kind'' \<noteq> PStr ''REMEDIATION'')])"

text \<open>A contract error of a stored record becomes a corrupt-state error; others pass through.\<close>

definition stored_record_guard :: "string \<Rightarrow> pyval \<Rightarrow> guard" where
  "stored_record_guard path r =
     (case validate_contract ''coding_execution_record'' r ''runtime'' of
        None \<Rightarrow> None
      | Some e \<Rightarrow> (if exn_class e = ''ContractValidationError'' \<or> e = TypeError
                  then corrupt path (exn_text e) True else Some e))"

definition record_row_guard :: "pydict \<Rightarrow> nat \<Rightarrow> pyval \<Rightarrow> guard" where
  "record_row_guard d i r =
     (let path = item_path ''.records'' i; binding = dget d ''gate_binding'' in
      first_err
        [stored_record_guard path r,
         corrupt path ''record gate/task identity mismatch''
           (\<not> py_eq (vget r ''gate_id'') (dget d ''gate_id'') \<or>
            \<not> py_eq (vget r ''task_id'') (dget d ''task_id'')),
         corrupt path
           ''reserved attempts must use the immutable Gate packet/baseline/executor binding''
           (vget r ''outcome'' \<noteq> PStr ''PRELAUNCH_HOLD'' \<and>
            (binding = PNone \<or>
             \<not> py_eq (coding_execution_record_binding (entries r)) binding))])"

definition reserved_number :: "pyval \<Rightarrow> bool" where
  "reserved_number r \<longleftrightarrow> vget (vget r ''attempt'') ''number'' \<noteq> PNone"

definition candidate_ids :: "pyval list \<Rightarrow> pyval list" where
  "candidate_ids rows =
     map (\<lambda>r. vget (vget r ''candidate'') ''candidate_id'')
       (filter (\<lambda>r. vget r ''outcome'' = PStr ''CANDIDATE_READY'') rows)"

definition records_part :: "pydict \<Rightarrow> guard list" where
  "records_part d =
     (let records = dget d ''records''; rows = elems records;
          active = dget d ''active_candidate_id'';
          historical = elems (dget d ''historical_candidate_ids'');
          completed = length (filter reserved_number rows);
          consumed = completed + (if dget d ''reserved_attempt'' = PNone then 0 else 1) in
      [corrupt ''.records'' ''execution records must be a list'' (\<not> is_list records),
       first_err (map (\<lambda>(i, r). record_row_guard d i r) (numbered 0 rows)),
       corrupt ''.records'' ''at most two reserved attempts are permitted'' (2 < completed),
       corrupt ''.records'' ''execution identities must be unique''
         (\<not> distinct (map (\<lambda>r. vget r ''execution_id'') rows)),
       corrupt ''.remaining_attempts''
         ''remaining budget must equal two minus reserved and completed attempts''
         (int_of (dget d ''remaining_attempts'') \<noteq> 2 - int consumed),
       corrupt ''.records'' ''candidate identities must be unique''
         (\<not> distinct (candidate_ids rows)),
       corrupt ''.active_candidate_id''
         ''active candidate must be bound to a completed execution record''
         (active \<noteq> PNone \<and> \<not> mem_list active (candidate_ids rows)),
       corrupt ''.historical_candidate_ids''
         ''historical candidates must remain bound to immutable execution records''
         (list_ex (\<lambda>x. \<not> mem_list x (candidate_ids rows)) historical)])"

definition validate_coding_execution_state :: "pyval \<Rightarrow> pyval \<Rightarrow> guard" where
  "validate_coding_execution_state v gate =
     (let d = entries v in
      first_err ([require_mapping_at v ''coding_execution''] @
        identity_part d gate @ phase_part d @ candidate_part d @ [reservation_part d] @
        records_part d))"

subsection \<open>Reading and writing\<close>

definition slot_file_name :: "string \<Rightarrow> string" where
  "slot_file_name gate = ''coding-execution/'' @ gate @ ''/slot.json''"

definition coding_execution_slot_path :: "pyval \<Rightarrow> guard" where
  "coding_execution_slot_path gate =
     first_err [require_safe_id gate ''gate_id'',
                safe_state_path (PStr (slot_file_name (str_of gate)))]"

definition read_coding_execution_state :: "slot_files \<Rightarrow> pyval \<Rightarrow> pydict res" where
  "read_coding_execution_state files gate =
     guarded (coding_execution_slot_path gate)
       (case files (str_of gate) of
          None \<Rightarrow> Inl (WorkflowStoreError ''WORKFLOW_STATE_CORRUPT'' ''coding_execution''
                    ''coding execution gate is not initialized'')
        | Some v \<Rightarrow> guarded
            (first_err [corrupt '''' ''record must be a mapping'' (\<not> is_dict v),
                        validate_coding_execution_state v gate])
            (Inr (entries v)))"

text \<open>
  The frame every changing operation shares. It checks the path, takes the lock, reads the
  validated state and computes. The computation raises, answers without a change, or gives the
  next state; the next state is validated and then replaces the file.
\<close>

datatype change = Keep pyval | Replace pydict pyval

definition commit :: "slot_files \<Rightarrow> pyval \<Rightarrow> pydict \<Rightarrow> pyval \<Rightarrow> pyval res \<times> slot_files" where
  "commit files gate st answer =
     (case validate_coding_execution_state (PDict st) gate of
        Some e \<Rightarrow> (Inl e, files)
      | None \<Rightarrow> (Inr answer, files(str_of gate \<mapsto> PDict st)))"

definition locked_update ::
    "(string \<Rightarrow> guard) \<Rightarrow> slot_files \<Rightarrow> pyval \<Rightarrow> (pydict \<Rightarrow> change res) \<Rightarrow> pyval res \<times> slot_files" where
  "locked_update lock files gate body =
     (case first_err [coding_execution_slot_path gate, lock (str_of gate)] of
        Some e \<Rightarrow> (Inl e, files)
      | None \<Rightarrow>
         (case rbind (read_coding_execution_state files gate) body of
            Inl e \<Rightarrow> (Inl e, files)
          | Inr (Keep answer) \<Rightarrow> (Inr answer, files)
          | Inr (Replace st answer) \<Rightarrow> commit files gate st answer))"

definition read_coding_execution_slot :: "slot_files \<Rightarrow> pyval \<Rightarrow> pyval res" where
  "read_coding_execution_slot files gate =
     rbind (read_coding_execution_state files gate) (\<lambda>st. Inr (coding_execution_public_state st))"

definition read_coding_execution_record :: "slot_files \<Rightarrow> pyval \<Rightarrow> pyval \<Rightarrow> pyval res" where
  "read_coding_execution_record files gate execution_id =
     guarded (require_safe_id execution_id ''execution_id'')
       (rbind (read_coding_execution_state files gate) (\<lambda>st.
          case find (\<lambda>r. py_eq (vget r ''execution_id'') execution_id) (elems (dget st ''records'')) of
            Some r \<Rightarrow> Inr r
          | None \<Rightarrow> Inl (WorkflowStoreError ''WORKFLOW_STATE_CORRUPT'' ''coding_execution.record''
              ''execution record is missing'')))"

subsection \<open>Initialization\<close>

definition initial_slot :: "pyval \<Rightarrow> pyval \<Rightarrow> pydict" where
  "initial_slot gate task =
     [(PStr ''schema_version'', PInt 2), (PStr ''gate_id'', gate), (PStr ''task_id'', task),
      (PStr ''gate_binding'', PNone), (PStr ''state'', PStr ''EMPTY''),
      (PStr ''remaining_attempts'', PInt 2), (PStr ''active_candidate_id'', PNone),
      (PStr ''historical_candidate_ids'', PList []),
      (PStr ''remediation_authorization_id'', PNone), (PStr ''reserved_attempt'', PNone),
      (PStr ''records'', PList [])]"

definition initialize_coding_execution_slot ::
    "(string \<Rightarrow> guard) \<Rightarrow> slot_files \<Rightarrow> pyval \<Rightarrow> pyval \<Rightarrow> pyval res \<times> slot_files" where
  "initialize_coding_execution_slot lock files gate task =
     (case first_err [require_safe_id gate ''gate_id'', require_safe_id task ''task_id'',
                      coding_execution_slot_path gate, lock (str_of gate)] of
        Some e \<Rightarrow> (Inl e, files)
      | None \<Rightarrow>
         (if files (str_of gate) \<noteq> None then
            (rbind (read_coding_execution_state files gate) (\<lambda>st.
               guarded (corrupt ''.task_id'' ''gate already belongs to another task''
                          (\<not> py_eq (dget st ''task_id'') task))
                 (Inr (coding_execution_public_state st))), files)
          else commit files gate (initial_slot gate task)
                 (coding_execution_public_state (initial_slot gate task))))"

subsection \<open>Reserving an attempt\<close>

definition attempt_guard :: "pydict \<Rightarrow> pyval \<Rightarrow> pyval \<Rightarrow> guard" where
  "attempt_guard st kind parent =
     (let remaining = int_of (dget st ''remaining_attempts''); state = dget st ''state'' in
      if kind = PStr ''ORDINARY'' then
        invalid ''.attempt'' ''ORDINARY requires EMPTY and no parent''
          (state \<noteq> PStr ''EMPTY'' \<or> parent \<noteq> PNone)
      else if kind = PStr ''REMEDIATION'' then
        invalid ''.attempt''
          ''REMEDIATION requires EMPTY_FOR_REMEDIATION, Attempt 2, and the historical v1 parent''
          (state \<noteq> PStr ''EMPTY_FOR_REMEDIATION'' \<or> remaining \<noteq> 1 \<or>
           \<not> mem_list parent (elems (dget st ''historical_candidate_ids'')) \<or>
           dget st ''remediation_authorization_id'' = PNone)
      else invalid ''.attempt.kind'' ''unknown attempt kind'' True)"

definition new_reservation :: "int \<Rightarrow> pyval \<Rightarrow> pyval \<Rightarrow> pyval \<Rightarrow> pyval" where
  "new_reservation remaining kind parent reserved_at =
     PDict [(PStr ''number'', PInt (3 - remaining)), (PStr ''reserved_at_utc'', reserved_at),
       (PStr ''parent_candidate_id'', parent), (PStr ''kind'', kind),
       (PStr ''remaining_before'', PInt remaining), (PStr ''remaining_after'', PInt (remaining - 1))]"

definition reserve_body :: "pyval \<Rightarrow> pyval \<Rightarrow> pyval \<Rightarrow> pydict \<Rightarrow> change res" where
  "reserve_body kind parent reserved_at st =
     (let remaining = int_of (dget st ''remaining_attempts'');
          reservation = new_reservation remaining kind parent reserved_at in
      guarded
        (first_err
          [store_error ''WORKFLOW_CONCURRENT_WRITE'' ''coding_execution.reserved_attempt''
             ''an attempt is already reserved'' (dget st ''reserved_attempt'' \<noteq> PNone),
           store_error ''WORKFLOW_BUDGET_EXHAUSTED'' ''coding_execution.remaining_attempts''
             ''the two-attempt budget is exhausted'' (remaining = 0),
           attempt_guard st kind parent,
           invalid ''.attempt.reserved_at_utc'' ''timestamp must use millisecond UTC''
             (\<not> is_str reserved_at \<or>
              \<not> match_pattern ''dddd-dd-ddTdd:dd:dd.dddZ'' (str_of reserved_at))])
        (Inr (Replace
          (dset (dset st (PStr ''remaining_attempts'') (PInt (remaining - 1)))
             (PStr ''reserved_attempt'') reservation)
          reservation)))"

definition reserve_coding_execution_attempt ::
    "(string \<Rightarrow> guard) \<Rightarrow> slot_files \<Rightarrow> pyval \<Rightarrow> pyval \<Rightarrow> pyval \<Rightarrow> pyval \<Rightarrow> pyval res \<times> slot_files" where
  "reserve_coding_execution_attempt lock files gate kind parent reserved_at =
     locked_update lock files gate (reserve_body kind parent reserved_at)"

subsection \<open>Retiring a candidate\<close>

definition retired :: "pyval \<Rightarrow> pyval \<Rightarrow> pydict \<Rightarrow> pydict" where
  "retired candidate authorization st =
     dset (dset (dset (dset st
       (PStr ''state'') (PStr ''EMPTY_FOR_REMEDIATION''))
       (PStr ''active_candidate_id'') PNone)
       (PStr ''historical_candidate_ids'') (PList [candidate]))
       (PStr ''remediation_authorization_id'') authorization"

definition retire_body :: "pyval \<Rightarrow> pyval \<Rightarrow> pydict \<Rightarrow> change res" where
  "retire_body candidate authorization st =
     guarded
       (invalid ''.remediation''
          ''only the sole frozen Candidate v1 can be retired for Attempt-2 remediation''
          (dget st ''state'' \<noteq> PStr ''FROZEN_REVIEW_V1'' \<or>
           \<not> py_eq (dget st ''active_candidate_id'') candidate \<or>
           \<not> eq_int (dget st ''remaining_attempts'') 1 \<or>
           dget st ''reserved_attempt'' \<noteq> PNone \<or>
           truthy (dget st ''historical_candidate_ids'')))
       (Inr (Replace (retired candidate authorization st)
          (coding_execution_public_state (retired candidate authorization st))))"

definition retire_coding_execution_candidate_for_remediation ::
    "(string \<Rightarrow> guard) \<Rightarrow> slot_files \<Rightarrow> pyval \<Rightarrow> pyval \<Rightarrow> pyval \<Rightarrow> pyval res \<times> slot_files" where
  "retire_coding_execution_candidate_for_remediation lock files gate candidate authorization =
     (case first_err [require_safe_id candidate ''candidate_id'',
                      require_safe_id authorization ''authorization_id''] of
        Some e \<Rightarrow> (Inl e, files)
      | None \<Rightarrow> locked_update lock files gate (retire_body candidate authorization))"

subsection \<open>Publishing a record\<close>

definition bound_state :: "pydict \<Rightarrow> pydict \<Rightarrow> pydict res" where
  "bound_state r st =
     (let binding = dget st ''gate_binding''; mine = coding_execution_record_binding r in
      if dget r ''outcome'' = PStr ''PRELAUNCH_HOLD'' then Inr st
      else if binding = PNone then Inr (dset st (PStr ''gate_binding'') mine)
      else guarded
        (invalid ''.record''
          ''record packet/baseline/executor identity differs from the immutable Gate binding''
          (\<not> py_eq binding mine)) (Inr st))"

definition with_record :: "pydict \<Rightarrow> pydict \<Rightarrow> pydict" where
  "with_record r st = dset st (PStr ''records'') (PList (elems (dget st ''records'') @ [PDict r]))"

definition hold_guards :: "pydict \<Rightarrow> pydict \<Rightarrow> guard" where
  "hold_guards r st =
     (let a = dget r ''attempt''; slot = dget r ''slot'' in
      first_err
        [invalid ''.reserved_attempt''
           ''prelaunch HOLD cannot be published after attempt reservation''
           (dget st ''reserved_attempt'' \<noteq> PNone),
         invalid ''.record'' ''prelaunch HOLD must preserve the current slot and attempt budget''
           (\<not> py_eq (vget a ''remaining_before'') (dget st ''remaining_attempts'') \<or>
            \<not> py_eq (vget a ''remaining_after'') (dget st ''remaining_attempts'') \<or>
            \<not> py_eq (vget slot ''state_before'') (dget st ''state'') \<or>
            \<not> py_eq (vget slot ''state_after'') (dget st ''state'') \<or>
            \<not> py_eq (vget slot ''active_candidate_before'') (dget st ''active_candidate_id'') \<or>
            \<not> py_eq (vget slot ''active_candidate_after'') (dget st ''active_candidate_id'') \<or>
            \<not> py_eq (vget slot ''historical_candidate_ids'') (dget st ''historical_candidate_ids''))])"

definition reservation_guards :: "pydict \<Rightarrow> pydict \<Rightarrow> guard" where
  "reservation_guards r st =
     (let reservation = dget st ''reserved_attempt''; a = dget r ''attempt'';
          slot = dget r ''slot'' in
      first_err ([invalid ''.reserved_attempt'' ''no attempt is reserved'' (\<not> is_dict reservation)] @
        map (\<lambda>n. invalid (''.record.attempt.'' @ n) ''record does not match the reserved attempt''
               (\<not> py_eq (vget a n) (vget reservation n)))
          CODING_EXECUTION_RESERVATION_FIELDS @
        [invalid ''.record.slot'' ''record does not match current slot state''
           (\<not> py_eq (vget slot ''state_before'') (dget st ''state'') \<or>
            \<not> py_eq (vget slot ''active_candidate_before'') (dget st ''active_candidate_id'') \<or>
            \<not> py_eq (vget slot ''historical_candidate_ids'') (dget st ''historical_candidate_ids''))]))"

text \<open>The installation of a candidate, or the proof that the slot stays as it is.\<close>

definition frozen_state :: "pydict \<Rightarrow> pyval" where
  "frozen_state r = PStr (''FROZEN_REVIEW_V'' @ py_str (vget (dget r ''candidate'') ''version''))"

definition installed :: "pydict \<Rightarrow> pydict \<Rightarrow> pydict res" where
  "installed r st =
     (let slot = dget r ''slot''; candidate = vget (dget r ''candidate'') ''candidate_id'' in
      if dget r ''outcome'' = PStr ''CANDIDATE_READY'' then
        guarded (invalid ''.record.slot'' ''candidate install transition is invalid''
            (\<not> py_eq (vget slot ''state_after'') (frozen_state r) \<or>
             \<not> py_eq (vget slot ''active_candidate_after'') candidate))
          (Inr (dset (dset st (PStr ''state'') (frozen_state r))
             (PStr ''active_candidate_id'') candidate))
      else
        guarded (invalid ''.record.slot'' ''noncandidate outcome cannot change the slot''
            (\<not> py_eq (vget slot ''state_after'') (dget st ''state'') \<or>
             \<not> py_eq (vget slot ''active_candidate_after'') (dget st ''active_candidate_id'')))
          (Inr st))"

definition replace_with :: "pydict \<Rightarrow> change" where
  "replace_with st = Replace st (coding_execution_public_state st)"

definition fresh_record :: "pydict \<Rightarrow> pydict \<Rightarrow> change res" where
  "fresh_record r st =
     rbind (bound_state r st) (\<lambda>st1.
       if dget r ''outcome'' = PStr ''PRELAUNCH_HOLD'' then
         guarded (hold_guards r st1) (Inr (replace_with (with_record r st1)))
       else
         guarded (reservation_guards r st1)
           (rbind (installed r st1) (\<lambda>st2.
              Inr (replace_with (with_record r (dset st2 (PStr ''reserved_attempt'') PNone))))))"

definition publish_body :: "pydict \<Rightarrow> pydict \<Rightarrow> change res" where
  "publish_body r st =
     guarded (invalid ''.record.task_id'' ''record task does not own the gate''
         (\<not> py_eq (dget st ''task_id'') (dget r ''task_id'')))
       (case find (\<lambda>x. py_eq (vget x ''execution_id'') (dget r ''execution_id''))
               (elems (dget st ''records'')) of
          Some x \<Rightarrow>
            (if py_eq x (PDict r) then Inr (Keep (coding_execution_public_state st))
             else Inl (WorkflowStoreError ''WORKFLOW_IDEMPOTENCY_CONFLICT''
                    ''coding_execution.execution_id'' ''execution identity already exists''))
        | None \<Rightarrow> fresh_record r st)"

definition published_record_guard :: "pyval \<Rightarrow> guard" where
  "published_record_guard v =
     (case validate_contract ''coding_execution_record'' v ''runtime'' of
        None \<Rightarrow> None
      | Some e \<Rightarrow> (if exn_class e = ''ContractValidationError''
                  then invalid ''.record'' (exn_text e) True else Some e))"

definition publish_coding_execution_record ::
    "(string \<Rightarrow> guard) \<Rightarrow> slot_files \<Rightarrow> pyval \<Rightarrow> pyval res \<times> slot_files" where
  "publish_coding_execution_record lock files v =
     (case published_record_guard v of
        Some e \<Rightarrow> (Inl e, files)
      | None \<Rightarrow> locked_update lock files (vget v ''gate_id'') (publish_body (entries v)))"

end
