(* ===== verification/Guarded_Files.thy ===== *)
theory Guarded_Files
  imports Acgps_Prelude
begin

text \<open>
  The interface of a store of files that is written through validated operations. The client
  knows three things of an operation: it either leaves the store alone or writes one file; what
  it writes is valid; and a file is created in a fresh state or moved by a step. Everything a
  sequence of operations can build follows, whatever the operations are.
\<close>

locale guarded_files =
  fixes exec :: "'op \<Rightarrow> ('k \<Rightarrow> 'v option) \<Rightarrow> ('k \<Rightarrow> 'v option)"
    and valid :: "'k \<Rightarrow> 'v \<Rightarrow> bool"
    and fresh :: "'k \<Rightarrow> 'v \<Rightarrow> bool"
    and step :: "'v \<Rightarrow> 'v \<Rightarrow> bool"
  assumes exec_cases: "exec p files = files \<or>
      (\<exists>k v. exec p files = files(k \<mapsto> v) \<and> valid k v \<and>
        (case files k of None \<Rightarrow> fresh k v | Some u \<Rightarrow> valid k u \<and> step u v))"
begin

definition all_valid :: "('k \<Rightarrow> 'v option) \<Rightarrow> bool" where
  "all_valid files \<longleftrightarrow> (\<forall>k v. files k = Some v \<longrightarrow> valid k v)"

lemma exec_valid: "all_valid files \<Longrightarrow> all_valid (exec p files)"
  using exec_cases [of p files] by (auto simp: all_valid_def split: if_splits)

lemma run_valid: "all_valid files \<Longrightarrow> all_valid (fold exec ps files)"
  by (induction ps arbitrary: files) (auto intro: exec_valid)

lemma run_from_empty_valid: "fold exec ps (\<lambda>_. None) k = Some v \<Longrightarrow> valid k v"
  using run_valid [of "\<lambda>_. None" ps] by (simp add: all_valid_def)

text \<open>A file is never lost, and moves along steps.\<close>

lemma exec_step:
  assumes "files k = Some u"
  shows "\<exists>v. exec p files k = Some v \<and> (u = v \<or> step u v)"
  using exec_cases [of p files] assms by (fastforce split: option.splits if_splits)

lemma run_steps:
  "files k = Some u \<Longrightarrow> \<exists>v. fold exec ps files k = Some v \<and> step\<^sup>*\<^sup>* u v"
proof (induction ps arbitrary: files u)
  case (Cons p ps)
  from exec_step [of files k u p] Cons.prems obtain w where w: "exec p files k = Some w" "u = w \<or> step u w"
    by blast
  from Cons.IH [of "exec p files" w] w(1) obtain v where "fold exec ps (exec p files) k = Some v" "step\<^sup>*\<^sup>* w v"
    by blast
  with w(2) show ?case by (auto intro: converse_rtranclp_into_rtranclp)
qed auto

text \<open>An invariant of fresh files that steps keep holds of every file.\<close>

lemma run_invariant:
  assumes start: "\<And>k v. valid k v \<Longrightarrow> fresh k v \<Longrightarrow> P k v"
    and keep: "\<And>k u v. valid k u \<Longrightarrow> valid k v \<Longrightarrow> step u v \<Longrightarrow> P k u \<Longrightarrow> P k v"
    and given: "fold exec ps (\<lambda>_. None) k = Some v"
  shows "P k v"
proof -
  have "\<forall>k v. fold exec ps files k = Some v \<longrightarrow> P k v"
    if "\<forall>k v. files k = Some v \<longrightarrow> P k v" for files
    using that
  proof (induction ps arbitrary: files)
    case (Cons p ps)
    have "\<forall>k v. exec p files k = Some v \<longrightarrow> P k v"
      using exec_cases [of p files] Cons.prems start keep by (fastforce split: option.splits if_splits)
    from Cons.IH [OF this] show ?case by simp
  qed simp
  from this [of "\<lambda>_. None"] given show ?thesis by simp
qed

end

end
