(* ===== verification/Slot_Machine.thy ===== *)
theory Slot_Machine
  imports Coding_Slot Guarded_Files Contract_Props
begin

text \<open>
  The coding slot as an abstract machine and the proof that the stored operations refine it.
  The machine sees of a slot its stage, the remaining budget, whether an attempt is pending,
  the candidate under review, the retired candidates and the number of completed attempts. A
  slot starts empty with two attempts; an attempt is reserved, and discarded or frozen; a
  frozen first candidate may be retired once, for one remediation attempt.
\<close>

subsection \<open>The abstract machine\<close>

datatype stage = Empty | Frozen1 | Rejected | Remediation | Frozen2

record slot =
  stage :: stage
  budget :: int
  pending :: bool
  current :: pyval
  past :: "pyval list"
  attempts :: nat

definition initial :: slot where
  "initial = \<lparr>stage = Empty, budget = 2, pending = False, current = PNone, past = [], attempts = 0\<rparr>"

inductive slot_step :: "slot \<Rightarrow> slot \<Rightarrow> bool" where
  reserve: "\<not> pending s \<Longrightarrow> 0 < budget s \<Longrightarrow>
     stage s = Empty \<or> stage s = Remediation \<and> budget s = 1 \<Longrightarrow>
     slot_step s (s\<lparr>budget := budget s - 1, pending := True\<rparr>)"
| discard: "pending s \<Longrightarrow> slot_step s (s\<lparr>pending := False, attempts := Suc (attempts s)\<rparr>)"
| freeze_first: "pending s \<Longrightarrow> stage s = Empty \<Longrightarrow> c \<noteq> PNone \<Longrightarrow>
     slot_step s (s\<lparr>stage := Frozen1, pending := False, current := c, attempts := Suc (attempts s)\<rparr>)"
| freeze_second: "pending s \<Longrightarrow> stage s = Remediation \<Longrightarrow> past s = [p] \<Longrightarrow> c \<noteq> PNone \<Longrightarrow> c \<noteq> p \<Longrightarrow>
     slot_step s (s\<lparr>stage := Frozen2, pending := False, current := c, attempts := Suc (attempts s)\<rparr>)"
| retire: "\<not> pending s \<Longrightarrow> stage s = Frozen1 \<Longrightarrow> budget s = 1 \<Longrightarrow> past s = [] \<Longrightarrow>
     slot_step s (s\<lparr>stage := Remediation, current := PNone, past := [current s]\<rparr>)"

inductive slot_reachable :: "slot \<Rightarrow> bool" where
  start: "slot_reachable initial"
| step: "slot_reachable s \<Longrightarrow> slot_step s t \<Longrightarrow> slot_reachable t"

text \<open>The invariant: the budget balances, and what each stage says of the candidates.\<close>

definition slot_invariant :: "slot \<Rightarrow> bool" where
  "slot_invariant s \<longleftrightarrow>
     0 \<le> budget s \<and> budget s + int (attempts s) + (if pending s then 1 else 0) = 2 \<and>
     (case stage s of
        Empty \<Rightarrow> current s = PNone \<and> past s = []
      | Frozen1 \<Rightarrow> current s \<noteq> PNone \<and> past s = [] \<and> \<not> pending s \<and> 1 \<le> attempts s
      | Rejected \<Rightarrow> False
      | Remediation \<Rightarrow> current s = PNone \<and> (\<exists>p. past s = [p] \<and> p \<noteq> PNone) \<and> 1 \<le> attempts s
      | Frozen2 \<Rightarrow> (\<exists>p. past s = [p] \<and> p \<noteq> PNone \<and> current s \<noteq> p) \<and> current s \<noteq> PNone \<and>
          \<not> pending s \<and> budget s = 0 \<and> attempts s = 2)"

inductive_simps slot_step_pending: "slot_step (s\<lparr>pending := True\<rparr>) t"

lemma slot_step_invariant: "slot_step s t \<Longrightarrow> slot_invariant s \<Longrightarrow> slot_invariant t"
  by (induction rule: slot_step.induct) (auto simp: slot_invariant_def split: stage.splits)

lemma reachable_invariant: "slot_reachable s \<Longrightarrow> slot_invariant s"
  by (induction rule: slot_reachable.induct)
    (simp add: slot_invariant_def initial_def, blast intro: slot_step_invariant)

text \<open>Stages never go back, and the number of completed attempts never decreases.\<close>

fun stage_rank :: "stage \<Rightarrow> nat" where
  "stage_rank Empty = 0"
| "stage_rank Frozen1 = 1"
| "stage_rank Rejected = 1"
| "stage_rank Remediation = 2"
| "stage_rank Frozen2 = 3"

lemma slot_step_monotone:
  "slot_step s t \<Longrightarrow> stage_rank (stage s) \<le> stage_rank (stage t) \<and> budget t \<le> budget s \<and>
     attempts s \<le> attempts t"
  by (induction rule: slot_step.induct) auto

subsection \<open>The view of a stored slot\<close>

definition stage_of :: "string \<Rightarrow> stage" where
  "stage_of s =
     (if s = ''EMPTY'' then Empty else if s = ''FROZEN_REVIEW_V1'' then Frozen1
      else if s = ''EMPTY_FOR_REMEDIATION'' then Remediation
      else if s = ''FROZEN_REVIEW_V2'' then Frozen2 else Rejected)"

definition slot_view :: "pydict \<Rightarrow> slot" where
  "slot_view st =
     \<lparr>stage = stage_of (str_of (dget st ''state'')),
      budget = int_of (dget st ''remaining_attempts''),
      pending = (dget st ''reserved_attempt'' \<noteq> PNone),
      current = dget st ''active_candidate_id'',
      past = elems (dget st ''historical_candidate_ids''),
      attempts = length (filter reserved_number (elems (dget st ''records'')))\<rparr>"

lemma stage_of_simps [simp]:
  "stage_of ''EMPTY'' = Empty" "stage_of ''FROZEN_REVIEW_V1'' = Frozen1"
  "stage_of ''EMPTY_FOR_REMEDIATION'' = Remediation" "stage_of ''FROZEN_REVIEW_V2'' = Frozen2"
  by (simp_all add: stage_of_def)

lemma dget_dset [simp]: "dget (dset d (PStr k) v) j = (if j = k then v else dget d j)"
  by (simp add: dget_def dlookup_dset)

text \<open>What the validator establishes of a stored slot.\<close>

lemma stored_parts:
  assumes "validate_coding_execution_state (PDict st) gate = None"
  shows "\<forall>c \<in> set (identity_part st gate). c = None" "\<forall>c \<in> set (phase_part st). c = None"
    "\<forall>c \<in> set (candidate_part st). c = None" "reservation_part st = None"
    "\<forall>c \<in> set (records_part st). c = None"
  using assms unfolding validate_coding_execution_state_def Let_def projections first_err_None
  by auto

lemma stored_identity:
  assumes "validate_coding_execution_state (PDict st) gate = None"
  shows "has_keys st CODING_EXECUTION_STATE_FIELDS" "is_str (dget st ''gate_id'')"
    "is_safe_id (str_of (dget st ''gate_id''))"
    "py_eq (dget st ''gate_id'') gate" "is_str (dget st ''task_id'')"
  using stored_parts(1) [OF assms] by (auto simp: identity_part_def)

lemma stored_phase:
  assumes "validate_coding_execution_state (PDict st) gate = None"
  shows "\<exists>s \<in> set CODING_EXECUTION_SLOT_STATES. dget st ''state'' = PStr s"
    "\<exists>n. dget st ''remaining_attempts'' = PInt n \<and> n \<in> {0, 1, 2}"
  using stored_parts(2) [OF assms] by (auto simp: phase_part_def Let_def mem_list_strs is_int_iff)

lemma stored_candidates:
  assumes "validate_coding_execution_state (PDict st) gate = None"
  shows "dget st ''active_candidate_id'' = PNone \<or> is_str (dget st ''active_candidate_id'')"
    "str_of (dget st ''state'') \<in> {''EMPTY'', ''EMPTY_FOR_REMEDIATION''} \<Longrightarrow>
       dget st ''active_candidate_id'' = PNone"
    "starts_with ''FROZEN_REVIEW'' (str_of (dget st ''state'')) \<Longrightarrow>
       dget st ''active_candidate_id'' \<noteq> PNone"
    "\<exists>hs. dget st ''historical_candidate_ids'' = PList (map PStr hs)"
    "\<not> mem_list (dget st ''active_candidate_id'') (elems (dget st ''historical_candidate_ids''))"
proof -
  note parts = stored_parts(3) [OF assms, unfolded candidate_part_def Let_def]
  show "dget st ''active_candidate_id'' = PNone \<or> is_str (dget st ''active_candidate_id'')"
    "str_of (dget st ''state'') \<in> {''EMPTY'', ''EMPTY_FOR_REMEDIATION''} \<Longrightarrow>
       dget st ''active_candidate_id'' = PNone"
    "starts_with ''FROZEN_REVIEW'' (str_of (dget st ''state'')) \<Longrightarrow>
       dget st ''active_candidate_id'' \<noteq> PNone"
    "\<not> mem_list (dget st ''active_candidate_id'') (elems (dget st ''historical_candidate_ids''))"
    using parts by (auto split: if_splits)
  have "is_list (dget st ''historical_candidate_ids'')"
    "\<forall>x \<in> set (elems (dget st ''historical_candidate_ids'')). is_str x"
    using parts by (simp_all add: list_all_iff)
  then show "\<exists>hs. dget st ''historical_candidate_ids'' = PList (map PStr hs)"
    by (metis is_list_iff map_PStr_strs projections(2))
qed

text \<open>The budget of a stored slot balances.\<close>

lemma stored_budget:
  assumes "validate_coding_execution_state (PDict st) gate = None"
  shows "budget (slot_view st) + int (attempts (slot_view st)) + (if pending (slot_view st) then 1 else 0) = 2"
    "is_list (dget st ''records'')"
  using stored_parts(5) [OF assms] by (auto simp: records_part_def slot_view_def Let_def)

lemmas stored = stored_identity stored_phase stored_candidates stored_budget

subsection \<open>Every change is a step of the machine\<close>

text \<open>What no operation changes: the owner, a binding once made, the records already there.\<close>

definition slot_keeps :: "pydict \<Rightarrow> pydict \<Rightarrow> bool" where
  "slot_keeps st st' \<longleftrightarrow>
     dget st' ''gate_id'' = dget st ''gate_id'' \<and> dget st' ''task_id'' = dget st ''task_id'' \<and>
     (dget st ''gate_binding'' \<noteq> PNone \<longrightarrow> dget st' ''gate_binding'' = dget st ''gate_binding'') \<and>
     (\<exists>new. elems (dget st' ''records'') = elems (dget st ''records'') @ new)"

definition slot_moves :: "pydict \<Rightarrow> pydict \<Rightarrow> bool" where
  "slot_moves st st' \<longleftrightarrow> slot_view st' = slot_view st \<or> slot_step (slot_view st) (slot_view st')"

lemma slot_keeps_refl: "slot_keeps st st"
  by (simp add: slot_keeps_def)

lemma slot_keeps_trans: "slot_keeps a b \<Longrightarrow> slot_keeps b c \<Longrightarrow> slot_keeps a c"
  by (auto simp: slot_keeps_def)

lemma reserve_moves:
  assumes body: "reserve_body kind parent utc st = Inr (Replace st' answer)"
    and ok: "validate_coding_execution_state (PDict st) gate = None"
  shows "slot_step (slot_view st) (slot_view st') \<and> slot_keeps st st'"
proof -
  obtain n where n: "dget st ''remaining_attempts'' = PInt n" "n \<in> {0, 1, 2}"
    using stored_phase(2) [OF ok] by blast
  have free: "dget st ''reserved_attempt'' = PNone" and left: "n \<noteq> 0"
    and kind: "attempt_guard st kind parent = None"
    and st': "st' = dset (dset st (PStr ''remaining_attempts'') (PInt (n - 1)))
      (PStr ''reserved_attempt'') (new_reservation n kind parent utc)"
    using body n by (auto simp: reserve_body_def Let_def guarded_Inr)
  have stage: "dget st ''state'' = PStr ''EMPTY'' \<or> dget st ''state'' = PStr ''EMPTY_FOR_REMEDIATION'' \<and> n = 1"
    using kind n by (simp add: attempt_guard_def Let_def split: if_splits)
  have "slot_view st' = slot_view st \<lparr>budget := n - 1, pending := True\<rparr>"
    by (simp add: st' slot_view_def new_reservation_def)
  moreover have "slot_step (slot_view st) (slot_view st \<lparr>budget := budget (slot_view st) - 1, pending := True\<rparr>)"
    by (rule slot_step.reserve) (use free left stage n in \<open>auto simp: slot_view_def\<close>)
  moreover have "slot_keeps st st'" by (simp add: st' slot_keeps_def)
  ultimately show ?thesis by (simp add: slot_view_def n)
qed

lemma retire_moves:
  assumes body: "retire_body candidate authorization st = Inr (Replace st' answer)"
    and ok: "validate_coding_execution_state (PDict st) gate = None"
    and str: "is_str candidate"
  shows "slot_step (slot_view st) (slot_view st') \<and> slot_keeps st st'"
proof -
  obtain n where n: "dget st ''remaining_attempts'' = PInt n" using stored_phase(2) [OF ok] by blast
  obtain hs where hs: "dget st ''historical_candidate_ids'' = PList (map PStr hs)"
    using stored_candidates(4) [OF ok] by blast
  have g: "dget st ''state'' = PStr ''FROZEN_REVIEW_V1''" "dget st ''active_candidate_id'' = candidate"
    "n = 1" "dget st ''reserved_attempt'' = PNone" "hs = []"
    and st': "st' = retired candidate authorization st"
    using body n hs str by (auto simp: retire_body_def guarded_Inr is_str_iff)
  have "slot_view st' = slot_view st \<lparr>stage := Remediation, current := PNone,
      past := [current (slot_view st)]\<rparr>"
    by (simp add: st' retired_def slot_view_def g)
  moreover have "slot_step (slot_view st) (slot_view st \<lparr>stage := Remediation, current := PNone,
      past := [current (slot_view st)]\<rparr>)"
    by (rule slot_step.retire) (simp_all add: slot_view_def g n hs)
  moreover have "slot_keeps st st'" by (simp add: st' retired_def slot_keeps_def)
  ultimately show ?thesis by simp
qed

text \<open>Publishing: the binding is made or kept, and the record is appended.\<close>

lemma bound_state_keeps:
  assumes "bound_state r st = Inr st1"
  shows "slot_view st1 = slot_view st" "slot_keeps st st1"
    "dget st1 ''records'' = dget st ''records''" "dget st1 ''state'' = dget st ''state''"
    "dget st1 ''historical_candidate_ids'' = dget st ''historical_candidate_ids''"
    "dget st1 ''reserved_attempt'' = dget st ''reserved_attempt''"
  using assms
  by (auto simp: bound_state_def Let_def slot_view_def slot_keeps_def guarded_Inr split: if_splits)

text \<open>A validated budget fixes the number of completed attempts.\<close>

lemma attempts_from_budget:
  assumes "validate_coding_execution_state (PDict st) gate = None"
    and "validate_coding_execution_state (PDict st') gate = None"
    and "budget (slot_view st') = budget (slot_view st)"
  shows "pending (slot_view st') = pending (slot_view st) \<Longrightarrow>
      attempts (slot_view st') = attempts (slot_view st)"
    "pending (slot_view st) \<Longrightarrow> \<not> pending (slot_view st') \<Longrightarrow>
      attempts (slot_view st') = Suc (attempts (slot_view st))"
  using stored_budget(1) [OF assms(1)] stored_budget(1) [OF assms(2)] assms(3) by auto

lemma slot_eqI:
  "stage s = stage t \<Longrightarrow> budget s = budget t \<Longrightarrow> pending s = pending t \<Longrightarrow> current s = current t \<Longrightarrow>
   past s = past t \<Longrightarrow> attempts s = attempts t \<Longrightarrow> s = (t :: slot)"
  by (cases s; cases t) simp

lemma hold_moves:
  assumes body: "fresh_record r st = Inr (Replace st' answer)"
    and hold: "dget r ''outcome'' = PStr ''PRELAUNCH_HOLD''"
    and ok: "validate_coding_execution_state (PDict st) gate = None"
    and ok': "validate_coding_execution_state (PDict st') gate = None"
  shows "slot_view st' = slot_view st \<and> slot_keeps st st'"
proof -
  have st': "st' = with_record r st"
    using body hold by (auto simp: fresh_record_def bound_state_def replace_with_def guarded_Inr)
  have same: "stage (slot_view st') = stage (slot_view st)" "budget (slot_view st') = budget (slot_view st)"
    "pending (slot_view st') = pending (slot_view st)" "current (slot_view st') = current (slot_view st)"
    "past (slot_view st') = past (slot_view st)"
    by (simp_all add: st' with_record_def slot_view_def)
  have "slot_view st' = slot_view st"
    by (rule slot_eqI) (use same attempts_from_budget(1) [OF ok ok' same(2,3)] in simp_all)
  moreover have "slot_keeps st st'" by (simp add: st' with_record_def slot_keeps_def)
  ultimately show ?thesis ..
qed

text \<open>What the contract says of a record that freezes a candidate.\<close>

lemma promotable_record:
  assumes ok: "validate_contract ''coding_execution_record'' (PDict r) ''runtime'' = None"
    and ready: "dget r ''outcome'' = PStr ''CANDIDATE_READY''"
  shows "vget (dget r ''candidate'') ''version'' \<in> {PNone, PInt 1, PInt 2}"
    "vget (dget r ''candidate'') ''version'' = PInt 1 \<Longrightarrow>
       vget (dget r ''slot'') ''state_before'' = PStr ''EMPTY''"
    "vget (dget r ''candidate'') ''version'' = PInt 2 \<Longrightarrow>
       vget (dget r ''slot'') ''state_before'' = PStr ''EMPTY_FOR_REMEDIATION'' \<and>
       (\<exists>p. vget (dget r ''slot'') ''historical_candidate_ids'' = PList [PStr p])"
proof -
  have prom: "coding_promotion_ready r"
    using coding_rules(12) [OF ok] ready by (auto simp: outcome_checks_def Let_def)
  have parts: "is_dict (dget r ''candidate'')" "is_dict (dget r ''slot'')" "is_dict (dget r ''attempt'')"
    using prom by (simp_all add: coding_promotion_ready_def Let_def promotion_parts_def)
  have "vget (dget r ''candidate'') ''status'' = PStr ''FROZEN_REVIEW''"
    using prom by (simp add: coding_promotion_ready_def Let_def)
  note slots = frozen_candidate [OF coding_rules(10) [OF ok] parts this]
  obtain e where e: "dget r ''candidate'' = PDict e" "conforms e CODING_CANDIDATE_FIELDS ''runtime''"
    using coding_part [OF ok, of "''candidate''" CODING_CANDIDATE_FIELDS]
    by (auto simp: CODING_EXECUTION_FIELDS_def)
  let ?f = "choice_field [TyInt, TyNone] [PNone, PInt 1, PInt 2]"
  have "(''version'', ?f) \<in> set CODING_CANDIDATE_FIELDS" by (simp add: CODING_CANDIDATE_FIELDS_def)
  from conforms_field(2,3) [OF e(2) this] e(1)
  show "vget (dget r ''candidate'') ''version'' \<in> {PNone, PInt 1, PInt 2}"
    by (auto simp: typed_ok_def vocab_ok_def is_allowed_template_placeholder_def is_int_iff
        py_eq.simps [of "PInt _"] atom_eq_def)
  show "vget (dget r ''slot'') ''state_before'' = PStr ''EMPTY''"
    if "vget (dget r ''candidate'') ''version'' = PInt 1"
    using slots that by (simp add: first_candidate_ok_def)
  show "vget (dget r ''slot'') ''state_before'' = PStr ''EMPTY_FOR_REMEDIATION'' \<and>
       (\<exists>p. vget (dget r ''slot'') ''historical_candidate_ids'' = PList [PStr p])"
    if "vget (dget r ''candidate'') ''version'' = PInt 2"
    using slots that py_eq_list_strs_right [where ss = "[_]"]
    by (auto simp: second_candidate_ok_def Let_def is_str_iff)
qed

lemma attempt_record_shape:
  assumes body: "fresh_record r st = Inr (Replace st' answer)"
    and hold: "dget r ''outcome'' \<noteq> PStr ''PRELAUNCH_HOLD''"
  obtains st1 st2 where "bound_state r st = Inr st1" "reservation_guards r st1 = None"
    "installed r st1 = Inr st2"
    "st' = with_record r (dset st2 (PStr ''reserved_attempt'') PNone)"
  using assms by (auto simp: fresh_record_def rbind_Inr guarded_Inr replace_with_def)

lemma reservation_facts:
  assumes "reservation_guards r st = None"
  shows "is_dict (dget st ''reserved_attempt'')"
    "py_eq (vget (dget r ''slot'') ''state_before'') (dget st ''state'')"
    "py_eq (vget (dget r ''slot'') ''historical_candidate_ids'') (dget st ''historical_candidate_ids'')"
  using assms by (auto simp: reservation_guards_def Let_def)

text \<open>The view of a slot into which a candidate was installed.\<close>

definition with_candidate :: "pydict \<Rightarrow> pydict \<Rightarrow> pydict" where
  "with_candidate r st = with_record r (dset (dset (dset st (PStr ''state'') (frozen_state r))
     (PStr ''active_candidate_id'') (vget (dget r ''candidate'') ''candidate_id''))
     (PStr ''reserved_attempt'') PNone)"

lemma freeze_view:
  assumes same: "slot_view st1 = slot_view st" and res: "reservation_guards r st1 = None"
    and ok: "validate_coding_execution_state (PDict st) gate = None"
    and ok': "validate_coding_execution_state (PDict (with_candidate r st1)) gate = None"
  shows "pending (slot_view st)"
    "slot_view (with_candidate r st1) = slot_view st
      \<lparr>stage := stage_of (str_of (frozen_state r)), pending := False,
       current := vget (dget r ''candidate'') ''candidate_id'', attempts := Suc (attempts (slot_view st))\<rparr>"
proof -
  let ?v = "slot_view (with_candidate r st1)"
  show pend: "pending (slot_view st)"
    using reservation_facts(1) [OF res] unfolding same [symmetric] by (auto simp: slot_view_def)
  have fields: "stage ?v = stage_of (str_of (frozen_state r))" "\<not> pending ?v"
    "current ?v = vget (dget r ''candidate'') ''candidate_id''"
    "budget ?v = budget (slot_view st1)" "past ?v = past (slot_view st1)"
    by (simp_all add: with_candidate_def with_record_def slot_view_def)
  with attempts_from_budget(2) [OF ok ok' _ pend] same
  show "?v = slot_view st
      \<lparr>stage := stage_of (str_of (frozen_state r)), pending := False,
       current := vget (dget r ''candidate'') ''candidate_id'', attempts := Suc (attempts (slot_view st))\<rparr>"
    by (intro slot_eqI) simp_all
qed

lemma frozen_state_of:
  "vget (dget r ''candidate'') ''version'' = PNone \<Longrightarrow> frozen_state r = PStr ''FROZEN_REVIEW_VNone''"
  "vget (dget r ''candidate'') ''version'' = PInt 1 \<Longrightarrow> frozen_state r = PStr ''FROZEN_REVIEW_V1''"
  "vget (dget r ''candidate'') ''version'' = PInt 2 \<Longrightarrow> frozen_state r = PStr ''FROZEN_REVIEW_V2''"
  by (simp_all add: frozen_state_def py_str_def int_str_def nat_str.simps digit_char_def char_of_def
      bit_iff_odd)

lemma freeze_moves:
  assumes ready: "dget r ''outcome'' = PStr ''CANDIDATE_READY''"
    and same: "slot_view st1 = slot_view st" and res: "reservation_guards r st1 = None"
    and contract: "validate_contract ''coding_execution_record'' (PDict r) ''runtime'' = None"
    and ok: "validate_coding_execution_state (PDict st) gate = None"
    and ok': "validate_coding_execution_state (PDict (with_candidate r st1)) gate = None"
  shows "slot_step (slot_view st) (slot_view (with_candidate r st1))"
proof -
  let ?c = "vget (dget r ''candidate'') ''candidate_id''" and ?s = "slot_view st"
  note view = freeze_view [OF same res ok ok'] and before = reservation_facts [OF res]
  have stage1: "stage ?s = stage_of (str_of (dget st1 ''state''))"
    using arg_cong [OF same, of stage] by (simp add: slot_view_def)
  have past1: "past ?s = elems (dget st1 ''historical_candidate_ids'')"
    using arg_cong [OF same, of past] by (simp add: slot_view_def)
  have some: "?c \<noteq> PNone"
    using stored_candidates(3) [OF ok']
    by (simp add: with_candidate_def with_record_def frozen_state_def starts_with_def)
  note facts = promotable_record [OF contract ready]
  consider (none) "vget (dget r ''candidate'') ''version'' = PNone"
    | (one) "vget (dget r ''candidate'') ''version'' = PInt 1"
    | (two) "vget (dget r ''candidate'') ''version'' = PInt 2"
    using facts(1) by blast
  then show ?thesis
  proof cases
    case none
    with stored_phase(1) [OF ok'] frozen_state_of(1) show ?thesis
      by (simp add: with_candidate_def with_record_def CODING_EXECUTION_SLOT_STATES_def)
  next
    case one
    have "stage ?s = Empty" using before(2) facts(2) [OF one] by (simp add: stage1)
    from slot_step.freeze_first [OF view(1) this some] show ?thesis
      by (simp add: view(2) frozen_state_of(2) [OF one])
  next
    case two
    then obtain p where p: "vget (dget r ''slot'') ''historical_candidate_ids'' = PList [PStr p]"
      and empty: "vget (dget r ''slot'') ''state_before'' = PStr ''EMPTY_FOR_REMEDIATION''"
      using facts(3) by blast
    have hist: "dget st1 ''historical_candidate_ids'' = PList [PStr p]"
      using before(3) py_eq_list_strs [of "[p]"] unfolding p by simp
    have "?c \<noteq> PStr p"
      using stored_candidates(5) [OF ok'] hist by (auto simp: with_candidate_def with_record_def)
    moreover have "stage ?s = Remediation" using before(2) empty by (simp add: stage1)
    moreover have "past ?s = [PStr p]" by (simp add: past1 hist)
    ultimately show ?thesis
      using slot_step.freeze_second [OF view(1) _ _ some] by (simp add: view(2) frozen_state_of(3) [OF two])
  qed
qed

lemma discard_moves:
  assumes same: "slot_view st1 = slot_view st" and res: "reservation_guards r st1 = None"
    and ok: "validate_coding_execution_state (PDict st) gate = None"
    and st': "st' = with_record r (dset st1 (PStr ''reserved_attempt'') PNone)"
    and ok': "validate_coding_execution_state (PDict st') gate = None"
  shows "slot_step (slot_view st) (slot_view st')"
proof -
  let ?v = "slot_view st'"
  have pend: "pending (slot_view st)"
    using reservation_facts(1) [OF res] unfolding same [symmetric] by (auto simp: slot_view_def)
  have fields: "stage ?v = stage (slot_view st1)" "\<not> pending ?v" "current ?v = current (slot_view st1)"
    "budget ?v = budget (slot_view st1)" "past ?v = past (slot_view st1)"
    by (simp_all add: st' with_record_def slot_view_def)
  with attempts_from_budget(2) [OF ok ok' _ pend] same
  have "?v = slot_view st \<lparr>pending := False, attempts := Suc (attempts (slot_view st))\<rparr>"
    by (intro slot_eqI) simp_all
  with slot_step.discard [OF pend] show ?thesis by simp
qed

lemma publish_moves:
  assumes body: "publish_body r st = Inr (Replace st' answer)"
    and contract: "validate_contract ''coding_execution_record'' (PDict r) ''runtime'' = None"
    and ok: "validate_coding_execution_state (PDict st) gate = None"
    and ok': "validate_coding_execution_state (PDict st') gate = None"
  shows "slot_moves st st' \<and> slot_keeps st st'"
proof -
  have fresh: "fresh_record r st = Inr (Replace st' answer)"
    using body by (auto simp: publish_body_def guarded_Inr split: option.splits if_splits)
  show ?thesis
  proof (cases "dget r ''outcome'' = PStr ''PRELAUNCH_HOLD''")
    case True
    from hold_moves [OF fresh this ok ok'] show ?thesis by (simp add: slot_moves_def)
  next
    case False
    from attempt_record_shape [OF fresh False] obtain st1 st2 where
      b: "bound_state r st = Inr st1" and res: "reservation_guards r st1 = None"
      and inst: "installed r st1 = Inr st2"
      and st': "st' = with_record r (dset st2 (PStr ''reserved_attempt'') PNone)" by blast
    note same = bound_state_keeps(1,2) [OF b]
    have keep: "slot_keeps st1 st'"
      using inst by (auto simp: st' with_record_def slot_keeps_def installed_def Let_def guarded_Inr
          split: if_splits)
    have "slot_step (slot_view st) (slot_view st')"
    proof (cases "dget r ''outcome'' = PStr ''CANDIDATE_READY''")
      case True
      then have "st' = with_candidate r st1"
        using inst by (auto simp: st' with_candidate_def installed_def Let_def guarded_Inr)
      with freeze_moves [OF True same(1) res contract ok] ok' show ?thesis by simp
    next
      case not_ready: False
      then have "st2 = st1" using inst by (auto simp: installed_def Let_def guarded_Inr)
      with discard_moves [OF same(1) res ok _ ok'] st' show ?thesis by simp
    qed
    with slot_keeps_trans [OF same(2) keep] show ?thesis by (simp add: slot_moves_def)
  qed
qed

subsection \<open>Operations on the store\<close>

text \<open>The four operations that may change the store, and their runs.\<close>

datatype slot_op =
    Initialize pyval pyval
  | Reserve pyval pyval pyval pyval
  | Retire pyval pyval pyval
  | Publish pyval

fun slot_exec :: "(string \<Rightarrow> guard) \<times> slot_op \<Rightarrow> slot_files \<Rightarrow> pyval res \<times> slot_files" where
  "slot_exec (lock, Initialize gate task) files =
     initialize_coding_execution_slot lock files gate task"
| "slot_exec (lock, Reserve gate kind parent utc) files =
     reserve_coding_execution_attempt lock files gate kind parent utc"
| "slot_exec (lock, Retire gate candidate authorization) files =
     retire_coding_execution_candidate_for_remediation lock files gate candidate authorization"
| "slot_exec (lock, Publish v) files = publish_coding_execution_record lock files v"

definition slot_apply :: "(string \<Rightarrow> guard) \<times> slot_op \<Rightarrow> slot_files \<Rightarrow> slot_files" where
  "slot_apply p files = snd (slot_exec p files)"

definition slot_file_ok :: "string \<Rightarrow> pyval \<Rightarrow> bool" where
  "slot_file_ok g v \<longleftrightarrow> is_dict v \<and> validate_coding_execution_state v (PStr g) = None"

definition slot_file_fresh :: "string \<Rightarrow> pyval \<Rightarrow> bool" where
  "slot_file_fresh g v \<longleftrightarrow> (\<exists>task. v = PDict (initial_slot (PStr g) task))"

definition slot_file_step :: "pyval \<Rightarrow> pyval \<Rightarrow> bool" where
  "slot_file_step u v \<longleftrightarrow> slot_moves (entries u) (entries v) \<and> slot_keeps (entries u) (entries v)"

lemma commit_cases:
  "snd (commit files gate st answer) = files \<or>
   snd (commit files gate st answer) = files(str_of gate \<mapsto> PDict st) \<and>
     validate_coding_execution_state (PDict st) gate = None"
  by (auto simp: commit_def split: option.splits)

lemma read_state_Inr:
  "read_coding_execution_state files gate = Inr st \<longleftrightarrow>
     coding_execution_slot_path gate = None \<and> files (str_of gate) = Some (PDict st) \<and>
     validate_coding_execution_state (PDict st) gate = None"
  by (auto simp: read_coding_execution_state_def guarded_Inr is_dict_iff split: option.splits)

lemma slot_path_str: "coding_execution_slot_path gate = None \<Longrightarrow> is_str gate"
  by (simp add: coding_execution_slot_path_def)

lemma locked_update_cases:
  "snd (locked_update lock files gate body) = files \<or>
   (\<exists>st st' answer. is_str gate \<and> files (str_of gate) = Some (PDict st) \<and>
      validate_coding_execution_state (PDict st) gate = None \<and> body st = Inr (Replace st' answer) \<and>
      validate_coding_execution_state (PDict st') gate = None \<and>
      snd (locked_update lock files gate body) = files(str_of gate \<mapsto> PDict st'))"
proof (cases "snd (locked_update lock files gate body) = files")
  case False
  then obtain c where c: "rbind (read_coding_execution_state files gate) body = Inr c"
    "first_err [coding_execution_slot_path gate, lock (str_of gate)] = None"
    by (auto simp: locked_update_def split: option.splits sum.splits)
  then obtain st where st: "read_coding_execution_state files gate = Inr st" "body st = Inr c"
    by (auto simp: rbind_Inr)
  show ?thesis
  proof (cases c)
    case (Replace st' answer)
    then have eq: "locked_update lock files gate body = commit files gate st' answer"
      using c by (auto simp: locked_update_def)
    with False commit_cases [of files gate st' answer]
    have "validate_coding_execution_state (PDict st') gate = None"
      "snd (locked_update lock files gate body) = files(str_of gate \<mapsto> PDict st')" by auto
    moreover have "is_str gate" using c(2) slot_path_str by simp
    ultimately show ?thesis using st Replace by (auto simp: read_state_Inr)
  qed (use False c in \<open>auto simp: locked_update_def\<close>)
qed simp

text \<open>When a changing operation goes through.\<close>

lemma locked_update_Replace:
  assumes "coding_execution_slot_path gate = None" "lock (str_of gate) = None"
    and "files (str_of gate) = Some (PDict st)"
    and "validate_coding_execution_state (PDict st) gate = None"
    and "body st = Inr (Replace st' answer)"
    and "validate_coding_execution_state (PDict st') gate = None"
  shows "locked_update lock files gate body = (Inr answer, files(str_of gate \<mapsto> PDict st'))"
  using read_state_Inr [of files gate st] assms by (simp add: locked_update_def commit_def)

lemma locked_update_Keep:
  assumes "coding_execution_slot_path gate = None" "lock (str_of gate) = None"
    and "files (str_of gate) = Some (PDict st)"
    and "validate_coding_execution_state (PDict st) gate = None"
    and "body st = Inr (Keep answer)"
  shows "locked_update lock files gate body = (Inr answer, files)"
  using read_state_Inr [of files gate st] assms by (simp add: locked_update_def)

text \<open>A locked operation whose computation only makes moves satisfies the store's interface.\<close>

lemma locked_update_law:
  fixes lock :: "string \<Rightarrow> guard" and files :: slot_files
  assumes moves: "\<And>st st' answer. validate_coding_execution_state (PDict st) gate = None \<Longrightarrow>
      validate_coding_execution_state (PDict st') gate = None \<Longrightarrow>
      body st = Inr (Replace st' answer) \<Longrightarrow> slot_moves st st' \<and> slot_keeps st st'"
  defines "new \<equiv> snd (locked_update lock files gate body)"
  shows "new = files \<or> (\<exists>k v. new = files(k \<mapsto> v) \<and> slot_file_ok k v \<and>
    (case files k of None \<Rightarrow> slot_file_fresh k v | Some u \<Rightarrow> slot_file_ok k u \<and> slot_file_step u v))"
  using locked_update_cases [of lock files gate body]
proof
  assume "\<exists>st st' answer. is_str gate \<and> files (str_of gate) = Some (PDict st) \<and>
      validate_coding_execution_state (PDict st) gate = None \<and> body st = Inr (Replace st' answer) \<and>
      validate_coding_execution_state (PDict st') gate = None \<and>
      snd (locked_update lock files gate body) = files(str_of gate \<mapsto> PDict st')"
  then obtain st st' answer where s: "is_str gate" "files (str_of gate) = Some (PDict st)"
    "validate_coding_execution_state (PDict st) gate = None" "body st = Inr (Replace st' answer)"
    "validate_coding_execution_state (PDict st') gate = None"
    "new = files(str_of gate \<mapsto> PDict st')" unfolding new_def by blast
  then show ?thesis
    using moves [OF s(3,5,4)]
    by (intro disjI2 exI [of _ "str_of gate"] exI [of _ "PDict st'"])
      (auto simp: slot_file_ok_def slot_file_step_def is_str_str_of)
qed (simp add: new_def)

lemma initialize_law:
  fixes lock :: "string \<Rightarrow> guard" and files :: slot_files and gate task :: pyval
  defines "new \<equiv> snd (initialize_coding_execution_slot lock files gate task)"
  shows "new = files \<or> (\<exists>k v. new = files(k \<mapsto> v) \<and> slot_file_ok k v \<and>
    (case files k of None \<Rightarrow> slot_file_fresh k v | Some u \<Rightarrow> slot_file_ok k u \<and> slot_file_step u v))"
proof (cases "new = files")
  case False
  then have c: "files (str_of gate) = None" "is_str gate"
    "new = snd (commit files gate (initial_slot gate task) (coding_execution_public_state (initial_slot gate task)))"
    by (auto simp: new_def initialize_coding_execution_slot_def split: option.splits if_splits)
  with False commit_cases show ?thesis
    by (intro disjI2 exI [of _ "str_of gate"] exI [of _ "PDict (initial_slot gate task)"])
      (auto simp: slot_file_ok_def slot_file_fresh_def is_str_str_of)
qed simp

lemma published_contract:
  "published_record_guard v = None \<Longrightarrow> validate_contract ''coding_execution_record'' v ''runtime'' = None"
  by (auto simp: published_record_guard_def split: option.splits if_splits)

text \<open>The store of slots meets the interface, whatever the locks answer.\<close>

interpretation slots: guarded_files slot_apply slot_file_ok slot_file_fresh slot_file_step
proof
  fix p :: "(string \<Rightarrow> guard) \<times> slot_op" and files :: slot_files
  obtain lock c where p: "p = (lock, c)" by (cases p)
  show "slot_apply p files = files \<or> (\<exists>k v. slot_apply p files = files(k \<mapsto> v) \<and> slot_file_ok k v \<and>
    (case files k of None \<Rightarrow> slot_file_fresh k v | Some u \<Rightarrow> slot_file_ok k u \<and> slot_file_step u v))"
  proof (cases c)
    case (Initialize gate task)
    then show ?thesis by (simp add: slot_apply_def p initialize_law)
  next
    case (Reserve gate kind parent utc)
    then show ?thesis
      unfolding slot_apply_def p Reserve slot_exec.simps reserve_coding_execution_attempt_def
      by (intro locked_update_law) (auto simp: slot_moves_def dest: reserve_moves)
  next
    case (Retire gate candidate authorization)
    show ?thesis
    proof (cases "is_str candidate")
      case True
      have "snd (retire_coding_execution_candidate_for_remediation lock files gate candidate authorization) = files
        \<or> retire_coding_execution_candidate_for_remediation lock files gate candidate authorization =
          locked_update lock files gate (retire_body candidate authorization)"
        by (simp add: retire_coding_execution_candidate_for_remediation_def split: option.split)
      then show ?thesis
        unfolding slot_apply_def p Retire slot_exec.simps
        using locked_update_law [of gate "retire_body candidate authorization" lock files]
          retire_moves [OF _ _ True] by (auto simp: slot_moves_def)
    qed (simp add: slot_apply_def p Retire retire_coding_execution_candidate_for_remediation_def
        require_safe_id_def store_error_def fail_if_def)
  next
    case (Publish v)
    show ?thesis
    proof (cases "published_record_guard v")
      case None
      note contract = published_contract [OF None]
      obtain d where "v = PDict d" using validate_contract_None_dict [OF contract] by (auto simp: is_dict_iff)
      with contract have "validate_contract ''coding_execution_record'' (PDict (entries v)) ''runtime'' = None"
        by simp
      then show ?thesis
        unfolding slot_apply_def p Publish slot_exec.simps publish_coding_execution_record_def None option.case
        by (intro locked_update_law) (rule publish_moves)
    qed (simp add: slot_apply_def p Publish publish_coding_execution_record_def)
  qed
qed

end
