(* ===== verification/Slot_Props.thy ===== *)
theory Slot_Props
  imports Slot_Machine
begin

text \<open>
  The properties of the coding execution slot of \<open>acgps/workflow_store.py\<close>: the store refines
  the abstract machine, its files are valid and balanced, the ledger of a gate only grows,
  failures change nothing, a reservation succeeds when it should, and publishing is idempotent.
\<close>

subsection \<open>A short run\<close>

definition free_lock :: "string \<Rightarrow> guard" where
  "free_lock g = None"

definition sample_gate :: pyval where "sample_gate = PStr ''GATE-1''"
definition sample_task :: pyval where "sample_task = PStr ''TASK-1''"
definition sample_utc :: pyval where "sample_utc = PStr ''2026-08-24T00:00:00.000Z''"

definition sample_ops :: "((string \<Rightarrow> guard) \<times> slot_op) list" where
  "sample_ops =
     [(free_lock, Initialize sample_gate sample_task),
      (free_lock, Reserve sample_gate (PStr ''ORDINARY'') PNone sample_utc)]"

definition sample_reserved :: pydict where
  "sample_reserved =
     dset (dset (initial_slot sample_gate sample_task) (PStr ''remaining_attempts'') (PInt 1))
       (PStr ''reserved_attempt'') (new_reservation 2 (PStr ''ORDINARY'') PNone sample_utc)"

lemma sample_initial_ok:
  "validate_coding_execution_state (PDict (initial_slot sample_gate sample_task)) sample_gate = None"
  by code_simp

lemma sample_reserved_ok:
  "validate_coding_execution_state (PDict sample_reserved) sample_gate = None"
  by code_simp

lemma sample_path_ok: "coding_execution_slot_path sample_gate = None"
  by code_simp

lemma sample_ids_ok: "require_safe_id sample_gate p = None" "require_safe_id sample_task p = None"
  by code_simp+

lemma sample_initialized:
  "slot_apply (free_lock, Initialize sample_gate sample_task) (\<lambda>_. None) =
     [str_of sample_gate \<mapsto> PDict (initial_slot sample_gate sample_task)]"
  by (simp add: slot_apply_def initialize_coding_execution_slot_def commit_def free_lock_def
      sample_initial_ok sample_path_ok sample_ids_ok del: require_safe_id_None)

lemma sample_reserves:
  "reserve_body (PStr ''ORDINARY'') PNone sample_utc (initial_slot sample_gate sample_task) =
     Inr (Replace sample_reserved (new_reservation 2 (PStr ''ORDINARY'') PNone sample_utc))"
  by code_simp

lemma sample_run: "fold slot_apply sample_ops (\<lambda>_. None) ''GATE-1'' = Some (PDict sample_reserved)"
proof -
  have "locked_update free_lock [str_of sample_gate \<mapsto> PDict (initial_slot sample_gate sample_task)]
      sample_gate (reserve_body (PStr ''ORDINARY'') PNone sample_utc) =
    (Inr (new_reservation 2 (PStr ''ORDINARY'') PNone sample_utc),
     [str_of sample_gate \<mapsto> PDict (initial_slot sample_gate sample_task),
      str_of sample_gate \<mapsto> PDict sample_reserved])"
    by (rule locked_update_Replace [where st = "initial_slot sample_gate sample_task"])
      (simp_all add: free_lock_def sample_path_ok sample_initial_ok sample_reserved_ok sample_reserves)
  then have "slot_apply (free_lock, Reserve sample_gate (PStr ''ORDINARY'') PNone sample_utc)
      [str_of sample_gate \<mapsto> PDict (initial_slot sample_gate sample_task)] =
     [str_of sample_gate \<mapsto> PDict (initial_slot sample_gate sample_task),
      str_of sample_gate \<mapsto> PDict sample_reserved]"
    by (simp add: slot_apply_def reserve_coding_execution_attempt_def)
  then show ?thesis
    by (simp add: sample_ops_def sample_initialized) (simp add: sample_gate_def)
qed

subsection \<open>Refinement\<close>

lemma run_reachable:
  assumes "fold slot_apply ops (\<lambda>_. None) g = Some v"
  shows "slot_reachable (slot_view (entries v))"
proof (rule slots.run_invariant [OF _ _ assms])
  fix k v assume "slot_file_fresh k v"
  then have "slot_view (entries v) = initial"
    by (auto simp: slot_file_fresh_def initial_slot_def slot_view_def initial_def)
  then show "slot_reachable (slot_view (entries v))" by (simp add: slot_reachable.start)
next
  fix k u v assume "slot_file_step u v" "slot_reachable (slot_view (entries u))"
  then show "slot_reachable (slot_view (entries v))"
    by (auto simp: slot_file_step_def slot_moves_def intro: slot_reachable.step)
qed

text \<open>
  C20. The stored operations refine the abstract machine: after any sequence of
  initializations, reservations, retirements and publications on an empty store, with
  whatever answers of the locks, the slot in every file is a state the machine can reach from
  the empty slot with two attempts.
\<close>

theorem slot_store_refines_machine:
  assumes "fold slot_apply ops (\<lambda>_. None) g = Some v"
  shows "slot_reachable (slot_view (entries v))"
  by (rule run_reachable [OF assms])

theorem slot_store_refines_machine_witness: "slot_reachable (slot_view sample_reserved)"
  using slot_store_refines_machine [OF sample_run] by simp

text \<open>
  C21. Every file of the store is valid for its gate and balanced: remaining, pending and
  completed attempts add up to two. An empty slot has no candidates; a slot emptied for
  remediation has exactly one retired candidate; a second candidate is under review only when
  both attempts are spent and the first candidate, a different one, is retired. The state
  REJECTED_HOLD_V1 is never stored.
\<close>

theorem slot_files_invariant:
  assumes "fold slot_apply ops (\<lambda>_. None) g = Some v"
  shows "slot_file_ok g v \<and> slot_invariant (slot_view (entries v)) \<and>
    dget (entries v) ''state'' \<noteq> PStr ''REJECTED_HOLD_V1''"
proof -
  have inv: "slot_invariant (slot_view (entries v))"
    by (rule reachable_invariant [OF run_reachable [OF assms]])
  have "stage (slot_view (entries v)) = Rejected" if "dget (entries v) ''state'' = PStr ''REJECTED_HOLD_V1''"
    using that by (simp add: slot_view_def stage_of_def)
  with inv have "dget (entries v) ''state'' \<noteq> PStr ''REJECTED_HOLD_V1''"
    by (auto simp: slot_invariant_def)
  with inv slots.run_from_empty_valid [OF assms] show ?thesis by blast
qed

theorem slot_files_invariant_witness: "slot_invariant (slot_view sample_reserved)"
  using slot_files_invariant [OF sample_run] by simp

subsection \<open>The ledger\<close>

lemma steps_keep:
  "slot_file_step\<^sup>*\<^sup>* u v \<Longrightarrow> slot_keeps (entries u) (entries v) \<and>
     stage_rank (stage (slot_view (entries u))) \<le> stage_rank (stage (slot_view (entries v))) \<and>
     budget (slot_view (entries v)) \<le> budget (slot_view (entries u))"
proof (induction rule: rtranclp_induct)
  case (step w v)
  from step(2) have keep: "slot_keeps (entries w) (entries v)" and "slot_moves (entries w) (entries v)"
    by (simp_all add: slot_file_step_def)
  then have "stage_rank (stage (slot_view (entries w))) \<le> stage_rank (stage (slot_view (entries v))) \<and>
      budget (slot_view (entries v)) \<le> budget (slot_view (entries w))"
    by (auto simp: slot_moves_def dest: slot_step_monotone)
  with step.IH slot_keeps_trans [OF _ keep] show ?case by auto
qed (simp add: slot_keeps_refl)

text \<open>
  C22. Whatever is done to a gate, its file stays, its owner stays, its binding stays once it
  is made, the records it holds stay as they are and in their order with new ones after them,
  its stage never goes back and its budget never grows.
\<close>

theorem slot_ledger_grows:
  assumes "files g = Some u"
  shows "\<exists>v. fold slot_apply ops files g = Some v \<and> slot_keeps (entries u) (entries v) \<and>
    stage_rank (stage (slot_view (entries u))) \<le> stage_rank (stage (slot_view (entries v))) \<and>
    budget (slot_view (entries v)) \<le> budget (slot_view (entries u))"
  using slots.run_steps [of files g u ops] assms steps_keep by blast

theorem slot_ledger_grows_witness:
  "\<exists>v. fold slot_apply sample_ops [''GATE-1'' \<mapsto> PDict sample_reserved] ''GATE-1'' = Some v \<and>
    slot_keeps sample_reserved (entries v)"
  using slot_ledger_grows [of "[''GATE-1'' \<mapsto> PDict sample_reserved]" "''GATE-1''" "PDict sample_reserved" sample_ops]
  by auto


lemma empty_publish: "slot_exec (free_lock, Publish PNone) (\<lambda>_. None) =
    (Inl (WorkflowStoreError ''WORKFLOW_INVALID_INPUT'' ''coding_execution.record''
      ''coding_execution_record failed validation: $: expected mapping''), \<lambda>_. None)"
  by (simp add: publish_coding_execution_record_def published_record_guard_def validate_contract_def
      get_contract_def current_version_def CONTRACTS_def exn_class_def exn_text_def invalid_def
      store_error_def fail_if_def)


subsection \<open>Progress\<close>

lemma dset_keys: "PStr k \<in> fst ` set d \<Longrightarrow> map fst (dset d (PStr k) v) = map fst d"
proof (induction d)
  case (Cons p d)
  then show ?case by (cases p) auto
qed simp

lemma has_keys_dset: "has_keys d ks \<Longrightarrow> k \<in> set ks \<Longrightarrow> has_keys (dset d (PStr k) v) ks"
proof -
  assume a: "has_keys d ks" "k \<in> set ks"
  then have "PStr k \<in> set (map fst d)" unfolding has_keys_def by auto
  then have "PStr k \<in> fst ` set d" by simp
  from a(1) show ?thesis by (simp only: has_keys_def dset_keys [OF \<open>PStr k \<in> fst ` set d\<close>])
qed

lemma gate_of_stored:
  assumes "validate_coding_execution_state (PDict st) gate = None"
  shows "is_str gate" "coding_execution_slot_path gate = None"
proof -
  have gate: "gate = dget st ''gate_id''"
    using stored_identity(2,4) [OF assms] by (auto simp: is_str_iff)
  then show "is_str gate" using stored_identity(2) [OF assms] by simp
  have safe: "is_safe_id (str_of gate)" using gate stored_identity(3) [OF assms] by simp
  have "safe_state_path (PStr (''coding-execution'' @ ''/'' @ str_of gate @ ''/'' @ ''slot.json'')) = None"
    by (rule dir_id_file_path [OF safe]) (simp_all add: is_dot_part_def)
  with safe \<open>is_str gate\<close> show "coding_execution_slot_path gate = None"
    by (simp add: coding_execution_slot_path_def slot_file_name_def)
qed

text \<open>An ordinary reservation keeps a stored state valid.\<close>

lemma reservation_keys: "has_keys (entries (new_reservation n k p u)) CODING_EXECUTION_RESERVATION_FIELDS"
  by (auto simp: has_keys_def new_reservation_def CODING_EXECUTION_RESERVATION_FIELDS_def)

lemma reserved_state_ok:
  fixes parent utc :: pyval
  assumes ok: "validate_coding_execution_state (PDict st) gate = None"
    and left: "dget st ''remaining_attempts'' = PInt n" "n \<noteq> 0"
    and free: "dget st ''reserved_attempt'' = PNone" and kind: "kind \<in> {PStr ''ORDINARY'', PStr ''REMEDIATION''}"
  defines "st' \<equiv> dset (dset st (PStr ''remaining_attempts'') (PInt (n - 1)))
      (PStr ''reserved_attempt'') (new_reservation n kind parent utc)"
  shows "validate_coding_execution_state (PDict st') gate = None"
proof -
  have n: "n = 1 \<or> n = 2" using stored_phase(2) [OF ok] left by auto
  have keys: "has_keys st' CODING_EXECUTION_STATE_FIELDS"
    unfolding st'_def by (intro has_keys_dset stored_identity(1) [OF ok])
      (simp_all add: CODING_EXECUTION_STATE_FIELDS_def)
  note p = stored_parts [OF ok]
  have "\<forall>c \<in> set (identity_part st' gate). c = None"
    using p(1) keys by (simp add: identity_part_def st'_def)
  moreover have "\<forall>c \<in> set (phase_part st'). c = None"
    using p(2) n by (auto simp: phase_part_def st'_def Let_def)
  moreover have "\<forall>c \<in> set (candidate_part st'). c = None"
    using p(3) by (simp add: candidate_part_def st'_def Let_def)
  moreover have "reservation_part st' = None"
  proof -
    have "has_keys (entries (dget st' ''reserved_attempt'')) CODING_EXECUTION_RESERVATION_FIELDS"
      by (simp add: st'_def reservation_keys)
    then show ?thesis
      using n kind by (auto simp: reservation_part_def Let_def st'_def new_reservation_def hash_guard_def)
  qed
  moreover have "\<forall>c \<in> set (records_part st'). c = None"
  proof -
    have "record_row_guard st' i r = record_row_guard st i r" for i r
      by (simp add: record_row_guard_def st'_def)
    then show ?thesis
      using p(5) left free by (auto simp: records_part_def st'_def Let_def new_reservation_def)
  qed
  ultimately show ?thesis
    unfolding validate_coding_execution_state_def Let_def projections first_err_None by auto
qed

text \<open>
  C24. A slot is never stuck while it has budget: on a valid empty slot with an attempt left
  and none pending, an ordinary reservation with a millisecond timestamp succeeds once the
  lock is granted. It answers with the next attempt number, takes exactly one attempt from the
  budget and stores the reservation.
\<close>

theorem reservation_succeeds:
  assumes "files (str_of gate) = Some (PDict st)"
    and "validate_coding_execution_state (PDict st) gate = None"
    and "dget st ''state'' = PStr ''EMPTY''" and "dget st ''reserved_attempt'' = PNone"
    and "dget st ''remaining_attempts'' = PInt n" and "n \<noteq> 0"
    and "match_pattern ''dddd-dd-ddTdd:dd:dd.dddZ'' utc" and "lock (str_of gate) = None"
  shows "reserve_coding_execution_attempt lock files gate (PStr ''ORDINARY'') PNone (PStr utc) =
    (Inr (new_reservation n (PStr ''ORDINARY'') PNone (PStr utc)),
     files(str_of gate \<mapsto> PDict
       (dset (dset st (PStr ''remaining_attempts'') (PInt (n - 1)))
         (PStr ''reserved_attempt'') (new_reservation n (PStr ''ORDINARY'') PNone (PStr utc)))))"
  unfolding reserve_coding_execution_attempt_def
proof (rule locked_update_Replace)
  show "reserve_body (PStr ''ORDINARY'') PNone (PStr utc) st = Inr (Replace
      (dset (dset st (PStr ''remaining_attempts'') (PInt (n - 1)))
        (PStr ''reserved_attempt'') (new_reservation n (PStr ''ORDINARY'') PNone (PStr utc)))
      (new_reservation n (PStr ''ORDINARY'') PNone (PStr utc)))"
    using assms by (simp add: reserve_body_def Let_def attempt_guard_def guarded_Inr)
qed (use assms gate_of_stored [OF assms(2)] reserved_state_ok [OF assms(2,5,6,4)] in simp_all)

theorem reservation_succeeds_witness:
  "fst (reserve_coding_execution_attempt free_lock
      [str_of sample_gate \<mapsto> PDict (initial_slot sample_gate sample_task)] sample_gate
      (PStr ''ORDINARY'') PNone (PStr ''2026-08-24T00:00:00.000Z'')) =
    Inr (new_reservation 2 (PStr ''ORDINARY'') PNone (PStr ''2026-08-24T00:00:00.000Z''))"
proof -
  have "match_pattern ''dddd-dd-ddTdd:dd:dd.dddZ'' ''2026-08-24T00:00:00.000Z''"
    by (simp add: is_digit_c_def)
  then show ?thesis
    using reservation_succeeds [of "[str_of sample_gate \<mapsto> PDict (initial_slot sample_gate sample_task)]"
        sample_gate "initial_slot sample_gate sample_task" 2 "''2026-08-24T00:00:00.000Z''" free_lock]
      sample_initial_ok
    by (simp add: initial_slot_def free_lock_def)
qed

subsection \<open>Publishing twice\<close>

lemma locked_update_Inr:
  assumes "locked_update lock files gate body = (Inr answer, files')"
  obtains st where "coding_execution_slot_path gate = None" "files (str_of gate) = Some (PDict st)"
    "validate_coding_execution_state (PDict st) gate = None"
    "body st = Inr (Keep answer) \<and> files' = files \<or>
     (\<exists>st'. body st = Inr (Replace st' answer) \<and>
        validate_coding_execution_state (PDict st') gate = None \<and> files' = files(str_of gate \<mapsto> PDict st'))"
proof -
  from assms obtain c st where c: "read_coding_execution_state files gate = Inr st" "body st = Inr c"
    "(case c of Keep a \<Rightarrow> (Inr a, files) | Replace s a \<Rightarrow> commit files gate s a) = (Inr answer, files')"
    by (auto simp: locked_update_def rbind_def split: option.splits sum.splits)
  then show ?thesis
    using that [of st] by (cases c) (auto simp: read_state_Inr commit_def split: option.splits)
qed

lemma fresh_record_result:
  assumes "fresh_record r st = Inr (Replace st' answer)"
  shows "elems (dget st' ''records'') = elems (dget st ''records'') @ [PDict r]"
    "dget st' ''task_id'' = dget st ''task_id''" "answer = coding_execution_public_state st'"
  using assms
  by (auto simp: fresh_record_def rbind_Inr guarded_Inr replace_with_def with_record_def bound_state_def
      installed_def Let_def split: if_splits)

text \<open>The record just published is found, equal to itself.\<close>

lemma published_is_kept:
  assumes body: "publish_body r st = Inr (Replace st' answer)" and json: "json_value (PDict r)"
    and contract: "validate_contract ''coding_execution_record'' (PDict r) ''runtime'' = None"
  shows "publish_body r st' = Inr (Keep answer)"
proof -
  have fresh: "fresh_record r st = Inr (Replace st' answer)"
    and none: "find (\<lambda>x. py_eq (vget x ''execution_id'') (dget r ''execution_id'')) (elems (dget st ''records'')) = None"
    and task: "py_eq (dget st ''task_id'') (dget r ''task_id'')"
    using body by (auto simp: publish_body_def guarded_Inr split: option.splits if_splits)
  note new = fresh_record_result [OF fresh]
  have "typed_ok [TyStr] ''runtime'' (dget r ''execution_id'')"
    using conforms_field(2) [OF selected(11) [OF contract, simplified], of "''execution_id''"]
    by (simp add: CODING_EXECUTION_FIELDS_def)
  then have "py_eq (dget r ''execution_id'') (dget r ''execution_id'')" by (auto simp: is_str_iff)
  then have "find (\<lambda>x. py_eq (vget x ''execution_id'') (dget r ''execution_id'')) (elems (dget st' ''records'')) =
      Some (PDict r)"
    using none by (simp add: new(1) find_append_None)
  then show ?thesis
    using task py_eq_json_refl [OF json] by (simp add: publish_body_def new(2,3) guarded_Inr)
qed

text \<open>
  C25. Publishing is idempotent: a record that was published once and is published again,
  whenever the lock is granted, gives the same answer and changes nothing.
\<close>

theorem publish_idempotent:
  assumes "publish_coding_execution_record lock files v = (Inr answer, files')"
    and "json_value v" and "\<And>g. lock' g = None"
  shows "publish_coding_execution_record lock' files' v = (Inr answer, files')"
proof -
  have guard: "published_record_guard v = None"
    and run: "locked_update lock files (vget v ''gate_id'') (publish_body (entries v)) = (Inr answer, files')"
    using assms(1) by (auto simp: publish_coding_execution_record_def split: option.splits)
  note contract = published_contract [OF guard]
  obtain r where r: "v = PDict r" using validate_contract_None_dict [OF contract] by (auto simp: is_dict_iff)
  from locked_update_Inr [OF run [unfolded r projections]] obtain st where st:
    "coding_execution_slot_path (vget (PDict r) ''gate_id'') = None"
    "files (str_of (vget (PDict r) ''gate_id'')) = Some (PDict st)"
    "validate_coding_execution_state (PDict st) (vget (PDict r) ''gate_id'') = None"
    "publish_body r st = Inr (Keep answer) \<and> files' = files \<or>
     (\<exists>st'. publish_body r st = Inr (Replace st' answer) \<and>
        validate_coding_execution_state (PDict st') (vget (PDict r) ''gate_id'') = None \<and>
        files' = files(str_of (vget (PDict r) ''gate_id'') \<mapsto> PDict st'))" .
  have "locked_update lock' files' (vget (PDict r) ''gate_id'') (publish_body r) = (Inr answer, files')"
    using st(4)
  proof
    assume "publish_body r st = Inr (Keep answer) \<and> files' = files"
    then show ?thesis
      by (intro locked_update_Keep [OF st(1) assms(3) _ st(3)]) (use st(2) in simp_all)
  next
    assume "\<exists>st'. publish_body r st = Inr (Replace st' answer) \<and>
        validate_coding_execution_state (PDict st') (vget (PDict r) ''gate_id'') = None \<and>
        files' = files(str_of (vget (PDict r) ''gate_id'') \<mapsto> PDict st')"
    then obtain st' where s: "publish_body r st = Inr (Replace st' answer)"
      "validate_coding_execution_state (PDict st') (vget (PDict r) ''gate_id'') = None"
      "files' = files(str_of (vget (PDict r) ''gate_id'') \<mapsto> PDict st')" by blast
    have "publish_body r st' = Inr (Keep answer)"
      using published_is_kept [OF s(1)] assms(2) contract by (simp add: r)
    then show ?thesis
      by (intro locked_update_Keep [OF st(1) assms(3) _ s(2)]) (simp_all add: s(3))
  qed
  then show ?thesis using guard by (simp add: publish_coding_execution_record_def r)
qed

text \<open>The sample attempt publishes the sample record, which freezes its first candidate.\<close>

definition sample_frozen :: pydict where
  "sample_frozen = with_candidate sample_candidate_ready
     (dset sample_reserved (PStr ''gate_binding'') (coding_execution_record_binding sample_candidate_ready))"

lemma ready_fields:
  "dget sample_candidate_ready ''gate_id'' = sample_gate"
  "dget sample_candidate_ready ''task_id'' = sample_task"
  "dget sample_candidate_ready ''execution_id'' = PStr ''EXECUTION-1''"
  "dget sample_candidate_ready ''outcome'' = PStr ''CANDIDATE_READY''"
  "dget sample_candidate_ready ''slot'' = cr_slot" "dget sample_candidate_ready ''attempt'' = cr_attempt"
  "dget sample_candidate_ready ''candidate'' = cr_candidate"
  by (simp_all add: sample_candidate_ready_def sample_gate_def sample_task_def)

lemma reserved_fields:
  "dget sample_reserved ''task_id'' = sample_task" "dget sample_reserved ''gate_binding'' = PNone"
  "dget sample_reserved ''state'' = PStr ''EMPTY''" "dget sample_reserved ''active_candidate_id'' = PNone"
  "dget sample_reserved ''historical_candidate_ids'' = PList []" "dget sample_reserved ''records'' = PList []"
  "dget sample_reserved ''reserved_attempt'' = new_reservation 2 (PStr ''ORDINARY'') PNone sample_utc"
  by (simp_all add: sample_reserved_def initial_slot_def)

lemma sample_frozen_state: "frozen_state sample_candidate_ready = PStr ''FROZEN_REVIEW_V1''"
  by (rule frozen_state_of(2)) (simp add: ready_fields cr_candidate_def)

lemma sample_publishes:
  "publish_body sample_candidate_ready sample_reserved =
     Inr (Replace sample_frozen (coding_execution_public_state sample_frozen))"
proof -
  let ?st = "dset sample_reserved (PStr ''gate_binding'') (coding_execution_record_binding sample_candidate_ready)"
  have "reservation_guards sample_candidate_ready ?st = None"
    by (simp add: reservation_guards_def Let_def ready_fields reserved_fields cr_slot_def cr_attempt_def
        new_reservation_def CODING_EXECUTION_RESERVATION_FIELDS_def sample_utc_def py_eq.simps
        atom_eq_def)
  moreover have "installed sample_candidate_ready ?st = Inr (dset (dset ?st (PStr ''state'')
      (frozen_state sample_candidate_ready)) (PStr ''active_candidate_id'') (vget cr_candidate ''candidate_id''))"
    by (simp add: installed_def Let_def ready_fields sample_frozen_state cr_slot_def cr_candidate_def guarded_def)
  ultimately show ?thesis
    by (simp add: publish_body_def guarded_def reserved_fields ready_fields fresh_record_def bound_state_def
        Let_def replace_with_def sample_frozen_def with_candidate_def sample_task_def)
qed

lemma has_keys_sample_frozen: "has_keys sample_frozen CODING_EXECUTION_STATE_FIELDS"
  unfolding sample_frozen_def with_candidate_def with_record_def
  by (intro has_keys_dset stored_identity(1) [OF sample_reserved_ok])
    (simp_all add: CODING_EXECUTION_STATE_FIELDS_def)

lemma sample_record_json: "json_value (PDict sample_candidate_ready)"
  by code_simp

lemma frozen_fields:
  "dget sample_frozen ''schema_version'' = PInt 2"
  "dget sample_frozen ''gate_id'' = sample_gate" "dget sample_frozen ''task_id'' = sample_task"
  "dget sample_frozen ''gate_binding'' = coding_execution_record_binding sample_candidate_ready"
  "dget sample_frozen ''state'' = PStr ''FROZEN_REVIEW_V1''"
  "dget sample_frozen ''remaining_attempts'' = PInt 1"
  "dget sample_frozen ''active_candidate_id'' = PStr ''CANDIDATE-1''"
  "dget sample_frozen ''historical_candidate_ids'' = PList []"
  "dget sample_frozen ''remediation_authorization_id'' = PNone"
  "dget sample_frozen ''reserved_attempt'' = PNone"
  "dget sample_frozen ''records'' = PList [PDict sample_candidate_ready]"
  by (simp_all add: sample_frozen_def with_candidate_def with_record_def sample_frozen_state ready_fields
      cr_candidate_def sample_reserved_def initial_slot_def)

text \<open>The binding is a copy of parts of the record, so it equals itself.\<close>

lemma binding_json: "json_value (coding_execution_record_binding sample_candidate_ready)"
  by code_simp

lemma binding_made: "coding_execution_record_binding r \<noteq> PNone"
  by (simp add: coding_execution_record_binding_def Let_def)

lemma sample_candidate_id_ok: "require_safe_id (PStr ''CANDIDATE-1'') p = None"
  by code_simp

lemma sample_frozen_ok: "validate_coding_execution_state (PDict sample_frozen) sample_gate = None"
proof -
  have "\<forall>c \<in> set (identity_part sample_frozen sample_gate). c = None"
    using has_keys_sample_frozen
    by (simp add: identity_part_def frozen_fields sample_ids_ok del: require_safe_id_None)
      (simp add: sample_gate_def)
  moreover have "\<forall>c \<in> set (phase_part sample_frozen). c = None"
    by (simp add: phase_part_def frozen_fields Let_def hash_guard_def CODING_EXECUTION_SLOT_STATES_def
        coding_execution_record_binding_def has_keys_def)
  moreover have "\<forall>c \<in> set (candidate_part sample_frozen). c = None"
    using sample_candidate_id_ok
    by (simp add: candidate_part_def frozen_fields Let_def sorted_set_def del: require_safe_id_None)
  moreover have "reservation_part sample_frozen = None" by (simp add: reservation_part_def frozen_fields)
  moreover have "\<forall>c \<in> set (records_part sample_frozen). c = None"
    using py_eq_json_refl [OF binding_json] binding_made
    by (simp add: records_part_def frozen_fields Let_def record_row_guard_def stored_record_guard_def
        sample_candidate_ready_ok ready_fields candidate_ids_def reserved_number_def cr_attempt_def
        cr_candidate_def)
      (auto simp: sample_gate_def sample_task_def ready_fields image_iff)
  ultimately show ?thesis
    unfolding validate_coding_execution_state_def Let_def projections first_err_None by auto
qed

lemma sample_publish:
  "publish_coding_execution_record free_lock [str_of sample_gate \<mapsto> PDict sample_reserved]
     (PDict sample_candidate_ready) =
   (Inr (coding_execution_public_state sample_frozen),
    [str_of sample_gate \<mapsto> PDict sample_reserved, str_of sample_gate \<mapsto> PDict sample_frozen])"
proof -
  have "locked_update free_lock [str_of sample_gate \<mapsto> PDict sample_reserved] sample_gate
      (publish_body sample_candidate_ready) = (Inr (coding_execution_public_state sample_frozen),
    [str_of sample_gate \<mapsto> PDict sample_reserved, str_of sample_gate \<mapsto> PDict sample_frozen])"
    by (rule locked_update_Replace [where st = sample_reserved])
      (simp_all add: free_lock_def sample_path_ok sample_reserved_ok sample_publishes sample_frozen_ok)
  then show ?thesis
    by (simp add: publish_coding_execution_record_def published_record_guard_def sample_candidate_ready_ok
        ready_fields)
qed

theorem publish_idempotent_witness:
  "publish_coding_execution_record free_lock
     [str_of sample_gate \<mapsto> PDict sample_reserved, str_of sample_gate \<mapsto> PDict sample_frozen]
     (PDict sample_candidate_ready) =
   (Inr (coding_execution_public_state sample_frozen),
    [str_of sample_gate \<mapsto> PDict sample_reserved, str_of sample_gate \<mapsto> PDict sample_frozen])"
  by (rule publish_idempotent [OF sample_publish sample_record_json]) (simp add: free_lock_def)

end
