(* ===== verification/Canonical_Json.thy ===== *)
theory Canonical_Json
  imports Py_Text "HOL-Library.Multiset"
begin

text \<open>
  \<open>canonical_json_bytes\<close> of \<open>acgps/workflow_contracts.py\<close>: the text of a JSON value with sorted
  keys, no blanks and only ASCII characters. It is what the program hashes and writes. The
  keys of a mapping are texts, as in every record the program has validated.
\<close>

definition json_char :: "char \<Rightarrow> string" where
  "json_char c = (let n = of_char c :: nat; backslash = char_of (92::nat) in
     if n = 34 \<or> n = 92 then [backslash, c]
     else if n = 10 then [backslash, CHR ''n'']
     else if n = 13 then [backslash, CHR ''r'']
     else if n = 9 then [backslash, CHR ''t'']
     else if n = 12 then [backslash, CHR ''f'']
     else if n = 8 then [backslash, CHR ''b'']
     else if 32 \<le> n \<and> n \<le> 126 then [c]
     else [backslash, CHR ''u'', CHR ''0'', CHR ''0'', hex_char (n div 16), hex_char (n mod 16)])"

definition json_string :: "string \<Rightarrow> string" where
  "json_string s = [CHR 0x22] @ concat (map json_char s) @ [CHR 0x22]"

function canonical_json :: "pyval \<Rightarrow> string" where
  "canonical_json PNone = ''null''"
| "canonical_json (PBool b) = (if b then ''true'' else ''false'')"
| "canonical_json (PInt i) = int_str i"
| "canonical_json (PFloat r t) = t"
| "canonical_json (PStr s) = json_string s"
| "canonical_json (PList xs) = ''['' @ join '','' (map canonical_json xs) @ '']''"
| "canonical_json (PDict d) =
     ''{'' @ join '','' (map (\<lambda>(k, t). json_string k @ '':'' @ t)
       (sort_key fst (map (\<lambda>p. (str_of (fst p), canonical_json (snd p))) d))) @ ''}''"
  by pat_completeness auto
termination
  by (relation "measure size") (auto dest: size_entry size_list_estimation' [where f = size, OF _ order_refl])

text \<open>
  The text does not depend on the order in which a mapping was built: two listings of the
  same entries under different keys have one canonical form.
\<close>

lemma sort_key_fst_unique:
  assumes "mset xs = mset ys" "distinct (map fst (xs :: (string \<times> string) list))"
  shows "sort_key fst xs = sort_key fst ys"
proof -
  have set: "set xs = set ys" using assms(1) by (metis set_mset_mset)
  have inj: "inj_on fst (set xs)" using assms(2) by (simp add: distinct_map)
  have sorted: "sorted (map fst (sort_key fst xs))" "sorted (map fst (sort_key fst ys))" by simp_all
  have "mset (map fst (sort_key fst xs)) = mset (map fst (sort_key fst ys))"
    by (simp only: mset_map mset_sort assms(1))
  then have "map fst (sort_key fst xs) = map fst (sort_key fst ys)"
    using sorted by (metis properties_for_sort sorted_sort_id)
  then show ?thesis
    by (rule map_inj_on) (use inj set in simp)
qed

lemma canonical_json_order:
  assumes "mset d = mset e" "distinct (map fst d)" "\<forall>p \<in> set d. is_str (fst p)"
  shows "canonical_json (PDict d) = canonical_json (PDict e)"
proof -
  let ?f = "\<lambda>p. (str_of (fst p), canonical_json (snd p))"
  have inj: "inj_on str_of (set (map fst d))"
    using assms(3) by (simp add: inj_on_def is_str_iff) (metis fst_conv projections(1))
  have "distinct (map str_of (map fst d))"
    by (rule distinct_map [THEN iffD2]) (use assms(2) inj in blast)
  moreover have "map fst (map ?f d) = map str_of (map fst d)" by simp
  ultimately have "distinct (map fst (map ?f d))" by (simp only:)
  moreover have "mset (map ?f d) = mset (map ?f e)" by (simp only: mset_map assms(1))
  ultimately have "sort_key fst (map ?f d) = sort_key fst (map ?f e)" by (rule sort_key_fst_unique [rotated])
  then show ?thesis by (simp only: canonical_json.simps)
qed

end
