(* ===== verification/Agent_Packets.thy ===== *)
theory Agent_Packets
  imports Store_Base Canonical_Json Contract_Props
begin

text \<open>
  Task packets (\<open>acgps/task_packets.py\<close>) and the previews of supervised handoffs and result
  receipts (\<open>acgps/supervised_handoff.py\<close>). The hash of the canonical text of a record is the
  argument \<open>sha\<close>. An error message is the text of the source.
\<close>

subsection \<open>Task packets\<close>

definition packet_of :: "string \<Rightarrow> pydict \<Rightarrow> pyval \<Rightarrow> pydict" where
  "packet_of role intake result =
     [(PStr ''schema_version'', PInt 1),
      (PStr ''packet_id'', PStr (str_of (dget intake ''task_id'') @ ''-'' @ lower role @ ''-v1'')),
      (PStr ''role'', PStr role),
      (PStr ''project_id'', dget intake ''project_id''),
      (PStr ''task_id'', dget intake ''task_id''),
      (PStr ''objective'', dget intake ''requested_outcome''),
      (PStr ''binding_constraints'', dget intake ''known_constraints''),
      (PStr ''non_goals'', dget intake ''out_of_scope''),
      (PStr ''relevant_paths'', dget intake ''source_paths''),
      (PStr ''interfaces_consumed'', PList []),
      (PStr ''interfaces_produced'', PList []),
      (PStr ''acceptance_criteria'', dget intake ''acceptance_criteria''),
      (PStr ''required_skills'', vget result ''required_skills''),
      (PStr ''required_evidence'', vget result ''mandatory_gates''),
      (PStr ''prohibited_actions'',
        PList (PStr ''production release'' # elems (dget intake ''out_of_scope''))),
      (PStr ''return_schema'', PStr ''templates/AGENT_RESULT.yaml'')]"

definition generate_task_packet :: "string \<Rightarrow> pyval \<Rightarrow> pyval \<Rightarrow> pyval res" where
  "generate_task_packet role intake policy_result =
     (let packet = PDict (packet_of role (entries intake) (vget policy_result ''result'')) in
      guarded
        (first_err [validate_contract ''task_intake'' intake ''runtime'',
           validate_contract ''policy_evaluation_result'' policy_result ''runtime'',
           validate_contract ''agent_task_contract'' packet ''runtime''])
        (Inr packet))"

subsection \<open>Paths of a handoff\<close>

definition forbidden_filename_characters :: string where
  "forbidden_filename_characters = ''<>:'' @ [CHR 0x22] @ ''|?*''"

text \<open>The names of devices; the last six end in a superscript one, two or three.\<close>

definition reserved_device_names :: "string list" where
  "reserved_device_names =
    [''aux'', ''clock$'', ''con'', ''conin$'', ''conout$'', ''nul'', ''prn''] @
    map (\<lambda>n. ''com'' @ nat_str n) [1..<10] @ map (\<lambda>n. ''lpt'' @ nat_str n) [1..<10] @
    [''com'' @ [CHR 0xB9], ''com'' @ [CHR 0xB2], ''com'' @ [CHR 0xB3],
     ''lpt'' @ [CHR 0xB9], ''lpt'' @ [CHR 0xB2], ''lpt'' @ [CHR 0xB3]]"

definition rstrip_spaces :: "string \<Rightarrow> string" where
  "rstrip_spaces s = rev (dropWhile (\<lambda>c. c = CHR '' '') (rev s))"

definition is_unsafe_windows_component :: "string \<Rightarrow> bool" where
  "is_unsafe_windows_component segment \<longleftrightarrow>
     ends_with ''.'' segment \<or> ends_with '' '' segment \<or>
     list_ex (\<lambda>c. (of_char c :: nat) < 32 \<or> c \<in> set forbidden_filename_characters) segment \<or>
     casefold (rstrip_spaces (hd (split_on (CHR ''.'') segment))) \<in> set reserved_device_names"

definition unsafe_handoff_path :: "string \<Rightarrow> bool" where
  "unsafe_handoff_path s =
     (let segments = split_on (CHR ''/'') s in
      CHR 0x5C \<in> set s \<or> starts_with ''/'' s \<or> has_windows_drive s \<or>
      list_ex is_dot_part segments \<or> list_ex is_unsafe_windows_component segments)"

definition validate_safe_relative_paths :: "pyval list \<Rightarrow> string \<Rightarrow> guard" where
  "validate_safe_relative_paths paths label = first_err
     (map (\<lambda>v. fail_if (unsafe_handoff_path (str_of v)) (AppError ''ValueError''
        (label @ '' must be a safe relative POSIX path: '' @ str_of v))) paths)"

definition validate_relevant_paths :: "pyval list \<Rightarrow> guard" where
  "validate_relevant_paths paths = validate_safe_relative_paths paths ''relevant path''"

subsection \<open>Handoff previews\<close>

definition preview_controls :: "pydict \<Rightarrow> pyval" where
  "preview_controls extra = PDict
     ([(PStr ''model_execution'', PStr ''NOT_STARTED''),
       (PStr ''operator_authorization_required'', PBool True),
       (PStr ''process_launch'', PStr ''NOT_STARTED''),
       (PStr ''state_write'', PStr ''NOT_PERFORMED'')] @ extra)"

definition sha_of :: "(string \<Rightarrow> string) \<Rightarrow> pyval \<Rightarrow> pyval" where
  "sha_of sha v = PStr (sha (canonical_json v))"

definition build_supervised_handoff_preview :: "(string \<Rightarrow> string) \<Rightarrow> pyval \<Rightarrow> string \<Rightarrow> pyval res" where
  "build_supervised_handoff_preview sha packet role =
     guarded
       (first_err
         [validate_contract ''agent_task_contract'' packet ''runtime'',
          fail_if (vget packet ''role'' \<noteq> PStr role) (AppError ''ValueError''
            (''supervised '' @ casefold role @ '' handoff requires a '' @ role @ '' task packet'')),
          validate_relevant_paths (elems (vget packet ''relevant_paths''))])
       (Inr (PDict
         [(PStr ''controls'', preview_controls []),
          (PStr ''mode'', PStr ''HUMAN_SUPERVISED''),
          (PStr ''packet'', packet),
          (PStr ''packet_sha256'', sha_of sha packet),
          (PStr ''status'', PStr ''HANDOFF_PREVIEW'')]))"

definition build_supervised_coder_handoff_preview :: "(string \<Rightarrow> string) \<Rightarrow> pyval \<Rightarrow> pyval res" where
  "build_supervised_coder_handoff_preview sha packet =
     build_supervised_handoff_preview sha packet ''CODER''"

definition build_supervised_planner_handoff_preview :: "(string \<Rightarrow> string) \<Rightarrow> pyval \<Rightarrow> pyval res" where
  "build_supervised_planner_handoff_preview sha packet =
     build_supervised_handoff_preview sha packet ''PLANNER''"

definition build_supervised_reviewer_handoff_preview :: "(string \<Rightarrow> string) \<Rightarrow> pyval \<Rightarrow> pyval res" where
  "build_supervised_reviewer_handoff_preview sha packet =
     build_supervised_handoff_preview sha packet ''REVIEWER''"

definition build_supervised_verifier_handoff_preview :: "(string \<Rightarrow> string) \<Rightarrow> pyval \<Rightarrow> pyval res" where
  "build_supervised_verifier_handoff_preview sha packet =
     build_supervised_handoff_preview sha packet ''VERIFIER''"

subsection \<open>Result receipts\<close>

definition build_supervised_result_receipt_preview ::
    "(string \<Rightarrow> string) \<Rightarrow> pyval \<Rightarrow> pyval \<Rightarrow> string \<Rightarrow> pyval res" where
  "build_supervised_result_receipt_preview sha packet agent_result role =
     guarded
       (first_err
         [validate_contract ''agent_task_contract'' packet ''runtime'',
          validate_contract ''agent_result'' agent_result ''runtime'',
          validate_relevant_paths (elems (vget packet ''relevant_paths'')),
          fail_if (vget packet ''role'' \<noteq> PStr role \<or> vget agent_result ''role'' \<noteq> PStr role)
            (AppError ''ValueError'' (''supervised '' @ casefold role @
              '' result receipt requires '' @ role @ '' records'')),
          fail_if (\<not> py_eq (vget agent_result ''packet_id'') (vget packet ''packet_id''))
            (AppError ''ValueError''
              (''agent result packet_id does not match the '' @ role @ '' packet'')),
          validate_safe_relative_paths
            (elems (vget agent_result ''changed_files'') @ elems (vget agent_result ''created_files''))
            ''result path''])
       (Inr (PDict
         [(PStr ''agent_result'', agent_result),
          (PStr ''agent_result_sha256'', sha_of sha agent_result),
          (PStr ''controls'', preview_controls [(PStr ''workflow_transition'', PStr ''NOT_PERFORMED'')]),
          (PStr ''mode'', PStr ''HUMAN_SUPERVISED''),
          (PStr ''packet_id'', vget packet ''packet_id''),
          (PStr ''packet_sha256'', sha_of sha packet),
          (PStr ''status'', PStr ''RESULT_RECEIPT_PREVIEW'')]))"

definition build_supervised_coder_result_receipt_preview ::
    "(string \<Rightarrow> string) \<Rightarrow> pyval \<Rightarrow> pyval \<Rightarrow> pyval res" where
  "build_supervised_coder_result_receipt_preview sha packet agent_result =
     build_supervised_result_receipt_preview sha packet agent_result ''CODER''"

definition build_supervised_planner_result_receipt_preview ::
    "(string \<Rightarrow> string) \<Rightarrow> pyval \<Rightarrow> pyval \<Rightarrow> pyval res" where
  "build_supervised_planner_result_receipt_preview sha packet agent_result =
     build_supervised_result_receipt_preview sha packet agent_result ''PLANNER''"

definition build_supervised_reviewer_result_receipt_preview ::
    "(string \<Rightarrow> string) \<Rightarrow> pyval \<Rightarrow> pyval \<Rightarrow> pyval res" where
  "build_supervised_reviewer_result_receipt_preview sha packet agent_result =
     build_supervised_result_receipt_preview sha packet agent_result ''REVIEWER''"

definition build_supervised_verifier_result_receipt_preview ::
    "(string \<Rightarrow> string) \<Rightarrow> pyval \<Rightarrow> pyval \<Rightarrow> pyval res" where
  "build_supervised_verifier_result_receipt_preview sha packet agent_result =
     build_supervised_result_receipt_preview sha packet agent_result ''VERIFIER''"

subsection \<open>What the checks give\<close>

lemma handoff_path_safe: "\<not> unsafe_handoff_path s \<Longrightarrow> is_safe_relative_path s"
  by (auto simp: unsafe_handoff_path_def is_safe_relative_path_def Let_def list_ex_iff list_all_iff
      has_windows_drive_def has_drive_def is_dot_part_def is_alpha_c_def is_upper_c_def is_lower_c_def
      starts_with_def split: list.splits)

definition plain_windows_path :: "string \<Rightarrow> bool" where
  "plain_windows_path s \<longleftrightarrow>
     (\<forall>segment \<in> set (split_on (CHR ''/'') s). \<not> is_unsafe_windows_component segment)"

definition contained_path :: "pyval \<Rightarrow> bool" where
  "contained_path v \<longleftrightarrow> (\<exists>s. v = PStr s \<and> (\<forall>base. stays_below base s) \<and> plain_windows_path s)"

lemma validated_paths:
  assumes "validate_safe_relative_paths xs label = None" "\<forall>x \<in> set xs. is_str x"
  shows "\<forall>x \<in> set xs. contained_path x"
proof
  fix x assume x: "x \<in> set xs"
  then obtain s where s: "x = PStr s" using assms(2) by (auto simp: is_str_iff)
  have safe: "\<not> unsafe_handoff_path s" using assms(1) x s by (auto simp: validate_safe_relative_paths_def)
  then have "plain_windows_path s"
    by (auto simp: unsafe_handoff_path_def plain_windows_path_def Let_def list_ex_iff)
  then show "contained_path x"
    using s safe_stays_below [OF handoff_path_safe [OF safe]] by (auto simp: contained_path_def)
qed

lemma contract_selected_packets:
  "filter (\<lambda>c. spec_name c = ''agent_task_contract'') CONTRACTS =
     [\<lparr>spec_name = ''agent_task_contract'', spec_version = 1, spec_fields = agent_task_contract_contract\<rparr>]"
  "filter (\<lambda>c. spec_name c = ''agent_result'') CONTRACTS =
     [\<lparr>spec_name = ''agent_result'', spec_version = 1, spec_fields = agent_result_contract\<rparr>]"
  by (simp_all add: CONTRACTS_def)

lemma string_list_field:
  assumes "conforms d fs ''runtime''" "(n, STRING_LIST) \<in> set fs"
  shows "is_list (dget d n)" "\<forall>x \<in> set (elems (dget d n)). is_str x"
  using conforms_field(2,4) [OF assms] by (auto simp: STRING_LIST_def collections_ok_def list_all_iff)

lemma packet_paths_typed:
  assumes "validate_contract ''agent_task_contract'' (PDict d) ''runtime'' = None"
  shows "\<forall>x \<in> set (elems (dget d ''relevant_paths'')). is_str x"
  using string_list_field(2) [OF accepted_conforms(2) [OF assms contract_selected_packets(1), simplified],
      of "''relevant_paths''"] by (simp add: agent_task_contract_contract_def)

lemma result_paths_typed:
  assumes "validate_contract ''agent_result'' (PDict d) ''runtime'' = None"
  shows "\<forall>x \<in> set (elems (dget d ''changed_files'') @ elems (dget d ''created_files'')). is_str x"
  using string_list_field(2) [OF accepted_conforms(2) [OF assms contract_selected_packets(2), simplified],
      of "''changed_files''"]
    string_list_field(2) [OF accepted_conforms(2) [OF assms contract_selected_packets(2), simplified],
      of "''created_files''"]
  by (auto simp: agent_result_contract_def)

end
