(* ===== verification/Agent_Sample.thy ===== *)
theory Agent_Sample
  imports Agent_Packets
begin

text \<open>
  A task intake, the policy result for it, and the packet and agent result that follow: the
  records the witnesses of \<open>Agent_Props\<close> run on.
\<close>

definition sample_intake :: pydict where
  "sample_intake =
    [kv ''schema_version'' (PInt 1), kv ''task_id'' (PStr ''TASK-1''),
     kv ''project_id'' (PStr ''ACGPS''), kv ''title'' (PStr ''Title''),
     kv ''requested_outcome'' (PStr ''Outcome''), kv ''business_context'' (PStr ''Context''),
     kv ''in_scope'' (PList []), kv ''out_of_scope'' (strl [''billing'']),
     kv ''acceptance_criteria'' (strl [''works'']), kv ''known_constraints'' (PList []),
     kv ''known_risks'' (PList []), kv ''affected_surfaces'' (PList []),
     kv ''source_paths'' (strl [''acgps/a.py'']), kv ''requested_by'' (PStr ''owner''),
     kv ''created_at_utc'' (PStr ''2026-08-24T00:00:00Z'')]"

definition sample_policy_result :: pydict where
  "sample_policy_result =
    [kv ''schema_version'' (PInt 1), kv ''evaluation_id'' (PStr ''EVAL-1''),
     kv ''project_id'' (PStr ''ACGPS''), kv ''task_id'' (PStr ''TASK-1''),
     kv ''policy_bundle_digest'' (PStr (replicate 64 (CHR ''a''))),
     kv ''result'' (PDict
       [kv ''risk_level'' (PStr ''R1''), kv ''required_human_triggers'' (PList []),
        kv ''human_gate'' (PBool False), kv ''decision_emitted'' (PBool True),
        kv ''required_skills'' (PList []), kv ''model_roles'' (PDict []),
        kv ''mandatory_gates'' (strl [''spec'']), kv ''legal_transitions'' (strl [''CLASSIFIED'']),
        kv ''authorized_transitions'' (strl [''CLASSIFIED'']), kv ''provenance'' (PList []),
        kv ''fail_closed'' (PBool False), kv ''error_code'' PNone, kv ''issues'' (PList [])]),
     kv ''created_at_utc'' (PStr ''2026-08-24T00:00:00Z'')]"

definition sample_packet :: pydict where
  "sample_packet = packet_of ''CODER'' sample_intake (dget sample_policy_result ''result'')"

definition sample_agent_result :: pydict where
  "sample_agent_result =
    [kv ''schema_version'' (PInt 1), kv ''packet_id'' (PStr ''TASK-1-coder-v1''),
     kv ''role'' (PStr ''CODER''), kv ''status'' (PStr ''DONE''), kv ''summary'' (PStr ''done''),
     kv ''changed_files'' (strl [''acgps/a.py'']), kv ''created_files'' (PList []),
     kv ''commands_run'' (PList []), kv ''evidence_paths'' (PList []), kv ''assumptions'' (PList []),
     kv ''concerns'' (PList []), kv ''blocker'' PNone,
     kv ''recommended_next_state'' (PStr ''TASK_REVIEW'')]"

lemma sample_generates:
  "generate_task_packet ''CODER'' (PDict sample_intake) (PDict sample_policy_result) = Inr (PDict sample_packet)"
  by code_simp

lemma sample_receipt:
  "build_supervised_coder_result_receipt_preview sha (PDict sample_packet) (PDict sample_agent_result) =
     Inr (PDict
       [(PStr ''agent_result'', PDict sample_agent_result),
        (PStr ''agent_result_sha256'', sha_of sha (PDict sample_agent_result)),
        (PStr ''controls'', preview_controls [(PStr ''workflow_transition'', PStr ''NOT_PERFORMED'')]),
        (PStr ''mode'', PStr ''HUMAN_SUPERVISED''),
        (PStr ''packet_id'', PStr ''TASK-1-coder-v1''),
        (PStr ''packet_sha256'', sha_of sha (PDict sample_packet)),
        (PStr ''status'', PStr ''RESULT_RECEIPT_PREVIEW'')])"
proof -
  have "validate_contract ''agent_task_contract'' (PDict sample_packet) ''runtime'' = None"
    "validate_contract ''agent_result'' (PDict sample_agent_result) ''runtime'' = None"
    "validate_relevant_paths (elems (dget sample_packet ''relevant_paths'')) = None"
    "validate_safe_relative_paths (elems (dget sample_agent_result ''changed_files'') @
       elems (dget sample_agent_result ''created_files'')) ''result path'' = None"
    "dget sample_packet ''role'' = PStr ''CODER''" "dget sample_agent_result ''role'' = PStr ''CODER''"
    "dget sample_packet ''packet_id'' = PStr ''TASK-1-coder-v1''"
    "dget sample_agent_result ''packet_id'' = PStr ''TASK-1-coder-v1''"
    by code_simp+
  then show ?thesis
    by (simp add: build_supervised_coder_result_receipt_preview_def
        build_supervised_result_receipt_preview_def fail_if_def)
qed

end
