(* ===== verification/Contract_Accept.thy ===== *)
theory Contract_Accept
  imports Contract_Props
begin

text \<open>
  When the contract validator of \<open>acgps/contracts.py\<close> accepts: the converse of what
  \<open>Contract_Props\<close> shows, field by field, for the fields of texts and of lists of texts.
\<close>

definition plain_name :: "string \<Rightarrow> bool" where
  "plain_name n \<longleftrightarrow> strip_index n = n \<and> CHR ''.'' \<notin> set n \<and> \<not> is_required_text_field n \<and>
     \<not> ends_with ''_at_utc'' n \<and> n \<noteq> ''sha256'' \<and> n \<noteq> ''baseline_hash'' \<and>
     \<not> ends_with ''_sha256'' n \<and> \<not> ends_with ''_digest'' n \<and>
     n \<notin> set PATH_FIELDS \<and> n \<notin> set PATH_COLLECTION_FIELDS"

lemma plain_semantics:
  assumes "plain_name n" "s \<notin> set TEMPLATE_PLACEHOLDERS"
  shows "validate_runtime_semantics n (PStr s) ''runtime'' = []"
    "validate_runtime_semantics (item_path n i) (PStr s) ''runtime'' = []"
proof -
  have parts: "semantic_path_parts n = [n]" "semantic_path_parts (item_path n i) = [n]"
    "semantic_field_name n = n" "semantic_field_name (item_path n i) = n"
    using assms(1) semantic_parts_item [of n i]
    by (simp_all add: plain_name_def semantic_path_parts_def semantic_field_name_def split_on_none
        item_path_no_dot)
  show "validate_runtime_semantics n (PStr s) ''runtime'' = []"
    "validate_runtime_semantics (item_path n i) (PStr s) ''runtime'' = []"
    using assms by (simp_all add: validate_runtime_semantics_def Let_def parts plain_name_def
        is_path_semantic_path_def is_absolute_path_semantic_path_def)
qed

definition text_ok :: "pyval \<Rightarrow> bool" where
  "text_ok v \<longleftrightarrow> is_str v \<and> str_of v \<notin> set TEMPLATE_PLACEHOLDERS"

lemma numbered_item: "(i, x) \<in> set (numbered k xs) \<Longrightarrow> x \<in> set xs"
  by (auto simp: numbered_set)

lemma text_list_field:
  assumes "plain_name n" "dlookup d n = Some (PList xs)" "list_all text_ok xs"
  shows "validate_field d ''runtime'' (n, STRING_LIST) = []"
proof -
  have "typed_check (item_path n i) [TyStr] x ''runtime'' = []" if "x \<in> set xs" for i x
    using plain_semantics(2) [OF assms(1)] assms(3) that
    by (auto simp: typed_check_def list_all_iff text_ok_def is_str_iff)
  then have "items_check n STRING_LIST (PList xs) ''runtime'' = []"
    by (auto simp: items_check_def STRING_LIST_def concat_map_Nil dest: numbered_item)
  then show ?thesis
    using assms(2) by (simp add: validate_field_def STRING_LIST_def validate_runtime_semantics_def
        allowed_check_def map_values_check_def)
qed

lemma text_field:
  assumes "dlookup d n = Some (PStr s)" "validate_runtime_semantics n (PStr s) ''runtime'' = []"
  shows "validate_field d ''runtime'' (n, simple_field [TyStr]) = []"
  using assms by (simp add: validate_field_def allowed_check_def items_check_def map_values_check_def)

text \<open>A required text that is not blank and no placeholder.\<close>

lemma required_semantics:
  assumes "strip_index n = n" "CHR ''.'' \<notin> set n" "\<not> ends_with ''_at_utc'' n"
    "n \<notin> {''sha256'', ''baseline_hash''}" "\<not> ends_with ''_sha256'' n" "\<not> ends_with ''_digest'' n"
    "n \<notin> set PATH_FIELDS" "n \<notin> set PATH_COLLECTION_FIELDS"
  shows "validate_runtime_semantics n (PStr s) ''runtime'' = [] \<longleftrightarrow>
    s \<notin> set TEMPLATE_PLACEHOLDERS \<and> (is_required_text_field n \<longrightarrow> strip s \<noteq> [])"
proof -
  have parts: "semantic_path_parts n = [n]" "semantic_field_name n = n"
    using assms(1,2) by (simp_all add: semantic_path_parts_def semantic_field_name_def split_on_none)
  show ?thesis
    using assms(3-) by (auto simp: validate_runtime_semantics_def Let_def parts
        is_path_semantic_path_def is_absolute_path_semantic_path_def emit_if_def)
qed

subsection \<open>Fields of an accepted record\<close>

lemma accepted_text_list:
  assumes "conforms d fs ''runtime''" "(n, STRING_LIST) \<in> set fs"
  shows "\<exists>xs. dlookup d n = Some (PList xs) \<and> dget d n = PList xs \<and> list_all text_ok xs"
proof -
  have r: "required STRING_LIST" by (simp add: STRING_LIST_def)
  note f = conforms_field [OF assms r]
  obtain v where v: "dlookup d n = Some v" using f(1) by (auto simp: dhas_def)
  then have "dget d n = v" by (simp add: dget_def)
  with f(2,4) v show ?thesis
    by (auto simp: STRING_LIST_def typed_ok_def collections_ok_def text_ok_def no_placeholder_def
        is_list_iff list_all_iff)
qed

lemma accepted_text:
  assumes "validate_contract name (PDict d) ''runtime'' = None"
    and sel: "filter (\<lambda>c. spec_name c = name) CONTRACTS = [spec]"
    and mem: "(n, f) \<in> set (spec_fields spec)" and ty: "required f" "expected_type f = [TyStr]"
  shows "\<exists>s. dlookup d n = Some (PStr s) \<and> dget d n = PStr s \<and>
    validate_runtime_semantics n (PStr s) ''runtime'' = [] \<and> s \<notin> set TEMPLATE_PLACEHOLDERS"
proof -
  note c = accepted_conforms [OF assms(1) sel]
  note f = conforms_field [OF c(2) mem ty(1)]
  obtain v where v: "dlookup d n = Some v" using f(1) by (auto simp: dhas_def)
  have g: "dget d n = v" using v by (simp add: dget_def)
  obtain s where s: "v = PStr s" "s \<notin> set TEMPLATE_PLACEHOLDERS"
    using f(2) g by (auto simp: typed_ok_def ty is_str_iff no_placeholder_def)
  obtain sp where sp: "sp \<in> set CONTRACTS" "spec_name sp = name"
    "\<And>p. p \<in> set (spec_fields sp) \<Longrightarrow> validate_field d ''runtime'' p = []"
    using accepted_field [OF assms(1)] by metis
  have "sp \<in> set (filter (\<lambda>c. spec_name c = name) CONTRACTS)" using sp(1,2) by simp
  then have "sp = spec" by (simp add: sel)
  then have "validate_field d ''runtime'' (n, f) = []" using sp(3) mem by simp
  from validate_field_items(3) [OF this v] show ?thesis using v g s by simp
qed

text \<open>A record of a named contract is accepted when all its checks pass.\<close>

lemma accepted_when:
  assumes sel: "get_contract name (Some (spec_version spec)) = Inr spec" "spec_name spec = name"
    and v: "dget d ''schema_version'' = PInt (spec_version spec)"
    and keys: "list_all (\<lambda>p. fst p \<in> set (declared_keys (spec_fields spec))) d"
    and fields: "list_all (\<lambda>p. validate_field d ''runtime'' p = []) (spec_fields spec)"
    and rules: "contract_rules name d ''runtime'' = []"
  shows "validate_contract name (PDict d) ''runtime'' = None"
proof -
  have "validate_mapping spec d ''runtime'' = []"
    using fields rules keys sel(2)
    by (auto simp: validate_mapping_def version_check_def v unexpected_keys_def concat_map_Nil list_all_iff)
  then show ?thesis by (simp add: validate_contract_def Let_def v sel(1))
qed

end
