(* ===== verification/Agent_Props.thy ===== *)
theory Agent_Props
  imports Agent_Sample Contract_Accept
begin

text \<open>
  The properties of task packets, handoff previews and result receipts
  (\<open>acgps/task_packets.py\<close>, \<open>acgps/supervised_handoff.py\<close>), and of their composition.
\<close>

subsection \<open>Packet generation\<close>

lemma intake_selected:
  "filter (\<lambda>c. spec_name c = ''task_intake'') CONTRACTS =
     [\<lparr>spec_name = ''task_intake'', spec_version = 1, spec_fields = task_intake_contract\<rparr>]"
  "filter (\<lambda>c. spec_name c = ''policy_evaluation_result'') CONTRACTS =
     [\<lparr>spec_name = ''policy_evaluation_result'', spec_version = 1, spec_fields = policy_evaluation_result_contract\<rparr>]"
  by (simp_all add: CONTRACTS_def)

lemma packet_contract:
  "get_contract ''agent_task_contract'' (Some 1) =
     Inr \<lparr>spec_name = ''agent_task_contract'', spec_version = 1, spec_fields = agent_task_contract_contract\<rparr>"
  by code_simp

lemma plain_packet_names:
  "list_all plain_name [''binding_constraints'', ''non_goals'', ''relevant_paths'', ''interfaces_consumed'',
     ''interfaces_produced'', ''acceptance_criteria'', ''required_skills'', ''required_evidence'',
     ''prohibited_actions'', ''role'', ''return_schema'']"
  by code_simp

text \<open>The identity of a packet is no placeholder and not blank.\<close>

lemma packet_id_text:
  "validate_runtime_semantics ''packet_id'' (PStr (t @ ''-'' @ lower role @ ''-v1'')) ''runtime'' = []"
proof -
  let ?s = "t @ ''-'' @ lower role @ ''-v1''"
  have "last ?s = CHR ''1''" by simp
  moreover have "\<forall>q \<in> set TEMPLATE_PLACEHOLDERS. q = [] \<or> last q \<noteq> CHR ''1''"
    by (simp add: TEMPLATE_PLACEHOLDERS_def)
  ultimately have "?s \<notin> set TEMPLATE_PLACEHOLDERS" by (metis append_is_Nil_conv list.distinct(1))
  moreover have "strip ?s \<noteq> []"
    unfolding strip_eq_Nil by (auto intro!: bexI [of _ "CHR ''-''"] simp: is_space_def)
  ultimately show ?thesis
    by (subst required_semantics) (simp_all add: strip_index_def index_suffix_def ends_with_def
        PATH_FIELDS_def PATH_COLLECTION_FIELDS_def)
qed

lemma packet_accepted:
  assumes intake: "validate_contract ''task_intake'' (PDict intake) ''runtime'' = None"
    and policy: "validate_contract ''policy_evaluation_result'' (PDict policy) ''runtime'' = None"
    and role: "role \<in> set ROLES"
  shows "validate_contract ''agent_task_contract''
    (PDict (packet_of role intake (dget policy ''result''))) ''runtime'' = None"
proof -
  note ci = accepted_conforms [OF intake intake_selected(1)]
  note cp = accepted_conforms [OF policy intake_selected(2)]
  obtain e where e: "dget policy ''result'' = PDict e"
    using conforms_field(2) [OF cp(2), of "''result''"]
    by (auto simp: policy_evaluation_result_contract_def typed_ok_def is_dict_iff)
  have ce: "conforms e POLICY_EVALUATION_RESULT_FIELDS ''runtime''"
    by (rule conforms_sub [OF cp(2) _ _ e]) (auto simp: policy_evaluation_result_contract_def)
  have texts: "\<exists>s. dget intake n = PStr s \<and> validate_runtime_semantics n (PStr s) ''runtime'' = []"
    if "(n, simple_field [TyStr]) \<in> set task_intake_contract" for n
    using accepted_text [OF intake intake_selected(1), of n "simple_field [TyStr]"] that by auto
  obtain t where t: "dget intake ''task_id'' = PStr t"
    "validate_runtime_semantics ''task_id'' (PStr t) ''runtime'' = []"
    using texts [of "''task_id''"] by (auto simp: task_intake_contract_def)
  obtain pr where pr: "dget intake ''project_id'' = PStr pr"
    "validate_runtime_semantics ''project_id'' (PStr pr) ''runtime'' = []"
    using texts [of "''project_id''"] by (auto simp: task_intake_contract_def)
  obtain ob where ob: "dget intake ''requested_outcome'' = PStr ob"
    "validate_runtime_semantics ''requested_outcome'' (PStr ob) ''runtime'' = []"
    using texts [of "''requested_outcome''"] by (auto simp: task_intake_contract_def)
  have obj: "validate_runtime_semantics ''objective'' (PStr ob) ''runtime'' = []"
    using ob(2) by (simp add: required_semantics strip_index_def index_suffix_def ends_with_def
        PATH_FIELDS_def PATH_COLLECTION_FIELDS_def is_required_text_field_by_char)
  have lists: "\<exists>xs. dget intake n = PList xs \<and> list_all text_ok xs"
    if "(n, STRING_LIST) \<in> set task_intake_contract" for n
    using accepted_text_list [OF ci(2), of n] that by auto
  obtain kc oos sp ac where ls: "dget intake ''known_constraints'' = PList kc" "list_all text_ok kc"
    "dget intake ''out_of_scope'' = PList oos" "list_all text_ok oos"
    "dget intake ''source_paths'' = PList sp" "list_all text_ok sp"
    "dget intake ''acceptance_criteria'' = PList ac" "list_all text_ok ac"
    using lists [of "''known_constraints''"] lists [of "''out_of_scope''"] lists [of "''source_paths''"]
      lists [of "''acceptance_criteria''"] by (auto simp: task_intake_contract_def)
  obtain rs mg where rl: "dget e ''required_skills'' = PList rs" "list_all text_ok rs"
    "dget e ''mandatory_gates'' = PList mg" "list_all text_ok mg"
    using accepted_text_list [OF ce, of "''required_skills''"] accepted_text_list [OF ce, of "''mandatory_gates''"]
    by (auto simp: POLICY_EVALUATION_RESULT_FIELDS_def)
  let ?d = "packet_of role intake (dget policy ''result'')"
  have d: "?d = packet_of role intake (PDict e)" by (simp add: e)
  note look = packet_of_def e t(1) pr(1) ob(1) ls(1,3,5,7) rl(1,3) projections vget_PDict
  have "role \<notin> set TEMPLATE_PLACEHOLDERS"
    using role by (auto simp: ROLES_def TEMPLATE_PLACEHOLDERS_def)
  then have role_field: "validate_field ?d ''runtime'' (''role'', choice_field [TyStr] (map PStr ROLES)) = []"
    using plain_semantics(1) [of "''role''" role] plain_packet_names role
    by (simp add: Let_def emit_if_def validate_field_def d look allowed_check_def items_check_def map_values_check_def)
  have version_field: "validate_field ?d ''runtime'' (''schema_version'', simple_field [TyInt]) = []"
    by (simp add: validate_field_def packet_of_def validate_runtime_semantics_def allowed_check_def
        items_check_def map_values_check_def)
  have return: "validate_runtime_semantics ''return_schema'' (PStr ''templates/AGENT_RESULT.yaml'') ''runtime'' = []"
    by code_simp
  have release: "text_ok (PStr ''production release'')" by code_simp
  note n = plain_packet_names [unfolded list.pred_inject]
  have at: "dlookup ?d ''packet_id'' = Some (PStr (t @ ''-'' @ lower role @ ''-v1''))"
    "dlookup ?d ''project_id'' = Some (PStr pr)" "dlookup ?d ''task_id'' = Some (PStr t)"
    "dlookup ?d ''objective'' = Some (PStr ob)"
    "dlookup ?d ''return_schema'' = Some (PStr ''templates/AGENT_RESULT.yaml'')"
    by (simp_all add: d look)
  note texts = text_field [OF at(1) packet_id_text] text_field [OF at(2) pr(2)] text_field [OF at(3) t(2)]
    text_field [OF at(4) obj] text_field [OF at(5) return]
  have lists: "validate_field ?d ''runtime'' (''binding_constraints'', STRING_LIST) = []"
    "validate_field ?d ''runtime'' (''non_goals'', STRING_LIST) = []"
    "validate_field ?d ''runtime'' (''relevant_paths'', STRING_LIST) = []"
    "validate_field ?d ''runtime'' (''interfaces_consumed'', STRING_LIST) = []"
    "validate_field ?d ''runtime'' (''interfaces_produced'', STRING_LIST) = []"
    "validate_field ?d ''runtime'' (''acceptance_criteria'', STRING_LIST) = []"
    "validate_field ?d ''runtime'' (''required_skills'', STRING_LIST) = []"
    "validate_field ?d ''runtime'' (''required_evidence'', STRING_LIST) = []"
    "validate_field ?d ''runtime'' (''prohibited_actions'', STRING_LIST) = []"
    by - (rule text_list_field, simp only: n, simp add: d look, simp add: ls rl release)+
  have fields: "list_all (\<lambda>p. validate_field ?d ''runtime'' p = []) agent_task_contract_contract"
    by (simp only: agent_task_contract_contract_def list.pred_inject texts lists role_field version_field)
  let ?spec = "\<lparr>spec_name = ''agent_task_contract'', spec_version = 1, spec_fields = agent_task_contract_contract\<rparr>"
  have keys: "list_all (\<lambda>p. fst p \<in> set (declared_keys agent_task_contract_contract)) ?d"
    by (simp add: packet_of_def agent_task_contract_contract_def declared_keys_def)
  show ?thesis
    by (rule accepted_when [where spec = ?spec])
       (use packet_contract keys fields in \<open>simp_all add: contract_rules_def\<close>, simp add: packet_of_def)
qed

text \<open>
  C26. A task packet is generated exactly when the intake and the policy result satisfy their
  contracts and the role is one of the program's roles: the packet built from them then always
  satisfies the packet contract, so the last check of the generator never fails for another
  reason than the role.
\<close>

theorem packet_generated_iff:
  "generate_task_packet role (PDict intake) (PDict policy) = Inr p \<longleftrightarrow>
     validate_contract ''task_intake'' (PDict intake) ''runtime'' = None \<and>
     validate_contract ''policy_evaluation_result'' (PDict policy) ''runtime'' = None \<and>
     role \<in> set ROLES \<and> p = PDict (packet_of role intake (dget policy ''result''))"
proof -
  have "role \<in> set ROLES" if ok: "validate_contract ''agent_task_contract''
      (PDict (packet_of role intake (dget policy ''result''))) ''runtime'' = None"
    using conforms_field(3) [OF accepted_conforms(2) [OF ok contract_selected_packets(1), simplified],
        of "''role''"]
    by (auto simp: agent_task_contract_contract_def vocab_ok_def packet_of_def mem_list_strs
        is_allowed_template_placeholder_def)
  then show ?thesis
    using packet_accepted [of intake policy role]
    by (auto simp: generate_task_packet_def Let_def guarded_Inr)
qed

lemma unsafe_iff: "is_safe_relative_path s \<Longrightarrow> unsafe_handoff_path s \<longleftrightarrow> \<not> plain_windows_path s"
proof -
  assume safe: "is_safe_relative_path s"
  have "\<not> has_windows_drive s" if "plain_windows_path s"
  proof
    assume "has_windows_drive s"
    then obtain c r where s: "s = c # CHR '':'' # r" "c \<noteq> CHR ''/''"
      using safe by (auto simp: has_windows_drive_def is_safe_relative_path_def starts_with_def
          split: list.splits if_splits)
    then have "CHR '':'' \<in> set (hd (split_on (CHR ''/'') s))" by (cases "split_on (CHR ''/'') r") auto
      then have "is_unsafe_windows_component (hd (split_on (CHR ''/'') s))"
      by (auto simp: is_unsafe_windows_component_def list_ex_iff forbidden_filename_characters_def)
    then show False using that by (auto simp: plain_windows_path_def)
  qed
  moreover have "CHR 0x5C \<notin> set s" "\<not> starts_with ''/'' s" "\<not> list_ex is_dot_part (split_on (CHR ''/'') s)"
    using safe by (auto simp: is_safe_relative_path_def list_all_iff list_ex_iff split: if_splits)
  ultimately show ?thesis
    by (auto simp: unsafe_handoff_path_def plain_windows_path_def Let_def list_ex_iff)
qed

lemma guards_pass: "(\<exists>r. guarded (first_err cs) (Inr v) = Inr r) \<longleftrightarrow> (\<forall>c \<in> set cs. c = None)"
  by (simp add: guarded_Inr)

text \<open>
  C27. A generated packet hands over what was decided and no more: its paths are those of the
  intake and stay below whatever directory they are resolved in, a production release and
  everything out of scope is prohibited, and the evidence it requires is the mandatory gates of
  the policy result. A supervised handoff of it to its role is previewed exactly when, on top,
  no component of these paths is unsafe on Windows.
\<close>

theorem packet_hands_over:
  assumes gen: "generate_task_packet role (PDict intake) (PDict policy) = Inr p"
  shows "\<exists>d. p = PDict d \<and>
    elems (dget d ''relevant_paths'') = elems (dget intake ''source_paths'') \<and>
    (\<forall>x \<in> set (elems (dget intake ''source_paths'')). \<exists>s. x = PStr s \<and> stays_below base s) \<and>
    set (elems (dget d ''prohibited_actions'')) =
      insert (PStr ''production release'') (set (elems (dget intake ''out_of_scope''))) \<and>
    dget d ''required_evidence'' = vget (dget policy ''result'') ''mandatory_gates'' \<and>
    ((\<exists>v. build_supervised_handoff_preview sha p role = Inr v) \<longleftrightarrow>
      (\<forall>x \<in> set (elems (dget intake ''source_paths'')). plain_windows_path (str_of x)))"
proof -
  let ?d = "packet_of role intake (dget policy ''result'')" and ?xs = "elems (dget intake ''source_paths'')"
  have ok: "validate_contract ''task_intake'' (PDict intake) ''runtime'' = None"
    "validate_contract ''agent_task_contract'' (PDict ?d) ''runtime'' = None" and p: "p = PDict ?d"
    using gen by (auto simp: generate_task_packet_def Let_def guarded_Inr)
  have there: "dlookup intake ''source_paths'' = Some (dget intake ''source_paths'')"
    using conforms_field(1) [OF accepted_conforms(2) [OF ok(1) intake_selected(1)], of "''source_paths''"]
    by (auto simp: task_intake_contract_def STRING_LIST_def dhas_def dget_def)
  have safe: "\<exists>s. x = PStr s \<and> is_safe_relative_path s" if "x \<in> set ?xs" for x
    by (rule accepted_path_item [OF ok(1) _ there that]) (simp add: item_path_fields_def)
  have paths: "elems (dget ?d ''relevant_paths'') = ?xs" and role: "dget ?d ''role'' = PStr role"
    by (simp_all add: packet_of_def)
  have "(\<exists>v. build_supervised_handoff_preview sha p role = Inr v) \<longleftrightarrow>
      (\<forall>x \<in> set ?xs. \<not> unsafe_handoff_path (str_of x))"
    unfolding build_supervised_handoff_preview_def guards_pass p
    by (simp add: ok(2) role paths validate_relevant_paths_def validate_safe_relative_paths_def)
  also have "\<dots> \<longleftrightarrow> (\<forall>x \<in> set ?xs. plain_windows_path (str_of x))"
    using safe unsafe_iff by fastforce
  finally have handoff: "(\<exists>v. build_supervised_handoff_preview sha p role = Inr v) \<longleftrightarrow>
      (\<forall>x \<in> set ?xs. plain_windows_path (str_of x))" .
  show ?thesis
    by (rule exI [of _ ?d], intro conjI p paths handoff ballI)
      (use safe safe_stays_below in \<open>blast, simp_all add: packet_of_def\<close>)
qed

theorem packet_hands_over_witness:
  "\<exists>d. PDict sample_packet = PDict d \<and>
    elems (dget d ''relevant_paths'') = [PStr ''acgps/a.py''] \<and>
    dget d ''required_evidence'' = strl [''spec'']"
  using packet_hands_over [OF sample_generates]
  by (simp add: sample_intake_def sample_policy_result_def)

subsection \<open>Result receipts\<close>

text \<open>
  C28. A receipt is previewed only for a packet and a result that satisfy their contracts and
  belong together, every path either of them names is contained and plain, and the receipt
  binds both records by hash while declaring that nothing was started, written or transitioned.
\<close>

theorem receipt_binds_result:
  assumes "build_supervised_result_receipt_preview sha (PDict packet) (PDict result) role = Inr receipt"
  shows "validate_contract ''agent_task_contract'' (PDict packet) ''runtime'' = None \<and>
    validate_contract ''agent_result'' (PDict result) ''runtime'' = None \<and>
    dget packet ''role'' = PStr role \<and> dget result ''role'' = PStr role \<and>
    dget result ''packet_id'' = dget packet ''packet_id'' \<and>
    (\<forall>x \<in> set (elems (dget packet ''relevant_paths'') @ elems (dget result ''changed_files'') @
        elems (dget result ''created_files'')). contained_path x) \<and>
    vget receipt ''packet_sha256'' = PStr (sha (canonical_json (PDict packet))) \<and>
    vget receipt ''agent_result_sha256'' = PStr (sha (canonical_json (PDict result))) \<and>
    (let c = vget receipt ''controls'' in vget c ''process_launch'' = PStr ''NOT_STARTED'' \<and>
      vget c ''state_write'' = PStr ''NOT_PERFORMED'' \<and>
      vget c ''workflow_transition'' = PStr ''NOT_PERFORMED'' \<and>
      vget c ''operator_authorization_required'' = PBool True)"
proof -
  have ok: "validate_contract ''agent_task_contract'' (PDict packet) ''runtime'' = None"
      "validate_contract ''agent_result'' (PDict result) ''runtime'' = None"
    and paths: "validate_relevant_paths (elems (dget packet ''relevant_paths'')) = None"
      "validate_safe_relative_paths (elems (dget result ''changed_files'') @ elems (dget result ''created_files''))
        ''result path'' = None"
    and same: "dget packet ''role'' = PStr role" "dget result ''role'' = PStr role"
      "py_eq (dget result ''packet_id'') (dget packet ''packet_id'')"
    using assms by (auto simp: build_supervised_result_receipt_preview_def guarded_Inr)
  obtain k where k: "dget packet ''packet_id'' = PStr k"
    using accepted_text [OF ok(1) contract_selected_packets(1), of "''packet_id''" "simple_field [TyStr]"]
    by (auto simp: agent_task_contract_contract_def)
  have "\<forall>x \<in> set (elems (dget packet ''relevant_paths'') @ elems (dget result ''changed_files'') @
      elems (dget result ''created_files'')). contained_path x"
    using validated_paths [OF paths(1) [unfolded validate_relevant_paths_def] packet_paths_typed [OF ok(1)]]
      validated_paths [OF paths(2) result_paths_typed [OF ok(2)]] by auto
  then show ?thesis
    using assms ok same k
    by (simp add: build_supervised_result_receipt_preview_def guarded_Inr preview_controls_def sha_of_def Let_def)
       (elim conjE, hypsubst, simp)
qed

theorem receipt_binds_result_witness:
  "contained_path (PStr ''acgps/a.py'') \<and> dget sample_agent_result ''packet_id'' = dget sample_packet ''packet_id''"
  using receipt_binds_result
    [OF sample_receipt [unfolded build_supervised_coder_result_receipt_preview_def]]
  by (auto simp: sample_agent_result_def)

end
