(* ===== verification/Workflow_Base.thy ===== *)
theory Workflow_Base
  imports Store_Base Canonical_Json
begin

text \<open>
  The registry of \<open>acgps/workflow_errors.py\<close> and what the validators of
  \<open>acgps/workflow_contracts.py\<close> share: outcomes, the checks of one value, exact field sets and
  tagged sources. An invalid outcome carries one issue; it is modelled by the error
  \<open>_raise_outcome\<close> makes of that issue, any other exception stands for one the code raises.
  The digest of \<open>hashlib.sha256\<close> is the argument \<open>sha\<close>, a function of the hashed text. The code
  looks for missing fields in the order of a set, which depends on the hash seed of the process;
  the model names the first in the order of the source.
\<close>

definition WORKFLOW_ERROR_CODES :: "string list" where
  "WORKFLOW_ERROR_CODES =
    [''WORKFLOW_INVALID_INPUT'', ''WORKFLOW_UNKNOWN_STATE'', ''WORKFLOW_ILLEGAL_TRANSITION'',
     ''WORKFLOW_POLICY_RESULT_INVALID'', ''WORKFLOW_HUMAN_GATE_REQUIRED'', ''WORKFLOW_EVIDENCE_MISSING'',
     ''WORKFLOW_EVIDENCE_HASH_MISMATCH'', ''WORKFLOW_AUDIT_CORRUPT'', ''WORKFLOW_STATE_CORRUPT'',
     ''WORKFLOW_IDEMPOTENCY_CONFLICT'', ''WORKFLOW_CONCURRENT_WRITE'', ''WORKFLOW_UNSUPPORTED_SCHEMA_VERSION'',
     ''WORKFLOW_TASK_ALREADY_EXISTS'', ''WORKFLOW_DECISION_BINDING_INVALID'', ''WORKFLOW_TRANSACTION_INCOMPLETE'',
     ''WORKFLOW_COORDINATED_REWRITE_OUT_OF_SCOPE'']"

definition ACTORS :: "string list" where
  "ACTORS = [''PLANNER'', ''CODER'', ''REVIEWER'', ''VERIFIER'', ''CONTROLLER'', ''HUMAN'']"

definition EVENT_TYPES :: "string list" where
  "EVENT_TYPES = [''TASK_CREATED'', ''TRANSITION_ACCEPTED'', ''RECOVERY_RECORDED'', ''ROLLBACK_RECORDED'']"

definition RECOVERY_EVENT_TYPES :: "string list" where
  "RECOVERY_EVENT_TYPES = [''RECOVERY_RECORDED'', ''ROLLBACK_RECORDED'']"

definition RECOVERY_ACTIONS :: "string list" where
  "RECOVERY_ACTIONS = [''replay'', ''quarantine_and_start_generation'', ''rollback_to_valid_prefix'',
     ''classify_threat_model_limit'']"

definition THREAT_MODELS :: "string list" where
  "THREAT_MODELS = [''CORRUPTION_AND_NON_COORDINATED_TAMPER_ONLY'']"

definition HUMAN_GATE_AUTHORIZED_TRANSITIONS :: "string list" where
  "HUMAN_GATE_AUTHORIZED_TRANSITIONS = [''WAITING_HUMAN'', ''ABANDONED'']"

subsection \<open>Outcomes\<close>

definition invalid_outcome :: "string \<Rightarrow> string \<Rightarrow> string \<Rightarrow> exn" where
  "invalid_outcome code path message =
     WorkflowStoreError (if code \<in> set WORKFLOW_ERROR_CODES then code else ''WORKFLOW_INVALID_INPUT'')
       path message"

text \<open>\<open>if b: return invalid_outcome(...)\<close>.\<close>

definition invalid_if :: "bool \<Rightarrow> string \<Rightarrow> string \<Rightarrow> string \<Rightarrow> guard" where
  "invalid_if b code path message = fail_if b (invalid_outcome code path message)"

definition with_code :: "string \<Rightarrow> guard \<Rightarrow> guard" where
  "with_code code c = (case c of
     Some (WorkflowStoreError _ path message) \<Rightarrow> Some (invalid_outcome code path message) | _ \<Rightarrow> c)"

definition join_path :: "string \<Rightarrow> string \<Rightarrow> string" where
  "join_path pre path = (if pre = [] then path else pre @ ''.'' @ path)"

lemma invalid_if_None [simp]: "invalid_if b code path message = None \<longleftrightarrow> \<not> b"
  by (simp add: invalid_if_def)

lemma with_code_None [simp]: "with_code code c = None \<longleftrightarrow> c = None"
  by (auto simp: with_code_def split: option.splits exn.splits)

subsection \<open>The checks of one value\<close>

definition require_equal :: "pyval \<Rightarrow> pyval \<Rightarrow> string \<Rightarrow> string \<Rightarrow> string \<Rightarrow> guard" where
  "require_equal actual expected path message code =
     invalid_if (\<not> py_eq actual expected) code path message"

definition check_version :: "pyval \<Rightarrow> string \<Rightarrow> guard" where
  "check_version v path =
     (if \<not> is_int v then Some (invalid_outcome ''WORKFLOW_INVALID_INPUT'' path ''schema_version must be an integer'')
      else invalid_if (v \<noteq> PInt 1) ''WORKFLOW_UNSUPPORTED_SCHEMA_VERSION'' path ''unsupported schema version'')"

definition check_text :: "pyval \<Rightarrow> string \<Rightarrow> guard" where
  "check_text v path =
     invalid_if (\<not> is_str v \<or> v = PStr []) ''WORKFLOW_INVALID_INPUT'' path ''must be a non-empty string''"

definition check_safe_id :: "pyval \<Rightarrow> string \<Rightarrow> guard" where
  "check_safe_id v path = invalid_if (\<not> is_str v \<or> \<not> is_safe_id (str_of v))
     ''WORKFLOW_INVALID_INPUT'' path ''must be a safe non-empty identifier''"

definition check_sha :: "pyval \<Rightarrow> string \<Rightarrow> guard" where
  "check_sha v path = invalid_if (\<not> is_str v \<or> \<not> is_sha256 (str_of v))
     ''WORKFLOW_INVALID_INPUT'' path ''must be a lowercase SHA-256 hex string''"

definition check_bool :: "pyval \<Rightarrow> string \<Rightarrow> guard" where
  "check_bool v path = invalid_if (\<not> is_bool v) ''WORKFLOW_INVALID_INPUT'' path ''must be a boolean''"

text \<open>\<open>type(v) is int and v >= n\<close>.\<close>

definition int_from :: "int \<Rightarrow> pyval \<Rightarrow> bool" where
  "int_from n v = (case v of PInt i \<Rightarrow> n \<le> i | _ \<Rightarrow> False)"

definition check_non_negative :: "pyval \<Rightarrow> string \<Rightarrow> guard" where
  "check_non_negative v path =
     invalid_if (\<not> int_from 0 v) ''WORKFLOW_INVALID_INPUT'' path ''must be a non-negative integer''"

definition check_positive :: "pyval \<Rightarrow> string \<Rightarrow> guard" where
  "check_positive v path =
     invalid_if (\<not> int_from 1 v) ''WORKFLOW_INVALID_INPUT'' path ''must be a positive integer''"

definition check_member :: "pyval \<Rightarrow> string list \<Rightarrow> string \<Rightarrow> string \<Rightarrow> guard" where
  "check_member v allowed path code =
     invalid_if (\<not> is_str v \<or> str_of v \<notin> set allowed) code path ''unknown or invalid value''"

text \<open>
  The last check compares \<open>strftime\<close> with the text: on the modelled host (glibc) \<open>%Y\<close> is not
  padded, so a year below 1000 is no canonical timestamp.
\<close>

definition is_utc_second :: "string \<Rightarrow> bool" where
  "is_utc_second s \<longleftrightarrow> match_pattern ''dddd-dd-ddTdd:dd:ddZ'' s"

definition check_utc :: "pyval \<Rightarrow> string \<Rightarrow> guard" where
  "check_utc v path =
     (let s = str_of v; bad = (\<lambda>b. invalid_if b ''WORKFLOW_INVALID_INPUT'' path) in first_err
       [bad (\<not> is_str v \<or> \<not> is_utc_second s) ''must be an RFC3339 UTC timestamp'',
        bad (\<not> strptime_ok s) ''must be a valid RFC3339 UTC timestamp'',
        bad (nat_str (digits_val (take 4 s)) @ drop 4 s \<noteq> s) ''must be a canonical RFC3339 UTC timestamp''])"

definition check_optional_utc :: "pyval \<Rightarrow> string \<Rightarrow> guard" where
  "check_optional_utc v path = (if v = PNone then None else check_utc v path)"

text \<open>An id, a digest or a state that may be null.\<close>

definition unless_null :: "(pyval \<Rightarrow> string \<Rightarrow> guard) \<Rightarrow> pyval \<Rightarrow> string \<Rightarrow> guard" where
  "unless_null check v path = (if v = PNone then None else check v path)"

definition check_state_or_null :: "pydict \<Rightarrow> string \<Rightarrow> string \<Rightarrow> guard" where
  "check_state_or_null d field message =
     invalid_if (dget d field \<noteq> PNone \<and> \<not> mem_list (dget d field) (map PStr TASK_STATES))
       ''WORKFLOW_UNKNOWN_STATE'' field message"

lemma value_checks [simp]:
  "require_equal a b path message code = None \<longleftrightarrow> py_eq a b"
  "check_version v path = None \<longleftrightarrow> v = PInt 1"
  "check_text v path = None \<longleftrightarrow> is_str v \<and> v \<noteq> PStr []"
  "check_safe_id v path = None \<longleftrightarrow> is_str v \<and> is_safe_id (str_of v)"
  "check_sha v path = None \<longleftrightarrow> is_str v \<and> is_sha256 (str_of v)"
  "check_bool v path = None \<longleftrightarrow> is_bool v"
  "check_non_negative v path = None \<longleftrightarrow> int_from 0 v"
  "check_positive v path = None \<longleftrightarrow> int_from 1 v"
  "check_member v allowed path code = None \<longleftrightarrow> is_str v \<and> str_of v \<in> set allowed"
  by (auto simp: require_equal_def check_version_def check_text_def check_safe_id_def check_sha_def
      check_bool_def check_non_negative_def check_positive_def check_member_def)

lemma unless_null_None [simp]: "unless_null check v path = None \<longleftrightarrow> v = PNone \<or> check v path = None"
  by (simp add: unless_null_def)

lemma text_iff: "is_str v \<and> P (str_of v) \<longleftrightarrow> (\<exists>s. v = PStr s \<and> P s)"
  by (cases v) auto

lemma textI: "is_str v \<Longrightarrow> P (str_of v) \<Longrightarrow> \<exists>s. v = PStr s \<and> P s"
  by (cases v) auto

lemma int_from_iff: "int_from n v \<longleftrightarrow> (\<exists>i. v = PInt i \<and> n \<le> i)"
  by (cases v) (auto simp: int_from_def)

subsection \<open>Exact field sets\<close>

definition exact_mapping :: "pydict \<Rightarrow> string list \<Rightarrow> string \<Rightarrow> string \<Rightarrow> guard" where
  "exact_mapping d allowed label pre = first_err
     (map (\<lambda>p. invalid_if (fst p \<notin> set (map PStr allowed)) ''WORKFLOW_INVALID_INPUT''
        (join_path pre (py_str (fst p))) (''unknown field in '' @ label)) d @
      map (\<lambda>n. invalid_if (\<not> dhas d n) ''WORKFLOW_INVALID_INPUT'' (join_path pre n)
        (''missing required field in '' @ label)) allowed)"

lemma exact_mapping_None [simp]:
  "exact_mapping d allowed label pre = None \<longleftrightarrow>
     fst ` set d \<subseteq> PStr ` set allowed \<and> (\<forall>n \<in> set allowed. dhas d n)"
  by (simp add: exact_mapping_def ball_Un image_subset_iff)

text \<open>The fields of a mapping are exactly those of a set: \<open>set(d) == fields\<close>.\<close>

definition same_fields :: "pyval \<Rightarrow> string list \<Rightarrow> bool" where
  "same_fields v names \<longleftrightarrow>
     list_all (\<lambda>p. fst p \<in> set (map PStr names)) (entries v) \<and> list_all (\<lambda>n. dhas (entries v) n) names"

subsection \<open>Dotted paths\<close>

fun walk_path :: "pyval \<Rightarrow> string list \<Rightarrow> pyval option" where
  "walk_path v [] = Some v"
| "walk_path v (n # ns) = (case v of
     PDict d \<Rightarrow> (case dlookup d n of None \<Rightarrow> None | Some w \<Rightarrow> walk_path w ns) | _ \<Rightarrow> None)"

definition get_path :: "pyval \<Rightarrow> string \<Rightarrow> pyval" where
  "get_path v path = (case walk_path v (split_on (CHR ''.'') path) of None \<Rightarrow> PNone | Some w \<Rightarrow> w)"

definition is_present :: "pyval \<Rightarrow> string \<Rightarrow> bool" where
  "is_present v path \<longleftrightarrow> get_path v path \<noteq> PNone"

definition path_exists :: "pyval \<Rightarrow> string \<Rightarrow> bool" where
  "path_exists v path \<longleftrightarrow> walk_path v (split_on (CHR ''.'') path) \<noteq> None"

subsection \<open>Hashes and tagged sources\<close>

definition canonical_sha :: "(string \<Rightarrow> string) \<Rightarrow> pyval \<Rightarrow> pyval" where
  "canonical_sha sha v = PStr (sha (canonical_json v))"

definition operation_request_fingerprint :: "(string \<Rightarrow> string) \<Rightarrow> pydict \<Rightarrow> pyval" where
  "operation_request_fingerprint sha d =
     canonical_sha sha (PDict (filter (\<lambda>p. \<not> ends_with ''_at_utc'' (str_of (fst p))) d))"

text \<open>
  \<open>_validate_tagged_source\<close>: a record either points to a path or embeds what it binds. The
  field \<open>source\<close> is looked up in a set, which raises for an unhashable value.
\<close>

definition tagged_source :: "(string \<Rightarrow> string) \<Rightarrow> pydict \<Rightarrow> string option \<Rightarrow> string \<Rightarrow> guard" where
  "tagged_source sha d hash_field pre =
     (let source = dget d ''source''; path = dget d ''path''; embedded = dget d ''embedded_record'';
          bad = (\<lambda>n b. invalid_if b ''WORKFLOW_INVALID_INPUT'' (join_path pre n)) in
      if \<not> hashable source then Some TypeError
      else first_err
       ([bad ''source'' (source \<notin> {PStr ''path'', PStr ''embedded''}) ''source must be path or embedded''] @
        (if source = PStr ''path'' then
          [bad ''path'' (\<not> is_str path \<or> \<not> is_safe_relative_path (str_of path))
             ''path must be safe relative POSIX path'',
           bad ''embedded_record'' (embedded \<noteq> PNone) ''embedded_record must be null for path source''] @
          (case hash_field of None \<Rightarrow> []
           | Some h \<Rightarrow> [bad h (dget d h \<noteq> PNone) (h @ '' must be null for path source'')])
         else
          [bad ''path'' (path \<noteq> PNone) ''path must be null for embedded source'',
           bad ''embedded_record'' (embedded = PNone) ''embedded_record is required for embedded source''] @
          (case hash_field of None \<Rightarrow> []
           | Some h \<Rightarrow> [check_sha (dget d h) (join_path pre h),
               invalid_if (canonical_sha sha embedded \<noteq> dget d h) ''WORKFLOW_EVIDENCE_HASH_MISMATCH''
                 (join_path pre h) (h @ '' does not match embedded_record'')]))))"

lemma tagged_source_None:
  assumes "tagged_source sha d hash_field pre = None"
  shows "dget d ''source'' = PStr ''path'' \<and> is_str (dget d ''path'') \<and>
      is_safe_relative_path (str_of (dget d ''path'')) \<and> dget d ''embedded_record'' = PNone \<and>
      (\<forall>h. hash_field = Some h \<longrightarrow> dget d h = PNone) \<or>
    dget d ''source'' = PStr ''embedded'' \<and> dget d ''path'' = PNone \<and> dget d ''embedded_record'' \<noteq> PNone \<and>
      (\<forall>h. hash_field = Some h \<longrightarrow> dget d h = canonical_sha sha (dget d ''embedded_record'') \<and> is_sha256 (str_of (dget d h)))"
  using assms
  by (cases hash_field; cases "dget d ''source'' = PStr ''path''";
      simp add: tagged_source_def Let_def split: if_split_asm)

end
