(* ===== verification/Workflow_Bindings.thy ===== *)
theory Workflow_Bindings
  imports Workflow_Base
begin

text \<open>
  The bindings of \<open>acgps/workflow_contracts.py\<close>: evidence, policy results and human decisions
  that a transition carries, each bound by its SHA-256 digest.
\<close>

definition EVIDENCE_BINDING_FIELDS :: "string list" where
  "EVIDENCE_BINDING_FIELDS =
    [''schema_version'', ''binding_id'', ''evidence_kind'', ''source'', ''path'', ''embedded_record'',
     ''embedded_sha256'', ''content_sha256'', ''size_bytes'', ''created_at_utc'']"

definition POLICY_BINDING_FIELDS :: "string list" where
  "POLICY_BINDING_FIELDS =
    [''schema_version'', ''evaluation_id'', ''source'', ''path'', ''embedded_record'', ''result_sha256'',
     ''policy_bundle_digest'', ''authorized_transitions'', ''human_gate'', ''created_at_utc'']"

definition DECISION_BINDING_FIELDS :: "string list" where
  "DECISION_BINDING_FIELDS =
    [''schema_version'', ''decision_id'', ''project_id'', ''task_id'', ''status'', ''authorized_target_state'',
     ''source'', ''path'', ''embedded_record'', ''resolution_sha256'', ''resolved_at_utc'']"

subsection \<open>Evidence\<close>

definition validate_evidence_binding :: "(string \<Rightarrow> string) \<Rightarrow> pyval \<Rightarrow> string \<Rightarrow> guard" where
  "validate_evidence_binding sha record pre =
     (if \<not> is_dict record then
        Some (invalid_outcome ''WORKFLOW_INVALID_INPUT'' (if pre = [] then ''$'' else pre)
          ''evidence binding must be a mapping'')
      else let d = entries record; here = join_path pre;
               payload = canonical_json (dget d ''embedded_record'') in
        first_err
         ([exact_mapping d EVIDENCE_BINDING_FIELDS ''evidence binding'' pre,
           check_version (dget d ''schema_version'') (here ''schema_version''),
           check_safe_id (dget d ''binding_id'') (here ''binding_id''),
           check_text (dget d ''evidence_kind'') (here ''evidence_kind''),
           check_sha (dget d ''content_sha256'') (here ''content_sha256''),
           check_non_negative (dget d ''size_bytes'') (here ''size_bytes''),
           check_optional_utc (dget d ''created_at_utc'') (here ''created_at_utc''),
           tagged_source sha d (Some ''embedded_sha256'') pre] @
          (if dget d ''source'' = PStr ''embedded'' then
            [invalid_if (PStr (sha payload) \<noteq> dget d ''content_sha256'') ''WORKFLOW_EVIDENCE_HASH_MISMATCH''
               (here ''content_sha256'') ''content_sha256 does not match embedded evidence bytes'',
             invalid_if (PInt (int (length payload)) \<noteq> dget d ''size_bytes'') ''WORKFLOW_EVIDENCE_HASH_MISMATCH''
               (here ''size_bytes'') ''size_bytes does not match embedded evidence bytes'']
           else [])))"

text \<open>The loop over a list of bindings; \<open>seen\<close> are the identities before the current one.\<close>

fun evidence_loop :: "(string \<Rightarrow> string) \<Rightarrow> string \<Rightarrow> nat \<Rightarrow> pyval list \<Rightarrow> pyval list \<Rightarrow> guard" where
  "evidence_loop sha path i seen [] = None"
| "evidence_loop sha path i seen (b # bs) =
     first_err
       [validate_evidence_binding sha b (item_path path i),
        invalid_if (vget b ''binding_id'' \<in> set seen) ''WORKFLOW_INVALID_INPUT''
          (item_path path i @ ''.binding_id'') ''duplicate evidence binding_id'',
        evidence_loop sha path (Suc i) (vget b ''binding_id'' # seen) bs]"

definition validate_evidence_binding_list :: "(string \<Rightarrow> string) \<Rightarrow> pyval \<Rightarrow> string \<Rightarrow> guard" where
  "validate_evidence_binding_list sha records path =
     (if \<not> is_list records then
        Some (invalid_outcome ''WORKFLOW_INVALID_INPUT'' path ''evidence bindings must be a list'')
      else evidence_loop sha path 0 [] (elems records))"

lemma evidence_loop_None:
  "evidence_loop sha path i seen bs = None \<longleftrightarrow>
     (\<forall>(j, b) \<in> set (numbered i bs). validate_evidence_binding sha b (item_path path j) = None) \<and>
     distinct (map (\<lambda>b. vget b ''binding_id'') bs) \<and>
     (\<forall>b \<in> set bs. vget b ''binding_id'' \<notin> set seen)"
  by (induction bs arbitrary: i seen) (auto simp: image_iff)

subsection \<open>Policy results\<close>

text \<open>
  A list of different task states; building a set of the items raises for an unhashable one.
\<close>

definition unique_state_list :: "pyval \<Rightarrow> bool res" where
  "unique_state_list v =
     (if \<not> is_list v then Inr False
      else if \<not> list_all hashable (elems v) then Inl TypeError
      else Inr (list_all (\<lambda>s. is_str s \<and> str_of s \<in> set TASK_STATES) (elems v) \<and> distinct (elems v)))"

definition policy_binding_issue :: "bool \<Rightarrow> string \<Rightarrow> string \<Rightarrow> guard" where
  "policy_binding_issue b field message =
     invalid_if b ''WORKFLOW_POLICY_RESULT_INVALID'' (''policy_evaluation_binding.'' @ field) message"

lemma policy_binding_issue_None [simp]: "policy_binding_issue b field message = None \<longleftrightarrow> \<not> b"
  by (simp add: policy_binding_issue_def)

text \<open>The embedded policy result: its contract, its digest, and the fields the binding repeats.\<close>

definition embedded_policy_guard :: "(string \<Rightarrow> string) \<Rightarrow> pydict \<Rightarrow> guard" where
  "embedded_policy_guard sha d =
     (let embedded = dget d ''embedded_record''; e = entries embedded; body = vget embedded ''result'' in
      if embedded = PNone then None
      else case validate_contract ''policy_evaluation_result'' embedded ''runtime'' of
        Some (ContractValidationError name (i # is)) \<Rightarrow>
          policy_binding_issue True (''embedded_record.'' @ py_str (issue_path i)) (issue_message i)
      | Some exc \<Rightarrow> Some exc
      | None \<Rightarrow> first_err
         [policy_binding_issue (canonical_sha sha embedded \<noteq> dget d ''result_sha256'') ''result_sha256''
            ''policy result hash mismatch'',
          policy_binding_issue (\<not> py_eq (dget d ''evaluation_id'') (dget e ''evaluation_id''))
            ''embedded_record.evaluation_id'' ''embedded evaluation_id must match binding'',
          policy_binding_issue (\<not> py_eq (dget d ''policy_bundle_digest'') (dget e ''policy_bundle_digest''))
            ''policy_bundle_digest'' ''policy_bundle_digest must equal embedded PolicyEvaluationResult.v1'',
          policy_binding_issue (\<not> py_eq (dget d ''authorized_transitions'') (vget body ''authorized_transitions''))
            ''authorized_transitions'' ''authorized transitions do not match embedded result'',
          policy_binding_issue (\<not> py_eq (dget d ''human_gate'') (vget body ''human_gate''))
            ''human_gate'' ''human_gate does not match embedded result''])"

definition state_list_guard :: "pyval \<Rightarrow> guard" where
  "state_list_guard v = (case unique_state_list v of
     Inl e \<Rightarrow> Some e
   | Inr ok \<Rightarrow> policy_binding_issue (\<not> ok) ''authorized_transitions''
       ''authorized_transitions must be unique declared states'')"

definition validate_policy_evaluation_binding :: "(string \<Rightarrow> string) \<Rightarrow> pyval \<Rightarrow> guard" where
  "validate_policy_evaluation_binding sha record =
     (if \<not> is_dict record then
        Some (invalid_outcome ''WORKFLOW_POLICY_RESULT_INVALID'' ''policy_evaluation_binding''
          ''policy binding must be a mapping'')
      else let d = entries record; here = join_path ''policy_evaluation_binding'' in
        first_err
         [with_code ''WORKFLOW_POLICY_RESULT_INVALID''
            (exact_mapping d POLICY_BINDING_FIELDS ''policy binding'' ''policy_evaluation_binding''),
          with_code ''WORKFLOW_POLICY_RESULT_INVALID'' (first_err
            [check_version (dget d ''schema_version'') (here ''schema_version''),
             check_safe_id (dget d ''evaluation_id'') (here ''evaluation_id''),
             check_sha (dget d ''result_sha256'') (here ''result_sha256''),
             check_sha (dget d ''policy_bundle_digest'') (here ''policy_bundle_digest''),
             check_optional_utc (dget d ''created_at_utc'') (here ''created_at_utc'')]),
          policy_binding_issue (\<not> is_bool (dget d ''human_gate'')) ''human_gate'' ''human_gate must be a boolean'',
          state_list_guard (dget d ''authorized_transitions''),
          policy_binding_issue (dget d ''human_gate'' = PBool True \<and>
              \<not> list_all (\<lambda>s. s \<in> set (map PStr HUMAN_GATE_AUTHORIZED_TRANSITIONS)) (elems (dget d ''authorized_transitions'')))
            ''authorized_transitions'' ''human-gated policy bindings may authorize only WAITING_HUMAN or ABANDONED'',
          with_code ''WORKFLOW_POLICY_RESULT_INVALID'' (tagged_source sha d None ''policy_evaluation_binding''),
          embedded_policy_guard sha d])"

subsection \<open>Human decisions\<close>

definition decision_binding_issue :: "bool \<Rightarrow> string \<Rightarrow> string \<Rightarrow> guard" where
  "decision_binding_issue b path message =
     invalid_if b ''WORKFLOW_DECISION_BINDING_INVALID'' path message"

lemma decision_binding_issue_None [simp]: "decision_binding_issue b path message = None \<longleftrightarrow> \<not> b"
  by (simp add: decision_binding_issue_def)

text \<open>What the embedded resolution must repeat: the field of the binding for each of its fields.\<close>

definition resolution_fields :: "(string \<times> string) list" where
  "resolution_fields =
    [(''decision_id'', ''decision_id''), (''project_id'', ''project_id''), (''task_id'', ''task_id''),
     (''status'', ''status''), (''resume_state'', ''authorized_target_state''),
     (''resolved_at_utc'', ''resolved_at_utc'')]"

definition embedded_decision_guard :: "pydict \<Rightarrow> guard" where
  "embedded_decision_guard d =
     (let embedded = dget d ''embedded_record'' in
      if embedded = PNone then None
      else case validate_contract ''human_decision_resolution'' embedded ''runtime'' of
        Some (ContractValidationError name is) \<Rightarrow>
          decision_binding_issue True ''embedded_record'' (exn_text (ContractValidationError name is))
      | Some exc \<Rightarrow> Some exc
      | None \<Rightarrow> first_err (map (\<lambda>(f, g).
          decision_binding_issue (\<not> py_eq (vget embedded f) (dget d g)) (''embedded_record.'' @ f) (f @ '' mismatch''))
          resolution_fields))"

definition expects :: "pyval \<Rightarrow> pyval \<Rightarrow> string \<Rightarrow> string \<Rightarrow> guard" where
  "expects expected actual path message =
     decision_binding_issue (expected \<noteq> PNone \<and> \<not> py_eq actual expected) path message"

definition validate_human_decision_resolution_binding ::
    "(string \<Rightarrow> string) \<Rightarrow> pyval \<Rightarrow> pyval \<Rightarrow> pyval \<Rightarrow> pyval \<Rightarrow> guard" where
  "validate_human_decision_resolution_binding sha record target project task =
     (if \<not> is_dict record then
        Some (invalid_outcome ''WORKFLOW_DECISION_BINDING_INVALID'' ''decision_resolution_binding''
          ''decision binding must be a mapping'')
      else let d = entries record; code = ''WORKFLOW_DECISION_BINDING_INVALID'' in
        first_err
         [with_code code (exact_mapping d DECISION_BINDING_FIELDS ''decision binding'' []),
          with_code code (first_err
            [check_version (dget d ''schema_version'') ''schema_version'',
             check_safe_id (dget d ''decision_id'') ''decision_id'',
             check_safe_id (dget d ''project_id'') ''project_id'',
             check_safe_id (dget d ''task_id'') ''task_id'',
             check_member (dget d ''status'') [''RESOLVED''] ''status'' code,
             check_member (dget d ''authorized_target_state'') TASK_STATES ''authorized_target_state'' code,
             check_sha (dget d ''resolution_sha256'') ''resolution_sha256'',
             check_utc (dget d ''resolved_at_utc'') ''resolved_at_utc'']),
          expects target (dget d ''authorized_target_state'') ''authorized_target_state''
            ''authorized target does not match requested transition target'',
          expects project (dget d ''project_id'') ''project_id'' ''decision project_id mismatch'',
          expects task (dget d ''task_id'') ''task_id'' ''decision task_id mismatch'',
          with_code code (tagged_source sha d (Some ''resolution_sha256'') []),
          embedded_decision_guard d])"

subsection \<open>What accepted bindings give\<close>

lemma evidence_accepted:
  assumes "validate_evidence_binding sha v pre = None"
  shows "is_dict v" "is_str (vget v ''binding_id'')" "is_safe_id (str_of (vget v ''binding_id''))"
    "int_from 0 (vget v ''size_bytes'')"
    "vget v ''embedded_record'' \<noteq> PNone \<Longrightarrow>
      vget v ''content_sha256'' = canonical_sha sha (vget v ''embedded_record'') \<and>
      vget v ''size_bytes'' = PInt (int (length (canonical_json (vget v ''embedded_record''))))"
    "vget v ''embedded_record'' = PNone \<Longrightarrow> is_str (vget v ''path'') \<and> is_safe_relative_path (str_of (vget v ''path''))"
proof -
  obtain d where v: "v = PDict d"
    using assms by (auto simp: validate_evidence_binding_def is_dict_iff split: if_splits)
  note ok = assms [unfolded v validate_evidence_binding_def Let_def, simplified]
  show "is_dict v" "is_str (vget v ''binding_id'')" "is_safe_id (str_of (vget v ''binding_id''))"
    "int_from 0 (vget v ''size_bytes'')"
    using ok by (simp_all add: v)
  have tag: "tagged_source sha d (Some ''embedded_sha256'') pre = None" using ok by simp
  note t = tagged_source_None [OF tag]
  show "vget v ''content_sha256'' = canonical_sha sha (vget v ''embedded_record'') \<and>
      vget v ''size_bytes'' = PInt (int (length (canonical_json (vget v ''embedded_record''))))"
    if "vget v ''embedded_record'' \<noteq> PNone"
    using t that ok by (auto simp: v canonical_sha_def)
  show "is_str (vget v ''path'') \<and> is_safe_relative_path (str_of (vget v ''path''))"
    if "vget v ''embedded_record'' = PNone"
    using t that by (auto simp: v)
qed

lemma unique_state_list_True:
  "unique_state_list v = Inr True \<longleftrightarrow>
     (\<exists>ss. v = PList (map PStr ss) \<and> set ss \<subseteq> set TASK_STATES \<and> distinct ss)"
proof
  assume a: "unique_state_list v = Inr True"
  then obtain xs where v: "v = PList xs" and xs: "\<forall>x \<in> set xs. is_str x \<and> str_of x \<in> set TASK_STATES" "distinct xs"
    by (auto simp: unique_state_list_def is_list_iff list_all_iff split: if_splits)
  have "map PStr (map str_of xs) = xs" using xs(1) by (simp add: map_idI is_str_str_of)
  then have "v = PList (map PStr (map str_of xs))" "distinct (map str_of xs)"
    using v xs(2) distinct_map [of PStr "map str_of xs"] by simp_all
  then show "\<exists>ss. v = PList (map PStr ss) \<and> set ss \<subseteq> set TASK_STATES \<and> distinct ss"
    using xs(1) by (intro exI [of _ "map str_of xs"]) auto
next
  assume "\<exists>ss. v = PList (map PStr ss) \<and> set ss \<subseteq> set TASK_STATES \<and> distinct ss"
  then show "unique_state_list v = Inr True"
    by (auto simp: unique_state_list_def list_all_iff distinct_map inj_on_def subset_iff)
qed

lemma state_list_guard_None:
  "state_list_guard v = None \<longleftrightarrow> (\<exists>ss. v = PList (map PStr ss) \<and> set ss \<subseteq> set TASK_STATES \<and> distinct ss)"
  using unique_state_list_True [of v]
  by (auto simp: state_list_guard_def split: sum.splits)

lemma policy_accepted:
  assumes "validate_policy_evaluation_binding sha v = None"
  obtains d ss where "v = PDict d" "is_bool (dget d ''human_gate'')"
    "dget d ''authorized_transitions'' = PList (map PStr ss)" "set ss \<subseteq> set TASK_STATES"
    "dget d ''human_gate'' = PBool True \<Longrightarrow> set ss \<subseteq> {''WAITING_HUMAN'', ''ABANDONED''}"
    "is_str (dget d ''evaluation_id'')" "is_safe_id (str_of (dget d ''evaluation_id''))"
    "tagged_source sha d None ''policy_evaluation_binding'' = None" "embedded_policy_guard sha d = None"
proof -
  obtain d where v: "v = PDict d"
    using assms by (auto simp: validate_policy_evaluation_binding_def is_dict_iff split: if_splits)
  note ok = assms [unfolded v validate_policy_evaluation_binding_def Let_def, simplified]
  obtain ss where ss: "dget d ''authorized_transitions'' = PList (map PStr ss)" "set ss \<subseteq> set TASK_STATES"
    using ok by (auto simp: state_list_guard_None)
  show ?thesis
    by (rule that [OF v _ ss])
       (use ok ss in \<open>auto simp: list_all_iff HUMAN_GATE_AUTHORIZED_TRANSITIONS_def\<close>)
qed

text \<open>
  The embedded result of an accepted policy binding satisfies its contract and states the
  transitions and the gate of the binding.
\<close>

lemma embedded_policy_accepted:
  assumes "embedded_policy_guard sha d = None" "dget d ''embedded_record'' \<noteq> PNone"
  shows "validate_contract ''policy_evaluation_result'' (dget d ''embedded_record'') ''runtime'' = None"
    "dget d ''result_sha256'' = canonical_sha sha (dget d ''embedded_record'')"
    "py_eq (dget d ''authorized_transitions'') (vget (vget (dget d ''embedded_record'') ''result'') ''authorized_transitions'')"
    "py_eq (dget d ''human_gate'') (vget (vget (dget d ''embedded_record'') ''result'') ''human_gate'')"
proof -
  show ok: "validate_contract ''policy_evaluation_result'' (dget d ''embedded_record'') ''runtime'' = None"
    using assms by (auto simp: embedded_policy_guard_def Let_def split: option.splits exn.splits list.splits)
  show "dget d ''result_sha256'' = canonical_sha sha (dget d ''embedded_record'')"
    "py_eq (dget d ''authorized_transitions'') (vget (vget (dget d ''embedded_record'') ''result'') ''authorized_transitions'')"
    "py_eq (dget d ''human_gate'') (vget (vget (dget d ''embedded_record'') ''result'') ''human_gate'')"
    using assms ok by (simp_all add: embedded_policy_guard_def Let_def)
qed

text \<open>
  A decision binding never points to a path: the digest of the resolution is required, and the
  check of tagged sources wants it null there. So it embeds an accepted resolution.
\<close>

lemma decision_accepted:
  assumes "validate_human_decision_resolution_binding sha v target project task = None"
  obtains d where "v = PDict d" "dget d ''source'' = PStr ''embedded''"
    "validate_contract ''human_decision_resolution'' (dget d ''embedded_record'') ''runtime'' = None"
    "dget d ''resolution_sha256'' = canonical_sha sha (dget d ''embedded_record'')"
    "\<And>f g. (f, g) \<in> set resolution_fields \<Longrightarrow> py_eq (vget (dget d ''embedded_record'') f) (dget d g)"
    "target \<noteq> PNone \<Longrightarrow> py_eq (dget d ''authorized_target_state'') target"
    "project \<noteq> PNone \<Longrightarrow> py_eq (dget d ''project_id'') project"
    "task \<noteq> PNone \<Longrightarrow> py_eq (dget d ''task_id'') task"
    "is_str (dget d ''decision_id'')" "is_safe_id (str_of (dget d ''decision_id''))"
proof -
  obtain d where v: "v = PDict d"
    using assms by (auto simp: validate_human_decision_resolution_binding_def is_dict_iff split: if_splits)
  note ok = assms [unfolded v validate_human_decision_resolution_binding_def Let_def, simplified]
  have tag: "tagged_source sha d (Some ''resolution_sha256'') [] = None"
    and sha: "is_str (dget d ''resolution_sha256'')" and guard: "embedded_decision_guard d = None"
    using ok by simp_all
  from tagged_source_None [OF tag] sha have emb: "dget d ''source'' = PStr ''embedded''"
    "dget d ''embedded_record'' \<noteq> PNone" "dget d ''resolution_sha256'' = canonical_sha sha (dget d ''embedded_record'')"
    by auto
  have acc: "validate_contract ''human_decision_resolution'' (dget d ''embedded_record'') ''runtime'' = None"
    using guard emb(2) by (auto simp: embedded_decision_guard_def Let_def split: option.splits exn.splits)
  have same: "py_eq (vget (dget d ''embedded_record'') f) (dget d g)" if "(f, g) \<in> set resolution_fields" for f g
    using guard emb(2) acc that by (auto simp: embedded_decision_guard_def Let_def)
  show ?thesis
    by (rule that [OF v emb(1) acc emb(3) same]) (use ok in \<open>simp_all add: expects_def\<close>)
qed

end
