(* ===== verification/Workflow_Records.thy ===== *)
theory Workflow_Records
  imports Workflow_Bindings
begin

text \<open>
  The records of the workflow that need no invariant catalog, as \<open>acgps/workflow_contracts.py\<close>
  validates them: requests and results of initializations, transitions and recoveries, task
  states, and the start of an audit generation.
\<close>

subsection \<open>Fields\<close>

definition TRANSITION_REQUEST_FIELDS :: "string list" where
  "TRANSITION_REQUEST_FIELDS =
    [''schema_version'', ''transition_id'', ''task_id'', ''project_id'', ''from_state'',
     ''to_state'', ''actor'', ''idempotency_key'', ''policy_evaluation_binding'',
     ''evidence_bindings'', ''decision_resolution_binding'', ''created_at_utc'']"

definition TRANSITION_RESULT_FIELDS :: "string list" where
  "TRANSITION_RESULT_FIELDS =
    [''schema_version'', ''transition_id'', ''task_id'', ''accepted'', ''resulting_state'',
     ''audit_event_id'', ''fail_closed'', ''error_code'', ''issues'', ''idempotent_replay'',
     ''created_at_utc'']"

definition INITIALIZATION_REQUEST_FIELDS :: "string list" where
  "INITIALIZATION_REQUEST_FIELDS =
    [''schema_version'', ''initialization_id'', ''task_id'', ''project_id'', ''initial_state'',
     ''actor'', ''idempotency_key'', ''task_intake_binding'', ''created_at_utc'']"

definition INITIALIZATION_RESULT_FIELDS :: "string list" where
  "INITIALIZATION_RESULT_FIELDS =
    [''schema_version'', ''initialization_id'', ''task_id'', ''project_id'', ''accepted'',
     ''resulting_state'', ''audit_event_id'', ''audit_generation'', ''audit_sequence'',
     ''fail_closed'', ''error_code'', ''issues'', ''idempotent_replay'', ''created_at_utc'']"

definition TASK_STATE_FIELDS :: "string list" where
  "TASK_STATE_FIELDS =
    [''schema_version'', ''task_id'', ''project_id'', ''current_state'', ''previous_state'',
     ''last_transition_id'', ''audit_generation'', ''audit_head_event_id'', ''audit_head_hash'',
     ''policy_evaluation_id'', ''pending_decision_id'', ''updated_at_utc'']"

definition RECOVERY_REQUEST_FIELDS :: "string list" where
  "RECOVERY_REQUEST_FIELDS =
    [''schema_version'', ''recovery_id'', ''task_id'', ''project_id'', ''actor'',
     ''idempotency_key'', ''recovery_action'', ''observed_state_path'',
     ''observed_audit_generation'', ''observed_audit_path'', ''requested_at_utc'']"

definition RECOVERY_RESULT_FIELDS :: "string list" where
  "RECOVERY_RESULT_FIELDS =
    [''schema_version'', ''recovery_id'', ''task_id'', ''project_id'', ''accepted'',
     ''fail_closed'', ''error_code'', ''issues'', ''quarantine_path'', ''previous_generation'',
     ''previous_valid_head_hash'', ''new_generation'', ''started_by_event_id'',
     ''started_by_event_type'', ''resulting_state'', ''created_at_utc'']"

definition AUDIT_GENERATION_FIELDS :: "string list" where
  "AUDIT_GENERATION_FIELDS =
    [''schema_version'', ''task_id'', ''generation'', ''predecessor_generation'',
     ''predecessor_valid_head_hash'', ''quarantine_path'', ''started_by_event_id'',
     ''started_by_event_type'', ''threat_model'', ''created_at_utc'']"

definition TRUSTED_PREFIX_FIELDS :: "string list" where
  "TRUSTED_PREFIX_FIELDS =
    [''generation'', ''sequence'', ''event_id'', ''event_hash'']"

definition RECOVERY_ACTORS :: "string list" where
  "RECOVERY_ACTORS = [''CONTROLLER'', ''HUMAN'', ''VERIFIER'']"

subsection \<open>Paths of any type\<close>

text \<open>
  \<open>_is_safe_relative_path\<close> is called on values that need not be texts: a false value is unsafe,
  any other that is no text raises on the way, unless it contains a backslash item.
\<close>

definition safe_path_value :: "pyval \<Rightarrow> bool res" where
  "safe_path_value v = (case v of
     PStr s \<Rightarrow> Inr (is_safe_relative_path s)
   | _ \<Rightarrow> (if \<not> truthy v then Inr False
      else rbind (py_in (PStr [CHR 0x5C]) v) (\<lambda>found. if found then Inr False else Inl AttributeError)))"

definition path_guard :: "pyval \<Rightarrow> string \<Rightarrow> string \<Rightarrow> string \<Rightarrow> guard" where
  "path_guard v code path message = (case safe_path_value v of
     Inl e \<Rightarrow> Some e | Inr ok \<Rightarrow> invalid_if (\<not> ok) code path message)"

lemma path_guard_None [simp]:
  "path_guard v code path message = None \<longleftrightarrow> is_str v \<and> is_safe_relative_path (str_of v)"
  by (cases v) (auto simp: path_guard_def safe_path_value_def rbind_def invalid_if_def fail_if_def split: sum.splits)

subsection \<open>Task states\<close>

definition state_corrupt :: "bool \<Rightarrow> string \<Rightarrow> string \<Rightarrow> guard" where
  "state_corrupt b path message = invalid_if b ''WORKFLOW_STATE_CORRUPT'' path message"

definition validate_task_state :: "pyval \<Rightarrow> guard" where
  "validate_task_state record =
     (if \<not> is_dict record then state_corrupt True ''$'' ''task state must be a mapping''
      else let d = entries record; code = ''WORKFLOW_STATE_CORRUPT''; state = dget d ''current_state'';
               pending = dget d ''pending_decision_id'' in
        first_err
         ([with_code code (exact_mapping d TASK_STATE_FIELDS ''task state'' []),
           with_code code (first_err
            [check_version (dget d ''schema_version'') ''schema_version'',
             check_safe_id (dget d ''task_id'') ''task_id'',
             check_safe_id (dget d ''project_id'') ''project_id'',
             check_member state TASK_STATES ''current_state'' ''WORKFLOW_UNKNOWN_STATE'',
             check_positive (dget d ''audit_generation'') ''audit_generation'',
             check_safe_id (dget d ''audit_head_event_id'') ''audit_head_event_id'',
             check_sha (dget d ''audit_head_hash'') ''audit_head_hash'',
             check_utc (dget d ''updated_at_utc'') ''updated_at_utc'']),
           check_state_or_null d ''previous_state'' ''unknown previous_state'',
           state_corrupt (state = PStr ''WAITING_HUMAN'' \<and> \<not> is_str pending) ''pending_decision_id''
             ''WAITING_HUMAN requires pending_decision_id'',
           state_corrupt (state \<noteq> PStr ''WAITING_HUMAN'' \<and> pending \<noteq> PNone) ''pending_decision_id''
             ''pending_decision_id is only valid for WAITING_HUMAN''] @
          map (\<lambda>f. with_code code (unless_null check_safe_id (dget d f) f))
            [''last_transition_id'', ''policy_evaluation_id'', ''pending_decision_id'']))"

lemma state_corrupt_None [simp]: "state_corrupt b path message = None \<longleftrightarrow> \<not> b"
  by (simp add: state_corrupt_def)

lemma task_state_dict: "validate_task_state v = None \<Longrightarrow> \<exists>d. v = PDict d"
  by (auto simp: validate_task_state_def is_dict_iff split: if_splits)

lemma check_state_or_null_None:
  "check_state_or_null d f m = None \<longleftrightarrow>
     dget d f = PNone \<or> is_str (dget d f) \<and> str_of (dget d f) \<in> set TASK_STATES"
  by (auto simp: check_state_or_null_def mem_list_strs is_str_iff)

lemma task_state_accepted:
  assumes "validate_task_state (PDict d) = None"
  shows "\<exists>s. dget d ''task_id'' = PStr s \<and> is_safe_id s" "\<exists>s. dget d ''project_id'' = PStr s \<and> is_safe_id s"
    "\<exists>s. dget d ''current_state'' = PStr s \<and> s \<in> set TASK_STATES"
    "\<exists>g. dget d ''audit_generation'' = PInt g \<and> 1 \<le> g"
    "\<exists>s. dget d ''audit_head_event_id'' = PStr s \<and> is_safe_id s" "\<exists>s. dget d ''audit_head_hash'' = PStr s \<and> is_sha256 s"
    "dget d ''current_state'' = PStr ''WAITING_HUMAN'' \<longleftrightarrow> dget d ''pending_decision_id'' \<noteq> PNone"
    "dget d ''pending_decision_id'' \<noteq> PNone \<Longrightarrow> \<exists>s. dget d ''pending_decision_id'' = PStr s \<and> is_safe_id s"
proof -
  note ok = assms [unfolded validate_task_state_def Let_def, simplified]
  show "\<exists>s. dget d ''task_id'' = PStr s \<and> is_safe_id s" "\<exists>s. dget d ''project_id'' = PStr s \<and> is_safe_id s"
    "\<exists>s. dget d ''current_state'' = PStr s \<and> s \<in> set TASK_STATES"
    "\<exists>s. dget d ''audit_head_event_id'' = PStr s \<and> is_safe_id s" "\<exists>s. dget d ''audit_head_hash'' = PStr s \<and> is_sha256 s"
    using ok by (simp_all only: text_iff [symmetric] simp_thms)
  show "\<exists>g. dget d ''audit_generation'' = PInt g \<and> 1 \<le> g"
    using ok by (simp only: int_from_iff [symmetric] simp_thms)
  have "(dget d ''current_state'' = PStr ''WAITING_HUMAN'' \<longrightarrow> is_str (dget d ''pending_decision_id'')) \<and>
    (dget d ''current_state'' = PStr ''WAITING_HUMAN'' \<or> dget d ''pending_decision_id'' = PNone)"
    using ok by (elim conjE) (intro conjI)
  then show "dget d ''current_state'' = PStr ''WAITING_HUMAN'' \<longleftrightarrow> dget d ''pending_decision_id'' \<noteq> PNone"
    by (metis is_str_simps(2))
  show "\<exists>s. dget d ''pending_decision_id'' = PStr s \<and> is_safe_id s" if "dget d ''pending_decision_id'' \<noteq> PNone"
    using ok that by (simp only: text_iff [symmetric] simp_thms)
qed

subsection \<open>Result envelopes\<close>

definition bad_input :: "bool \<Rightarrow> string \<Rightarrow> string \<Rightarrow> guard" where
  "bad_input b path message = invalid_if b ''WORKFLOW_INVALID_INPUT'' path message"

lemma bad_input_None [simp]: "bad_input b path message = None \<longleftrightarrow> \<not> b"
  by (simp add: bad_input_def)

definition validate_issue_records :: "pyval \<Rightarrow> string \<Rightarrow> guard" where
  "validate_issue_records records path =
     (if \<not> is_list records then bad_input True path ''issues must be a list''
      else first_err (map (\<lambda>(i, issue). let here = item_path path i in first_err
        [bad_input (\<not> is_dict issue) here ''issue must be a mapping'',
         bad_input (\<not> same_fields issue [''code'', ''path'', ''message'']) here ''issue fields are invalid'',
         bad_input (vget issue ''code'' \<notin> set (map PStr WORKFLOW_ERROR_CODES)) (here @ ''.code'')
           ''issue code is not registered'',
         bad_input (\<not> is_str (vget issue ''path'') \<or> \<not> is_str (vget issue ''message'') \<or> vget issue ''message'' = PStr [])
           here ''issue path/message invalid'']) (numbered 0 (elems records))))"

definition accepted_envelope :: "pydict \<Rightarrow> bool \<Rightarrow> bool \<Rightarrow> guard" where
  "accepted_envelope d coordinates audit_event = first_err
     ([bad_input (dget d ''fail_closed'' = PBool True) ''fail_closed'' ''accepted result cannot be fail_closed'',
       bad_input (dget d ''error_code'' \<noteq> PNone) ''error_code'' ''accepted result must not have error_code'',
       bad_input (elems (dget d ''issues'') \<noteq> []) ''issues'' ''accepted result must not have issues'',
       invalid_if (\<not> mem_list (dget d ''resulting_state'') (map PStr TASK_STATES)) ''WORKFLOW_UNKNOWN_STATE''
         ''resulting_state'' ''accepted result needs a declared resulting_state'',
       bad_input (audit_event \<and> (\<not> is_str (dget d ''audit_event_id'') \<or> dget d ''audit_event_id'' = PStr []))
         ''audit_event_id'' ''accepted result needs audit_event_id''] @
      (if coordinates then
         [check_positive (dget d ''audit_generation'') ''audit_generation'',
          check_positive (dget d ''audit_sequence'') ''audit_sequence'']
       else []))"

definition rejected_envelope :: "pydict \<Rightarrow> bool \<Rightarrow> guard" where
  "rejected_envelope d coordinates = first_err
     [bad_input (dget d ''fail_closed'' \<noteq> PBool True) ''fail_closed'' ''rejected result must be fail_closed'',
      bad_input (\<not> mem_list (dget d ''error_code'') (map PStr WORKFLOW_ERROR_CODES)) ''error_code''
        ''rejected result needs registered error_code'',
      bad_input (dget d ''audit_event_id'' \<noteq> PNone) ''audit_event_id'' ''rejected result must not have audit_event_id'',
      bad_input (dget d ''resulting_state'' \<noteq> PNone) ''resulting_state'' ''rejected result must not have resulting_state'',
      bad_input (coordinates \<and> (dget d ''audit_generation'' \<noteq> PNone \<or> dget d ''audit_sequence'' \<noteq> PNone))
        ''audit_generation'' ''rejected result must not have audit coordinates'',
      bad_input (elems (dget d ''issues'') = []) ''issues'' ''rejected result needs issues'',
      validate_issue_records (dget d ''issues'') ''issues'']"

definition validate_result_envelope :: "pydict \<Rightarrow> string \<Rightarrow> bool \<Rightarrow> bool \<Rightarrow> guard" where
  "validate_result_envelope d id_path coordinates audit_event = first_err
     [bad_input (\<not> is_list (dget d ''issues'')) ''issues'' ''issues must be a list'',
      (if dget d ''accepted'' = PBool True then accepted_envelope d coordinates audit_event
       else rejected_envelope d coordinates),
      bad_input (\<not> is_str (dget d id_path) \<or> dget d id_path = PStr []) id_path ''result id must be a non-empty string'']"

text \<open>The checks the three kinds of result start with.\<close>

definition result_checks :: "pydict \<Rightarrow> string list \<Rightarrow> string list \<Rightarrow> guard" where
  "result_checks d ids flags = first_err
     ([check_version (dget d ''schema_version'') ''schema_version''] @
      map (\<lambda>f. check_safe_id (dget d f) f) ids @
      [check_utc (dget d ''created_at_utc'') ''created_at_utc''] @
      map (\<lambda>f. check_bool (dget d f) f) flags)"

definition validate_transition_result :: "pyval \<Rightarrow> guard" where
  "validate_transition_result record =
     (if \<not> is_dict record then bad_input True ''$'' ''transition result must be a mapping''
      else let d = entries record in first_err
       [exact_mapping d TRANSITION_RESULT_FIELDS ''transition result'' [],
        result_checks d [''transition_id'', ''task_id''] [''accepted'', ''fail_closed'', ''idempotent_replay''],
        validate_result_envelope d ''transition_id'' False True])"

definition validate_task_initialization_result :: "pyval \<Rightarrow> guard" where
  "validate_task_initialization_result record =
     (if \<not> is_dict record then bad_input True ''$'' ''initialization result must be a mapping''
      else let d = entries record; ok = (dget d ''accepted'' = PBool True) in first_err
       [exact_mapping d INITIALIZATION_RESULT_FIELDS ''initialization result'' [],
        result_checks d [''initialization_id'', ''task_id'', ''project_id'']
          [''accepted'', ''fail_closed'', ''idempotent_replay''],
        invalid_if (ok \<and> dget d ''resulting_state'' \<noteq> PStr ''DRAFT'') ''WORKFLOW_ILLEGAL_TRANSITION''
          ''resulting_state'' ''accepted initialization must result in DRAFT'',
        bad_input (ok \<and> \<not> eq_int (dget d ''audit_generation'') 1) ''audit_generation''
          ''accepted initialization must use audit_generation 1'',
        bad_input (ok \<and> \<not> eq_int (dget d ''audit_sequence'') 1) ''audit_sequence''
          ''accepted initialization must use audit_sequence 1'',
        validate_result_envelope d ''initialization_id'' True True])"

subsection \<open>Requests\<close>

definition validate_task_initialization_request :: "(string \<Rightarrow> string) \<Rightarrow> pyval \<Rightarrow> guard" where
  "validate_task_initialization_request sha record =
     (if \<not> is_dict record then bad_input True ''$'' ''initialization request must be a mapping''
      else let d = entries record in first_err
       [exact_mapping d INITIALIZATION_REQUEST_FIELDS ''initialization request'' [],
        check_version (dget d ''schema_version'') ''schema_version'',
        check_safe_id (dget d ''initialization_id'') ''initialization_id'',
        check_safe_id (dget d ''task_id'') ''task_id'',
        check_safe_id (dget d ''project_id'') ''project_id'',
        check_member (dget d ''initial_state'') [''DRAFT''] ''initial_state'' ''WORKFLOW_ILLEGAL_TRANSITION'',
        check_member (dget d ''actor'') ACTORS ''actor'' ''WORKFLOW_INVALID_INPUT'',
        check_text (dget d ''idempotency_key'') ''idempotency_key'',
        check_utc (dget d ''created_at_utc'') ''created_at_utc'',
        validate_evidence_binding sha (dget d ''task_intake_binding'') ''task_intake_binding''])"

text \<open>The decision a transition request carries: one exactly when it leaves WAITING_HUMAN.\<close>

definition request_decision_guard :: "(string \<Rightarrow> string) \<Rightarrow> pydict \<Rightarrow> guard" where
  "request_decision_guard sha d =
     (if dget d ''from_state'' = PStr ''WAITING_HUMAN'' then
        validate_human_decision_resolution_binding sha (dget d ''decision_resolution_binding'')
          (dget d ''to_state'') (dget d ''project_id'') (dget d ''task_id'')
      else decision_binding_issue (dget d ''decision_resolution_binding'' \<noteq> PNone) ''decision_resolution_binding''
        ''decision binding is only valid from WAITING_HUMAN'')"

text \<open>The embedded policy result of a request is about its task.\<close>

definition policy_context_guard ::
    "pydict \<Rightarrow> string \<Rightarrow> (string \<times> string) list \<Rightarrow> (string \<Rightarrow> string) \<Rightarrow> guard" where
  "policy_context_guard d code pairs message =
     (let embedded = vget (dget d ''policy_evaluation_binding'') ''embedded_record'' in
      if embedded = PNone then None
      else first_err (map (\<lambda>(f, g). require_equal (vget embedded f) (dget d g)
        (''policy_evaluation_binding.embedded_record.'' @ f) (message f) code) pairs))"

definition validate_transition_request :: "(string \<Rightarrow> string) \<Rightarrow> pyval \<Rightarrow> guard" where
  "validate_transition_request sha record =
     (if \<not> is_dict record then bad_input True ''$'' ''transition request must be a mapping''
      else let d = entries record; policy = dget d ''policy_evaluation_binding'' in first_err
       [exact_mapping d TRANSITION_REQUEST_FIELDS ''transition request'' [],
        check_version (dget d ''schema_version'') ''schema_version'',
        check_safe_id (dget d ''transition_id'') ''transition_id'',
        check_safe_id (dget d ''task_id'') ''task_id'',
        check_safe_id (dget d ''project_id'') ''project_id'',
        check_text (dget d ''idempotency_key'') ''idempotency_key'',
        check_member (dget d ''from_state'') TASK_STATES ''from_state'' ''WORKFLOW_UNKNOWN_STATE'',
        check_member (dget d ''to_state'') TASK_STATES ''to_state'' ''WORKFLOW_UNKNOWN_STATE'',
        check_member (dget d ''actor'') ACTORS ''actor'' ''WORKFLOW_INVALID_INPUT'',
        check_utc (dget d ''created_at_utc'') ''created_at_utc'',
        validate_policy_evaluation_binding sha policy,
        policy_binding_issue (vget policy ''source'' \<noteq> PStr ''embedded'') ''source''
          ''Task 1 transition validation requires an embedded validated policy result'',
        policy_context_guard d ''WORKFLOW_POLICY_RESULT_INVALID''
          [(''project_id'', ''project_id''), (''task_id'', ''task_id'')] (\<lambda>f. ''embedded policy '' @ f @ '' must match transition request''),
        policy_binding_issue (dget d ''to_state'' \<notin> set (elems (vget policy ''authorized_transitions'')))
          ''authorized_transitions'' ''target state is not authorized by policy binding'',
        request_decision_guard sha d,
        validate_evidence_binding_list sha (dget d ''evidence_bindings'') ''evidence_bindings''])"

subsection \<open>Recoveries\<close>

definition validate_recovery_request :: "pyval \<Rightarrow> guard" where
  "validate_recovery_request record =
     (if \<not> is_dict record then bad_input True ''$'' ''recovery request must be a mapping''
      else let d = entries record in first_err
       ([exact_mapping d RECOVERY_REQUEST_FIELDS ''recovery request'' [],
         check_version (dget d ''schema_version'') ''schema_version'',
         check_safe_id (dget d ''recovery_id'') ''recovery_id'',
         check_safe_id (dget d ''task_id'') ''task_id'',
         check_safe_id (dget d ''project_id'') ''project_id'',
         check_member (dget d ''actor'') RECOVERY_ACTORS ''actor'' ''WORKFLOW_INVALID_INPUT'',
         check_text (dget d ''idempotency_key'') ''idempotency_key'',
         check_member (dget d ''recovery_action'') RECOVERY_ACTIONS ''recovery_action'' ''WORKFLOW_INVALID_INPUT'',
         check_utc (dget d ''requested_at_utc'') ''requested_at_utc''] @
        map (\<lambda>f. if dget d f = PNone then None
             else path_guard (dget d f) ''WORKFLOW_INVALID_INPUT'' f ''path must be safe relative POSIX path'')
          [''observed_state_path'', ''observed_audit_path''] @
        [unless_null check_positive (dget d ''observed_audit_generation'') ''observed_audit_generation'']))"

definition recovery_claims :: "string list" where
  "recovery_claims = [''quarantine_path'', ''new_generation'', ''started_by_event_id'', ''started_by_event_type'',
     ''resulting_state'']"

definition validate_recovery_result :: "pyval \<Rightarrow> guard" where
  "validate_recovery_result record =
     (if \<not> is_dict record then bad_input True ''$'' ''recovery result must be a mapping''
      else let d = entries record; null = (\<lambda>f. dget d f = PNone) in first_err
       ([exact_mapping d RECOVERY_RESULT_FIELDS ''recovery result'' [],
         result_checks d [''recovery_id'', ''task_id'', ''project_id''] [''accepted'', ''fail_closed''],
         validate_result_envelope d ''recovery_id'' False False] @
        (if dget d ''accepted'' = PBool True then
          [bad_input (null ''previous_generation'') ''previous_generation''
             ''accepted recovery needs previous trusted generation'',
           bad_input (null ''previous_valid_head_hash'') ''previous_valid_head_hash''
             ''accepted recovery needs previous trusted head hash'',
           bad_input (\<not> null ''new_generation'' \<and> (null ''started_by_event_id'' \<or> null ''started_by_event_type''))
             ''started_by_event_id'' ''new generation requires start event'']
         else map (\<lambda>f. bad_input (\<not> null f) f ''rejected recovery result must not claim side effects'') recovery_claims) @
        [unless_null check_positive (dget d ''previous_generation'') ''previous_generation'',
         unless_null check_positive (dget d ''new_generation'') ''new_generation'',
         unless_null check_sha (dget d ''previous_valid_head_hash'') ''previous_valid_head_hash'',
         unless_null check_safe_id (dget d ''started_by_event_id'') ''started_by_event_id'',
         (if null ''started_by_event_type'' then None
          else if \<not> hashable (dget d ''started_by_event_type'') then Some TypeError
          else bad_input (dget d ''started_by_event_type'' \<notin> set (map PStr RECOVERY_EVENT_TYPES)) ''started_by_event_type''
            ''unknown recovery event type''),
         (if null ''quarantine_path'' then None
          else path_guard (dget d ''quarantine_path'') ''WORKFLOW_INVALID_INPUT'' ''quarantine_path''
            ''path must be safe relative POSIX path'')]))"

subsection \<open>Audit generations\<close>

definition audit_corrupt :: "bool \<Rightarrow> string \<Rightarrow> string \<Rightarrow> guard" where
  "audit_corrupt b path message = invalid_if b ''WORKFLOW_AUDIT_CORRUPT'' path message"

lemma audit_corrupt_None [simp]: "audit_corrupt b path message = None \<longleftrightarrow> \<not> b"
  by (simp add: audit_corrupt_def)

definition validate_audit_generation :: "pyval \<Rightarrow> guard" where
  "validate_audit_generation record =
     (if \<not> is_dict record then audit_corrupt True ''$'' ''audit generation must be a mapping''
      else let d = entries record; code = ''WORKFLOW_AUDIT_CORRUPT''; null = (\<lambda>f. dget d f = PNone);
               starter = dget d ''started_by_event_type'' in first_err
       ([with_code code (exact_mapping d AUDIT_GENERATION_FIELDS ''audit generation'' []),
         with_code code (first_err
          [check_version (dget d ''schema_version'') ''schema_version'',
           check_safe_id (dget d ''task_id'') ''task_id'',
           check_positive (dget d ''generation'') ''generation'',
           check_safe_id (dget d ''started_by_event_id'') ''started_by_event_id'',
           check_member starter EVENT_TYPES ''started_by_event_type'' code,
           check_member (dget d ''threat_model'') THREAT_MODELS ''threat_model'' code,
           check_utc (dget d ''created_at_utc'') ''created_at_utc'']),
         with_code code (unless_null check_positive (dget d ''predecessor_generation'') ''predecessor_generation''),
         with_code code (unless_null check_sha (dget d ''predecessor_valid_head_hash'') ''predecessor_valid_head_hash'')] @
        (if dget d ''generation'' = PInt 1 then
          [audit_corrupt (starter \<noteq> PStr ''TASK_CREATED'') ''started_by_event_type'' ''generation 1 must start with TASK_CREATED'',
           audit_corrupt (\<not> null ''predecessor_generation'' \<or> \<not> null ''predecessor_valid_head_hash'' \<or> \<not> null ''quarantine_path'')
             ''predecessor_generation'' ''generation 1 must not have predecessor or quarantine'']
         else
          [audit_corrupt (null ''predecessor_generation'' \<or> null ''predecessor_valid_head_hash'') ''predecessor_generation''
             ''generation greater than 1 requires predecessor'',
           audit_corrupt (starter \<notin> set (map PStr RECOVERY_EVENT_TYPES)) ''started_by_event_type''
             ''generation greater than 1 must start with recovery or rollback'']) @
        [(if null ''quarantine_path'' then None
          else path_guard (dget d ''quarantine_path'') code ''quarantine_path'' ''path must be safe relative POSIX path'')]))"

definition validate_trusted_prefix :: "pyval \<Rightarrow> string \<Rightarrow> guard" where
  "validate_trusted_prefix record pre =
     (let d = entries record; code = ''WORKFLOW_TRANSACTION_INCOMPLETE''; here = join_path pre in
      if \<not> is_dict record then Some (invalid_outcome code pre ''trusted prefix must be a mapping'')
      else first_err
       [with_code code (exact_mapping d TRUSTED_PREFIX_FIELDS ''trusted prefix'' pre),
        with_code code (first_err
         [check_positive (dget d ''generation'') (here ''generation''),
          check_positive (dget d ''sequence'') (here ''sequence''),
          check_safe_id (dget d ''event_id'') (here ''event_id''),
          check_sha (dget d ''event_hash'') (here ''event_hash'')])])"

end
