(* ===== verification/Workflow_Catalog.thy ===== *)
theory Workflow_Catalog
  imports Workflow_Base
begin

text \<open>
  The invariant catalog of the workflow (\<open>config/wp3_task1_invariants.yaml\<close>) and its validation
  in \<open>acgps/workflow_contracts.py\<close>: the tables the code owns, the exact comparison of a loaded
  catalog with them, and the loader. What the YAML loader returns for the file is an argument;
  the cache of the loaded catalog changes no answer and is left out.
\<close>

subsection \<open>The tables of the code\<close>

definition TASK1_ALLOWED_INVARIANT_DSL_OPCODES :: "string list" where
  "TASK1_ALLOWED_INVARIANT_DSL_OPCODES =
    [''equal'', ''must_be_null'', ''must_be_non_null'', ''member_of'', ''derived_path'',
     ''increment_by'', ''allowed_only_when'']"

definition TASK1_INVARIANT_CATALOG_FIELDS :: "string list" where
  "TASK1_INVARIANT_CATALOG_FIELDS =
    [''schema_version'', ''catalog_id'', ''invariant_dsl'', ''operation_graphs'',
     ''recovery_graph'', ''event_type_matrix'']"

definition TASK1_INVARIANT_DSL_FIELDS :: "string list" where
  "TASK1_INVARIANT_DSL_FIELDS =
    [''schema_version'', ''schema_authority'', ''field_path_policy'', ''opcodes'']"

definition TASK1_RECOVERY_GRAPH_FIELDS :: "string list" where
  "TASK1_RECOVERY_GRAPH_FIELDS =
    [''recovery_reason_registry'', ''artifact_truth_table'', ''result_status_truth_table'',
     ''identity_bindings'', ''quarantine_bindings'', ''trusted_prefix_bindings'',
     ''generation_continuity'', ''path_derivations'']"

definition TASK1_OPERATION_GRAPH_FIELDS :: "(string \<times> string list) list" where
  "TASK1_OPERATION_GRAPH_FIELDS =
    [(''initialization'', [''operation_kind'', ''result_contract'', ''audit_event_type'',
       ''result_audit_bindings'', ''state_audit_bindings'', ''request_audit_bindings'',
       ''state_null_bindings'']),
     (''transition'', [''operation_kind'', ''result_contract'', ''audit_event_type'', ''binding_copies'',
       ''identity_bindings''])]"

definition TASK1_EVENT_TYPE_ROLE_FIELDS :: "(string \<times> string list) list" where
  "TASK1_EVENT_TYPE_ROLE_FIELDS =
    [(''TASK_CREATED'', [''required'', ''nullable'', ''empty'', ''generation_role'', ''context_bindings'']),
     (''TRANSITION_ACCEPTED'', [''required'', ''nullable'', ''non_empty'', ''generation_role'', ''context_bindings'']),
     (''RECOVERY_RECORDED'', [''required'', ''nullable'', ''empty'', ''generation_role'', ''context_bindings'']),
     (''ROLLBACK_RECORDED'', [''required'', ''nullable'', ''empty'', ''generation_role'', ''context_bindings''])]"

definition TASK1_EVENT_GENERATION_ROLE_FIELDS :: "(string \<times> string list) list" where
  "TASK1_EVENT_GENERATION_ROLE_FIELDS =
    [(''TASK_CREATED'', [''sequence'', ''generation'', ''first_event_type'']),
     (''TRANSITION_ACCEPTED'', [''sequence_must_not_be'']),
     (''RECOVERY_RECORDED'', [''sequence'', ''minimum_generation'', ''first_event_type'']),
     (''ROLLBACK_RECORDED'', [''sequence'', ''minimum_generation'', ''first_event_type''])]"

definition TASK1_EVENT_CONTEXT_BINDING_FIELDS :: "(string \<times> string list) list" where
  "TASK1_EVENT_CONTEXT_BINDING_FIELDS =
    [(''TASK_CREATED'', []),
     (''TRANSITION_ACCEPTED'', [''policy_project_id'', ''policy_task_id'', ''policy_authorizes_to_state'',
       ''decision_only_from_state'']),
     (''RECOVERY_RECORDED'', []),
     (''ROLLBACK_RECORDED'', [])]"

definition TASK1_OPERATION_GRAPH_CONSTANTS :: "(string \<times> (string \<times> string) list) list" where
  "TASK1_OPERATION_GRAPH_CONSTANTS =
    [(''initialization'', [(''operation_kind'', ''INITIALIZATION''), (''result_contract'', ''WorkflowTaskInitializationResult.v1''), (''audit_event_type'', ''TASK_CREATED'')]),
     (''transition'', [(''operation_kind'', ''TRANSITION''), (''result_contract'', ''WorkflowTransitionResult.v1''), (''audit_event_type'', ''TRANSITION_ACCEPTED'')])]"

definition TASK1_OPERATION_GRAPH_EXPECTED :: pyval where
  "TASK1_OPERATION_GRAPH_EXPECTED = PDict
    [kv ''initialization'' (PDict
      [kv ''operation_kind'' (PStr ''INITIALIZATION''),
       kv ''result_contract'' (PStr ''WorkflowTaskInitializationResult.v1''),
       kv ''audit_event_type'' (PStr ''TASK_CREATED''),
       kv ''result_audit_bindings'' (PDict
        [kv ''audit_event_id'' (PStr ''planned_audit_event.event_id''),
         kv ''audit_generation'' (PStr ''planned_audit_event.generation''),
         kv ''audit_sequence'' (PStr ''planned_audit_event.sequence'')]),
       kv ''state_audit_bindings'' (PDict
        [kv ''audit_head_event_id'' (PStr ''planned_audit_event.event_id''),
         kv ''audit_head_hash'' (PStr ''planned_audit_event.event_hash''),
         kv ''audit_generation'' (PStr ''planned_audit_event.generation'')]),
       kv ''request_audit_bindings'' (PDict
        [kv ''actor'' (PStr ''planned_audit_event.actor'')]),
       kv ''state_null_bindings'' (PDict
        [kv ''policy_evaluation_id'' (PNone),
         kv ''pending_decision_id'' (PNone)])]),
     kv ''transition'' (PDict
      [kv ''operation_kind'' (PStr ''TRANSITION''),
       kv ''result_contract'' (PStr ''WorkflowTransitionResult.v1''),
       kv ''audit_event_type'' (PStr ''TRANSITION_ACCEPTED''),
       kv ''binding_copies'' (PDict
        [kv ''decision_resolution_binding'' (PStr ''planned_audit_event.decision_resolution_binding''),
         kv ''policy_evaluation_binding'' (PStr ''planned_audit_event.policy_evaluation_binding''),
         kv ''evidence_bindings'' (PStr ''planned_audit_event.evidence_bindings'')]),
       kv ''identity_bindings'' (PDict
        [kv ''transition_actor'' (PDict
          [kv ''planned_audit_event.actor'' (PStr ''canonical_request.actor'')])])])]"

definition TASK1_RECOVERY_GRAPH_EXPECTED :: pyval where
  "TASK1_RECOVERY_GRAPH_EXPECTED = PDict
    [kv ''recovery_reason_registry'' (strl [''AUDIT_TAIL_CORRUPT'',
       ''STATE_AUDIT_MISMATCH'',
       ''TRANSACTION_PHASE_STALE'',
       ''THREAT_MODEL_LIMIT'',
       ''OPERATOR_REQUESTED_ROLLBACK'']),
     kv ''artifact_truth_table'' (PDict
      [kv ''replay'' (PDict
        [kv ''accepted'' (PDict
          [kv ''quarantine_path'' (PNone),
           kv ''new_generation'' (PNone),
           kv ''started_by_event_id'' (PNone),
           kv ''started_by_event_type'' (PNone)])]),
       kv ''classify_threat_model_limit'' (PDict
        [kv ''accepted'' (PDict
          [kv ''quarantine_path'' (PNone),
           kv ''new_generation'' (PNone),
           kv ''started_by_event_id'' (PNone),
           kv ''started_by_event_type'' (PNone)])]),
       kv ''quarantine_and_start_generation'' (PDict
        [kv ''accepted'' (PDict
          [kv ''quarantine_path'' (PStr ''planned_quarantine_manifest.destination_path''),
           kv ''new_generation'' (PStr ''planned_generation_event.generation''),
           kv ''started_by_event_id'' (PStr ''planned_generation_event.event_id''),
           kv ''started_by_event_type'' (PStr ''planned_generation_event.event_type'')])]),
       kv ''rollback_to_valid_prefix'' (PDict
        [kv ''accepted'' (PDict
          [kv ''quarantine_path'' (PStr ''planned_quarantine_manifest.destination_path''),
           kv ''new_generation'' (PStr ''planned_generation_event.generation''),
           kv ''started_by_event_id'' (PStr ''planned_generation_event.event_id''),
           kv ''started_by_event_type'' (PStr ''planned_generation_event.event_type'')])])]),
     kv ''result_status_truth_table'' (PDict
      [kv ''fail_closed'' (PDict
        [kv ''accepted'' (PBool False),
         kv ''fail_closed'' (PBool True),
         kv ''side_effect_fields_must_be_null'' (strl [''quarantine_path'',
           ''new_generation'',
           ''started_by_event_id'',
           ''started_by_event_type'',
           ''resulting_state'']),
         kv ''planned_artifacts_must_be_null'' (strl [''planned_quarantine_manifest'',
           ''planned_generation_event'',
           ''planned_state'',
           ''planned_idempotency_record''])]),
       kv ''diagnostic_only'' (PDict
        [kv ''accepted'' (PBool False),
         kv ''fail_closed'' (PBool False),
         kv ''side_effect_fields_must_be_null'' (strl [''quarantine_path'',
           ''new_generation'',
           ''started_by_event_id'',
           ''started_by_event_type'',
           ''resulting_state'']),
         kv ''planned_artifacts_must_be_null'' (strl [''planned_quarantine_manifest'',
           ''planned_generation_event'',
           ''planned_state'',
           ''planned_idempotency_record''])])]),
     kv ''identity_bindings'' (PDict
      [kv ''request_generation_actor'' (PDict
        [kv ''planned_generation_event.actor'' (PStr ''canonical_recovery_request.actor'')])]),
     kv ''quarantine_bindings'' (PDict
      [kv ''planned_quarantine_manifest.source_path'' (PStr ''canonical_recovery_request.observed_audit_path''),
       kv ''planned_quarantine_manifest.destination_path'' (PStr ''canonical_recovery_result.quarantine_path''),
       kv ''planned_generation_event.details.quarantine_path'' (PStr ''planned_quarantine_manifest.destination_path''),
       kv ''planned_generation_event.details.audit_generation.quarantine_path'' (PStr ''planned_quarantine_manifest.destination_path'')]),
     kv ''trusted_prefix_bindings'' (PDict
      [kv ''canonical_recovery_result.previous_generation'' (PStr ''planned_recovery_record.diagnostic.previous_trusted_prefix.generation''),
       kv ''canonical_recovery_result.previous_valid_head_hash'' (PStr ''planned_recovery_record.diagnostic.previous_trusted_prefix.event_hash''),
       kv ''planned_generation_event.details.previous_trusted_prefix'' (PStr ''planned_recovery_record.diagnostic.previous_trusted_prefix''),
       kv ''planned_generation_event.details.audit_generation.predecessor_generation'' (PStr ''planned_recovery_record.diagnostic.previous_trusted_prefix.generation''),
       kv ''planned_generation_event.details.audit_generation.predecessor_valid_head_hash'' (PStr ''planned_recovery_record.diagnostic.previous_trusted_prefix.event_hash'')]),
     kv ''generation_continuity'' (PDict
      [kv ''new_generation'' (PDict
        [kv ''predecessor'' (PStr ''planned_recovery_record.diagnostic.previous_trusted_prefix.generation''),
         kv ''increment'' (PInt 1),
         kv ''result_field'' (PStr ''canonical_recovery_result.new_generation''),
         kv ''matching_fields'' (strl [''planned_generation_event.generation'',
           ''planned_generation_event.details.audit_generation.generation'',
           ''planned_state.audit_generation''])])]),
     kv ''path_derivations'' (PDict
      [kv ''quarantine_destination'' (PDict
        [kv ''field'' (PStr ''planned_quarantine_manifest.destination_path''),
         kv ''template'' (PStr ''state/quarantine/{canonical_recovery_request.task_id}/{canonical_recovery_request.recovery_id}/audit-tail.bin'')])])]"

definition TASK1_EVENT_TYPE_MATRIX_EXPECTED :: pyval where
  "TASK1_EVENT_TYPE_MATRIX_EXPECTED = PDict
    [kv ''TASK_CREATED'' (PDict
      [kv ''required'' (strl [''details.audit_generation'']),
       kv ''nullable'' (strl [''from_state'',
         ''to_state'',
         ''transition_id'',
         ''policy_evaluation_binding'',
         ''decision_resolution_binding'']),
       kv ''empty'' (strl [''evidence_bindings'']),
       kv ''generation_role'' (PDict
        [kv ''sequence'' (PInt 1),
         kv ''generation'' (PInt 1),
         kv ''first_event_type'' (PStr ''TASK_CREATED'')]),
       kv ''context_bindings'' (PDict [])]),
     kv ''TRANSITION_ACCEPTED'' (PDict
      [kv ''required'' (strl [''from_state'',
         ''to_state'',
         ''transition_id'',
         ''policy_evaluation_binding'']),
       kv ''nullable'' (strl [''decision_resolution_binding'']),
       kv ''non_empty'' (strl [''evidence_bindings'']),
       kv ''generation_role'' (PDict
        [kv ''sequence_must_not_be'' (PInt 1)]),
       kv ''context_bindings'' (PDict
        [kv ''policy_project_id'' (PStr ''project_id''),
         kv ''policy_task_id'' (PStr ''task_id''),
         kv ''policy_authorizes_to_state'' (PStr ''to_state''),
         kv ''decision_only_from_state'' (PStr ''WAITING_HUMAN'')])]),
     kv ''RECOVERY_RECORDED'' (PDict
      [kv ''required'' (strl [''details.recovery_id'',
         ''details.recovery_action'',
         ''details.recovery_transaction_id'',
         ''details.previous_trusted_prefix'',
         ''details.quarantine_path'',
         ''details.threat_model'',
         ''details.audit_generation'']),
       kv ''nullable'' (strl [''from_state'',
         ''to_state'',
         ''transition_id'',
         ''policy_evaluation_binding'',
         ''decision_resolution_binding'']),
       kv ''empty'' (strl [''evidence_bindings'']),
       kv ''generation_role'' (PDict
        [kv ''sequence'' (PInt 1),
         kv ''minimum_generation'' (PInt 2),
         kv ''first_event_type'' (PStr ''RECOVERY_RECORDED'')]),
       kv ''context_bindings'' (PDict [])]),
     kv ''ROLLBACK_RECORDED'' (PDict
      [kv ''required'' (strl [''details.recovery_id'',
         ''details.recovery_action'',
         ''details.recovery_transaction_id'',
         ''details.previous_trusted_prefix'',
         ''details.quarantine_path'',
         ''details.threat_model'',
         ''details.audit_generation'']),
       kv ''nullable'' (strl [''from_state'',
         ''to_state'',
         ''transition_id'',
         ''policy_evaluation_binding'',
         ''decision_resolution_binding'']),
       kv ''empty'' (strl [''evidence_bindings'']),
       kv ''generation_role'' (PDict
        [kv ''sequence'' (PInt 1),
         kv ''minimum_generation'' (PInt 2),
         kv ''first_event_type'' (PStr ''ROLLBACK_RECORDED'')]),
       kv ''context_bindings'' (PDict [])])]"

subsection \<open>Exact comparison\<close>

definition catalog_issue :: "bool \<Rightarrow> string \<Rightarrow> string \<Rightarrow> guard" where
  "catalog_issue b path message = invalid_if b ''WORKFLOW_TRANSACTION_INCOMPLETE'' path message"

lemma catalog_issue_None [simp]: "catalog_issue b path message = None \<longleftrightarrow> \<not> b"
  by (simp add: catalog_issue_def)

text \<open>The first of a set of keys as \<open>sorted\<close> orders them; keys of mixed types do not compare.\<close>

definition least_key :: "pyval list \<Rightarrow> pyval res" where
  "least_key ks = (case ks of
     [] \<Rightarrow> Inl (PyError ''IndexError'')
   | [k] \<Rightarrow> Inr k
   | _ \<Rightarrow> (if list_all is_str ks then Inr (hd (sort_key str_of ks))
          else if list_all (\<lambda>k. num_of k \<noteq> None) ks then Inr (hd (sort_key (\<lambda>k. the (num_of k)) ks))
          else Inl TypeError))"

definition keys_guard :: "pyval list \<Rightarrow> string \<Rightarrow> string \<Rightarrow> guard" where
  "keys_guard ks path message =
     (if ks = [] then None else case least_key ks of
        Inl e \<Rightarrow> Some e
      | Inr k \<Rightarrow> catalog_issue True (path @ ''.'' @ py_str k) message)"

lemma keys_guard_None [simp]: "keys_guard ks path message = None \<longleftrightarrow> ks = []"
  by (simp add: keys_guard_def catalog_issue_def invalid_if_def fail_if_def split: sum.splits)

lemma entry_size: "p \<in> set e \<Longrightarrow> size (snd p) < Suc (size_list (size_prod size size) e)"
  by (induction e) auto

function exact_catalog_value :: "pyval \<Rightarrow> pyval \<Rightarrow> string \<Rightarrow> guard" where
  "exact_catalog_value actual expected path =
     (case expected of
        PDict e \<Rightarrow>
          (if \<not> is_dict actual then catalog_issue True path ''catalog node must be a mapping''
           else let a = entries actual in first_err
             ([keys_guard (filter (\<lambda>k. k \<notin> set (map fst e)) (map fst a)) path ''unknown catalog node'',
               keys_guard (filter (\<lambda>k. k \<notin> set (map fst a)) (map fst e)) path ''missing catalog node''] @
              map (\<lambda>p. exact_catalog_value (dget a (str_of (fst p))) (snd p) (path @ ''.'' @ py_str (fst p))) e))
      | PList xs \<Rightarrow>
          (if \<not> is_list actual then catalog_issue True path ''catalog node must be a list''
           else first_err
             [catalog_issue (\<not> distinct (map canonical_json (elems actual))) path ''catalog list values must be unique'',
              catalog_issue (\<not> py_eq actual expected) path ''catalog list values are invalid''])
      | _ \<Rightarrow> catalog_issue (actual \<noteq> expected) path ''catalog scalar value is invalid'')"
  by pat_completeness auto
termination
  by (relation "measure (\<lambda>(actual, expected, path). size expected)") (auto dest!: entry_size)

declare exact_catalog_value.simps [simp del]

lemma numbered_size: "(i, x) \<in> set (numbered k xs) \<Longrightarrow> size x < Suc (size_list size xs)"
  by (induction xs arbitrary: k) fastforce+

text \<open>The paths of the leaves, in the order of the document.\<close>

function catalog_leaf_paths :: "pyval \<Rightarrow> string \<Rightarrow> string list" where
  "catalog_leaf_paths v path =
     (case v of
        PDict d \<Rightarrow> concat (map (\<lambda>p. catalog_leaf_paths (snd p) (path @ ''.'' @ py_str (fst p))) d)
      | PList xs \<Rightarrow> (if xs = [] then [path]
          else concat (map (\<lambda>(i, x). catalog_leaf_paths x (item_path path i)) (numbered 0 xs)))
      | _ \<Rightarrow> [path])"
  by pat_completeness auto

termination
  by (relation "measure (\<lambda>(v, path). size v)") (auto dest!: entry_size numbered_size)

declare catalog_leaf_paths.simps [simp del]

subsection \<open>The catalog\<close>

text \<open>The leaves of the three tables of a catalog, and of the code's own.\<close>

definition leaf_paths_of :: "pyval \<Rightarrow> pyval \<Rightarrow> pyval \<Rightarrow> string list" where
  "leaf_paths_of graphs recovery matrix =
     catalog_leaf_paths graphs ''task1_invariants.operation_graphs'' @
     catalog_leaf_paths recovery ''task1_invariants.recovery_graph'' @
     catalog_leaf_paths matrix ''task1_invariants.event_type_matrix''"

definition consumed_node_coverage :: "pydict \<Rightarrow> guard" where
  "consumed_node_coverage catalog =
     (let accepted = leaf_paths_of (dget catalog ''operation_graphs'') (dget catalog ''recovery_graph'')
            (dget catalog ''event_type_matrix'');
          consumed = leaf_paths_of TASK1_OPERATION_GRAPH_EXPECTED TASK1_RECOVERY_GRAPH_EXPECTED
            TASK1_EVENT_TYPE_MATRIX_EXPECTED;
          unconsumed = sort (filter (\<lambda>p. p \<notin> set consumed) accepted);
          missing = sort (filter (\<lambda>p. p \<notin> set accepted) consumed) in
      first_err
        [catalog_issue (unconsumed \<noteq> []) (hd unconsumed) ''accepted catalog leaf is not consumed by the runtime'',
         catalog_issue (missing \<noteq> []) (hd missing) ''consumed catalog leaf is missing''])"

text \<open>\<open>len(xs) != len(set(xs))\<close> for a list value.\<close>

fun distinct_by :: "('a \<Rightarrow> 'a \<Rightarrow> bool) \<Rightarrow> 'a list \<Rightarrow> bool" where
  "distinct_by eq [] = True"
| "distinct_by eq (x # xs) \<longleftrightarrow> list_all (\<lambda>y. \<not> eq x y) xs \<and> distinct_by eq xs"

definition unique_list_guard :: "pyval \<Rightarrow> string \<Rightarrow> string \<Rightarrow> guard" where
  "unique_list_guard v path message =
     (if \<not> is_list v then catalog_issue True path message
      else if \<not> list_all hashable (elems v) then Some TypeError
      else catalog_issue (\<not> distinct_by atom_eq (elems v)) path message)"

definition dsl_guards :: "pyval \<Rightarrow> guard" where
  "dsl_guards dsl =
     (let here = ''task1_invariants.invariant_dsl''; opcodes = vget dsl ''opcodes'' in first_err
       [catalog_issue (\<not> is_dict dsl \<or> \<not> same_fields dsl TASK1_INVARIANT_DSL_FIELDS) here
          ''invariant DSL declaration is invalid'',
        catalog_issue (\<not> eq_int (vget dsl ''schema_version'') 1) (here @ ''.schema_version'')
          ''unsupported invariant DSL version'',
        catalog_issue (vget dsl ''schema_authority'' \<noteq> PStr ''CODE_OWNED_FIXED_SCHEMA'') (here @ ''.schema_authority'')
          ''schema authority must be code-owned'',
        catalog_issue (vget dsl ''field_path_policy'' \<noteq> PStr ''CODE_OWNED_DOTTED_PATHS'') (here @ ''.field_path_policy'')
          ''field path policy must be code-owned'',
        unique_list_guard opcodes (here @ ''.opcodes'') ''invariant DSL opcodes are invalid'',
        catalog_issue (set (elems opcodes) \<noteq> set (map PStr TASK1_ALLOWED_INVARIANT_DSL_OPCODES)) (here @ ''.opcodes'')
          ''invariant DSL opcodes are invalid''])"

definition operation_graph_guards :: "string \<Rightarrow> pyval \<Rightarrow> guard" where
  "operation_graph_guards name graph =
     (let here = ''task1_invariants.operation_graphs.'' @ name  in
      first_err
       ([catalog_issue (\<not> is_dict graph \<or> \<not> same_fields graph (the (map_of TASK1_OPERATION_GRAPH_FIELDS name))) here
           ''operation graph fields are invalid''] @
        map (\<lambda>(f, v). catalog_issue (vget graph f \<noteq> PStr v) (here @ ''.'' @ f) ''operation graph constant is invalid'')
          (the (map_of TASK1_OPERATION_GRAPH_CONSTANTS name)) @
        map (\<lambda>(f, v). catalog_issue ((ends_with ''_bindings'' (str_of f) \<or> f = PStr ''binding_copies'') \<and> \<not> is_dict v)
            (here @ ''.'' @ py_str f) ''binding table must be a mapping'') (entries graph) @
        (if name = ''initialization'' then
          map (\<lambda>(f, v). catalog_issue (v \<noteq> PNone) (here @ ''.state_null_bindings.'' @ py_str f)
            ''state-null binding values must be null'') (entries (vget graph ''state_null_bindings''))
         else [])))"

definition recovery_graph_guards :: "pyval \<Rightarrow> guard" where
  "recovery_graph_guards graph =
     (let here = ''task1_invariants.recovery_graph'' in first_err
       ([catalog_issue (\<not> is_dict graph) here ''recovery graph fields are invalid''] @
        map (\<lambda>f. catalog_issue (\<not> dhas (entries graph) f) (here @ ''.'' @ f) ''missing recovery graph field'')
          TASK1_RECOVERY_GRAPH_FIELDS @
        map (\<lambda>p. catalog_issue (fst p \<notin> set (map PStr TASK1_RECOVERY_GRAPH_FIELDS)) (here @ ''.'' @ py_str (fst p))
          ''unknown recovery graph field'') (entries graph) @
        [unique_list_guard (vget graph ''recovery_reason_registry'') (here @ ''.recovery_reason_registry'')
           ''recovery reason registry must be a unique list''] @
        map (\<lambda>f. catalog_issue (\<not> is_dict (vget graph f)) (here @ ''.'' @ f) ''recovery graph table must be a mapping'')
          (filter (\<lambda>f. f \<noteq> ''recovery_reason_registry'') TASK1_RECOVERY_GRAPH_FIELDS)))"

definition event_role_guards :: "string \<Rightarrow> pyval \<Rightarrow> guard" where
  "event_role_guards event roles =
     (let here = ''task1_invariants.event_type_matrix.'' @ event; lookup = (\<lambda>table. the (map_of table event));
          role = vget roles ''generation_role''; context = vget roles ''context_bindings'' in
      first_err
       ([catalog_issue (\<not> is_dict roles \<or> \<not> same_fields roles (lookup TASK1_EVENT_TYPE_ROLE_FIELDS)) here
           ''event roles are invalid'',
         catalog_issue (\<not> is_dict role \<or> \<not> same_fields role (lookup TASK1_EVENT_GENERATION_ROLE_FIELDS))
           (here @ ''.generation_role'') ''event generation role is invalid'',
         catalog_issue (\<not> is_dict context \<or> \<not> same_fields context (lookup TASK1_EVENT_CONTEXT_BINDING_FIELDS))
           (here @ ''.context_bindings'') ''event context bindings are invalid''] @
        map (\<lambda>f. if dhas (entries roles) f
             then unique_list_guard (vget roles f) (here @ ''.'' @ f) ''event role paths must be a unique list''
             else None) [''required'', ''nullable'', ''empty'', ''non_empty'']))"

definition matrix_guards :: "pyval \<Rightarrow> guard" where
  "matrix_guards matrix = first_err
     (catalog_issue (\<not> is_dict matrix \<or> \<not> same_fields matrix EVENT_TYPES) ''task1_invariants.event_type_matrix''
        ''event-type matrix must cover all audit event types'' #
      map (\<lambda>(event, roles). event_role_guards (str_of event) roles) (entries matrix))"

definition graph_guards :: "pyval \<Rightarrow> guard" where
  "graph_guards graphs = first_err
     (catalog_issue (\<not> is_dict graphs \<or> \<not> same_fields graphs [''initialization'', ''transition''])
        ''task1_invariants.operation_graphs'' ''operation graphs must cover initialization and transition'' #
      map (\<lambda>(name, graph). operation_graph_guards (str_of name) graph) (entries graphs))"

definition exact_tables :: "pydict \<Rightarrow> guard" where
  "exact_tables c = first_err
     [exact_catalog_value (dget c ''operation_graphs'') TASK1_OPERATION_GRAPH_EXPECTED ''task1_invariants.operation_graphs'',
      exact_catalog_value (dget c ''recovery_graph'') TASK1_RECOVERY_GRAPH_EXPECTED ''task1_invariants.recovery_graph'',
      exact_catalog_value (dget c ''event_type_matrix'') TASK1_EVENT_TYPE_MATRIX_EXPECTED ''task1_invariants.event_type_matrix'']"

definition validate_task1_invariant_catalog :: "pyval \<Rightarrow> guard" where
  "validate_task1_invariant_catalog catalog =
     (let c = entries catalog in first_err
       [catalog_issue (\<not> is_dict catalog) ''task1_invariants'' ''invariant catalog must be a mapping'',
        catalog_issue (dhas c ''catalog_schema'') ''task1_invariants.catalog_schema''
          ''catalog must not define its own schema'',
        catalog_issue (\<not> same_fields catalog TASK1_INVARIANT_CATALOG_FIELDS) ''task1_invariants''
          ''invariant catalog top-level fields are invalid'',
        catalog_issue (\<not> eq_int (dget c ''schema_version'') 1 \<or> dget c ''catalog_id'' \<noteq> PStr ''WP3_TASK1_INVARIANTS.v1'')
          ''task1_invariants.catalog_id'' ''unsupported invariant catalog'',
        dsl_guards (dget c ''invariant_dsl''),
        exact_tables c,
        consumed_node_coverage c,
        graph_guards (dget c ''operation_graphs''),
        recovery_graph_guards (dget c ''recovery_graph''),
        matrix_guards (dget c ''event_type_matrix'')])"

text \<open>
  \<open>_load_task1_invariants\<close>: the argument is what reading and parsing the file gave, the text of
  the exception or the document.
\<close>

definition load_task1_invariants :: "string + pyval \<Rightarrow> exn + pyval" where
  "load_task1_invariants parsed = (case parsed of
     Inl text \<Rightarrow> Inl (invalid_outcome ''WORKFLOW_TRANSACTION_INCOMPLETE'' ''task1_invariants'' text)
   | Inr catalog \<Rightarrow> guarded (validate_task1_invariant_catalog catalog) (Inr catalog))"

subsection \<open>An accepted catalog is the code's own\<close>

text \<open>
  Walking a path of names through an accepted table reaches what the code's table has there: the
  same scalar, or the same list of texts.
\<close>

lemma exact_node:
  "exact_catalog_value a e path = None \<Longrightarrow>
     (case e of
        PDict d \<Rightarrow> is_dict a \<and> (\<forall>(k, w) \<in> set d. \<forall>n. k = PStr n \<longrightarrow> dhas (entries a) n \<and>
          (\<exists>q. exact_catalog_value (dget (entries a) n) w q = None))
      | PList xs \<Rightarrow> py_eq a e | _ \<Rightarrow> a = e)"
  by (subst (asm) exact_catalog_value.simps)
     (auto simp: Let_def filter_empty_conv dhas_iff_key split: pyval.splits if_split_asm;
      metis fst_conv snd_conv projections(1))

definition settled :: "pyval \<Rightarrow> bool" where
  "settled w \<longleftrightarrow> (case w of PDict d \<Rightarrow> False | PList xs \<Rightarrow> list_all is_str xs | _ \<Rightarrow> True)"

lemma exact_settled:
  assumes "exact_catalog_value a w q = None" "settled w"
  shows "a = w"
proof (cases w)
  case (PList xs)
  then have "map PStr (map str_of xs) = xs"
    using assms(2) by (simp add: settled_def list_all_iff map_idI is_str_str_of)
  moreover have "py_eq a w" using exact_node [OF assms(1)] PList by simp
  ultimately show ?thesis using PList by (metis py_eq_list_strs_right)
qed (use exact_node [OF assms(1)] assms(2) in \<open>auto simp: settled_def\<close>)

lemma exact_walk:
  "exact_catalog_value a e path = None \<Longrightarrow> walk_path e ns = Some w \<Longrightarrow> settled w \<Longrightarrow> walk_path a ns = Some w"
proof (induction ns arbitrary: a e path)
  case Nil
  then show ?case using exact_settled by simp
next
  case (Cons n ns)
  then obtain d u where d: "e = PDict d" "dlookup d n = Some u" "walk_path u ns = Some w"
    by (auto split: pyval.splits option.splits)
  from exact_node [OF Cons.prems(1)] d(1) dlookup_mem [OF d(2)] obtain q where
    q: "is_dict a" "dhas (entries a) n" "exact_catalog_value (dget (entries a) n) u q = None" by fastforce
  from Cons.IH [OF q(3) d(3) Cons.prems(3)] have "walk_path (dget (entries a) n) ns = Some w" .
  then show ?case using q(1,2) by (auto simp: is_dict_iff dhas_def dget_def)
qed

lemma catalog_tables_exact:
  assumes "validate_task1_invariant_catalog (PDict c) = None"
  shows "exact_catalog_value (dget c ''event_type_matrix'') TASK1_EVENT_TYPE_MATRIX_EXPECTED ''task1_invariants.event_type_matrix'' = None"
    "exact_catalog_value (dget c ''operation_graphs'') TASK1_OPERATION_GRAPH_EXPECTED ''task1_invariants.operation_graphs'' = None"
    "exact_catalog_value (dget c ''recovery_graph'') TASK1_RECOVERY_GRAPH_EXPECTED ''task1_invariants.recovery_graph'' = None"
proof -
  have "exact_tables c = None"
    using assms unfolding validate_task1_invariant_catalog_def Let_def
    by (metis first_err_mem list.set_intros(1,2) projections(3))
  then show "exact_catalog_value (dget c ''event_type_matrix'') TASK1_EVENT_TYPE_MATRIX_EXPECTED ''task1_invariants.event_type_matrix'' = None"
    "exact_catalog_value (dget c ''operation_graphs'') TASK1_OPERATION_GRAPH_EXPECTED ''task1_invariants.operation_graphs'' = None"
    "exact_catalog_value (dget c ''recovery_graph'') TASK1_RECOVERY_GRAPH_EXPECTED ''task1_invariants.recovery_graph'' = None"
    by (simp_all add: exact_tables_def)
qed

end
