(* ===== verification/Workflow_Audit.thy ===== *)
theory Workflow_Audit
  imports Workflow_Records Workflow_Catalog
begin

text \<open>
  Audit events (\<open>validate_audit_event\<close> of \<open>acgps/workflow_contracts.py\<close>): the checks every event
  has, those of its type, and the ones the invariant catalog adds. The argument \<open>cat\<close> is what
  \<open>_load_task1_invariants\<close> returned.
\<close>

definition AUDIT_EVENT_FIELDS :: "string list" where
  "AUDIT_EVENT_FIELDS =
    [''schema_version'', ''event_id'', ''generation'', ''sequence'', ''project_id'', ''task_id'',
     ''event_type'', ''actor'', ''from_state'', ''to_state'', ''transition_id'',
     ''policy_evaluation_binding'', ''evidence_bindings'', ''decision_resolution_binding'',
     ''previous_event_hash'', ''event_hash'', ''created_at_utc'', ''details'']"

subsection \<open>The checks of every event\<close>

definition event_head_guards :: "pydict \<Rightarrow> guard" where
  "event_head_guards d =
     (let code = ''WORKFLOW_AUDIT_CORRUPT'' in first_err
       [with_code code (exact_mapping d AUDIT_EVENT_FIELDS ''audit event'' []),
        with_code code (first_err
         [check_version (dget d ''schema_version'') ''schema_version'',
          check_safe_id (dget d ''event_id'') ''event_id'',
          check_positive (dget d ''generation'') ''generation'',
          check_positive (dget d ''sequence'') ''sequence'',
          check_safe_id (dget d ''project_id'') ''project_id'',
          check_safe_id (dget d ''task_id'') ''task_id'',
          check_member (dget d ''event_type'') EVENT_TYPES ''event_type'' code,
          check_member (dget d ''actor'') ACTORS ''actor'' ''WORKFLOW_INVALID_INPUT'',
          check_sha (dget d ''event_hash'') ''event_hash'',
          check_utc (dget d ''created_at_utc'') ''created_at_utc'']),
        check_state_or_null d ''from_state'' ''unknown workflow state'',
        check_state_or_null d ''to_state'' ''unknown workflow state'',
        with_code code (unless_null check_safe_id (dget d ''transition_id'') ''transition_id''),
        with_code code (unless_null check_sha (dget d ''previous_event_hash'') ''previous_event_hash''),
        audit_corrupt (dget d ''sequence'' = PInt 1 \<and> dget d ''previous_event_hash'' \<noteq> PNone) ''previous_event_hash''
          ''sequence 1 must not have previous_event_hash'',
        audit_corrupt (int_from 2 (dget d ''sequence'') \<and> dget d ''previous_event_hash'' = PNone) ''previous_event_hash''
          ''sequence greater than 1 requires previous_event_hash'',
        audit_corrupt (dget d ''event_type'' = PStr ''TASK_CREATED'' \<and>
            (dget d ''generation'' \<noteq> PInt 1 \<or> dget d ''sequence'' \<noteq> PInt 1)) ''event_type''
          ''TASK_CREATED is only valid for generation 1 sequence 1'',
        audit_corrupt (\<not> is_dict (dget d ''details'')) ''details'' ''details must be a mapping''])"

definition event_binding_guards :: "(string \<Rightarrow> string) \<Rightarrow> pydict \<Rightarrow> guard" where
  "event_binding_guards sha d =
     (let code = ''WORKFLOW_AUDIT_CORRUPT''; policy = dget d ''policy_evaluation_binding'';
          decision = dget d ''decision_resolution_binding'' in first_err
       [with_code code (validate_evidence_binding_list sha (dget d ''evidence_bindings'') ''evidence_bindings''),
        (if policy = PNone then None else first_err
          [with_code code (validate_policy_evaluation_binding sha policy),
           audit_corrupt (dget d ''event_type'' = PStr ''TRANSITION_ACCEPTED'' \<and> vget policy ''source'' \<noteq> PStr ''embedded'')
             ''policy_evaluation_binding.source''
             ''Task 1 transition audit validation requires an embedded validated policy result'']),
        (if decision = PNone then None
         else with_code code (validate_human_decision_resolution_binding sha decision PNone PNone PNone))])"

subsection \<open>The checks of each type\<close>

text \<open>The record of the generation an event starts agrees with the event.\<close>

definition generation_equal :: "pydict \<Rightarrow> string \<Rightarrow> pyval \<Rightarrow> string \<Rightarrow> guard" where
  "generation_equal d field expected message =
     require_equal (vget (vget (dget d ''details'') ''audit_generation'') field) expected
       (''details.audit_generation.'' @ field) message ''WORKFLOW_AUDIT_CORRUPT''"

definition task_created_guards :: "pydict \<Rightarrow> guard" where
  "task_created_guards d = first_err
     (map (\<lambda>f. audit_corrupt (dget d f \<noteq> PNone) f ''TASK_CREATED must not carry transition fields'')
        [''transition_id'', ''from_state'', ''to_state''] @
      [audit_corrupt (dget d ''policy_evaluation_binding'' \<noteq> PNone \<or> dget d ''decision_resolution_binding'' \<noteq> PNone)
         ''policy_evaluation_binding'' ''TASK_CREATED must not carry policy or decision bindings'',
       audit_corrupt (\<not> same_fields (dget d ''details'') [''audit_generation'']) ''details.audit_generation''
         ''TASK_CREATED requires only details.audit_generation'',
       with_code ''WORKFLOW_AUDIT_CORRUPT'' (validate_audit_generation (vget (dget d ''details'') ''audit_generation'')),
       generation_equal d ''generation'' (PInt 1) ''TASK_CREATED must start generation 1'',
       generation_equal d ''task_id'' (dget d ''task_id'') ''audit generation task_id must match event'',
       generation_equal d ''started_by_event_id'' (dget d ''event_id'') ''audit generation starter must match event'',
       generation_equal d ''started_by_event_type'' (PStr ''TASK_CREATED'') ''generation 1 must start with TASK_CREATED''])"

definition transition_accepted_guards :: "pydict \<Rightarrow> guard" where
  "transition_accepted_guards d = first_err
     (map (\<lambda>f. audit_corrupt (dget d f = PNone) f ''TRANSITION_ACCEPTED requires workflow states'')
        [''from_state'', ''to_state''] @
      [audit_corrupt (\<not> is_str (dget d ''transition_id'')) ''transition_id'' ''TRANSITION_ACCEPTED requires transition_id'',
       audit_corrupt (dget d ''policy_evaluation_binding'' = PNone) ''policy_evaluation_binding''
         ''TRANSITION_ACCEPTED requires policy binding'',
       audit_corrupt (elems (dget d ''evidence_bindings'') = []) ''evidence_bindings''
         ''TRANSITION_ACCEPTED requires evidence bindings''])"

definition recovery_detail_fields :: "string list" where
  "recovery_detail_fields =
    [''recovery_id'', ''recovery_action'', ''recovery_transaction_id'', ''previous_trusted_prefix'',
     ''quarantine_path'', ''threat_model'', ''audit_generation'']"

definition recovery_event_guards :: "pydict \<Rightarrow> guard" where
  "recovery_event_guards d =
     (let code = ''WORKFLOW_AUDIT_CORRUPT''; details = dget d ''details''; trusted = vget details ''previous_trusted_prefix'' in
      first_err
       [audit_corrupt (dget d ''event_type'' \<notin> set (map PStr RECOVERY_EVENT_TYPES)) ''event_type'' ''unknown audit event type'',
        audit_corrupt (dget d ''sequence'' \<noteq> PInt 1) ''sequence'' ''recovery events must start an audit generation'',
        audit_corrupt (dget d ''previous_event_hash'' \<noteq> PNone) ''previous_event_hash''
          ''generation-start recovery events must not have previous_event_hash'',
        audit_corrupt (\<not> same_fields details recovery_detail_fields) ''details''
          ''recovery events require exact generation-start details'',
        with_code code (validate_trusted_prefix trusted ''details.previous_trusted_prefix''),
        with_code code (first_err
         [check_safe_id (vget details ''recovery_id'') ''details.recovery_id'',
          check_safe_id (vget details ''recovery_transaction_id'') ''details.recovery_transaction_id'',
          check_member (vget details ''recovery_action'') RECOVERY_ACTIONS ''details.recovery_action'' code,
          check_member (vget details ''threat_model'') THREAT_MODELS ''details.threat_model'' code]),
        path_guard (vget details ''quarantine_path'') code ''details.quarantine_path''
          ''quarantine_path must be safe relative POSIX path'',
        with_code code (validate_audit_generation (vget details ''audit_generation'')),
        audit_corrupt (dget d ''event_type'' \<noteq>
            (if vget details ''recovery_action'' = PStr ''rollback_to_valid_prefix'' then PStr ''ROLLBACK_RECORDED''
             else PStr ''RECOVERY_RECORDED'')) ''event_type'' ''event_type must match recovery action'',
        generation_equal d ''generation'' (dget d ''generation'') ''audit generation must match event generation'',
        generation_equal d ''task_id'' (dget d ''task_id'') ''audit generation task_id must match event'',
        generation_equal d ''started_by_event_id'' (dget d ''event_id'') ''audit generation starter must match event'',
        generation_equal d ''started_by_event_type'' (dget d ''event_type'') ''audit generation starter type must match event'',
        generation_equal d ''predecessor_generation'' (vget trusted ''generation'') ''predecessor generation must match trusted prefix'',
        generation_equal d ''predecessor_valid_head_hash'' (vget trusted ''event_hash'') ''predecessor hash must match trusted prefix'',
        generation_equal d ''quarantine_path'' (vget details ''quarantine_path'')
          ''audit generation quarantine path must match details'',
        generation_equal d ''threat_model'' (vget details ''threat_model'')
          ''audit generation threat model must match details''])"

definition event_type_guards :: "pydict \<Rightarrow> guard" where
  "event_type_guards d =
     (if dget d ''event_type'' = PStr ''TASK_CREATED'' then task_created_guards d
      else if dget d ''event_type'' = PStr ''TRANSITION_ACCEPTED'' then transition_accepted_guards d
      else recovery_event_guards d)"

subsection \<open>The checks of the catalog\<close>

definition with_catalog :: "exn + pyval \<Rightarrow> (pyval \<Rightarrow> guard) \<Rightarrow> guard" where
  "with_catalog cat check = (case cat of
     Inl e \<Rightarrow> with_code ''WORKFLOW_AUDIT_CORRUPT'' (Some e) | Inr c \<Rightarrow> check c)"

definition event_roles :: "pyval \<Rightarrow> pydict \<Rightarrow> pyval" where
  "event_roles catalog d = vget (vget catalog ''event_type_matrix'') (str_of (dget d ''event_type''))"

text \<open>The paths a role lists; the role may be absent.\<close>

definition role_paths :: "pyval \<Rightarrow> string \<Rightarrow> string list" where
  "role_paths roles role = map str_of (elems (vget roles role))"

definition field_matrix_guards :: "pyval \<Rightarrow> pydict \<Rightarrow> guard" where
  "field_matrix_guards catalog d =
     (let roles = event_roles catalog d; here = (\<lambda>path. get_path (PDict d) path) in first_err
       (map (\<lambda>path. audit_corrupt (\<not> is_present (PDict d) path) path ''audit event type requires this field'')
          (role_paths roles ''required'') @
        (if dget d ''event_type'' \<in> set (map PStr [''TASK_CREATED'', ''RECOVERY_RECORDED'', ''ROLLBACK_RECORDED'']) then
          map (\<lambda>path. audit_corrupt (here path \<noteq> PNone) path ''audit event type requires this field to be null'')
            (role_paths roles ''nullable'')
         else []) @
        map (\<lambda>path. audit_corrupt (here path \<noteq> PList []) path ''audit event type requires this field to be empty'')
          (role_paths roles ''empty'') @
        map (\<lambda>path. audit_corrupt (\<not> is_list (here path) \<or> here path = PList []) path
            ''audit event type requires a non-empty list'') (role_paths roles ''non_empty'')))"

definition num_less :: "pyval \<Rightarrow> pyval \<Rightarrow> bool" where
  "num_less a b = (case (num_of a, num_of b) of (Some x, Some y) \<Rightarrow> x < y | _ \<Rightarrow> False)"

definition generation_role_guards :: "pyval \<Rightarrow> pydict \<Rightarrow> guard" where
  "generation_role_guards catalog d =
     (let role = vget (event_roles catalog d) ''generation_role''; r = entries role; sequence = dget d ''sequence'';
          generation = dget d ''generation'' in
      first_err
       [audit_corrupt (\<not> is_dict role) ''task1_invariants.event_type_matrix.generation_role''
          ''generation role must be a mapping'',
        audit_corrupt (dhas r ''sequence_must_not_be'' \<and> py_eq sequence (dget r ''sequence_must_not_be'')) ''event_type''
          ''event type is not valid as a generation starter'',
        audit_corrupt (dhas r ''sequence'' \<and> \<not> py_eq sequence (dget r ''sequence'')) ''sequence''
          ''event generation role sequence mismatch'',
        audit_corrupt (dhas r ''generation'' \<and> \<not> py_eq generation (dget r ''generation'')) ''generation''
          ''event generation role mismatch'',
        audit_corrupt (dhas r ''minimum_generation'' \<and> num_less generation (dget r ''minimum_generation'')) ''generation''
          ''event generation is below role minimum'',
        audit_corrupt (sequence = PInt 1 \<and> dget d ''event_type'' \<noteq> dget r ''first_event_type'') ''event_type''
          ''first event type does not match generation role''])"

definition context_policy_guards :: "pyval \<Rightarrow> pydict \<Rightarrow> guard" where
  "context_policy_guards context d =
     (let embedded = vget (dget d ''policy_evaluation_binding'') ''embedded_record'' in
      if embedded = PNone then None
      else first_err (concat (map (\<lambda>(f, key).
        [audit_corrupt (\<not> is_str (vget context key)) ''task1_invariants.event_type_matrix.context_bindings''
           ''policy context binding is invalid'',
         require_equal (vget embedded f) (dget d (str_of (vget context key)))
           (''policy_evaluation_binding.embedded_record.'' @ f) ''policy binding context must match audit event''
           ''WORKFLOW_AUDIT_CORRUPT''])
        [(''project_id'', ''policy_project_id''), (''task_id'', ''policy_task_id'')])))"

definition context_decision_guards :: "(string \<Rightarrow> string) \<Rightarrow> pyval \<Rightarrow> pydict \<Rightarrow> guard" where
  "context_decision_guards sha context d =
     (let source = vget context ''decision_only_from_state''; decision = dget d ''decision_resolution_binding'' in
      if decision \<noteq> PNone then first_err
        [audit_corrupt (\<not> py_eq (dget d ''from_state'') source) ''decision_resolution_binding''
           ''decision binding is only valid from the catalog-declared source state'',
         with_code ''WORKFLOW_AUDIT_CORRUPT'' (validate_human_decision_resolution_binding sha decision
           (dget d ''to_state'') (dget d ''project_id'') (dget d ''task_id''))]
      else audit_corrupt (py_eq (dget d ''from_state'') source) ''decision_resolution_binding''
        ''catalog-declared human-resume transition requires decision binding'')"

definition context_guards :: "(string \<Rightarrow> string) \<Rightarrow> pyval \<Rightarrow> pydict \<Rightarrow> guard" where
  "context_guards sha catalog d =
     (let context = vget (event_roles catalog d) ''context_bindings''; policy = dget d ''policy_evaluation_binding'';
          target = vget context ''policy_authorizes_to_state'' in
      if \<not> is_dict context then
        audit_corrupt True ''task1_invariants.event_type_matrix.context_bindings'' ''context bindings must be a mapping''
      else if dget d ''event_type'' \<noteq> PStr ''TRANSITION_ACCEPTED'' then None
      else first_err
       [audit_corrupt (\<not> is_dict policy) ''policy_evaluation_binding'' ''transition audit requires policy binding'',
        context_policy_guards context d,
        audit_corrupt (is_str target \<and> \<not> mem_list (dget d (str_of target)) (elems (vget policy ''authorized_transitions'')))
          ''policy_evaluation_binding.authorized_transitions'' ''policy binding does not authorize audit event target'',
        context_decision_guards sha context d])"

subsection \<open>The validator\<close>

definition event_hash_of :: "(string \<Rightarrow> string) \<Rightarrow> pydict \<Rightarrow> pyval" where
  "event_hash_of sha d = canonical_sha sha (PDict (dset d (PStr ''event_hash'') PNone))"

definition validate_audit_event :: "(string \<Rightarrow> string) \<Rightarrow> exn + pyval \<Rightarrow> pyval \<Rightarrow> guard" where
  "validate_audit_event sha cat record =
     (if \<not> is_dict record then audit_corrupt True ''$'' ''audit event must be a mapping''
      else let d = entries record in first_err
       [event_head_guards d,
        event_binding_guards sha d,
        event_type_guards d,
        with_catalog cat (\<lambda>c. field_matrix_guards c d),
        with_catalog cat (\<lambda>c. generation_role_guards c d),
        with_catalog cat (\<lambda>c. context_guards sha c d),
        audit_corrupt (dget d ''event_hash'' \<noteq> event_hash_of sha d) ''event_hash''
          ''event_hash does not match canonical audit event bytes''])"

subsection \<open>What an accepted event gives\<close>

lemma event_guards:
  assumes "validate_audit_event sha cat (PDict d) = None"
  shows "event_head_guards d = None" "event_binding_guards sha d = None" "event_type_guards d = None"
    "with_catalog cat (\<lambda>c. field_matrix_guards c d) = None"
    "with_catalog cat (\<lambda>c. generation_role_guards c d) = None"
    "with_catalog cat (\<lambda>c. context_guards sha c d) = None" "dget d ''event_hash'' = event_hash_of sha d"
  using assms by (simp_all add: validate_audit_event_def)

lemma audit_event_dict: "validate_audit_event sha cat v = None \<Longrightarrow> \<exists>d. v = PDict d"
  by (cases v) (auto simp: validate_audit_event_def)

lemma event_head_accepted:
  assumes "event_head_guards d = None"
  shows "\<exists>s. dget d ''event_id'' = PStr s \<and> is_safe_id s" "\<exists>s. dget d ''project_id'' = PStr s \<and> is_safe_id s"
    "\<exists>s. dget d ''task_id'' = PStr s \<and> is_safe_id s" "\<exists>s. dget d ''event_type'' = PStr s \<and> s \<in> set EVENT_TYPES"
    "\<exists>s. dget d ''event_hash'' = PStr s \<and> is_sha256 s" "\<exists>g. dget d ''generation'' = PInt g \<and> 1 \<le> g"
    "\<exists>n. dget d ''sequence'' = PInt n \<and> 1 \<le> n" "\<exists>e. dget d ''details'' = PDict e"
    "dget d ''sequence'' = PInt 1 \<longleftrightarrow> dget d ''previous_event_hash'' = PNone"
    "dget d ''event_type'' = PStr ''TASK_CREATED'' \<Longrightarrow> dget d ''generation'' = PInt 1 \<and> dget d ''sequence'' = PInt 1"
    "dget d ''from_state'' = PNone \<or> (\<exists>s. dget d ''from_state'' = PStr s \<and> s \<in> set TASK_STATES)"
    "dget d ''to_state'' = PNone \<or> (\<exists>s. dget d ''to_state'' = PStr s \<and> s \<in> set TASK_STATES)"
    "dget d ''transition_id'' = PNone \<or> (\<exists>s. dget d ''transition_id'' = PStr s \<and> is_safe_id s)"
proof -
  note ok = assms [unfolded event_head_guards_def Let_def check_state_or_null_None first_err_None list.set ball_simps
      with_code_None value_checks unless_null_None audit_corrupt_None not_not]
  show "\<exists>s. dget d ''event_id'' = PStr s \<and> is_safe_id s" using ok by (elim conjE) (rule textI; assumption)
  show "\<exists>s. dget d ''project_id'' = PStr s \<and> is_safe_id s" using ok by (elim conjE) (rule textI; assumption)
  show "\<exists>s. dget d ''task_id'' = PStr s \<and> is_safe_id s" using ok by (elim conjE) (rule textI; assumption)
  show "\<exists>s. dget d ''event_type'' = PStr s \<and> s \<in> set EVENT_TYPES" using ok by (elim conjE) (rule textI; assumption)
  show "\<exists>s. dget d ''event_hash'' = PStr s \<and> is_sha256 s" using ok by (elim conjE) (rule textI; assumption)
  have optional: "dget d ''from_state'' = PNone \<or> is_str (dget d ''from_state'') \<and> str_of (dget d ''from_state'') \<in> set TASK_STATES"
    "dget d ''to_state'' = PNone \<or> is_str (dget d ''to_state'') \<and> str_of (dget d ''to_state'') \<in> set TASK_STATES"
    "dget d ''transition_id'' = PNone \<or> is_str (dget d ''transition_id'') \<and> is_safe_id (str_of (dget d ''transition_id''))"
    and typed: "is_dict (dget d ''details'')" "int_from 1 (dget d ''generation'')"
    using ok by - (elim conjE, assumption)+
  show "dget d ''from_state'' = PNone \<or> (\<exists>s. dget d ''from_state'' = PStr s \<and> s \<in> set TASK_STATES)"
    "dget d ''to_state'' = PNone \<or> (\<exists>s. dget d ''to_state'' = PStr s \<and> s \<in> set TASK_STATES)"
    "dget d ''transition_id'' = PNone \<or> (\<exists>s. dget d ''transition_id'' = PStr s \<and> is_safe_id s)"
    using optional by (auto simp: is_str_iff)
  show "\<exists>g. dget d ''generation'' = PInt g \<and> 1 \<le> g" "\<exists>e. dget d ''details'' = PDict e"
    using typed by (simp_all only: int_from_iff is_dict_iff)
  have seq: "int_from 1 (dget d ''sequence'')"
    "\<not> (dget d ''sequence'' = PInt 1 \<and> dget d ''previous_event_hash'' \<noteq> PNone)"
    "\<not> (int_from 2 (dget d ''sequence'') \<and> dget d ''previous_event_hash'' = PNone)"
    "\<not> (dget d ''event_type'' = PStr ''TASK_CREATED'' \<and> (dget d ''generation'' \<noteq> PInt 1 \<or> dget d ''sequence'' \<noteq> PInt 1))"
    using ok by - (elim conjE, assumption)+
  then obtain n where n: "dget d ''sequence'' = PInt n" "1 \<le> n" by (auto simp: int_from_iff)
  then show "\<exists>n. dget d ''sequence'' = PInt n \<and> 1 \<le> n" by simp
  show "dget d ''sequence'' = PInt 1 \<longleftrightarrow> dget d ''previous_event_hash'' = PNone"
    using seq(2,3) n by (cases "n = 1") (auto simp: int_from_iff)
  show "dget d ''generation'' = PInt 1 \<and> dget d ''sequence'' = PInt 1" if "dget d ''event_type'' = PStr ''TASK_CREATED''"
    using seq(4) that by blast
qed

text \<open>A path of an accepted catalog leads to what the code's own table has there.\<close>

lemma catalog_role:
  assumes "load_task1_invariants parsed = Inr c"
    and "walk_path TASK1_EVENT_TYPE_MATRIX_EXPECTED [a, b, n] = Some w" "settled w"
  shows "vget (vget (vget (vget c ''event_type_matrix'') a) b) n = w"
proof -
  have ok: "validate_task1_invariant_catalog c = None"
    using assms(1) by (auto simp: load_task1_invariants_def guarded_Inr split: sum.splits)
  from ok have "is_dict c"
    unfolding validate_task1_invariant_catalog_def Let_def by (simp split: if_splits)
  then obtain e where c: "c = PDict e" by (auto simp: is_dict_iff)
  have "walk_path (vget c ''event_type_matrix'') [a, b, n] = Some w"
    using exact_walk [OF catalog_tables_exact(1) assms(2,3)] ok c by simp
  then show ?thesis by (auto simp: vget_def dget_def split: pyval.splits option.splits)
qed

lemma catalog_context:
  assumes "load_task1_invariants parsed = Inr c" "dget d ''event_type'' = PStr ''TRANSITION_ACCEPTED''"
  shows "vget (vget (event_roles c d) ''context_bindings'') ''policy_authorizes_to_state'' = PStr ''to_state''"
    "vget (vget (event_roles c d) ''context_bindings'') ''decision_only_from_state'' = PStr ''WAITING_HUMAN''"
    "vget (vget (event_roles c d) ''context_bindings'') ''policy_project_id'' = PStr ''project_id''"
    "vget (vget (event_roles c d) ''context_bindings'') ''policy_task_id'' = PStr ''task_id''"
  unfolding event_roles_def assms(2) projections
  by (rule catalog_role [OF assms(1)]; simp add: TASK1_EVENT_TYPE_MATRIX_EXPECTED_def settled_def)+

lemma transition_event_accepted:
  assumes ev: "validate_audit_event sha (load_task1_invariants parsed) (PDict d) = None"
    and type: "dget d ''event_type'' = PStr ''TRANSITION_ACCEPTED''"
  obtains p ss src tgt where "dget d ''policy_evaluation_binding'' = PDict p"
    "validate_policy_evaluation_binding sha (PDict p) = None" "dget p ''source'' = PStr ''embedded''"
    "dget d ''from_state'' = PStr src" "dget d ''to_state'' = PStr tgt"
    "dget p ''authorized_transitions'' = PList (map PStr ss)" "tgt \<in> set ss"
    "is_str (dget d ''transition_id'')" "elems (dget d ''evidence_bindings'') \<noteq> []"
    "dget d ''decision_resolution_binding'' \<noteq> PNone \<longleftrightarrow> src = ''WAITING_HUMAN''"
    "src = ''WAITING_HUMAN'' \<Longrightarrow> validate_human_decision_resolution_binding sha (dget d ''decision_resolution_binding'')
       (dget d ''to_state'') (dget d ''project_id'') (dget d ''task_id'') = None"
    "py_eq (vget (dget p ''embedded_record'') ''project_id'') (dget d ''project_id'')"
    "py_eq (vget (dget p ''embedded_record'') ''task_id'') (dget d ''task_id'')"
proof -
  note g = event_guards [OF ev]
  obtain c where c: "load_task1_invariants parsed = Inr c" "context_guards sha c d = None"
    using g(6) by (auto simp: with_catalog_def split: sum.splits)
  let ?policy = "dget d ''policy_evaluation_binding''" and ?decision = "dget d ''decision_resolution_binding''"
  let ?role = "vget (event_roles c d) ''context_bindings''"
  note shape = g(3) [unfolded event_type_guards_def type, simplified, unfolded transition_accepted_guards_def, simplified]
  have bind: "validate_policy_evaluation_binding sha ?policy = None" "vget ?policy ''source'' = PStr ''embedded''"
    using g(2) shape type by (simp_all add: event_binding_guards_def Let_def)
  from bind(1) obtain p ss where p: "?policy = PDict p" "dget p ''authorized_transitions'' = PList (map PStr ss)"
    and tag: "tagged_source sha p None ''policy_evaluation_binding'' = None"
    by (rule policy_accepted) auto
  obtain src tgt where ft: "dget d ''from_state'' = PStr src" "dget d ''to_state'' = PStr tgt"
    using event_head_accepted(11,12) [OF g(1)] shape by auto
  note ctx = catalog_context [OF c(1) type]
  have emb: "dget p ''embedded_record'' \<noteq> PNone" using tagged_source_None [OF tag] bind(2) p(1) by auto
  have inner: "context_policy_guards ?role d = None" "context_decision_guards sha ?role d = None"
    "mem_list (PStr tgt) (map PStr ss)"
    using c(2) ctx type ft p by (auto simp: context_guards_def Let_def split: if_splits)
  have pair: "py_eq (vget (dget p ''embedded_record'') ''project_id'') (dget d ''project_id'')"
    "py_eq (vget (dget p ''embedded_record'') ''task_id'') (dget d ''task_id'')"
    using inner(1) emb by (simp_all add: context_policy_guards_def Let_def ctx p(1))
  have dec: "?decision \<noteq> PNone \<longleftrightarrow> src = ''WAITING_HUMAN''"
    "?decision \<noteq> PNone \<Longrightarrow> validate_human_decision_resolution_binding sha ?decision (PStr tgt)
       (dget d ''project_id'') (dget d ''task_id'') = None"
    using inner(2) by (auto simp: context_decision_guards_def Let_def ctx ft split: if_splits)
  show ?thesis
    by (rule that [OF p(1) _ _ ft p(2) _ _ _ dec(1) _ pair])
       (use bind p(1) inner(3) shape dec ft in \<open>simp_all add: image_iff\<close>)
qed

lemma created_event_accepted:
  assumes ev: "validate_audit_event sha cat (PDict d) = None"
    and type: "dget d ''event_type'' = PStr ''TASK_CREATED''"
  shows "dget d ''generation'' = PInt 1" "dget d ''sequence'' = PInt 1" "dget d ''previous_event_hash'' = PNone"
    "dget d ''decision_resolution_binding'' = PNone" "dget d ''to_state'' = PNone"
    "validate_audit_generation (vget (dget d ''details'') ''audit_generation'') = None"
    "py_eq (vget (vget (dget d ''details'') ''audit_generation'') ''generation'') (PInt 1)"
proof -
  note g = event_guards [OF ev]
  show gen: "dget d ''generation'' = PInt 1" "dget d ''sequence'' = PInt 1"
    using event_head_accepted(10) [OF g(1) type] by simp_all
  then show "dget d ''previous_event_hash'' = PNone" using event_head_accepted(9) [OF g(1)] by simp
  show "dget d ''decision_resolution_binding'' = PNone" "dget d ''to_state'' = PNone"
    "validate_audit_generation (vget (dget d ''details'') ''audit_generation'') = None"
    "py_eq (vget (vget (dget d ''details'') ''audit_generation'') ''generation'') (PInt 1)"
    using g(3) by (simp_all add: event_type_guards_def type task_created_guards_def generation_equal_def)
qed

end
