(* ===== verification/Json_Text.thy ===== *)
theory Json_Text
  imports Canonical_Json
begin

text \<open>
  \<open>json.loads\<close> as the program uses it: the parser of Python's standard library on the texts the
  program stores, and the round trip with \<open>canonical_json\<close>. The parser is exact on texts whose
  numbers are integers, whose characters have code points below 256 and which hold neither NaN
  nor Infinity; a number with a fraction or an exponent becomes its decimal value. The recursion
  is bounded by fuel: two units for each character, which \<open>json_fuel\<close> shows to be enough for
  every text.
\<close>

subsection \<open>The parser\<close>

definition json_space :: "char \<Rightarrow> bool" where
  "json_space c \<longleftrightarrow> c \<in> set [CHR '' '', CHR 0x09, CHR 0x0A, CHR 0x0D]"

definition skip_space :: "string \<Rightarrow> string" where
  "skip_space s = dropWhile json_space s"

definition hex_val :: "char \<Rightarrow> nat option" where
  "hex_val c = (let n = of_char c :: nat in
     if 48 \<le> n \<and> n \<le> 57 then Some (n - 48)
     else if 97 \<le> n \<and> n \<le> 102 then Some (n - 87)
     else if 65 \<le> n \<and> n \<le> 70 then Some (n - 55) else None)"

definition hex_value :: "char list \<Rightarrow> nat option" where
  "hex_value cs = fold (\<lambda>c acc. case (acc, hex_val c) of (Some a, Some n) \<Rightarrow> Some (16 * a + n) | _ \<Rightarrow> None) cs (Some 0)"

definition simple_escape :: "char \<Rightarrow> char option" where
  "simple_escape c = map_of
     [(CHR 0x22, CHR 0x22), (CHR 0x5C, CHR 0x5C), (CHR ''/'', CHR ''/''), (CHR ''b'', CHR 0x08),
      (CHR ''f'', CHR 0x0C), (CHR ''n'', CHR 0x0A), (CHR ''r'', CHR 0x0D), (CHR ''t'', CHR 0x09)] c"

text \<open>One escape after its backslash: the character and what follows.\<close>

definition json_escape :: "string \<Rightarrow> (char \<times> string) option" where
  "json_escape s = (case s of
     [] \<Rightarrow> None
   | e # t \<Rightarrow>
       (if e = CHR ''u'' then
          (case hex_value (take 4 t) of
             Some n \<Rightarrow> (if length t < 4 \<or> 256 \<le> n then None else Some (char_of n, drop 4 t))
           | None \<Rightarrow> None)
        else map_option (\<lambda>c. (c, t)) (simple_escape e)))"

lemma json_escape_shorter: "json_escape s = Some (c, r) \<Longrightarrow> length r < length s"
  by (auto simp: json_escape_def split: list.splits if_splits option.splits)

text \<open>The characters of a string after its opening quote.\<close>

function json_chars :: "string \<Rightarrow> (string \<times> string) option" where
  "json_chars s = (case s of
     [] \<Rightarrow> None
   | c # t \<Rightarrow>
       (if c = CHR 0x22 then Some ([], t)
        else if c = CHR 0x5C then
          (case json_escape t of
             None \<Rightarrow> None
           | Some (x, r) \<Rightarrow> map_option (\<lambda>(xs, r). (x # xs, r)) (json_chars r))
        else if (of_char c :: nat) < 32 then None
        else map_option (\<lambda>(xs, r). (c # xs, r)) (json_chars t)))"
  by pat_completeness auto
termination
  by (relation "measure length") (auto dest: json_escape_shorter)

declare json_chars.simps [simp del]

text \<open>The part of a number behind its integer: a fraction and an exponent, each optional.\<close>

definition json_fraction :: "string \<Rightarrow> string \<times> string" where
  "json_fraction r = (case r of
     c # t \<Rightarrow> (if c = CHR ''.'' \<and> takeWhile is_digit_c t \<noteq> [] then (takeWhile is_digit_c t, dropWhile is_digit_c t)
       else ([], r))
   | [] \<Rightarrow> ([], r))"

definition json_exponent :: "string \<Rightarrow> int option \<times> string" where
  "json_exponent r = (case r of
     c # t \<Rightarrow>
       (if c \<in> set ''eE'' then
          (let neg = starts_with ''-'' t; u = (if neg \<or> starts_with ''+'' t then tl t else t); ds = takeWhile is_digit_c u in
           if ds = [] then (None, r)
           else (Some ((if neg then -1 else 1) * int (digits_val ds)), dropWhile is_digit_c u))
        else (None, r))
   | [] \<Rightarrow> (None, r))"

definition whole_part :: "string \<Rightarrow> string" where
  "whole_part ds = (if starts_with ''0'' ds then ''0'' else ds)"

definition json_number :: "string \<Rightarrow> (pyval \<times> string) option" where
  "json_number s =
     (let neg = starts_with ''-'' s; t = (if neg then tl s else s); ds = takeWhile is_digit_c t;
          whole = whole_part ds; r = drop (length whole) t;
          (frac, r1) = json_fraction r; (exp, r2) = json_exponent r1; sign = (if neg then -1 else 1) in
      if ds = [] then None
      else if frac = [] \<and> exp = None then Some (PInt (sign * int (digits_val whole)), r)
      else (let e = (case exp of None \<Rightarrow> 0 | Some e \<Rightarrow> e);
                m = of_int sign * of_nat (digits_val (whole @ frac)) / 10 ^ length frac :: rat in
        Some (PFloat (if 0 \<le> e then m * 10 ^ nat e else m / 10 ^ nat (- e)) (take (length s - length r2) s), r2)))"

definition json_literal :: "string \<Rightarrow> (pyval \<times> string) option" where
  "json_literal s =
     (if starts_with ''null'' s then Some (PNone, drop 4 s)
      else if starts_with ''true'' s then Some (PBool True, drop 4 s)
      else if starts_with ''false'' s then Some (PBool False, drop 5 s)
      else json_number s)"

fun json_val :: "nat \<Rightarrow> string \<Rightarrow> (pyval \<times> string) option"
  and json_items :: "nat \<Rightarrow> string \<Rightarrow> (pyval list \<times> string) option"
  and json_members :: "nat \<Rightarrow> pydict \<Rightarrow> string \<Rightarrow> (pydict \<times> string) option" where
  "json_val 0 s = None"
| "json_val (Suc n) s = (case s of
     [] \<Rightarrow> None
   | c # t \<Rightarrow>
       (if c = CHR 0x22 then map_option (\<lambda>(x, r). (PStr x, r)) (json_chars t)
        else if c = CHR ''['' then
          (if starts_with '']'' (skip_space t) then Some (PList [], tl (skip_space t))
           else map_option (\<lambda>(xs, r). (PList xs, r)) (json_items n (skip_space t)))
        else if c = CHR ''{'' then
          (if starts_with ''}'' (skip_space t) then Some (PDict [], tl (skip_space t))
           else map_option (\<lambda>(d, r). (PDict d, r)) (json_members n [] (skip_space t)))
        else json_literal s))"
| "json_items 0 s = None"
| "json_items (Suc n) s = (case json_val n s of
     None \<Rightarrow> None
   | Some (v, r) \<Rightarrow>
       (if starts_with '']'' (skip_space r) then Some ([v], tl (skip_space r))
        else if starts_with '','' (skip_space r) then
          map_option (\<lambda>(vs, u). (v # vs, u)) (json_items n (skip_space (tl (skip_space r))))
        else None))"
| "json_members 0 d s = None"
| "json_members (Suc n) d s =
     (if \<not> starts_with [CHR 0x22] s then None
      else case json_chars (tl s) of
        None \<Rightarrow> None
      | Some (k, r) \<Rightarrow>
          (if \<not> starts_with '':'' (skip_space r) then None
           else case json_val n (skip_space (tl (skip_space r))) of
             None \<Rightarrow> None
           | Some (v, u) \<Rightarrow>
               (if starts_with ''}'' (skip_space u) then Some (dset d (PStr k) v, tl (skip_space u))
                else if starts_with '','' (skip_space u) then
                  json_members n (dset d (PStr k) v) (skip_space (tl (skip_space u)))
                else None)))"

definition json_loads :: "string \<Rightarrow> pyval option" where
  "json_loads text = (case json_val (2 * length text) (skip_space text) of
     Some (v, r) \<Rightarrow> (if skip_space r = [] then Some v else None)
   | None \<Rightarrow> None)"

subsection \<open>Strings\<close>

lemma backslash_char [simp]: "char_of (92::nat) = CHR 0x5C"
  by (simp add: char_of_def bit_simps)

lemma hex_value_byte: "n < 256 \<Longrightarrow> hex_value [CHR ''0'', CHR ''0'', hex_char (n div 16), hex_char (n mod 16)] = Some n"
  by (auto simp: hex_value_def hex_val_def hex_char_def Let_def)

lemma json_chars_char:
  "json_chars (json_char c @ r) = map_option (\<lambda>(xs, r). (c # xs, r)) (json_chars r)"
proof -
  define n :: nat where "n = of_char c"
  have n: "n < 256" "c = char_of n" by (simp_all add: n_def)
  let ?special = "n \<in> {8, 9, 10, 12, 13, 34, 92}"
  show ?thesis
  proof (cases ?special)
    case True
    then have "c = CHR 0x08 \<or> c = CHR 0x09 \<or> c = CHR 0x0A \<or> c = CHR 0x0C \<or> c = CHR 0x0D \<or> c = CHR 0x22 \<or> c = CHR 0x5C"
      unfolding n(2) by (elim insertE) (simp_all add: char_of_def bit_simps)
    then show ?thesis
      by (elim disjE) (simp_all add: json_char_def Let_def json_chars.simps [of "_ # _"] json_escape_def simple_escape_def)
  next
    case False
    show ?thesis
    proof (cases "32 \<le> n \<and> n \<le> 126")
      case True
      with False have "json_char c = [c]" by (simp add: json_char_def n_def [symmetric] Let_def)
      moreover have "c \<noteq> CHR 0x22" "c \<noteq> CHR 0x5C" using False by (auto simp: n_def)
      ultimately show ?thesis using True by (simp add: json_chars.simps [of "_ # _"] n_def)
    next
      case other: False
      with False have "json_char c = [CHR 0x5C, CHR ''u'', CHR ''0'', CHR ''0'', hex_char (n div 16), hex_char (n mod 16)]"
        by (auto simp: json_char_def n_def [symmetric] Let_def)
      then show ?thesis
        using hex_value_byte [OF n(1)] n by (simp add: json_chars.simps [of "_ # _"] json_escape_def)
    qed
  qed
qed

lemma json_chars_string: "json_chars (concat (map json_char s) @ CHR 0x22 # r) = Some (s, r)"
  by (induction s) (simp_all add: json_chars_char json_chars.simps [of "_ # _"])

lemma json_string_shape: "json_string k = CHR 0x22 # concat (map json_char k) @ [CHR 0x22]"
  by (simp add: json_string_def)

subsection \<open>Numbers\<close>

lemma digit_char_digit: "n < 10 \<Longrightarrow> is_digit_c (digit_char n) \<and> digit_val (digit_char n) = n"
  by (simp add: is_digit_c_def digit_char_def digit_val_def Let_def)

lemma digits_val_snoc: "digits_val (ds @ [c]) = 10 * digits_val ds + digit_val c"
  by (simp add: digits_val_def)

lemma nat_str_value: "list_all is_digit_c (nat_str n) \<and> digits_val (nat_str n) = n \<and> nat_str n \<noteq> []"
proof (induction n rule: nat_str.induct)
  case (1 n)
  show ?case
  proof (cases "n < 10")
    case True
    then show ?thesis by (simp add: nat_str.simps [of n] digit_char_digit digits_val_def)
  next
    case False
    then show ?thesis using 1 by (simp add: nat_str.simps [of n] digit_char_digit digits_val_snoc)
  qed
qed

lemma nat_str_no_zero: "0 < n \<Longrightarrow> hd (nat_str n) \<noteq> CHR ''0''"
proof (induction n rule: nat_str.induct)
  case (1 n)
  show ?case
  proof (cases "n < 10")
    case True
    have "digit_char n = CHR ''0'' \<Longrightarrow> n = 0"
      using digit_char_digit [OF True] by (simp add: digit_val_def)
    with True 1 show ?thesis by (auto simp: nat_str.simps [of n])
  next
    case False
    then show ?thesis using 1 nat_str_value [of "n div 10"] by (simp add: nat_str.simps [of n])
  qed
qed

text \<open>What may stand behind a value in canonical text.\<close>

definition json_stop :: "string \<Rightarrow> bool" where
  "json_stop r \<longleftrightarrow> r = [] \<or> hd r \<in> set [CHR '','', CHR '']'', CHR ''}'', CHR 0x0A]"

lemma json_stop_simps [simp]:
  "json_stop []" "json_stop (CHR '','' # r)" "json_stop (CHR '']'' # r)" "json_stop (CHR ''}'' # r)" "json_stop (CHR 0x0A # r)"
  by (simp_all add: json_stop_def)

lemma json_stop_digit: "json_stop r \<Longrightarrow> takeWhile is_digit_c r = [] \<and> json_fraction r = ([], r) \<and> json_exponent r = (None, r)"
proof -
  assume "json_stop r"
  then consider "r = []" | t where "r = CHR '','' # t" | t where "r = CHR '']'' # t" | t where "r = CHR ''}'' # t"
    | t where "r = CHR 0x0A # t"
    by (cases r) (auto simp: json_stop_def)
  then show ?thesis
    by cases (simp_all add: is_digit_c_def Let_def json_fraction_def json_exponent_def)
qed

lemma json_number_nat:
  assumes "json_stop r"
  shows "json_number (nat_str n @ r) = Some (PInt (int n), r)"
    "json_number (CHR ''-'' # nat_str n @ r) = Some (PInt (- int n), r)"
proof -
  have d: "list_all is_digit_c (nat_str n)" "digits_val (nat_str n) = n" "nat_str n \<noteq> []"
    using nat_str_value by blast+
  have run: "takeWhile is_digit_c (nat_str n @ r) = nat_str n"
    using d(1) json_stop_digit [OF assms] by (simp add: takeWhile_append2 list_all_iff)
  have whole: "whole_part (nat_str n) = nat_str n"
  proof (cases "n = 0")
    case True
    then show ?thesis by (simp add: whole_part_def nat_str.simps starts_with_def digit_char_def char_of_def bit_simps)
  next
    case False
    then show ?thesis using nat_str_no_zero [of n] d(3) by (cases "nat_str n") (auto simp: whole_part_def starts_with_def)
  qed
  have plain: "\<not> starts_with ''-'' (nat_str n @ r)"
    using d(1,3) by (cases "nat_str n") (auto simp: starts_with_def is_digit_c_def Let_def)
  show "json_number (nat_str n @ r) = Some (PInt (int n), r)"
    unfolding json_number_def Let_def
    by (simp add: plain run whole json_stop_digit [OF assms] d)
  have minus: "starts_with ''-'' (CHR ''-'' # nat_str n @ r)" by (simp add: starts_with_def)
  show "json_number (CHR ''-'' # nat_str n @ r) = Some (PInt (- int n), r)"
    unfolding json_number_def Let_def
    by (simp add: minus run whole json_stop_digit [OF assms] d)
qed

lemma int_str_head: "\<exists>c t. int_str i = c # t \<and> (c = CHR ''-'' \<or> is_digit_c c)"
proof -
  obtain c t where "nat_str (nat i) = c # t" "is_digit_c c"
    using nat_str_value [of "nat i"] by (cases "nat_str (nat i)") auto
  then show ?thesis by (simp add: int_str_def)
qed

lemma json_literal_int:
  assumes "json_stop r"
  shows "json_literal (int_str i @ r) = Some (PInt i, r)"
proof -
  obtain c t where c: "int_str i = c # t" "c = CHR ''-'' \<or> is_digit_c c" using int_str_head by blast
  have "c \<notin> set ''ntf''" using c(2) by (auto simp: is_digit_c_def Let_def)
  then have "json_literal (int_str i @ r) = json_number (int_str i @ r)"
    by (simp add: json_literal_def c(1) starts_with_def)
  also have "\<dots> = Some (PInt i, r)"
    using json_number_nat [OF assms, of "nat i"] json_number_nat [OF assms, of "nat (- i)"]
    by (auto simp: int_str_def)
  finally show ?thesis .
qed

subsection \<open>The round trip\<close>

text \<open>What reading a value back gives: the same value with the keys of every mapping in order.\<close>

function json_sorted :: "pyval \<Rightarrow> pyval" where
  "json_sorted v = (case v of
     PList xs \<Rightarrow> PList (map json_sorted xs)
   | PDict d \<Rightarrow> PDict (sort_key (\<lambda>p. str_of (fst p)) (map (\<lambda>p. (fst p, json_sorted (snd p))) d))
   | _ \<Rightarrow> v)"
  by pat_completeness auto
termination
  by (relation "measure size") (auto dest: size_entry size_list_estimation' [where f = size, OF _ order_refl])

declare json_sorted.simps [simp del]

lemma json_sorted_simps [simp]:
  "json_sorted PNone = PNone" "json_sorted (PBool b) = PBool b" "json_sorted (PInt i) = PInt i"
  "json_sorted (PFloat r t) = PFloat r t" "json_sorted (PStr s) = PStr s"
  "json_sorted (PList xs) = PList (map json_sorted xs)"
  "json_sorted (PDict d) = PDict (sort_key (\<lambda>p. str_of (fst p)) (map (\<lambda>p. (fst p, json_sorted (snd p))) d))"
  by (simp_all add: json_sorted.simps)

text \<open>A JSON value without floats.\<close>

function float_free :: "pyval \<Rightarrow> bool" where
  "float_free v \<longleftrightarrow> (case v of
     PFloat _ _ \<Rightarrow> False
   | PList xs \<Rightarrow> list_all float_free xs
   | PDict d \<Rightarrow> list_all (\<lambda>p. float_free (snd p)) d
   | _ \<Rightarrow> True)"
  by pat_completeness auto
termination
  by (relation "measure size") (auto dest: size_entry size_list_estimation' [where f = size, OF _ order_refl])

declare float_free.simps [simp del]

lemma float_free_simps [simp]:
  "float_free PNone" "float_free (PBool b)" "float_free (PInt i)" "\<not> float_free (PFloat r t)" "float_free (PStr s)"
  "float_free (PList xs) = list_all float_free xs" "float_free (PDict d) = list_all (\<lambda>p. float_free (snd p)) d"
  by (simp_all add: float_free.simps)

text \<open>The texts of the members of a mapping, in order.\<close>

definition member_text :: "string \<times> string \<Rightarrow> string" where
  "member_text p = json_string (fst p) @ '':'' @ snd p"

lemma insort_key_map: "insort_key f (g x) (map g xs) = map g (insort_key (\<lambda>x. f (g x)) x xs)"
  by (induction xs) auto

lemma sort_key_map: "sort_key f (map g xs) = map g (sort_key (\<lambda>x. f (g x)) xs)"
  by (induction xs) (simp_all add: insort_key_map)

lemma canonical_json_dict:
  "canonical_json (PDict d) =
     ''{'' @ join '','' (map (\<lambda>p. member_text (str_of (fst p), canonical_json (snd p)))
       (sort_key (\<lambda>p. str_of (fst p)) d)) @ ''}''"
  by (simp add: sort_key_map member_text_def comp_def)

text \<open>A canonical text is read back with fuel of twice its length, whatever stands behind it.\<close>

definition reads_back :: "pyval \<Rightarrow> bool" where
  "reads_back v \<longleftrightarrow> (\<forall>n r. 2 * length (canonical_json v) \<le> n \<longrightarrow> json_stop r \<longrightarrow>
     json_val n (canonical_json v @ r) = Some (json_sorted v, r))"

lemma canonical_json_head:
  "float_free v \<Longrightarrow> \<exists>c t. canonical_json v = c # t \<and> \<not> json_space c \<and> c \<notin> set '']},:''"
proof (cases v)
  case (PInt i)
  then show ?thesis using int_str_head [of i] by (auto simp: json_space_def is_digit_c_def Let_def)
qed (auto simp: json_space_def json_string_def)

lemma skip_space_canonical: "float_free v \<Longrightarrow> skip_space (canonical_json v @ r) = canonical_json v @ r"
  using canonical_json_head [of v] by (auto simp: skip_space_def)

lemma skip_space_stop [simp]:
  "skip_space (CHR '','' # r) = CHR '','' # r" "skip_space (CHR '']'' # r) = CHR '']'' # r"
  "skip_space (CHR ''}'' # r) = CHR ''}'' # r" "skip_space (CHR '':'' # r) = CHR '':'' # r"
  "skip_space (CHR 0x22 # r) = CHR 0x22 # r" "skip_space [] = []"
  by (simp_all add: skip_space_def json_space_def)

lemma json_stop_comma: "json_stop (CHR '','' # r)" by simp

lemma join_Cons: "join sep (x # xs) = (if xs = [] then x else x @ sep @ join sep xs)"
  by (cases xs) simp_all

lemma join_hd: "xs \<noteq> [] \<Longrightarrow> \<exists>t. join sep (map f xs) = f (hd xs) @ t"
proof (cases xs)
  case (Cons a list)
  then show ?thesis by (cases "list = []") (simp_all add: join_Cons)
qed simp

lemma members_hd:
  "d \<noteq> [] \<Longrightarrow> \<exists>t. join '','' (map (\<lambda>p. member_text (str_of (fst p), canonical_json (snd p))) d) = CHR 0x22 # t"
  using join_hd [of d "'',''" "\<lambda>p. member_text (str_of (fst p), canonical_json (snd p))"]
  by (auto simp: member_text_def json_string_def)

lemma json_items_back:
  assumes "\<And>v. v \<in> set xs \<Longrightarrow> reads_back v \<and> float_free v" "xs \<noteq> []"
    and "2 * length (join '','' (map canonical_json xs)) + 1 \<le> n"
  shows "json_items n (join '','' (map canonical_json xs) @ CHR '']'' # r) = Some (map json_sorted xs, r)"
  using assms
proof (induction xs arbitrary: n)
  case (Cons v xs)
  from Cons.prems(3) obtain m where n: "n = Suc m" by (cases n) auto
  have here: "json_val m (canonical_json v @ u) = Some (json_sorted v, u)" if "json_stop u" for u
    using Cons.prems(1) [of v] Cons.prems(3) that by (auto simp: reads_back_def n join_Cons split: if_splits)
  show ?case
  proof (cases "xs = []")
    case True
    then show ?thesis using here [of "CHR '']'' # r"] by (simp add: n starts_with_def)
  next
    case False
    have free: "float_free (hd xs)" using Cons.prems(1) False by simp
    obtain t where t: "join '','' (map canonical_json xs) = canonical_json (hd xs) @ t"
      using join_hd [OF False] by blast
    have "json_items m (join '','' (map canonical_json xs) @ CHR '']'' # r) = Some (map json_sorted xs, r)"
      using Cons.prems False canonical_json_head [of v]
      by (intro Cons.IH) (auto simp: n join_Cons)
    then show ?thesis
      using here [of "CHR '','' # join '','' (map canonical_json xs) @ CHR '']'' # r"] False
      by (simp add: n join_Cons starts_with_def t skip_space_canonical [OF free])
  qed
qed simp

lemma dset_new: "PStr k \<notin> fst ` set d \<Longrightarrow> dset d (PStr k) v = d @ [(PStr k, v)]"
  by (induction d) auto

lemma json_members_back:
  fixes e :: pydict
  defines "text \<equiv> \<lambda>e. join '','' (map (\<lambda>p. member_text (str_of (fst p), canonical_json (snd p))) e)"
  assumes "\<And>p. p \<in> set e \<Longrightarrow> is_str (fst p) \<and> reads_back (snd p) \<and> float_free (snd p)" "e \<noteq> []"
    and "distinct (map fst (d @ e))" "2 * length (text e) + 1 \<le> n"
  shows "json_members n d (text e @ CHR ''}'' # r) = Some (d @ map (\<lambda>p. (fst p, json_sorted (snd p))) e, r)"
  using assms(2-)
proof (induction e arbitrary: n d)
  case (Cons p e)
  from Cons.prems(4) obtain m where n: "n = Suc m" by (cases n) auto
  obtain k v where p: "p = (PStr k, v)" using Cons.prems(1) [of p] by (cases p) (auto simp: is_str_iff)
  have here: "json_val m (canonical_json v @ u) = Some (json_sorted v, u)" if "json_stop u" for u
    using Cons.prems(1) [of p] Cons.prems(4) that
    by (auto simp: reads_back_def n p text_def join_Cons member_text_def split: if_splits)
  have free: "float_free v" using Cons.prems(1) [of p] by (simp add: p)
  have new: "dset d (PStr k) (json_sorted v) = d @ [(PStr k, json_sorted v)]"
    using Cons.prems(3) by (intro dset_new) (auto simp: p)
  have shape: "member_text (k, canonical_json v) @ u = CHR 0x22 # concat (map json_char k) @ CHR 0x22 # CHR '':'' # canonical_json v @ u" for u
    by (simp add: member_text_def json_string_def)
  show ?case
  proof (cases "e = []")
    case True
    then show ?thesis using here [of "CHR ''}'' # r"]
      by (simp add: n p text_def shape starts_with_def json_chars_string new skip_space_canonical [OF free])
  next
    case False
    obtain t where t: "text e = CHR 0x22 # t"
      using members_hd [OF False] by (auto simp: text_def)
    have "json_members m (d @ [(PStr k, json_sorted v)]) (text e @ CHR ''}'' # r) =
        Some ((d @ [(PStr k, json_sorted v)]) @ map (\<lambda>p. (fst p, json_sorted (snd p))) e, r)"
      using Cons.prems False by (intro Cons.IH) (auto simp: n p text_def join_Cons member_text_def)
    moreover have "text (p # e) = member_text (k, canonical_json v) @ CHR '','' # text e"
      using False by (simp add: text_def join_Cons p)
    ultimately show ?thesis
      using here [of "CHR '','' # text e @ CHR ''}'' # r"]
      by (simp add: n p shape starts_with_def json_chars_string new skip_space_canonical [OF free] t)
  qed
qed simp

lemma canonical_reads_back: "json_value v \<Longrightarrow> float_free v \<Longrightarrow> reads_back v"
proof (induction v rule: json_value.induct)
  case (6 xs)
  have "json_val n (canonical_json (PList xs) @ r) = Some (json_sorted (PList xs), r)"
    if n: "2 * length (canonical_json (PList xs)) \<le> n" and r: "json_stop r" for n r
  proof -
    obtain m where m: "n = Suc m" using n by (cases n) auto
    show ?thesis
    proof (cases "xs = []")
      case True
      then show ?thesis by (simp add: m starts_with_def)
    next
      case False
      then obtain t where t: "join '','' (map canonical_json xs) = canonical_json (hd xs) @ t"
        using join_hd by blast
      have free: "float_free (hd xs)" using 6 False by (cases xs) auto
      obtain c u where cu: "canonical_json (hd xs) = c # u" "c \<noteq> CHR '']''" "\<not> json_space c"
        using canonical_json_head [OF free] by auto
      have "json_items m (join '','' (map canonical_json xs) @ CHR '']'' # r) = Some (map json_sorted xs, r)"
        using 6 False n by (intro json_items_back) (auto simp: list_all_iff m)
      then show ?thesis using cu by (simp add: m t skip_space_def starts_with_def)
    qed
  qed
  then show ?case by (simp add: reads_back_def)
next
  case (7 d)
  let ?e = "sort_key (\<lambda>p. str_of (fst p)) d"
  let ?text = "\<lambda>e. join '','' (map (\<lambda>p. member_text (str_of (fst p), canonical_json (snd p))) e)"
  have sorted: "json_sorted (PDict d) = PDict (map (\<lambda>p. (fst p, json_sorted (snd p))) ?e)"
    by (simp add: sort_key_map comp_def)
  have "json_val n (canonical_json (PDict d) @ r) = Some (json_sorted (PDict d), r)"
    if n: "2 * length (canonical_json (PDict d)) \<le> n" and r: "json_stop r" for n r
  proof -
    obtain m where m: "n = Suc m" using n by (cases n) (auto simp: canonical_json_dict)
    show ?thesis
    proof (cases "d = []")
      case True
      then show ?thesis by (simp add: m starts_with_def)
    next
      case False
      then have ne: "?e \<noteq> []" by (metis set_empty set_sort)
      have is_key: "is_str (fst p)" if "p \<in> set d" for p using 7(2) that by (auto simp: list_all_iff)
      obtain t where t: "?text ?e = CHR 0x22 # t"
        using members_hd [OF ne] by blast
      have "mset (map fst ?e) = mset (map fst d)" by (simp only: mset_map mset_sort)
      then have "distinct (map fst ?e) \<longleftrightarrow> distinct (map fst d)" by (rule mset_eq_imp_distinct_iff)
      then have distinct: "distinct (map fst ([] @ ?e))" using 7(2) by simp
      have fuel: "2 * length (?text ?e) + 1 \<le> m"
        using n [unfolded canonical_json_dict] by (simp add: m)
      have parts: "is_str (fst p) \<and> reads_back (snd p) \<and> float_free (snd p)" if "p \<in> set ?e" for p
      proof -
        have "p \<in> set d" "json_value (snd p)" "float_free (snd p)"
          using that 7(2,3) unfolding json_value.simps float_free_simps list_all_iff set_sort by blast+
        then show ?thesis using 7(1) [of p] is_key by blast
      qed
      have "json_members m [] (?text ?e @ CHR ''}'' # r) = Some ([] @ map (\<lambda>p. (fst p, json_sorted (snd p))) ?e, r)"
        by (rule json_members_back [OF parts ne distinct fuel])
      then show ?thesis
        unfolding sorted canonical_json_dict
        by (simp add: m t starts_with_def)
    qed
  qed
  then show ?case by (simp add: reads_back_def)
next
  case (3 i)
  show ?case
    unfolding reads_back_def
  proof (intro allI impI)
    fix n r assume n: "2 * length (canonical_json (PInt i)) \<le> n" and r: "json_stop r"
    obtain c t where c: "int_str i = c # t" "c = CHR ''-'' \<or> is_digit_c c" using int_str_head by blast
    obtain m where m: "n = Suc m" using n c(1) by (cases n) auto
    have "c \<notin> set [CHR 0x22, CHR ''['', CHR ''{'']" using c(2) by (auto simp: is_digit_c_def Let_def)
    then show "json_val n (canonical_json (PInt i) @ r) = Some (json_sorted (PInt i), r)"
      using json_literal_int [OF r, of i] by (simp add: m c(1))
  qed
next
  case (5 s)
  have "json_val n (json_string s @ r) = Some (PStr s, r)" if n: "2 * length (json_string s) \<le> n" for n r
    using n by (cases n) (simp_all add: json_string_def json_chars_string)
  then show ?case by (simp add: reads_back_def)
next
  case 1
  have "json_val n (''null'' @ r) = Some (PNone, r)" if n: "8 \<le> n" for n r
    using n by (cases n) (simp_all add: json_literal_def starts_with_def)
  then show ?case by (simp add: reads_back_def)
next
  case (2 b)
  have "json_val n ((if b then ''true'' else ''false'') @ r) = Some (PBool b, r)" if n: "8 \<le> n" for n r
    using n by (cases n) (simp_all add: json_literal_def starts_with_def)
  then show ?case by (auto simp: reads_back_def)
qed simp

text \<open>Reading the canonical text of a JSON value back gives the value, its keys sorted.\<close>

lemma json_loads_canonical:
  assumes "json_value v" "float_free v"
  shows "json_loads (canonical_json v) = Some (json_sorted v)"
proof -
  have "json_val (2 * length (canonical_json v)) (canonical_json v @ []) = Some (json_sorted v, [])"
    using canonical_reads_back [OF assms] unfolding reads_back_def by (meson json_stop_simps(1) order_refl)
  then show ?thesis using skip_space_canonical [OF assms(2), of "[]"] by (simp add: json_loads_def)
qed

text \<open>The text of a file ends with a line break.\<close>

lemma json_loads_line:
  assumes "json_value v" "float_free v"
  shows "json_loads (canonical_json v @ [CHR 0x0A]) = Some (json_sorted v)"
proof -
  have "json_val (2 * length (canonical_json v @ [CHR 0x0A])) (canonical_json v @ [CHR 0x0A]) = Some (json_sorted v, [CHR 0x0A])"
    by (rule canonical_reads_back [OF assms, unfolded reads_back_def, rule_format]) simp_all
  then show ?thesis
    using skip_space_canonical [OF assms(2), of "[CHR 0x0A]"] by (simp add: json_loads_def skip_space_def json_space_def)
qed

subsection \<open>Reading back changes nothing but the order of keys\<close>

lemma json_sorted_keys:
  assumes "json_value (PDict d)"
  shows "distinct (map fst (entries (json_sorted (PDict d))))"
    "set (entries (json_sorted (PDict d))) = set (map (\<lambda>p. (fst p, json_sorted (snd p))) d)"
proof -
  let ?d = "map (\<lambda>p. (fst p, json_sorted (snd p))) d"
  have "mset (map fst (sort_key (\<lambda>p. str_of (fst p)) ?d)) = mset (map fst ?d)" by (simp only: mset_map mset_sort)
  then have "distinct (map fst (sort_key (\<lambda>p. str_of (fst p)) ?d)) \<longleftrightarrow> distinct (map fst ?d)"
    by (rule mset_eq_imp_distinct_iff)
  then show "distinct (map fst (entries (json_sorted (PDict d))))" using assms by (simp add: comp_def)
  show "set (entries (json_sorted (PDict d))) = set ?d" by simp
qed

lemma json_sorted_get:
  assumes "json_value (PDict d)"
  shows "dlookup (entries (json_sorted (PDict d))) f = map_option json_sorted (dlookup d f)"
    "vget (json_sorted (PDict d)) f = json_sorted (dget d f)"
proof -
  let ?d = "map (\<lambda>p. (fst p, json_sorted (snd p))) d"
  have "map_of (entries (json_sorted (PDict d))) = map_of ?d"
    using json_sorted_keys [OF assms] assms by (subst map_of_inject_set) (simp_all add: comp_def)
  moreover have "map_of ?d k = map_option json_sorted (map_of d k)" for k by (induction d) auto
  ultimately show get: "dlookup (entries (json_sorted (PDict d))) f = map_option json_sorted (dlookup d f)"
    by (simp add: dlookup_def)
  then show "vget (json_sorted (PDict d)) f = json_sorted (dget d f)"
    by (simp add: dget_def split: option.splits)
qed

lemma canonical_json_sorted: "json_value v \<Longrightarrow> canonical_json (json_sorted v) = canonical_json v"
proof (induction v rule: json_value.induct)
  case (6 xs)
  then have "map canonical_json (map json_sorted xs) = map canonical_json xs" by (simp add: list_all_iff)
  then show ?case by (simp only: json_sorted_simps canonical_json.simps)
next
  case (7 d)
  let ?d = "map (\<lambda>p. (fst p, json_sorted (snd p))) d"
  have parts: "distinct (map fst d)" "list_all (\<lambda>p. is_str (fst p) \<and> json_value (snd p)) d"
    using 7(2) by simp_all
  have "canonical_json (json_sorted (PDict d)) = canonical_json (PDict ?d)"
    unfolding json_sorted_simps
    by (rule canonical_json_order [symmetric]) (use parts in \<open>auto simp: comp_def list_all_iff\<close>)
  also have "map (\<lambda>p. (str_of (fst p), canonical_json (snd p))) ?d = map (\<lambda>p. (str_of (fst p), canonical_json (snd p))) d"
    using 7(1) parts by (simp add: list_all_iff)
  then have "canonical_json (PDict ?d) = canonical_json (PDict d)" by (simp only: canonical_json.simps)
  finally show ?case .
qed simp_all

text \<open>A value and its text determine each other up to the order of keys.\<close>

lemma canonical_json_inject:
  assumes "json_value v" "float_free v" "json_value w" "float_free w" "canonical_json v = canonical_json w"
  shows "json_sorted v = json_sorted w"
  using json_loads_canonical [OF assms(1,2)] json_loads_canonical [OF assms(3,4)] assms(5) by simp

text \<open>Python finds the value read back equal to the one written.\<close>

lemma py_eq_json_sorted: "json_value v \<Longrightarrow> py_eq (json_sorted v) v"
proof (induction v rule: json_value.induct)
  case (6 xs)
  have "py_eq_list (map json_sorted ys) ys" if "\<forall>y \<in> set ys. py_eq (json_sorted y) y" for ys
    using that by (induction ys) simp_all
  with 6 show ?case by (simp add: list_all_iff)
next
  case (7 d)
  let ?e = "entries (json_sorted (PDict d))"
  have sub: "py_sub e d" if "\<forall>p \<in> set e. \<exists>k w. fst p = PStr k \<and> dlookup d k = Some w \<and> py_eq (snd p) w" for e
    using that
  proof (induction e)
    case (Cons p e)
    then show ?case by (subst py_sub.simps) (auto simp: dfind_str split: prod.splits)
  qed (subst py_sub.simps, simp)
  have "py_sub ?e d"
  proof (rule sub, rule ballI)
    fix p assume "p \<in> set ?e"
    then obtain q where q: "q \<in> set d" "p = (fst q, json_sorted (snd q))"
      using json_sorted_keys(2) [OF 7(2)] by auto
    then obtain k where k: "fst q = PStr k" "json_value (snd q)"
      using 7(2) by (auto simp: list_all_iff is_str_iff)
    have "dlookup d k = Some (snd q)"
      using 7(2) q(1) k(1) by (simp add: dlookup_def) (metis map_of_eq_Some_iff prod.collapse)
    then show "\<exists>k w. fst p = PStr k \<and> dlookup d k = Some w \<and> py_eq (snd p) w"
      using 7(1) [OF q(1)] k q(2) by auto
  qed
  then show ?case by (subst py_eq.simps) simp
qed (simp_all add: py_eq.simps atom_eq_refl)

subsection \<open>The fuel is enough\<close>

text \<open>Every parser that succeeds has read at least one character.\<close>

lemma json_chars_shorter: "json_chars s = Some (x, r) \<Longrightarrow> length r < length s"
proof (induction s arbitrary: x r rule: json_chars.induct)
  case (1 s)
  show ?case
  proof (cases s)
    case (Cons c t)
    with 1 show ?thesis
      by (subst (asm) (3) json_chars.simps)
         (fastforce split: if_splits option.splits dest!: json_escape_shorter)
  qed (use 1 in \<open>simp add: json_chars.simps\<close>)
qed

lemma skip_space_le: "length (skip_space s) \<le> length s"
  by (simp add: skip_space_def length_dropWhile_le)

lemma json_rest_le:
  "length (snd (json_fraction s)) \<le> length s" "length (snd (json_exponent s)) \<le> length s"
proof -
  have drop: "length (dropWhile P u) \<le> Suc (length u)" for P :: "char \<Rightarrow> bool" and u
    using length_dropWhile_le [of P u] by simp
  show "length (snd (json_fraction s)) \<le> length s"
    using drop by (auto simp: json_fraction_def split: list.splits)
  show "length (snd (json_exponent s)) \<le> length s"
  proof (cases s)
    case (Cons c t)
    have "length (dropWhile is_digit_c (tl t)) \<le> Suc (length t)"
      using length_dropWhile_le [of is_digit_c "tl t"] by simp
    then show ?thesis using drop [of is_digit_c t] by (auto simp: Cons json_exponent_def Let_def)
  qed (simp add: json_exponent_def)
qed

lemma json_number_shorter:
  assumes "json_number s = Some (v, r)"
  shows "length r < length s"
proof -
  define t where "t = (if starts_with ''-'' s then tl s else s)"
  define ds where "ds = takeWhile is_digit_c t"
  define u where "u = drop (length (whole_part ds)) t"
  have ds: "ds \<noteq> []" using assms by (auto simp: json_number_def Let_def t_def ds_def split: if_splits prod.splits)
  have "t \<noteq> []" using ds by (auto simp: ds_def)
  then have t: "0 < length t" "length t \<le> length s" by (simp_all add: t_def split: if_splits)
  have "0 < length (whole_part ds)" using ds by (simp add: whole_part_def)
  then have u: "length u < length s" using t unfolding u_def length_drop by linarith
  obtain f r1 where f: "json_fraction u = (f, r1)" by force
  obtain e r2 where e: "json_exponent r1 = (e, r2)" by force
  have "length r1 \<le> length u" "length r2 \<le> length r1"
    using json_rest_le(1) [of u] json_rest_le(2) [of r1] f e by simp_all
  moreover have "r = u \<or> r = r2"
    using assms ds f e by (auto simp: json_number_def Let_def t_def [symmetric] ds_def [symmetric] u_def [symmetric] split: if_splits)
  ultimately show ?thesis using u by auto
qed

lemma starts_with_length: "starts_with p s \<Longrightarrow> length p \<le> length s"
  by (auto simp: starts_with_iff)

lemma json_literal_shorter: "json_literal s = Some (v, r) \<Longrightarrow> length r < length s"
  using starts_with_length [of "''null''" s] starts_with_length [of "''true''" s] starts_with_length [of "''false''" s]
  by (auto simp: json_literal_def dest: json_number_shorter split: if_splits)

lemma tl_skip_shorter: "starts_with [c] (skip_space s) \<Longrightarrow> length (tl (skip_space s)) < length s"
  using skip_space_le [of s] starts_with_length [of "[c]" "skip_space s"] by simp

lemma json_shorter:
  "json_val n s = Some (v, r) \<Longrightarrow> length r < length s"
  "json_items n s = Some (vs, r) \<Longrightarrow> length r < length s"
  "json_members n d s = Some (e, r) \<Longrightarrow> length r < length s"
proof (induction n arbitrary: s v vs d e r)
  case (Suc n)
  case 1
  show ?case
  proof (cases s)
    case (Cons c t)
    have "length r < Suc (length t)" if "json_items n (skip_space t) = Some (vs, r)" for vs
      using Suc(2) [OF that] skip_space_le [of t] by simp
    moreover have "length r < Suc (length t)" if "json_members n [] (skip_space t) = Some (e, r)" for e
      using Suc(3) [OF that] skip_space_le [of t] by simp
    ultimately show ?thesis
      using 1 skip_space_le [of t]
      by (auto simp: Cons dest: json_chars_shorter json_literal_shorter less_SucI split: if_splits)
  qed (use 1 in simp)
next
  case (Suc n)
  case 2
  then obtain v u where u: "json_val n s = Some (v, u)" by (auto split: option.splits)
  have "length u < length s" by (rule Suc(1) [OF u])
  moreover have "length r < length u" if "json_items n (skip_space (tl (skip_space u))) = Some (ws, r)"
      "starts_with '','' (skip_space u)" for ws
    using Suc(2) [OF that(1)] skip_space_le [of "tl (skip_space u)"] tl_skip_shorter [OF that(2)] by simp
  ultimately show ?case
    using 2 u tl_skip_shorter [of _ u] by (fastforce split: if_splits)
next
  case (Suc n)
  case 3
  then obtain k u where u: "starts_with [CHR 0x22] s" "json_chars (tl s) = Some (k, u)"
    by (auto split: option.splits if_splits)
  let ?w = "skip_space (tl (skip_space u))"
  from 3 u obtain v w where w: "starts_with '':'' (skip_space u)" "json_val n ?w = Some (v, w)"
    by (auto split: option.splits if_splits)
  have "length w < length s"
    using Suc(1) [OF w(2)] skip_space_le [of "tl (skip_space u)"] tl_skip_shorter [OF w(1)]
      json_chars_shorter [OF u(2)] by simp
  moreover have "length r < length w" if "json_members n f (skip_space (tl (skip_space w))) = Some (e, r)"
      "starts_with '','' (skip_space w)" for f e
    using Suc(3) [OF that(1)] skip_space_le [of "tl (skip_space w)"] tl_skip_shorter [OF that(2)] by simp
  ultimately show ?case
    using 3 u w tl_skip_shorter [of _ w] by (fastforce split: if_splits)
qed simp_all

lemma json_fuel_step:
  "2 * length s \<le> n \<Longrightarrow> json_val (Suc n) s = json_val n s"
  "2 * length s + 1 \<le> n \<Longrightarrow> json_items (Suc n) s = json_items n s"
  "2 * length s + 1 \<le> n \<Longrightarrow> json_members (Suc n) d s = json_members n d s"
proof (induction n arbitrary: s d)
  case (Suc n)
  case 1
  show ?case
  proof (cases s)
    case (Cons c t)
    have fuel: "2 * length (skip_space t) + 1 \<le> n" using 1 skip_space_le [of t] by (simp add: Cons)
    show ?thesis using Suc(2,3) [OF fuel] by (simp only: json_val.simps Cons list.case)
  qed simp
next
  case (Suc n)
  case 2
  have val: "json_val (Suc n) s = json_val n s" by (rule Suc(1)) (use 2 in simp)
  have "json_items (Suc n) (skip_space (tl (skip_space u))) = json_items n (skip_space (tl (skip_space u)))"
    if "json_val n s = Some (v, u)" "starts_with '','' (skip_space u)" for v u
    by (rule Suc(2)) (use 2 json_shorter(1) [OF that(1)] tl_skip_shorter [OF that(2)] skip_space_le [of "tl (skip_space u)"] in simp)
  with val show ?case by (simp only: json_items.simps) (simp split: option.splits)
next
  case (Suc n)
  case 3
  have val: "json_val (Suc n) (skip_space (tl (skip_space u))) = json_val n (skip_space (tl (skip_space u)))"
    if "json_chars (tl s) = Some (k, u)" "starts_with '':'' (skip_space u)" for k u
    by (rule Suc(1)) (use 3 json_chars_shorter [OF that(1)] tl_skip_shorter [OF that(2)] skip_space_le [of "tl (skip_space u)"] in simp)
  have "json_members (Suc n) e (skip_space (tl (skip_space w))) = json_members n e (skip_space (tl (skip_space w)))"
    if "json_chars (tl s) = Some (k, u)" "starts_with '':'' (skip_space u)"
      "json_val n (skip_space (tl (skip_space u))) = Some (v, w)" "starts_with '','' (skip_space w)" for k u v w e
    by (rule Suc(3)) (use 3 json_chars_shorter [OF that(1)] tl_skip_shorter [OF that(2)] skip_space_le [of "tl (skip_space u)"]
      json_shorter(1) [OF that(3)] tl_skip_shorter [OF that(4)] skip_space_le [of "tl (skip_space w)"] in simp)
  with val show ?case by (simp only: json_members.simps) (simp split: option.splits)
qed simp_all

text \<open>More fuel than two units for each character gives the same answer for every text.\<close>

lemma json_fuel: "2 * length s \<le> n \<Longrightarrow> json_val n s = json_val (2 * length s) s"
proof (induction n rule: nat_induct_at_least [consumes 1])
  case (Suc n)
  then show ?case using json_fuel_step(1) [of s n] by simp
qed simp

subsection \<open>Evaluation\<close>

text \<open>Equations for evaluating canonical texts without computing the code point of plain characters.\<close>

definition plain_json_char :: "char \<Rightarrow> bool" where
  "plain_json_char c = (let n = of_char c :: nat in 32 \<le> n \<and> n \<le> 126 \<and> n \<noteq> 34 \<and> n \<noteq> 92)"

lemma plain_json_char_bits [code]:
  "plain_json_char (Char b0 b1 b2 b3 b4 b5 b6 b7) \<longleftrightarrow>
     \<not> b7 \<and> (b6 \<or> b5) \<and> \<not> (b0 \<and> b1 \<and> b2 \<and> b3 \<and> b4 \<and> b5 \<and> b6) \<and>
     \<not> (b1 \<and> \<not> b0 \<and> \<not> b2 \<and> \<not> b3 \<and> \<not> b4 \<and> b5 \<and> \<not> b6) \<and>
     \<not> (b2 \<and> b3 \<and> b4 \<and> b6 \<and> \<not> b0 \<and> \<not> b1 \<and> \<not> b5)"
  by (cases b7; cases b6; cases b5; cases b4; cases b3; cases b2; cases b1; cases b0;
      simp add: plain_json_char_def)

definition json_escaped :: "char \<Rightarrow> string" where
  "json_escaped c = json_char c"

lemma json_char_code [code]: "json_char c = (if plain_json_char c then [c] else json_escaped c)"
  by (simp add: json_escaped_def plain_json_char_def json_char_def Let_def)

lemma json_escaped_code [code]: "json_escaped c = (let n = of_char c :: nat; backslash = char_of (92::nat) in
     if n = 34 \<or> n = 92 then [backslash, c]
     else if n = 10 then [backslash, CHR ''n'']
     else if n = 13 then [backslash, CHR ''r'']
     else if n = 9 then [backslash, CHR ''t'']
     else if n = 12 then [backslash, CHR ''f'']
     else if n = 8 then [backslash, CHR ''b'']
     else if 32 \<le> n \<and> n \<le> 126 then [c]
     else [backslash, CHR ''u'', CHR ''0'', CHR ''0'', hex_char (n div 16), hex_char (n mod 16)])"
  by (simp add: json_escaped_def json_char_def)

end
