(* ===== verification/Sqlite_Text.thy ===== *)
theory Sqlite_Text
  imports Store_Base Json_Text
begin

text \<open>
  The texts \<open>acgps/workflow_store.py\<close> keeps in its SQLite tables: canonical JSON of at most
  262144 bytes whose brackets nest at most 256 deep, checked when it is written and again when
  it is read. The scan of \<open>_json_nesting_depth\<close> is shown to compute the depth of the value.
\<close>

subsection \<open>Size and depth\<close>

definition MAX_SQLITE_JSON_BYTES :: nat where "MAX_SQLITE_JSON_BYTES = 262144"

definition MAX_SQLITE_JSON_DEPTH :: nat where "MAX_SQLITE_JSON_DEPTH = 256"

text \<open>\<open>len(text.encode("utf-8"))\<close>.\<close>

definition utf8_width :: "char \<Rightarrow> nat" where
  "utf8_width c = (if (of_char c :: nat) < 128 then 1 else 2)"

lemma utf8_width_bits [code]: "utf8_width (Char b0 b1 b2 b3 b4 b5 b6 b7) = (if b7 then 2 else 1)"
  by (cases b7; cases b6; cases b5; cases b4; cases b3; cases b2; cases b1; cases b0; simp add: utf8_width_def)

definition utf8_size :: "string \<Rightarrow> nat" where
  "utf8_size s = sum_list (map utf8_width s)"

text \<open>
  The loop of \<open>_json_nesting_depth\<close>: the depth, its maximum, whether the scan is inside a string,
  and whether the character before was an escape.
\<close>

definition depth_step :: "char \<Rightarrow> nat \<times> nat \<times> bool \<times> bool \<Rightarrow> nat \<times> nat \<times> bool \<times> bool" where
  "depth_step c = (\<lambda>(depth, maximum, in_string, escaped).
     if in_string then
       (if escaped then (depth, maximum, True, False)
        else if c = CHR 0x5C then (depth, maximum, True, True)
        else if c = CHR 0x22 then (depth, maximum, False, False)
        else (depth, maximum, True, False))
     else if c = CHR 0x22 then (depth, maximum, True, escaped)
     else if c \<in> set ''[{'' then (depth + 1, max maximum (depth + 1), False, escaped)
     else if c \<in> set '']}'' then (depth - 1, maximum, False, escaped)
     else (depth, maximum, False, escaped))"

definition json_nesting_depth :: "string \<Rightarrow> nat" where
  "json_nesting_depth text = fst (snd (fold depth_step text (0, 0, False, False)))"

definition validate_sqlite_json_text :: "string \<Rightarrow> string \<Rightarrow> string \<Rightarrow> guard" where
  "validate_sqlite_json_text text code path = first_err
     [store_error code path ''record JSON exceeds maximum SQLite JSON size'' (MAX_SQLITE_JSON_BYTES < utf8_size text),
      store_error code path ''record JSON exceeds maximum SQLite JSON depth'' (MAX_SQLITE_JSON_DEPTH < json_nesting_depth text)]"

definition sqlite_json_text :: "pyval \<Rightarrow> string \<Rightarrow> string \<Rightarrow> string res" where
  "sqlite_json_text v code path =
     guarded (validate_sqlite_json_text (canonical_json v) code path) (Inr (canonical_json v))"

text \<open>The detail the decoder gives of a malformed text is left out of the message.\<close>

definition loads_json_mapping :: "string \<Rightarrow> string \<Rightarrow> string \<Rightarrow> pyval res" where
  "loads_json_mapping text code path =
     guarded (validate_sqlite_json_text text code path)
      (case json_loads text of
         None \<Rightarrow> Inl (WorkflowStoreError code path ''malformed JSON'')
       | Some v \<Rightarrow> guarded (store_error code path ''record must be a mapping'' (\<not> is_dict v)) (Inr v))"

text \<open>An integer SQLite cannot hold raises when it is bound to a statement.\<close>

definition sqlite_int :: "pyval \<Rightarrow> guard" where
  "sqlite_int v = (case v of
     PInt i \<Rightarrow> fail_if (i < - (2 ^ 63) \<or> 2 ^ 63 \<le> i) (PyError ''OverflowError'') | _ \<Rightarrow> None)"

definition int_of :: "pyval \<Rightarrow> int" where
  "int_of v = (case v of PInt i \<Rightarrow> i | _ \<Rightarrow> 0)"

subsection \<open>The scan computes the depth of the value\<close>

function value_depth :: "pyval \<Rightarrow> nat" where
  "value_depth v = (case v of
     PList xs \<Rightarrow> Suc (foldr max (map value_depth xs) 0)
   | PDict d \<Rightarrow> Suc (foldr max (map (\<lambda>p. value_depth (snd p)) d) 0)
   | _ \<Rightarrow> 0)"
  by pat_completeness auto
termination
  by (relation "measure size") (auto dest: size_entry size_list_estimation' [where f = size, OF _ order_refl])

declare value_depth.simps [simp del]

lemma value_depth_simps [simp]:
  "value_depth PNone = 0" "value_depth (PBool b) = 0" "value_depth (PInt i) = 0" "value_depth (PStr s) = 0"
  "value_depth (PList xs) = Suc (foldr max (map value_depth xs) 0)"
  "value_depth (PDict d) = Suc (foldr max (map (\<lambda>p. value_depth (snd p)) d) 0)"
  by (simp_all add: value_depth.simps)

lemma depth_step_at:
  "depth_step c (depth, maximum, True, escaped) =
     (if escaped then (depth, maximum, True, False)
      else (depth, maximum, c \<noteq> CHR 0x22, c = CHR 0x5C))"
  "depth_step c (depth, maximum, False, escaped) =
     (if c = CHR 0x22 then (depth, maximum, True, escaped)
      else if c \<in> set ''[{'' then (depth + 1, max maximum (depth + 1), False, escaped)
      else if c \<in> set '']}'' then (depth - 1, maximum, False, escaped)
      else (depth, maximum, False, escaped))"
  by (auto simp: depth_step_def)

lemma foldr_max: "foldr max xs (0::nat) \<in> insert 0 (set xs)" "x \<in> set xs \<Longrightarrow> x \<le> foldr max xs (0::nat)"
  by (induction xs) (auto simp: max_def)

lemma foldr_max_set:
  assumes "set xs = set ys"
  shows "foldr max xs (0::nat) = foldr max ys 0"
  using foldr_max(1) [of xs] foldr_max(1) [of ys] foldr_max(2) [of _ xs] foldr_max(2) [of _ ys] assms
  by (metis insert_iff le_antisym le0)

lemma hex_char_plain: "n < 16 \<Longrightarrow> hex_char n \<noteq> CHR 0x5C \<and> hex_char n \<noteq> CHR 0x22"
proof -
  have "\<forall>n \<in> set [0..<16]. hex_char n \<noteq> CHR 0x5C \<and> hex_char n \<noteq> CHR 0x22" by code_simp
  then show "n < 16 \<Longrightarrow> ?thesis" by simp
qed

lemma scan_char: "fold depth_step (json_char c) (d, m, True, False) = (d, m, True, False)"
proof -
  have "of_char c div (16::nat) < 16" by (simp add: div_less_iff_less_mult)
  then have "hex_char (of_char c div 16) \<noteq> CHR 0x5C \<and> hex_char (of_char c div 16) \<noteq> CHR 0x22"
    "hex_char (of_char c mod 16) \<noteq> CHR 0x5C \<and> hex_char (of_char c mod 16) \<noteq> CHR 0x22"
    by (simp_all add: hex_char_plain)
  moreover have "c = CHR 0x22 \<or> c = CHR 0x5C \<or> of_char c \<noteq> (34::nat) \<and> of_char c \<noteq> (92::nat)"
    using of_char_eq_iff [where 'a = nat, of c "CHR 0x22"] of_char_eq_iff [where 'a = nat, of c "CHR 0x5C"] by auto
  ultimately show ?thesis by (auto simp: json_char_def depth_step_at Let_def)
qed

lemma scan_chars: "fold depth_step (concat (map json_char s)) (d, m, True, False) = (d, m, True, False)"
  by (induction s) (simp_all add: scan_char)

lemma scan_string: "fold depth_step (json_string s) (d, m, False, False) = (d, m, False, False)"
  by (simp add: json_string_def scan_chars depth_step_at)

lemma scan_plain:
  "\<forall>c \<in> set s. c \<notin> set ''[]{}'' \<and> c \<noteq> CHR 0x22 \<Longrightarrow> fold depth_step s (d, m, False, False) = (d, m, False, False)"
  by (induction s) (auto simp: depth_step_at)

lemma int_str_plain: "c \<in> set (int_str i) \<Longrightarrow> c \<notin> set ''[]{}'' \<and> c \<noteq> CHR 0x22"
proof -
  assume "c \<in> set (int_str i)"
  then have "c = CHR ''-'' \<or> is_digit_c c"
    using nat_str_value [of "nat i"] nat_str_value [of "nat (- i)"]
    by (auto simp: int_str_def list_all_iff split: if_splits)
  then show ?thesis by (auto simp: is_digit_c_def Let_def)
qed

lemma scan_join:
  assumes "\<And>x m. x \<in> set xs \<Longrightarrow> d \<le> m \<Longrightarrow> fold depth_step (f x) (d, m, False, False) = (d, max m (d + g x), False, False)"
    and "d \<le> m"
  shows "fold depth_step (join '','' (map f xs)) (d, m, False, False) =
    (d, max m (d + foldr max (map g xs) 0), False, False) \<or> xs = []"
  using assms
proof (induction xs arbitrary: m)
  case (Cons x xs)
  have comma: "fold depth_step '','' (d, k, False, False) = (d, k, False, False)" for k
    by (simp add: depth_step_at)
  show ?case
  proof (cases "xs = []")
    case True
    then show ?thesis using Cons.prems(1) [of x m] Cons.prems(2) by simp
  next
    case False
    then show ?thesis
      using Cons.prems(1) [of x m] Cons.IH [of "max m (d + g x)"] Cons.prems comma le_max_iff_disj
      by (simp add: join_Cons max.assoc nat_add_max_right)
  qed
qed simp

lemma scan_value:
  "float_free v \<Longrightarrow> d \<le> m \<Longrightarrow> fold depth_step (canonical_json v) (d, m, False, False) = (d, max m (d + value_depth v), False, False)"
proof (induction v arbitrary: d m rule: float_free.induct)
  case (1 v)
  show ?case
  proof (cases v)
    case (PList xs)
    have "fold depth_step (join '','' (map canonical_json xs)) (Suc d, k, False, False) =
        (Suc d, max k (Suc d + foldr max (map value_depth xs) 0), False, False) \<or> xs = []" if "Suc d \<le> k" for k
      by (rule scan_join) (use 1 PList that in \<open>auto simp: list_all_iff\<close>)
    then show ?thesis
      by (cases "xs = []") (auto simp: PList depth_step_at)
  next
    case (PDict e)
    let ?e = "sort_key (\<lambda>p. str_of (fst p)) e"
    let ?text = "\<lambda>p. member_text (str_of (fst p), canonical_json (snd p))"
    have member: "fold depth_step (?text p) (Suc d, k, False, False) = (Suc d, max k (Suc d + value_depth (snd p)), False, False)"
      if "p \<in> set ?e" "Suc d \<le> k" for p k
    proof -
      have "fold depth_step (canonical_json (snd p)) (Suc d, j, False, False) =
          (Suc d, max j (Suc d + value_depth (snd p)), False, False)" if "Suc d \<le> j" for j
        using 1 PDict \<open>p \<in> set ?e\<close> that by (auto simp: list_all_iff)
      moreover have "depth_step (CHR '':'') (Suc d, k, False, False) = (Suc d, k, False, False)"
        by (simp add: depth_step_at)
      ultimately show ?thesis using that by (simp add: member_text_def scan_string)
    qed
    have "fold depth_step (join '','' (map ?text ?e)) (Suc d, k, False, False) =
        (Suc d, max k (Suc d + foldr max (map (\<lambda>p. value_depth (snd p)) ?e) 0), False, False) \<or> ?e = []" if "Suc d \<le> k" for k
      by (rule scan_join [OF member that])
    moreover have "foldr max (map (\<lambda>p. value_depth (snd p)) ?e) 0 = foldr max (map (\<lambda>p. value_depth (snd p)) e) 0"
      by (rule foldr_max_set) simp
    ultimately show ?thesis
      unfolding PDict canonical_json_dict
      by (cases "?e = []") (auto simp: depth_step_at)
  qed (use 1 in \<open>auto simp: scan_string depth_step_at max_def intro!: scan_plain dest: int_str_plain\<close>)
qed

lemma nesting_depth_value: "float_free v \<Longrightarrow> json_nesting_depth (canonical_json v) = value_depth v"
  by (simp add: json_nesting_depth_def scan_value)

subsection \<open>The size of a text\<close>

text \<open>The canonical text is ASCII; its size in bytes is the sum over the parts of the value.\<close>

function json_bytes :: "pyval \<Rightarrow> nat" where
  "json_bytes v = (case v of
     PList xs \<Rightarrow> (if xs = [] then 2 else 1 + sum_list (map (\<lambda>x. json_bytes x + 1) xs))
   | PDict d \<Rightarrow> (if d = [] then 2
       else 1 + sum_list (map (\<lambda>p. length (json_string (str_of (fst p))) + json_bytes (snd p) + 2) d))
   | PStr s \<Rightarrow> length (json_string s)
   | PNone \<Rightarrow> 4 | PBool b \<Rightarrow> (if b then 4 else 5) | PInt i \<Rightarrow> length (int_str i) | PFloat r t \<Rightarrow> length t)"
  by pat_completeness auto
termination by (relation "measure size") (auto dest: size_entry size_list_estimation' [where f = size, OF _ order_refl])

declare json_bytes.simps [simp del]

lemma length_join:
  "xs \<noteq> [] \<Longrightarrow> length (join '','' (map f xs)) + 1 = sum_list (map (\<lambda>x. length (f x) + 1) xs)"
  by (induction xs) (auto simp: join_Cons)

lemma length_canonical: "length (canonical_json v) = json_bytes v"
proof (induction v rule: json_bytes.induct)
  case (1 v)
  show ?case
  proof (cases v)
    case (PList xs)
    have "map (\<lambda>x. length (canonical_json x) + 1) xs = map (\<lambda>x. json_bytes x + 1) xs"
      using 1(1) [OF PList] by (cases "xs = []") simp_all
    from arg_cong [of _ _ sum_list, OF this] show ?thesis
      using length_join [of xs canonical_json] by (simp add: PList json_bytes.simps [of "PList xs"])
  next
    case (PDict d)
    let ?e = "sort_key (\<lambda>p. str_of (fst p)) d"
    let ?part = "\<lambda>p. length (member_text (str_of (fst p), canonical_json (snd p))) + 1"
    have "mset (map ?part ?e) = mset (map ?part d)" by (simp only: mset_map mset_sort)
    from arg_cong [of _ _ sum_mset, OF this] have "sum_list (map ?part ?e) = sum_list (map ?part d)"
      by (simp only: sum_mset_sum_list)
    also have "map ?part d = map (\<lambda>p. length (json_string (str_of (fst p))) + json_bytes (snd p) + 2) d"
      using 1(2) [OF PDict] by (cases "d = []") (simp_all add: member_text_def)
    finally have parts: "sum_list (map ?part ?e) =
        sum_list (map (\<lambda>p. length (json_string (str_of (fst p))) + json_bytes (snd p) + 2) d)" .
    show ?thesis
    proof (cases "d = []")
      case False
      then have "?e \<noteq> []" using set_sort [of "\<lambda>p. str_of (fst p)" d] by force
      with False parts show ?thesis
        using length_join [of ?e "\<lambda>p. member_text (str_of (fst p), canonical_json (snd p))"]
        unfolding PDict canonical_json_dict json_bytes.simps [of "PDict d"] by simp
    qed (simp add: PDict json_bytes.simps)
  qed (simp_all add: json_bytes.simps)
qed

lemma ascii_width: "(of_char c :: nat) < 128 \<Longrightarrow> utf8_width c = 1"
  by (simp add: utf8_width_def)

lemma ascii_size: "\<forall>c \<in> set s. (of_char c :: nat) < 128 \<Longrightarrow> utf8_size s = length s"
  by (induction s) (simp_all add: utf8_size_def ascii_width)

lemma hex_char_ascii: "n < 16 \<Longrightarrow> (of_char (hex_char n) :: nat) < 128"
  by (simp add: hex_char_def)

lemma json_char_ascii: "c \<in> set (json_char d) \<Longrightarrow> (of_char c :: nat) < 128"
proof -
  have "(of_char d :: nat) div 16 < 16" by (simp add: div_less_iff_less_mult)
  then show "c \<in> set (json_char d) \<Longrightarrow> ?thesis"
    by (auto simp: json_char_def Let_def hex_char_ascii split: if_splits)
qed

lemma join_chars: "c \<in> set (join sep xs) \<Longrightarrow> c \<in> set sep \<or> (\<exists>x \<in> set xs. c \<in> set x)"
  by (induction xs) (auto simp: join_Cons split: if_splits)

lemma json_string_ascii: "c \<in> set (json_string s) \<Longrightarrow> (of_char c :: nat) < 128"
  by (auto simp: json_string_def dest: json_char_ascii)

lemma canonical_ascii: "float_free v \<Longrightarrow> c \<in> set (canonical_json v) \<Longrightarrow> (of_char c :: nat) < 128"
proof (induction v rule: float_free.induct)
  case (1 v)
  show ?case
  proof (cases v)
    case (PList xs)
    then show ?thesis using 1 by (auto simp: list_all_iff dest!: join_chars)
  next
    case (PDict d)
    have "(of_char c :: nat) < 128" if "p \<in> set d" "c \<in> set (member_text (str_of (fst p), canonical_json (snd p)))" for p
      using 1(2) [OF PDict that(1)] 1(3) that by (auto simp: PDict member_text_def list_all_iff dest: json_string_ascii)
    then show ?thesis
      using 1(4) unfolding PDict canonical_json_dict by (auto dest!: join_chars)
  next
    case (PInt i)
    have "c = CHR ''-'' \<or> is_digit_c c"
      using 1(4) nat_str_value [of "nat i"] nat_str_value [of "nat (- i)"]
      by (auto simp: PInt int_str_def list_all_iff split: if_splits)
    then show ?thesis by (auto simp: is_digit_c_def Let_def)
  qed (use 1 in \<open>auto dest: json_string_ascii split: if_splits\<close>)
qed

lemma canonical_size: "float_free v \<Longrightarrow> utf8_size (canonical_json v) = json_bytes v"
  using ascii_size [of "canonical_json v"] canonical_ascii [of v] by (simp add: length_canonical)

subsection \<open>Writing and reading back\<close>

lemma sqlite_json_text_Inr:
  "sqlite_json_text v code path = Inr text \<longleftrightarrow>
     text = canonical_json v \<and> utf8_size text \<le> MAX_SQLITE_JSON_BYTES \<and> json_nesting_depth text \<le> MAX_SQLITE_JSON_DEPTH"
  by (auto simp: sqlite_json_text_def guarded_Inr validate_sqlite_json_text_def not_less)

text \<open>What was written is read back, with its keys in order, whatever error code the reader uses.\<close>

lemma written_text_loads:
  assumes "sqlite_json_text v code path = Inr text" "json_value v" "float_free v" "is_dict v"
  shows "loads_json_mapping text code' path' = Inr (json_sorted v)"
proof -
  have dict: "is_dict (json_sorted v)" using assms(4) by (auto simp: is_dict_iff)
  have sizes: "validate_sqlite_json_text text code' path' = None"
    using assms(1) unfolding sqlite_json_text_Inr validate_sqlite_json_text_def by auto
  have "text = canonical_json v" using assms(1) by (auto simp: sqlite_json_text_Inr)
  then show ?thesis
    using sizes dict json_loads_canonical [OF assms(2,3)] by (simp add: loads_json_mapping_def)
qed

end
