(* ===== verification/Task_Store.thy ===== *)
theory Task_Store
  imports Workflow_Audit Sqlite_Text "HOL-Library.AList"
begin

text \<open>
  The authoritative rows of tasks and audit events of \<open>acgps/workflow_store.py\<close>: the two SQLite
  tables, the texts in them, and every operation of \<open>WorkflowStore\<close> on them. A row holds a text;
  a table is the list of its rows in the order of insertion under pairwise different keys. The
  exported files are kept beside the tables: the text of a state file, the lines of an audit file
  (no lines when there is no file). A transaction either commits all of its rows or none; what
  the connection does around it (authority markers, locks) and errors of the operating system
  are not modelled. \<open>sha\<close> and \<open>cat\<close> are those of the validators.
\<close>

record task_store =
  state_rows :: "(string \<times> string) list"
  event_rows :: "((string \<times> int \<times> int) \<times> string) list"
  state_files :: "string \<Rightarrow> string option"
  audit_files :: "string \<Rightarrow> string list"

definition empty_store :: task_store where
  "empty_store = \<lparr>state_rows = [], event_rows = [], state_files = (\<lambda>_. None), audit_files = (\<lambda>_. [])\<rparr>"

subsection \<open>Files\<close>

definition state_path :: "string \<Rightarrow> string" where
  "state_path task = ''tasks/'' @ task @ ''/state.json''"

definition audit_path :: "string \<Rightarrow> int \<Rightarrow> string" where
  "audit_path task generation = (let n = int_str generation in
     ''audit/'' @ task @ ''/generation-'' @ replicate (6 - length n) (CHR ''0'') @ n @ ''.jsonl'')"

definition write_state_atomic :: "string \<Rightarrow> pyval \<Rightarrow> task_store \<Rightarrow> task_store" where
  "write_state_atomic path record store =
     store\<lparr>state_files := (state_files store)(path \<mapsto> canonical_json record @ [CHR 0x0A])\<rparr>"

definition ensure_audit_export_line :: "string \<Rightarrow> string \<Rightarrow> task_store \<Rightarrow> exn option \<times> task_store" where
  "ensure_audit_export_line path line store =
     (let lines = audit_files store path in
      if line \<in> set lines then
        (store_error ''WORKFLOW_AUDIT_CORRUPT'' ''audit_event'' ''audit export contains duplicate event''
           (1 < count_list lines line), store)
      else (None, store\<lparr>audit_files := (audit_files store)(path := lines @ [line])\<rparr>))"

subsection \<open>Task states\<close>

definition state_error :: "string \<Rightarrow> string \<Rightarrow> bool \<Rightarrow> guard" where
  "state_error path message b = store_error ''WORKFLOW_STATE_CORRUPT'' path message b"

definition audit_error :: "string \<Rightarrow> string \<Rightarrow> bool \<Rightarrow> guard" where
  "audit_error path message b = store_error ''WORKFLOW_AUDIT_CORRUPT'' path message b"

lemma store_errors_None [simp]:
  "state_error path message b = None \<longleftrightarrow> \<not> b" "audit_error path message b = None \<longleftrightarrow> \<not> b"
  by (simp_all add: state_error_def audit_error_def)

lemma store_errors_False [simp]: "state_error path message False = None" "audit_error path message False = None"
  by simp_all

text \<open>A row of the table parsed and validated; its identity is compared with the row's key.\<close>

definition loaded_state :: "string \<Rightarrow> pyval res" where
  "loaded_state text = rbind (loads_json_mapping text ''WORKFLOW_STATE_CORRUPT'' ''task_state'')
     (\<lambda>v. guarded (validate_task_state v) (Inr v))"

definition identified_state :: "string \<Rightarrow> pyval \<Rightarrow> string \<Rightarrow> pyval res" where
  "identified_state message task text = rbind (loaded_state text)
     (\<lambda>v. guarded (state_error ''task_state.task_id'' message (\<not> py_eq (vget v ''task_id'') task)) (Inr v))"

definition write_task_state :: "pyval \<Rightarrow> task_store \<Rightarrow> unit res \<times> task_store" where
  "write_task_state state store =
     (case guarded (validate_task_state state) (sqlite_json_text state ''WORKFLOW_INVALID_INPUT'' ''task_state'') of
        Inl e \<Rightarrow> (Inl e, store)
      | Inr payload \<Rightarrow> (let task = str_of (vget state ''task_id'') in
          (Inr (), write_state_atomic (state_path task) state
             (store\<lparr>state_rows := AList.update task payload (state_rows store)\<rparr>))))"

definition read_task_state :: "task_store \<Rightarrow> pyval \<Rightarrow> pyval res" where
  "read_task_state store task_id =
     guarded (require_safe_id task_id ''task_id'')
      (case map_of (state_rows store) (str_of task_id) of
         None \<Rightarrow> Inl (WorkflowStoreError ''WORKFLOW_STATE_CORRUPT'' ''task_state''
           ''authoritative task-state row is missing'')
       | Some text \<Rightarrow> identified_state ''task-state payload must match requested task_id'' task_id text)"

text \<open>A loop that collects one result for each row and stops at the first exception.\<close>

fun mapM_res :: "('a \<Rightarrow> 'b res) \<Rightarrow> 'a list \<Rightarrow> 'b list res" where
  "mapM_res f [] = Inr []"
| "mapM_res f (x # xs) = rbind (f x) (\<lambda>y. rbind (mapM_res f xs) (\<lambda>ys. Inr (y # ys)))"

text \<open>The rows in the order of their keys.\<close>

definition ordered_state_rows :: "task_store \<Rightarrow> (string \<times> string) list" where
  "ordered_state_rows store = sort_key fst (state_rows store)"

definition read_task_states :: "task_store \<Rightarrow> pyval list res" where
  "read_task_states store =
     mapM_res (\<lambda>(task, text). identified_state ''task-state row identity mismatch'' (PStr task) text)
       (ordered_state_rows store)"

definition waiting_row :: "string \<times> string \<Rightarrow> (string \<times> string) option res" where
  "waiting_row row = rbind (identified_state ''task-state row identity mismatch'' (PStr (fst row)) (snd row))
     (\<lambda>v. let pending = vget v ''pending_decision_id'' in
        if vget v ''current_state'' \<noteq> PStr ''WAITING_HUMAN'' then Inr None
        else guarded (state_error ''task_state.pending_decision_id''
            ''WAITING_HUMAN state requires a pending decision identity'' (\<not> is_str pending))
          (Inr (Some (fst row, str_of pending))))"

definition read_waiting_human_decisions :: "task_store \<Rightarrow> (string \<times> string) list res" where
  "read_waiting_human_decisions store =
     rbind (mapM_res waiting_row (ordered_state_rows store)) (\<lambda>rows. Inr (List.map_filter id rows))"

subsection \<open>Audit events\<close>

definition loaded_event :: "(string \<Rightarrow> string) \<Rightarrow> exn + pyval \<Rightarrow> string \<Rightarrow> pyval res" where
  "loaded_event sha cat text = rbind (loads_json_mapping text ''WORKFLOW_AUDIT_CORRUPT'' ''audit_event'')
     (\<lambda>v. guarded (validate_audit_event sha cat v) (Inr v))"

text \<open>The rows of a generation in the order of their sequence numbers.\<close>

definition generation_rows :: "task_store \<Rightarrow> string \<Rightarrow> int \<Rightarrow> (int \<times> string) list" where
  "generation_rows store task generation = sort_key fst
     (map (\<lambda>((t, g, n), text). (n, text))
       (filter (\<lambda>((t, g, n), text). t = task \<and> g = generation) (event_rows store)))"

fun read_rows :: "(string \<Rightarrow> string) \<Rightarrow> exn + pyval \<Rightarrow> string \<Rightarrow> int \<Rightarrow> int \<Rightarrow> (int \<times> string) list \<Rightarrow> pyval list res" where
  "read_rows sha cat task generation expected [] = Inr []"
| "read_rows sha cat task generation expected ((n, text) # rows) =
     guarded (audit_error ''sequence'' ''authoritative audit sequence is not contiguous'' (n \<noteq> expected))
      (rbind (loaded_event sha cat text) (\<lambda>v.
        guarded (audit_error ''audit_event'' ''audit row key does not match event payload''
          (\<not> (py_eq (vget v ''task_id'') (PStr task) \<and> py_eq (vget v ''generation'') (PInt generation) \<and>
             py_eq (vget v ''sequence'') (PInt n))))
         (rbind (read_rows sha cat task generation (expected + 1) rows) (\<lambda>vs. Inr (v # vs)))))"

definition read_audit_events ::
    "(string \<Rightarrow> string) \<Rightarrow> exn + pyval \<Rightarrow> task_store \<Rightarrow> pyval \<Rightarrow> pyval \<Rightarrow> pyval list res" where
  "read_audit_events sha cat store task_id generation =
     guarded (first_err
       [require_safe_id task_id ''task_id'',
        store_error ''WORKFLOW_INVALID_INPUT'' ''generation'' ''generation must be a positive integer''
          (\<not> int_from 1 generation),
        sqlite_int generation])
      (read_rows sha cat (str_of task_id) (int_of generation) 1
        (generation_rows store (str_of task_id) (int_of generation)))"

text \<open>The coordinate of an event, and the insertion of its row.\<close>

definition coordinate :: "pydict \<Rightarrow> string \<times> int \<times> int" where
  "coordinate d = (str_of (dget d ''task_id''), int_of (dget d ''generation''), int_of (dget d ''sequence''))"

definition insert_event_row :: "pydict \<Rightarrow> string \<Rightarrow> task_store \<Rightarrow> task_store" where
  "insert_event_row d text store = store\<lparr>event_rows := event_rows store @ [(coordinate d, text)]\<rparr>"

definition coordinate_guard :: "pydict \<Rightarrow> guard" where
  "coordinate_guard d = first_err [sqlite_int (dget d ''generation''), sqlite_int (dget d ''sequence'')]"

text \<open>A step of a transaction that has committed: the export that follows may still raise.\<close>

definition exported_event :: "pydict \<Rightarrow> string \<Rightarrow> task_store \<Rightarrow> exn option \<times> task_store" where
  "exported_event d text store =
     ensure_audit_export_line (audit_path (str_of (dget d ''task_id'')) (int_of (dget d ''generation''))) text store"

definition append_audit_event ::
    "(string \<Rightarrow> string) \<Rightarrow> exn + pyval \<Rightarrow> pyval \<Rightarrow> task_store \<Rightarrow> unit res \<times> task_store" where
  "append_audit_event sha cat event store =
     (let d = entries event in
      case guarded (validate_audit_event sha cat event)
          (rbind (sqlite_json_text event ''WORKFLOW_AUDIT_CORRUPT'' ''audit_event'') (\<lambda>text.
            guarded (first_err
              [coordinate_guard d,
               audit_error ''audit_event'' ''audit event sequence already exists''
                 (map_of (event_rows store) (coordinate d) \<noteq> None)]) (Inr text))) of
        Inl e \<Rightarrow> (Inl e, store)
      | Inr text \<Rightarrow> (case exported_event d text (insert_event_row d text store) of
            (Some e, store') \<Rightarrow> (Inl e, store')
          | (None, store') \<Rightarrow> (Inr (), store')))"

subsection \<open>One event and the state it results in\<close>

definition pair_fields :: "pydict \<Rightarrow> (string \<times> pyval) list" where
  "pair_fields event =
     (if dget event ''event_type'' = PStr ''TASK_CREATED'' then
        [(''current_state'', PStr ''DRAFT''), (''previous_state'', PNone), (''last_transition_id'', PNone),
         (''policy_evaluation_id'', PNone)]
      else
        [(''current_state'', dget event ''to_state''), (''previous_state'', dget event ''from_state''),
         (''last_transition_id'', dget event ''transition_id''),
         (''policy_evaluation_id'', vget (dget event ''policy_evaluation_binding'') ''evaluation_id'')])"

definition validate_state_event_pair :: "pydict \<Rightarrow> pydict \<Rightarrow> guard" where
  "validate_state_event_pair event state = first_err
     (map (\<lambda>f. state_error f (''state and audit event '' @ f @ '' must match'') (\<not> py_eq (dget event f) (dget state f)))
        [''task_id'', ''project_id''] @
      [state_error ''audit_generation'' ''state must bind the audit event generation''
         (\<not> py_eq (dget state ''audit_generation'') (dget event ''generation'')),
       state_error ''audit_head_hash'' ''state must bind the committed audit event head''
         (\<not> py_eq (dget state ''audit_head_event_id'') (dget event ''event_id'') \<or>
          \<not> py_eq (dget state ''audit_head_hash'') (dget event ''event_hash'')),
       audit_error ''event_type'' ''atomic state commit accepts task and transition events only''
         (dget event ''event_type'' \<notin> {PStr ''TASK_CREATED'', PStr ''TRANSITION_ACCEPTED''})] @
      map (\<lambda>(f, v). state_error f ''state does not match its audit event'' (\<not> py_eq (dget state f) v))
        (pair_fields event))"

text \<open>The first event of a task, and the successor of the event the stored state is bound to.\<close>

definition first_event_guard :: "pydict \<Rightarrow> task_store \<Rightarrow> guard" where
  "first_event_guard event store =
     audit_error ''audit_event'' ''new task must start with generation 1 sequence 1''
       (list_ex (\<lambda>((t, g, n), text). PStr t = dget event ''task_id'') (event_rows store) \<or>
        dget event ''event_type'' \<noteq> PStr ''TASK_CREATED'' \<or>
        dget event ''generation'' \<noteq> PInt 1 \<or> dget event ''sequence'' \<noteq> PInt 1)"

definition successor_guard ::
    "pydict \<Rightarrow> pydict \<Rightarrow> pydict \<Rightarrow> int \<Rightarrow> pydict \<Rightarrow> guard" where
  "successor_guard event state current latest previous =
     audit_error ''previous_event_hash'' ''audit successor does not match the authoritative head''
       (dget event ''event_type'' \<noteq> PStr ''TRANSITION_ACCEPTED'' \<or>
        \<not> py_eq (dget event ''generation'') (dget current ''audit_generation'') \<or>
        \<not> py_eq (dget event ''sequence'') (PInt (latest + 1)) \<or>
        \<not> py_eq (dget event ''previous_event_hash'') (dget current ''audit_head_hash'') \<or>
        \<not> py_eq (dget previous ''event_id'') (dget current ''audit_head_event_id'') \<or>
        \<not> py_eq (dget previous ''event_hash'') (dget current ''audit_head_hash'') \<or>
        \<not> py_eq (dget event ''from_state'') (dget current ''current_state'') \<or>
        \<not> py_eq (dget state ''previous_state'') (dget current ''current_state''))"

definition validate_authoritative_predecessor ::
    "(string \<Rightarrow> string) \<Rightarrow> exn + pyval \<Rightarrow> pydict \<Rightarrow> pydict \<Rightarrow> task_store \<Rightarrow> string option \<Rightarrow> unit res" where
  "validate_authoritative_predecessor sha cat event state store existing_state =
     (case existing_state of
        None \<Rightarrow> guarded (first_event_guard event store) (Inr ())
      | Some text \<Rightarrow> rbind (loaded_state text) (\<lambda>current.
          let generation = vget current ''audit_generation'';
              rows = generation_rows store (str_of (dget event ''task_id'')) (int_of generation) in
          guarded (first_err
            [sqlite_int generation,
             audit_error ''audit_event'' ''current state has no authoritative audit head'' (rows = [])])
           (rbind (loaded_event sha cat (snd (last rows))) (\<lambda>previous.
             guarded (successor_guard event state (entries current) (fst (last rows)) (entries previous)) (Inr ())))))"

text \<open>
  The transaction of \<open>commit_task_state_and_audit\<close>: whether it has inserted anything, and the
  tables after it.
\<close>

definition commit_rows ::
    "(string \<Rightarrow> string) \<Rightarrow> exn + pyval \<Rightarrow> pydict \<Rightarrow> pydict \<Rightarrow> string \<Rightarrow> string \<Rightarrow> task_store \<Rightarrow> (bool \<times> task_store) res" where
  "commit_rows sha cat event state event_json state_json store =
     guarded (coordinate_guard event)
      (let existing_state = map_of (state_rows store) (str_of (dget state ''task_id'')) in
       case map_of (event_rows store) (coordinate event) of
         Some text \<Rightarrow>
           guarded (audit_error ''audit_event'' ''audit coordinate already has a conflicting event or state''
             (text \<noteq> event_json \<or> existing_state \<noteq> Some state_json)) (Inr (False, store))
       | None \<Rightarrow> rbind (validate_authoritative_predecessor sha cat event state store existing_state) (\<lambda>_.
           Inr (True, (insert_event_row event event_json store)
             \<lparr>state_rows := AList.update (str_of (dget state ''task_id'')) state_json (state_rows store)\<rparr>)))"

definition commit_texts ::
    "(string \<Rightarrow> string) \<Rightarrow> exn + pyval \<Rightarrow> pyval \<Rightarrow> pyval \<Rightarrow> (string \<times> string) res" where
  "commit_texts sha cat event state =
     guarded (first_err
       [validate_audit_event sha cat event, validate_task_state state,
        validate_state_event_pair (entries event) (entries state)])
      (rbind (sqlite_json_text event ''WORKFLOW_AUDIT_CORRUPT'' ''audit_event'') (\<lambda>event_json.
        rbind (sqlite_json_text state ''WORKFLOW_STATE_CORRUPT'' ''task_state'') (\<lambda>state_json.
          Inr (event_json, state_json))))"

definition commit_task_state_and_audit ::
    "(string \<Rightarrow> string) \<Rightarrow> exn + pyval \<Rightarrow> pyval \<Rightarrow> pyval \<Rightarrow> task_store \<Rightarrow> bool res \<times> task_store" where
  "commit_task_state_and_audit sha cat event state store =
     (case rbind (commit_texts sha cat event state) (\<lambda>(event_json, state_json).
          rbind (commit_rows sha cat (entries event) (entries state) event_json state_json store) (\<lambda>(committed, store').
            Inr (committed, event_json, store'))) of
        Inl e \<Rightarrow> (Inl e, store)
      | Inr (committed, event_json, store') \<Rightarrow>
          (case exported_event (entries event) event_json store' of
             (Some e, store'') \<Rightarrow> (Inl e, store'')
           | (None, store'') \<Rightarrow>
               (Inr committed, write_state_atomic (state_path (str_of (vget state ''task_id''))) state store'')))"

end
