(* ===== verification/Task_Log.thy ===== *)
theory Task_Log
  imports Task_Store
begin

text \<open>
  What commits build from an empty store: the rows of every task are one generation of audit
  events that begins with the creation of the task, each event continuing the one before it by
  number, hash and state, and the state row is the record bound to the last of them; the exported
  files hold the same texts.
\<close>

declare canonical_json.simps [simp del] json_sorted_simps(7) [simp del]

subsection \<open>The log of a task\<close>

abbreviation record_text :: "pydict \<Rightarrow> string" where
  "record_text d \<equiv> canonical_json (PDict d)"

text \<open>A record a caller may hand over: a JSON mapping without floats, as all records of the program are.\<close>

definition plain_record :: "pydict \<Rightarrow> bool" where
  "plain_record d \<longleftrightarrow> json_value (PDict d) \<and> float_free (PDict d)"

definition stored_text :: "pydict \<Rightarrow> string \<Rightarrow> bool" where
  "stored_text d text \<longleftrightarrow> plain_record d \<and> text = record_text d \<and>
     utf8_size text \<le> MAX_SQLITE_JSON_BYTES \<and> json_nesting_depth text \<le> MAX_SQLITE_JSON_DEPTH"

text \<open>The workflow state an event leads to.\<close>

definition state_after :: "pydict \<Rightarrow> pyval" where
  "state_after e = (if dget e ''event_type'' = PStr ''TASK_CREATED'' then PStr ''DRAFT'' else dget e ''to_state'')"

definition follows :: "pydict \<Rightarrow> pydict \<Rightarrow> bool" where
  "follows p e \<longleftrightarrow> dget e ''event_type'' = PStr ''TRANSITION_ACCEPTED'' \<and>
     dget e ''previous_event_hash'' = dget p ''event_hash'' \<and> dget e ''from_state'' = state_after p"

text \<open>A state is bound to the event it results from.\<close>

definition bound_to :: "pydict \<Rightarrow> pydict \<Rightarrow> bool" where
  "bound_to st e \<longleftrightarrow> dget st ''current_state'' = state_after e \<and> dget st ''task_id'' = dget e ''task_id'' \<and>
     dget st ''project_id'' = dget e ''project_id'' \<and> dget st ''audit_generation'' = dget e ''generation'' \<and>
     dget st ''audit_head_event_id'' = dget e ''event_id'' \<and> dget st ''audit_head_hash'' = dget e ''event_hash''"

text \<open>The events of a log: the first creates the task, each later one continues its predecessor.\<close>

definition event_of_task :: "(string \<Rightarrow> string) \<Rightarrow> exn + pyval \<Rightarrow> string \<Rightarrow> pydict \<Rightarrow> bool" where
  "event_of_task sha cat task e \<longleftrightarrow>
     stored_text e (record_text e) \<and> validate_audit_event sha cat (PDict e) = None \<and>
     dget e ''task_id'' = PStr task \<and> dget e ''generation'' = PInt 1"

definition log_events :: "(string \<Rightarrow> string) \<Rightarrow> exn + pyval \<Rightarrow> string \<Rightarrow> pydict list \<Rightarrow> bool" where
  "log_events sha cat task es \<longleftrightarrow> es \<noteq> [] \<and> list_all (event_of_task sha cat task) es \<and>
     dget (hd es) ''event_type'' = PStr ''TASK_CREATED'' \<and> successively follows es \<and>
     list_all (\<lambda>(i, e). dget e ''sequence'' = PInt (int i)) (numbered 1 es)"

definition task_rows :: "task_store \<Rightarrow> string \<Rightarrow> ((string \<times> int \<times> int) \<times> string) list" where
  "task_rows store task = filter (\<lambda>r. fst (fst r) = task) (event_rows store)"

definition log_rows :: "string \<Rightarrow> pydict list \<Rightarrow> ((string \<times> int \<times> int) \<times> string) list" where
  "log_rows task es = map (\<lambda>(i, e). ((task, 1, int i), record_text e)) (numbered 1 es)"

definition task_logged :: "(string \<Rightarrow> string) \<Rightarrow> exn + pyval \<Rightarrow> task_store \<Rightarrow> string \<Rightarrow> pydict list \<Rightarrow> pydict \<Rightarrow> bool" where
  "task_logged sha cat store task es st \<longleftrightarrow>
     log_events sha cat task es \<and> task_rows store task = log_rows task es \<and>
     map_of (state_rows store) task = Some (record_text st) \<and>
     stored_text st (record_text st) \<and> validate_task_state (PDict st) = None \<and> bound_to st (last es) \<and>
     audit_files store (audit_path task 1) = map (\<lambda>e. record_text e) es \<and>
     state_files store (state_path task) = Some (record_text st @ [CHR 0x0A])"

definition task_absent :: "task_store \<Rightarrow> string \<Rightarrow> bool" where
  "task_absent store task \<longleftrightarrow> task_rows store task = [] \<and> map_of (state_rows store) task = None \<and>
     audit_files store (audit_path task 1) = [] \<and> state_files store (state_path task) = None"

definition store_logged :: "(string \<Rightarrow> string) \<Rightarrow> exn + pyval \<Rightarrow> task_store \<Rightarrow> bool" where
  "store_logged sha cat store \<longleftrightarrow>
     (\<forall>task. task_absent store task \<or> (\<exists>es st. task_logged sha cat store task es st))"

subsection \<open>Rows and numbers\<close>

lemma numbered_append: "numbered i (xs @ ys) = numbered i xs @ numbered (i + length xs) ys"
  by (induction xs arbitrary: i) auto

lemma log_rows_snoc:
  "log_rows task (es @ [e]) = log_rows task es @ [((task, 1, int (length es) + 1), record_text e)]"
  by (simp add: log_rows_def numbered_append)

lemma map_of_log_rows:
  "map_of (log_rows task es) (task, 1, n) =
     (if 1 \<le> n \<and> n \<le> int (length es) then Some (record_text (es ! nat (n - 1))) else None)"
proof (induction es rule: rev_induct)
  case (snoc e es)
  have "map_of (log_rows task es @ [((task, 1, int (length es) + 1), t)]) (task, 1, n) =
      (case map_of (log_rows task es) (task, 1, n) of Some x \<Rightarrow> Some x
       | None \<Rightarrow> if n = int (length es) + 1 then Some t else None)" for t
    by (auto simp: map_of_append map_add_def split: option.splits)
  then show ?case by (auto simp: log_rows_snoc snoc nth_append)
qed (simp add: log_rows_def)

lemma log_rows_other: "(t, g, n) \<noteq> (task, 1, n) \<Longrightarrow> map_of (log_rows task es) (t, g, n) = None"
  by (auto simp: log_rows_def map_of_eq_None_iff)

lemma map_of_task_rows: "map_of (event_rows store) (task, g, n) = map_of (task_rows store task) (task, g, n)"
proof -
  have "map_of rows (task, g, n) = map_of (filter (\<lambda>r. fst (fst r) = task) rows) (task, g, n)"
    for rows :: "((string \<times> int \<times> int) \<times> string) list"
    by (induction rows) auto
  then show ?thesis by (simp add: task_rows_def)
qed

lemma sorted_numbered: "sorted (map (\<lambda>p. int (fst p)) (numbered k xs))"
  by (induction xs arbitrary: k) (auto simp: numbered_set)

lemma generation_rows_log:
  assumes "task_rows store task = log_rows task es"
  shows "generation_rows store task 1 = map (\<lambda>(i, e). (int i, record_text e)) (numbered 1 es)"
proof -
  let ?pick = "\<lambda>((t, g, n), text). (n, text)"
  have "filter (\<lambda>((t, g, n), text). t = task \<and> g = 1) (event_rows store) =
      filter (\<lambda>((t, g, n), text). g = 1) (task_rows store task)"
    by (auto simp: task_rows_def intro: filter_cong)
  also have "\<dots> = log_rows task es" by (auto simp: assms log_rows_def intro: filter_True)
  finally have "map ?pick (filter (\<lambda>((t, g, n), text). t = task \<and> g = 1) (event_rows store)) =
      map (\<lambda>(i, e). (int i, record_text e)) (numbered 1 es)"
    by (simp add: log_rows_def case_prod_beta)
  moreover have "sorted (map fst (map (\<lambda>(i, e). (int i, record_text e)) (numbered 1 es)))"
    using sorted_numbered [of 1 es] by (simp add: case_prod_beta comp_def)
  ultimately show ?thesis by (simp add: generation_rows_def sort_key_id_if_sorted)
qed

subsection \<open>What a commit has checked\<close>

lemma py_eq_int [simp]: "py_eq (PInt a) (PInt b) \<longleftrightarrow> a = b"
  by (simp add: py_eq.simps atom_eq_def)

lemma int_of_simps [simp]: "int_of (PInt i) = i"
  by (simp add: int_of_def)

text \<open>The fields of an accepted event and of an accepted state the store compares.\<close>

lemma event_identity:
  assumes "validate_audit_event sha cat (PDict e) = None"
  obtains task project event hash g n where "dget e ''task_id'' = PStr task" "is_safe_id task"
    "dget e ''project_id'' = PStr project" "dget e ''event_id'' = PStr event" "dget e ''event_hash'' = PStr hash"
    "dget e ''generation'' = PInt g" "dget e ''sequence'' = PInt n" "1 \<le> g" "1 \<le> n"
  using event_head_accepted(1-7) [OF event_guards(1) [OF assms]] by metis

lemma state_identity:
  assumes "validate_task_state (PDict st) = None"
  obtains task project event hash g current where "dget st ''task_id'' = PStr task" "dget st ''project_id'' = PStr project"
    "dget st ''audit_head_event_id'' = PStr event" "dget st ''audit_head_hash'' = PStr hash"
    "dget st ''audit_generation'' = PInt g" "dget st ''current_state'' = PStr current"
  using task_state_accepted(1-6) [OF assms] by metis

lemma pair_accepted:
  assumes ev: "validate_audit_event sha cat (PDict e) = None" and st: "validate_task_state (PDict st) = None"
    and pair: "validate_state_event_pair e st = None"
  shows "bound_to st e" "dget e ''event_type'' \<in> {PStr ''TASK_CREATED'', PStr ''TRANSITION_ACCEPTED''}"
proof -
  obtain task project event hash g n where e: "dget e ''task_id'' = PStr task" "dget e ''project_id'' = PStr project"
    "dget e ''event_id'' = PStr event" "dget e ''event_hash'' = PStr hash" "dget e ''generation'' = PInt g"
    using event_identity [OF ev] by metis
  obtain g' current where s: "dget st ''audit_generation'' = PInt g'" "dget st ''current_state'' = PStr current"
    using state_identity [OF st] by metis
  show type: "dget e ''event_type'' \<in> {PStr ''TASK_CREATED'', PStr ''TRANSITION_ACCEPTED''}"
    using pair by (simp add: validate_state_event_pair_def)
  have "py_eq (dget st ''current_state'') (snd (hd (pair_fields e)))"
    using pair by (simp add: validate_state_event_pair_def pair_fields_def split: if_splits)
  then have "dget st ''current_state'' = state_after e"
    using s(2) by (auto simp: pair_fields_def state_after_def split: if_splits)
  moreover have "dget st ''task_id'' = dget e ''task_id''" "dget st ''project_id'' = dget e ''project_id''"
    "dget st ''audit_generation'' = dget e ''generation''" "dget st ''audit_head_event_id'' = dget e ''event_id''"
    "dget st ''audit_head_hash'' = dget e ''event_hash''"
    using pair e s(1) by (simp_all add: validate_state_event_pair_def)
  ultimately show "bound_to st e" by (simp add: bound_to_def)
qed

lemma commit_texts_Inr:
  assumes "commit_texts sha cat event state = Inr (event_json, state_json)"
  obtains e st where "event = PDict e" "state = PDict st" "validate_audit_event sha cat (PDict e) = None"
    "validate_task_state (PDict st) = None" "validate_state_event_pair e st = None"
    "event_json = record_text e" "state_json = record_text st"
    "plain_record e \<Longrightarrow> stored_text e event_json" "plain_record st \<Longrightarrow> stored_text st state_json"
proof -
  from assms have ok: "validate_audit_event sha cat event = None" "validate_task_state state = None"
    "validate_state_event_pair (entries event) (entries state) = None"
    and texts: "sqlite_json_text event ''WORKFLOW_AUDIT_CORRUPT'' ''audit_event'' = Inr event_json"
      "sqlite_json_text state ''WORKFLOW_STATE_CORRUPT'' ''task_state'' = Inr state_json"
    by (auto simp: commit_texts_def guarded_Inr rbind_Inr)
  obtain e st where "event = PDict e" "state = PDict st"
    using audit_event_dict [OF ok(1)] task_state_dict [OF ok(2)] by blast
  with ok texts show ?thesis
    by (intro that [of e st]) (auto simp: sqlite_json_text_Inr stored_text_def)
qed

subsection \<open>The transaction\<close>

lemma stored_text_loads:
  "stored_text d text \<Longrightarrow> loads_json_mapping text code path = Inr (json_sorted (PDict d))"
  by (rule written_text_loads [of "PDict d" code path])
     (auto simp: stored_text_def plain_record_def sqlite_json_text_Inr)

lemma vget_sorted: "plain_record d \<Longrightarrow> vget (json_sorted (PDict d)) f = json_sorted (dget d f)"
  by (simp only: plain_record_def json_sorted_get)

lemma dget_sorted: "plain_record d \<Longrightarrow> dget (entries (json_sorted (PDict d))) f = json_sorted (dget d f)"
  using vget_sorted [of d f] by (simp add: json_sorted_simps(7))

lemma task_rows_insert:
  "task_rows (insert_event_row d text store) task =
     (if str_of (dget d ''task_id'') = task then task_rows store task @ [(coordinate d, text)] else task_rows store task)"
  by (simp add: insert_event_row_def task_rows_def coordinate_def)

lemma task_rows_update [simp]: "task_rows (store\<lparr>state_rows := rows\<rparr>) task = task_rows store task"
  by (simp add: task_rows_def)

lemma numbered_eq_Nil [simp]: "numbered i xs = [] \<longleftrightarrow> xs = []"
  by (cases xs) simp_all

lemma last_numbered_texts:
  "es \<noteq> [] \<Longrightarrow> last (map (\<lambda>(i, e). (int i, record_text e)) (numbered 1 es)) = (int (length es), record_text (last es))"
  by (induction es rule: rev_induct) (simp_all add: numbered_append)

text \<open>The event a successor continues, from the checks against the stored rows.\<close>

lemma successor_accepted:
  assumes logged: "task_logged sha cat store task es st0"
    and ev: "validate_audit_event sha cat (PDict e) = None" and task: "dget e ''task_id'' = PStr task"
    and pred: "validate_authoritative_predecessor sha cat e st store (map_of (state_rows store) task) = Inr ()"
  shows "follows (last es) e" "dget e ''generation'' = PInt 1" "dget e ''sequence'' = PInt (int (length es) + 1)"
proof -
  let ?row = "record_text st0"
  have es: "es \<noteq> []" "list_all (event_of_task sha cat task) es"
    and rows: "task_rows store task = log_rows task es"
    and row: "map_of (state_rows store) task = Some ?row" and st0: "stored_text st0 ?row"
    "validate_task_state (PDict st0) = None" "bound_to st0 (last es)"
    using logged by (simp_all add: task_logged_def log_events_def)
  have plain: "plain_record st0" "plain_record (last es)"
    using st0(1) es by (simp_all add: stored_text_def list_all_iff event_of_task_def)
  have last_ok: "event_of_task sha cat task (last es)" using es by (simp add: list_all_iff)
  let ?current = "json_sorted (PDict st0)" and ?previous = "json_sorted (PDict (last es))"
  have gen: "vget ?current ''audit_generation'' = PInt 1"
    using st0(3) last_ok plain(1) by (simp add: vget_sorted bound_to_def event_of_task_def)
  let ?rows = "generation_rows store task 1"
  have tail: "?rows \<noteq> []" "last ?rows = (int (length es), record_text (last es))"
    unfolding generation_rows_log [OF rows] using es(1) last_numbered_texts [OF es(1)] by simp_all
  have guard: "successor_guard e st (entries ?current) (int (length es)) (entries ?previous) = None"
    using pred st0(1) last_ok
    by (auto simp: validate_authoritative_predecessor_def row loaded_state_def loaded_event_def rbind_Inr guarded_Inr
        stored_text_loads event_of_task_def gen tail task Let_def)
  obtain g n where num: "dget e ''generation'' = PInt g" "dget e ''sequence'' = PInt n"
    using event_identity [OF ev] by metis
  obtain hash where hash: "dget st0 ''audit_head_hash'' = PStr hash" using state_identity [OF st0(2)] by metis
  obtain current where current: "dget st0 ''current_state'' = PStr current" using state_identity [OF st0(2)] by metis
  note eqs = guard [unfolded successor_guard_def store_errors_None dget_sorted [OF plain(1)] dget_sorted [OF plain(2)] hash current
      json_sorted_simps(1-6) py_eq_str num]
  show "dget e ''generation'' = PInt 1" "dget e ''sequence'' = PInt (int (length es) + 1)"
    using eqs num st0(3) last_ok by (auto simp: bound_to_def event_of_task_def)
  show "follows (last es) e"
    using eqs hash current st0(3) by (auto simp: follows_def bound_to_def)
qed

text \<open>Extending a log by its successor.\<close>

lemma log_events_snoc:
  assumes "log_events sha cat task es" "event_of_task sha cat task e" "follows (last es) e"
    "dget e ''sequence'' = PInt (int (length es) + 1)"
  shows "log_events sha cat task (es @ [e])"
  using assms by (auto simp: log_events_def successively_append_iff numbered_append hd_append)

lemma count_list_distinct: "distinct xs \<Longrightarrow> count_list xs x \<le> 1"
  by (induction xs) auto

text \<open>The events of a log have different texts: they differ in their numbers.\<close>

lemma log_event_sequence:
  "log_events sha cat task es \<Longrightarrow> i < length es \<Longrightarrow> dget (es ! i) ''sequence'' = PInt (int i + 1)"
proof -
  assume "log_events sha cat task es" "i < length es"
  moreover from this have "(Suc i, es ! i) \<in> set (numbered 1 es)" by (simp add: numbered_set)
  ultimately show ?thesis by (fastforce simp: log_events_def list_all_iff)
qed

lemma record_text_fields:
  assumes "plain_record d" "plain_record e" "record_text d = record_text e"
  shows "json_sorted (dget d f) = json_sorted (dget e f)"
  using assms canonical_json_inject [of "PDict d" "PDict e"] vget_sorted by (metis plain_record_def)

lemma log_texts_distinct:
  assumes "log_events sha cat task es"
  shows "distinct (map record_text es)"
  unfolding distinct_conv_nth length_map
proof (intro allI impI)
  fix i j assume i: "i < length es" and j: "j < length es" and "i \<noteq> j"
  have plain: "plain_record (es ! i)" "plain_record (es ! j)"
    using assms i j by (simp_all add: log_events_def list_all_length event_of_task_def stored_text_def)
  have "record_text (es ! i) \<noteq> record_text (es ! j)"
    using record_text_fields [OF plain, of "''sequence''"] log_event_sequence [OF assms i] log_event_sequence [OF assms j] \<open>i \<noteq> j\<close>
    by auto
  then show "map record_text es ! i \<noteq> map record_text es ! j" using i j by simp
qed

subsection \<open>One commit\<close>

lemma audit_path_inject [simp]: "audit_path a g = audit_path b g \<longleftrightarrow> a = b"
  by (simp add: audit_path_def Let_def)

lemma state_path_inject [simp]: "state_path a = state_path b \<longleftrightarrow> a = b"
  by (simp add: state_path_def)

text \<open>The store after a commit that inserts: one row, one state, one line and one file.\<close>

definition committed_store :: "string \<Rightarrow> pydict \<Rightarrow> pydict \<Rightarrow> task_store \<Rightarrow> task_store" where
  "committed_store task e st store =
     \<lparr>state_rows = AList.update task (record_text st) (state_rows store),
      event_rows = event_rows store @ [(coordinate e, record_text e)],
      state_files = (state_files store)(state_path task \<mapsto> record_text st @ [CHR 0x0A]),
      audit_files = (audit_files store)(audit_path task 1 := audit_files store (audit_path task 1) @ [record_text e])\<rparr>"

lemma committed_store_other:
  assumes "t \<noteq> task" "dget e ''task_id'' = PStr task"
  shows "task_absent (committed_store task e st store) t \<longleftrightarrow> task_absent store t"
    "task_logged sha cat (committed_store task e st store) t es s \<longleftrightarrow> task_logged sha cat store t es s"
  using assms by (simp_all add: committed_store_def task_absent_def task_logged_def task_rows_def coordinate_def update_conv')

lemma committed_store_first:
  assumes "task_absent store task" "event_of_task sha cat task e" "dget e ''event_type'' = PStr ''TASK_CREATED''"
    "dget e ''sequence'' = PInt 1" "stored_text st (record_text st)" "validate_task_state (PDict st) = None" "bound_to st e"
  shows "task_logged sha cat (committed_store task e st store) task [e] st"
  using assms
  by (auto simp: committed_store_def task_absent_def task_logged_def task_rows_def coordinate_def update_conv'
      log_events_def log_rows_def event_of_task_def)

lemma committed_store_next:
  assumes "task_logged sha cat store task es st0" "event_of_task sha cat task e" "follows (last es) e"
    "dget e ''sequence'' = PInt (int (length es) + 1)" "stored_text st (record_text st)"
    "validate_task_state (PDict st) = None" "bound_to st e"
  shows "task_logged sha cat (committed_store task e st store) task (es @ [e]) st"
  using assms log_events_snoc [of sha cat task es e]
  by (auto simp: committed_store_def task_logged_def task_rows_def coordinate_def update_conv'
      log_rows_snoc event_of_task_def)

lemma first_guard_accepted:
  assumes "first_event_guard e store = None" "dget e ''task_id'' = PStr task"
  shows "dget e ''event_type'' = PStr ''TASK_CREATED''" "dget e ''generation'' = PInt 1" "dget e ''sequence'' = PInt 1"
  using assms(1) by (simp_all add: first_event_guard_def)

text \<open>
  A commit on a store that commits have built raises and changes nothing, repeats what is there
  and changes nothing, or inserts the first or the next event of its task.
\<close>

lemma commit_outcomes:
  assumes logged: "task_absent store task \<or> (\<exists>es st0. task_logged sha cat store task es st0)"
    and task: "vget event ''task_id'' = PStr task" and plain: "plain_record (entries event)" "plain_record (entries state)"
    and run: "commit_task_state_and_audit sha cat event state store = (r, store')"
  obtains (raised) x where "r = Inl x" "store' = store"
  | (repeated) es st0 where "r = Inr False" "store' = store" "task_logged sha cat store task es st0"
      "canonical_json event \<in> record_text ` set es" "canonical_json state = record_text st0"
  | (first) e st where "r = Inr True" "event = PDict e" "state = PDict st" "store' = committed_store task e st store"
      "task_absent store task" "task_logged sha cat store' task [e] st"
  | (extended) e st es st0 where "r = Inr True" "event = PDict e" "state = PDict st" "store' = committed_store task e st store"
      "task_logged sha cat store task es st0" "task_logged sha cat store' task (es @ [e]) st"
proof (cases "commit_texts sha cat event state")
  case (Inl x)
  then show ?thesis using run by (intro raised [of x]) (auto simp: commit_task_state_and_audit_def)
next
  case (Inr texts)
  obtain event_json state_json where "texts = (event_json, state_json)" by force
  with Inr have texts: "commit_texts sha cat event state = Inr (event_json, state_json)" by simp
  obtain e st where e: "event = PDict e" "state = PDict st" "validate_audit_event sha cat (PDict e) = None"
    "validate_task_state (PDict st) = None" "validate_state_event_pair e st = None"
    "event_json = record_text e" "state_json = record_text st"
    "stored_text e (record_text e)" "stored_text st (record_text st)"
    using commit_texts_Inr [OF texts] plain by (metis projections(3))
  have te: "dget e ''task_id'' = PStr task" using task e(1) by simp
  note bound = pair_accepted [OF e(3,4,5)]
  have ts: "dget st ''task_id'' = PStr task" using bound(1) te by (simp add: bound_to_def)
  let ?rows = "commit_rows sha cat e st (record_text e) (record_text st) store"
  have texts': "commit_texts sha cat (PDict e) (PDict st) = Inr (record_text e, record_text st)"
    using texts e by simp
  note run' = run [unfolded commit_task_state_and_audit_def e(1,2) texts', simplified]
  show ?thesis
  proof (cases ?rows)
    case (Inl x)
    then show ?thesis using run' by (intro raised [of x]) (auto simp: e(6,7))
  next
    case (Inr res)
    then obtain c mid where rows: "?rows = Inr (c, mid)" by (cases res) auto
    note rows' = rows [unfolded commit_rows_def guarded_Inr Let_def ts projections]
    let ?key = "(task, int_of (dget e ''generation''), int_of (dget e ''sequence''))"
    have key: "coordinate e = ?key" by (simp add: coordinate_def te)
    show ?thesis
    proof (cases "map_of (event_rows store) (coordinate e)")
      case (Some old)
      have same: "old = record_text e" "map_of (state_rows store) task = Some (record_text st)" "\<not> c" "mid = store"
        using rows' Some by (auto simp: guarded_Inr)
      then obtain es st0 where log: "task_logged sha cat store task es st0"
        using logged by (auto simp: task_absent_def)
      have parts: "task_rows store task = log_rows task es" "record_text st = record_text st0" "log_events sha cat task es"
        "audit_files store (audit_path task 1) = map record_text es"
        "state_files store (state_path task) = Some (record_text st @ [CHR 0x0A])"
        using log same(2) by (simp_all add: task_logged_def)
      have hit: "map_of (log_rows task es) ?key = Some (record_text e)"
        using Some same(1) by (simp only: key map_of_task_rows parts(1))
      have gen: "int_of (dget e ''generation'') = 1"
      proof (rule ccontr)
        assume "int_of (dget e ''generation'') \<noteq> 1"
        then have "map_of (log_rows task es) ?key = None" by (intro log_rows_other) simp
        then show False using hit by simp
      qed
      have found: "record_text e \<in> record_text ` set es"
      proof -
        let ?i = "nat (int_of (dget e ''sequence'') - 1)"
        have "?i < length es" "record_text (es ! ?i) = record_text e"
          using hit unfolding gen map_of_log_rows by (auto split: if_splits)
        then show ?thesis using image_eqI [of "record_text e" record_text "es ! ?i" "set es"] nth_mem [of ?i es] by simp
      qed
      have "count_list (map record_text es) (record_text e) \<le> 1"
        by (rule count_list_distinct [OF log_texts_distinct [OF parts(3)]])
      then have "exported_event e (record_text e) store = (None, store)"
        using found by (simp add: exported_event_def te gen ensure_audit_export_line_def parts(4) Let_def)
      moreover have "write_state_atomic (state_path task) (PDict st) store = store"
        using parts(5) by (simp add: write_state_atomic_def fun_upd_idem)
      ultimately have "r = Inr False" "store' = store" using run' rows same ts by (simp_all add: e)
      then show ?thesis using repeated [OF _ _ log] found parts(2) by (simp add: e)
    next
      case None
      have pred: "validate_authoritative_predecessor sha cat e st store (map_of (state_rows store) task) = Inr ()"
        and mid: "c" "mid = (insert_event_row e (record_text e) store)
             \<lparr>state_rows := AList.update task (record_text st) (state_rows store)\<rparr>"
        using rows' None by (auto simp: rbind_Inr)
      have step: "r = Inr True \<and> store' = committed_store task e st store"
        if "record_text e \<notin> set (audit_files store (audit_path task 1))" "dget e ''generation'' = PInt 1"
        using run' rows that mid te ts
        by (auto simp: e exported_event_def ensure_audit_export_line_def Let_def insert_event_row_def
            write_state_atomic_def committed_store_def)
      show ?thesis
        using logged
      proof
        assume absent: "task_absent store task"
        then have "first_event_guard e store = None"
          using pred by (simp add: validate_authoritative_predecessor_def task_absent_def guarded_Inr)
        note start = first_guard_accepted [OF this te]
        have did: "r = Inr True \<and> store' = committed_store task e st store"
          by (rule step) (use absent start in \<open>simp_all add: task_absent_def\<close>)
        have "event_of_task sha cat task e" using e te start by (simp add: event_of_task_def)
        then show ?thesis
          using first [of e st] did e absent start bound committed_store_first [OF absent, of sha cat e st] by simp
      next
        assume "\<exists>es st0. task_logged sha cat store task es st0"
        then obtain es st0 where log: "task_logged sha cat store task es st0" by blast
        note succ = successor_accepted [OF log e(3) te pred]
        have events: "log_events sha cat task es" "audit_files store (audit_path task 1) = map record_text es"
          using log by (simp_all add: task_logged_def)
        have "record_text e \<noteq> record_text (es ! i)" if i: "i < length es" for i
        proof -
          have "plain_record (es ! i)"
            using events(1) i by (simp add: log_events_def list_all_length event_of_task_def stored_text_def)
          then show ?thesis
            using record_text_fields [of e "es ! i" "''sequence''"] e(8) succ(3) log_event_sequence [OF events(1) i] i
            by (auto simp: stored_text_def)
        qed
        then have "record_text e \<noteq> record_text d" if "d \<in> set es" for d
          using that by (metis in_set_conv_nth)
        then have new: "record_text e \<notin> set (audit_files store (audit_path task 1))"
          unfolding events(2) by auto
        have did: "r = Inr True \<and> store' = committed_store task e st store" by (rule step [OF new succ(2)])
        have "event_of_task sha cat task e" using e te succ by (simp add: event_of_task_def)
        then show ?thesis
          using extended [of e st es st0] did e log succ bound committed_store_next [OF log, of e st] by simp
      qed
    qed
  qed
qed

subsection \<open>Sequences of commits\<close>

text \<open>
  A call of the one operation the engine writes tasks with, for an event and the state it
  results in, and the store after a list of such calls.
\<close>

definition commit_call ::
    "(string \<Rightarrow> string) \<Rightarrow> exn + pyval \<Rightarrow> pydict \<times> pydict \<Rightarrow> task_store \<Rightarrow> task_store" where
  "commit_call sha cat call store = snd (commit_task_state_and_audit sha cat (PDict (fst call)) (PDict (snd call)) store)"

definition plain_calls :: "(pydict \<times> pydict) list \<Rightarrow> bool" where
  "plain_calls calls \<longleftrightarrow> list_all (\<lambda>(e, st). plain_record e \<and> plain_record st) calls"

lemma commit_needs_id:
  assumes "\<And>task. vget event ''task_id'' \<noteq> PStr task"
  shows "\<exists>x. commit_task_state_and_audit sha cat event state store = (Inl x, store)"
proof (cases "commit_texts sha cat event state")
  case (Inr texts)
  obtain event_json state_json where "texts = (event_json, state_json)" by force
  with Inr have "commit_texts sha cat event state = Inr (event_json, state_json)" by simp
  then obtain e where "event = PDict e" "validate_audit_event sha cat (PDict e) = None"
    by (rule commit_texts_Inr)
  then show ?thesis using event_identity assms by (metis vget_PDict)
qed (simp add: commit_task_state_and_audit_def)

lemma store_logged_at: "store_logged sha cat store \<Longrightarrow> task_absent store task \<or> (\<exists>es st. task_logged sha cat store task es st)"
  by (simp add: store_logged_def)

lemma commit_call_logged:
  assumes logged: "store_logged sha cat store" and plain: "plain_record (fst call)" "plain_record (snd call)"
  shows "store_logged sha cat (commit_call sha cat call store)"
proof (cases "\<exists>task. vget (PDict (fst call)) ''task_id'' = PStr task")
  case False
  then show ?thesis using commit_needs_id [of "PDict (fst call)" sha cat "PDict (snd call)" store] logged
    by (auto simp: commit_call_def)
next
  case True
  then obtain task where task: "vget (PDict (fst call)) ''task_id'' = PStr task" by blast
  obtain r store' where run: "commit_task_state_and_audit sha cat (PDict (fst call)) (PDict (snd call)) store = (r, store')"
    by force
  have other: "store_logged sha cat (committed_store task e st store)"
    if "dget e ''task_id'' = PStr task" "task_logged sha cat (committed_store task e st store) task es st" for e st es
    unfolding store_logged_def
  proof
    fix t
    show "task_absent (committed_store task e st store) t \<or>
        (\<exists>es s. task_logged sha cat (committed_store task e st store) t es s)"
      using that store_logged_at [OF logged, of t] committed_store_other [OF _ that(1)] by (cases "t = task") blast+
  qed
  have "plain_record (entries (PDict (fst call)))" "plain_record (entries (PDict (snd call)))" using plain by simp_all
  then have "store_logged sha cat store'"
  proof (rule commit_outcomes [OF store_logged_at [OF logged] task _ _ run])
    fix e st assume "PDict (fst call) = PDict e" "store' = committed_store task e st store" "task_logged sha cat store' task [e] st"
    then show ?thesis using other [of e st "[e]"] task by simp
  next
    fix e st es assume "PDict (fst call) = PDict e" "store' = committed_store task e st store"
      "task_logged sha cat store' task (es @ [e]) st"
    then show ?thesis using other [of e st "es @ [e]"] task by simp
  qed (use logged in simp_all)
  then show ?thesis by (simp add: commit_call_def run)
qed

lemma store_logged_empty: "store_logged sha cat empty_store"
  by (simp add: store_logged_def task_absent_def empty_store_def task_rows_def)

lemma commits_logged:
  "plain_calls calls \<Longrightarrow> store_logged sha cat store \<Longrightarrow> store_logged sha cat (fold (commit_call sha cat) calls store)"
proof (induction calls arbitrary: store)
  case (Cons call calls)
  have "store_logged sha cat (commit_call sha cat call store)"
    using Cons.prems by (intro commit_call_logged) (auto simp: plain_calls_def)
  with Cons show ?case by (simp add: plain_calls_def)
qed simp

subsection \<open>Commits that succeed\<close>

lemma commit_texts_success:
  assumes "validate_audit_event sha cat (PDict e) = None" "validate_task_state (PDict st) = None"
    "validate_state_event_pair e st = None" "stored_text e (record_text e)" "stored_text st (record_text st)"
  shows "commit_texts sha cat (PDict e) (PDict st) = Inr (record_text e, record_text st)"
proof -
  have "sqlite_json_text (PDict e) ''WORKFLOW_AUDIT_CORRUPT'' ''audit_event'' = Inr (record_text e)"
    "sqlite_json_text (PDict st) ''WORKFLOW_STATE_CORRUPT'' ''task_state'' = Inr (record_text st)"
    using assms(4,5) by (simp_all add: sqlite_json_text_Inr stored_text_def)
  then show ?thesis using assms(1-3) by (simp add: commit_texts_def)
qed

lemma sqlite_int_small: "0 \<le> i \<Longrightarrow> i < 2 ^ 63 \<Longrightarrow> sqlite_int (PInt i) = None"
  by (simp add: sqlite_int_def fail_if_def)

text \<open>What a commit does once its transaction has inserted.\<close>

lemma commit_inserts:
  assumes texts: "commit_texts sha cat (PDict e) (PDict st) = Inr (record_text e, record_text st)"
    and ids: "dget e ''task_id'' = PStr task" "dget st ''task_id'' = PStr task" "dget e ''generation'' = PInt 1"
    and number: "dget e ''sequence'' = PInt n" "0 \<le> n" "n < 2 ^ 63"
    and free: "map_of (event_rows store) (task, 1, n) = None"
    and pred: "validate_authoritative_predecessor sha cat e st store (map_of (state_rows store) task) = Inr ()"
    and line: "record_text e \<notin> set (audit_files store (audit_path task 1))"
  shows "commit_task_state_and_audit sha cat (PDict e) (PDict st) store = (Inr True, committed_store task e st store)"
proof -
  have "coordinate_guard e = None" using ids(3) number sqlite_int_small [of 1] sqlite_int_small [of n]
    by (simp add: coordinate_guard_def)
  moreover have "coordinate e = (task, 1, n)" using ids number by (simp add: coordinate_def)
  ultimately have "commit_rows sha cat e st (record_text e) (record_text st) store =
      Inr (True, (insert_event_row e (record_text e) store)\<lparr>state_rows := AList.update task (record_text st) (state_rows store)\<rparr>)"
    using free pred ids by (simp add: commit_rows_def)
  then show ?thesis
    using texts line ids
    by (simp add: commit_task_state_and_audit_def exported_event_def ensure_audit_export_line_def Let_def insert_event_row_def
        write_state_atomic_def committed_store_def)
qed

lemma task_absent_rows: "task_absent store task \<Longrightarrow> map_of (event_rows store) (task, g, n) = None"
  by (simp add: map_of_task_rows task_absent_def)

lemma commit_first_succeeds:
  assumes absent: "task_absent store task" and task: "dget e ''task_id'' = PStr task"
    and ok: "validate_audit_event sha cat (PDict e) = None" "validate_task_state (PDict st) = None"
      "validate_state_event_pair e st = None" "stored_text e (record_text e)" "stored_text st (record_text st)"
    and type: "dget e ''event_type'' = PStr ''TASK_CREATED''"
  shows "commit_task_state_and_audit sha cat (PDict e) (PDict st) store = (Inr True, committed_store task e st store)"
proof -
  have start: "dget e ''generation'' = PInt 1" "dget e ''sequence'' = PInt 1"
    using created_event_accepted(1,2) [OF ok(1) type] by simp_all
  have "\<not> list_ex (\<lambda>((t, g, n), text). PStr t = dget e ''task_id'') (event_rows store)"
    using absent task by (fastforce simp: task_absent_def task_rows_def filter_empty_conv list_ex_iff)
  then have "validate_authoritative_predecessor sha cat e st store (map_of (state_rows store) task) = Inr ()"
    using absent start type by (simp add: validate_authoritative_predecessor_def task_absent_def first_event_guard_def)
  then show ?thesis
    using absent task start pair_accepted(1) [OF ok(1-3)] commit_texts_success [OF ok]
    by (intro commit_inserts [where n = 1]) (simp_all add: bound_to_def task_absent_rows, simp add: task_absent_def)
qed

text \<open>A record in canonical order is read back as it is.\<close>

lemma loaded_ordered:
  assumes "json_sorted (PDict d) = PDict d" "stored_text d (record_text d)"
  shows "validate_task_state (PDict d) = None \<Longrightarrow> loaded_state (record_text d) = Inr (PDict d)"
    "validate_audit_event sha cat (PDict d) = None \<Longrightarrow> loaded_event sha cat (record_text d) = Inr (PDict d)"
  using stored_text_loads [OF assms(2)] assms(1) by (simp_all add: loaded_state_def loaded_event_def)

text \<open>
  The next event of a logged task commits, when the stored records are in canonical order and the
  number fits an SQLite integer.
\<close>

lemma commit_next_succeeds:
  assumes log: "task_logged sha cat store task es st0"
    and order: "json_sorted (PDict st0) = PDict st0" "json_sorted (PDict (last es)) = PDict (last es)"
    and task: "dget e ''task_id'' = PStr task"
    and ok: "validate_audit_event sha cat (PDict e) = None" "validate_task_state (PDict st) = None"
      "validate_state_event_pair e st = None" "stored_text e (record_text e)" "stored_text st (record_text st)"
    and next_event: "follows (last es) e" "dget e ''generation'' = PInt 1" "dget e ''sequence'' = PInt (int (length es) + 1)"
    and few: "int (length es) + 1 < 2 ^ 63"
  shows "commit_task_state_and_audit sha cat (PDict e) (PDict st) store = (Inr True, committed_store task e st store)"
proof -
  have es: "es \<noteq> []" "list_all (event_of_task sha cat task) es" "log_events sha cat task es"
    and rows: "task_rows store task = log_rows task es"
    and row: "map_of (state_rows store) task = Some (record_text st0)" and st0: "stored_text st0 (record_text st0)"
    "validate_task_state (PDict st0) = None" "bound_to st0 (last es)"
    and files: "audit_files store (audit_path task 1) = map record_text es"
    using log by (simp_all add: task_logged_def log_events_def)
  have last_ok: "event_of_task sha cat task (last es)" using es by (simp add: list_all_iff)
  have type: "dget e ''event_type'' = PStr ''TRANSITION_ACCEPTED''" using next_event(1) by (simp add: follows_def)
  obtain hash current where str: "dget st0 ''audit_head_hash'' = PStr hash" "dget st0 ''current_state'' = PStr current"
    "dget st0 ''audit_generation'' = PInt 1"
  proof -
    obtain hash current where "dget st0 ''audit_head_hash'' = PStr hash" "dget st0 ''current_state'' = PStr current"
      using state_identity [OF st0(2)] by blast
    moreover have "dget st0 ''audit_generation'' = PInt 1" using st0(3) last_ok by (simp add: bound_to_def event_of_task_def)
    ultimately show ?thesis by (rule that)
  qed
  obtain event where "dget (last es) ''event_id'' = PStr event"
    using last_ok event_identity [of sha cat "last es"] unfolding event_of_task_def by blast
  note strs = str this
  have prev: "py_eq (dget st ''previous_state'') (dget e ''from_state'')"
    using ok(3) type by (simp add: validate_state_event_pair_def pair_fields_def)
  have guard: "successor_guard e st st0 (int (length es)) (last es) = None"
  proof -
    have "dget (last es) ''event_hash'' = PStr hash" "state_after (last es) = PStr current"
      "dget st0 ''audit_head_event_id'' = PStr event"
      using st0(3) strs by (simp_all add: bound_to_def)
    moreover from this have "dget e ''previous_event_hash'' = PStr hash" "dget e ''from_state'' = PStr current"
      using next_event(1) by (simp_all add: follows_def)
    ultimately show ?thesis using type strs prev next_event(2,3) by (simp add: successor_guard_def)
  qed
  have tail: "generation_rows store task 1 \<noteq> []"
    "last (generation_rows store task 1) = (int (length es), record_text (last es))"
    unfolding generation_rows_log [OF rows] using es(1) last_numbered_texts [OF es(1)] by simp_all
  have loads: "loaded_state (record_text st0) = Inr (PDict st0)" "loaded_event sha cat (record_text (last es)) = Inr (PDict (last es))"
    using st0(2) last_ok loaded_ordered(1) [OF order(1) st0(1)] loaded_ordered(2) [OF order(2)]
    by (simp_all add: event_of_task_def)
  have "validate_authoritative_predecessor sha cat e st store (map_of (state_rows store) task) = Inr ()"
    using guard by (simp add: validate_authoritative_predecessor_def row loads Let_def task strs tail sqlite_int_small)
  moreover have "map_of (event_rows store) (task, 1, int (length es) + 1) = None"
    by (simp add: map_of_task_rows rows map_of_log_rows)
  moreover have "record_text e \<noteq> record_text d" if member: "d \<in> set es" for d
  proof -
    obtain i where i: "i < length es" "d = es ! i" using member by (auto simp: in_set_conv_nth)
    have "plain_record d" using es(2) member by (simp add: list_all_iff event_of_task_def stored_text_def)
    then show ?thesis
      using record_text_fields [of e d "''sequence''"] ok(4) next_event(3) log_event_sequence [OF es(3) i(1)] i
      by (auto simp: stored_text_def)
  qed
  ultimately show ?thesis
    using task pair_accepted(1) [OF ok(1-3)] commit_texts_success [OF ok] next_event few
    by (intro commit_inserts [where n = "int (length es) + 1"]) (auto simp: bound_to_def files)
qed

end
