(* ===== verification/Task_Lineage.thy ===== *)
theory Task_Lineage
  imports Task_Log
begin

text \<open>
  \<open>has_committed_decision_resolution\<close> of \<open>acgps/workflow_store.py\<close>: whether an accepted event of
  the task's trusted history carries a resolution. The walk starts at the head the stored state
  is bound to and follows the generations back to the first; each generation is verified up to
  its trusted head. The number of the generation decreases, which ends the walk.
\<close>

text \<open>
  The rows of one generation up to the trusted head: the verified events, and whether the head
  is among them.
\<close>

fun trusted_rows ::
    "(string \<Rightarrow> string) \<Rightarrow> exn + pyval \<Rightarrow> string \<Rightarrow> pyval \<Rightarrow> int \<Rightarrow> pyval \<Rightarrow> int \<Rightarrow> pyval \<Rightarrow> (int \<times> string) list \<Rightarrow> (pydict list \<times> bool) res" where
  "trusted_rows sha cat task project generation head_hash expected previous [] = Inr ([], False)"
| "trusted_rows sha cat task project generation head_hash expected previous ((n, text) # rows) =
     guarded (audit_error ''sequence'' ''authoritative audit sequence is not contiguous'' (n \<noteq> expected))
      (rbind (loaded_event sha cat text) (\<lambda>v. let e = entries v in
        guarded (audit_error ''audit_event'' ''audit prefix identity or hash chain mismatch''
          (\<not> py_eq (dget e ''task_id'') (PStr task) \<or> \<not> py_eq (dget e ''project_id'') project \<or>
           \<not> py_eq (dget e ''generation'') (PInt generation) \<or> \<not> py_eq (dget e ''sequence'') (PInt expected) \<or>
           \<not> py_eq (dget e ''previous_event_hash'') previous))
         (if py_eq (dget e ''event_hash'') head_hash then Inr ([e], True)
          else rbind (trusted_rows sha cat task project generation head_hash (expected + 1) (dget e ''event_hash'') rows)
            (\<lambda>(es, found). Inr (e # es, found)))))"

definition carries :: "pyval \<Rightarrow> pydict \<Rightarrow> bool" where
  "carries resolution e \<longleftrightarrow> (let binding = dget e ''decision_resolution_binding'' in
     is_dict binding \<and> py_eq (vget binding ''embedded_record'') resolution)"

text \<open>
  The verified prefix of a generation: its head is the expected one, and the tail of the table
  for the generation the state names.
\<close>

definition trusted_prefix ::
    "(string \<Rightarrow> string) \<Rightarrow> exn + pyval \<Rightarrow> task_store \<Rightarrow> string \<Rightarrow> pyval \<Rightarrow> int \<Rightarrow> int \<Rightarrow> pyval \<Rightarrow> pyval \<Rightarrow> pyval \<Rightarrow> pydict list res" where
  "trusted_prefix sha cat store task project current generation head_id head_sequence head_hash =
     guarded (sqlite_int (PInt generation))
      (let rows = generation_rows store task generation in
       rbind (trusted_rows sha cat task project generation head_hash 1 PNone rows) (\<lambda>(es, found).
        guarded (first_err
          [audit_error ''audit_head_hash'' ''trusted audit head is missing'' (\<not> found),
           audit_error ''audit_head_event_id'' ''trusted audit head event identity mismatch''
             (head_id \<noteq> PNone \<and> \<not> py_eq (dget (last es) ''event_id'') head_id),
           audit_error ''audit_head_sequence'' ''trusted audit head sequence mismatch''
             (head_sequence \<noteq> PNone \<and> \<not> py_eq (dget (last es) ''sequence'') head_sequence),
           audit_error ''audit_head_hash'' ''current audit head is not the authoritative tail''
             (generation = current \<and> length es \<noteq> length rows)])
         (Inr es)))"

text \<open>What the first event of a generation says of the one before it.\<close>

definition generation_record :: "pydict \<Rightarrow> pyval" where
  "generation_record e = vget (dget e ''details'') ''audit_generation''"

definition predecessor_guard :: "pydict \<Rightarrow> int \<Rightarrow> guard" where
  "predecessor_guard e generation =
     (let record = generation_record e; predecessor = vget record ''predecessor_generation'';
          hash = vget record ''predecessor_valid_head_hash''; trusted = vget (dget e ''details'') ''previous_trusted_prefix'' in
      first_err
       ([audit_error ''audit_generation'' ''audit generation start record is missing''
           (\<not> is_dict record \<or> \<not> py_eq (vget record ''generation'') (PInt generation))] @
        (if predecessor = PNone then
          [audit_error ''audit_generation'' ''audit lineage ended before generation one'' (generation \<noteq> 1 \<or> hash \<noteq> PNone)]
         else
          [audit_error ''audit_generation.predecessor_generation'' ''audit predecessor is invalid''
             (\<not> is_int predecessor \<or> generation \<le> int_of predecessor),
           audit_error ''previous_trusted_prefix'' ''audit predecessor binding mismatch''
             (\<not> is_dict trusted \<or> \<not> py_eq (vget trusted ''generation'') predecessor \<or>
              \<not> py_eq (vget trusted ''event_hash'') hash)])))"

lemma guarded_cong [fundef_cong]: "c = c' \<Longrightarrow> (c' = None \<Longrightarrow> m = m') \<Longrightarrow> guarded c m = guarded c' m'"
  by (simp add: guarded_def split: option.splits)

lemma rbind_cong [fundef_cong]: "m = m' \<Longrightarrow> (\<And>a. m' = Inr a \<Longrightarrow> k a = k' a) \<Longrightarrow> rbind m k = rbind m' k'"
  by (simp add: rbind_def split: sum.splits)

lemma predecessor_smaller:
  "predecessor_guard e generation = None \<Longrightarrow> vget (generation_record e) ''predecessor_generation'' \<noteq> PNone \<Longrightarrow>
     int_of (vget (generation_record e) ''predecessor_generation'') < generation"
  by (simp add: predecessor_guard_def Let_def)

function walk_lineage ::
    "(string \<Rightarrow> string) \<Rightarrow> exn + pyval \<Rightarrow> task_store \<Rightarrow> pyval \<Rightarrow> string \<Rightarrow> pyval \<Rightarrow> int \<Rightarrow> int \<Rightarrow> pyval \<Rightarrow> pyval \<Rightarrow> pyval \<Rightarrow> bool \<Rightarrow> int set \<Rightarrow> bool res" where
  "walk_lineage sha cat store resolution task project current generation head_id head_sequence head_hash found visited =
     guarded (audit_error ''audit_generation'' ''audit generation lineage is cyclic or invalid''
         (generation \<in> visited \<or> generation < 1 \<or> current < generation))
      (rbind (trusted_prefix sha cat store task project current generation head_id head_sequence head_hash) (\<lambda>es.
        let found' = (found \<or> list_ex (carries resolution) es); start = hd es;
            predecessor = vget (generation_record start) ''predecessor_generation'';
            trusted = vget (dget start ''details'') ''previous_trusted_prefix'' in
        case predecessor_guard start generation of
          Some e \<Rightarrow> Inl e
        | None \<Rightarrow>
            (if predecessor = PNone then Inr found'
             else
               walk_lineage sha cat store resolution task project current (int_of predecessor)
                 (vget trusted ''event_id'') (vget trusted ''sequence'') (vget (generation_record start) ''predecessor_valid_head_hash'')
                 found' (insert generation visited))))"
  by pat_completeness auto
termination
  by (relation "measure (\<lambda>(sha, cat, store, resolution, task, project, current, generation, rest). nat generation)")
     (auto dest: predecessor_smaller)

declare walk_lineage.simps [simp del]

definition has_committed_decision_resolution ::
    "(string \<Rightarrow> string) \<Rightarrow> exn + pyval \<Rightarrow> task_store \<Rightarrow> pyval \<Rightarrow> bool res" where
  "has_committed_decision_resolution sha cat store resolution =
     rbind (subscript resolution ''task_id'') (\<lambda>task_id.
      guarded (require_safe_id task_id ''task_id'')
       (rbind (read_task_state store task_id) (\<lambda>state.
         walk_lineage sha cat store resolution (str_of task_id) (vget state ''project_id'')
           (int_of (vget state ''audit_generation'')) (int_of (vget state ''audit_generation''))
           (vget state ''audit_head_event_id'') PNone (vget state ''audit_head_hash'') False {})))"

end
