(* ===== verification/Task_History.thy ===== *)
theory Task_History
  imports Task_Lineage
begin

text \<open>
  Reading a logged task back: the stored state, the list of its events, the walk of
  \<open>has_committed_decision_resolution\<close> over them, and the number of rounds this walk takes.
\<close>

text \<open>A record whose keys have the order of the canonical text.\<close>

definition in_order :: "pydict \<Rightarrow> bool" where
  "in_order d \<longleftrightarrow> json_sorted (PDict d) = PDict d"

text \<open>The rows of a log from a number on.\<close>

definition event_texts :: "nat \<Rightarrow> pydict list \<Rightarrow> (int \<times> string) list" where
  "event_texts k es = map (\<lambda>(i, e). (int i, record_text e)) (numbered k es)"

lemma event_texts_simps [simp]:
  "event_texts k [] = []" "event_texts k (e # es) = (int k, record_text e) # event_texts (Suc k) es"
  "length (event_texts k es) = length es"
  by (induction es arbitrary: k) (simp_all add: event_texts_def)

text \<open>An event of the log as a reader finds it.\<close>

definition readable :: "(string \<Rightarrow> string) \<Rightarrow> exn + pyval \<Rightarrow> string \<Rightarrow> nat \<Rightarrow> pydict list \<Rightarrow> bool" where
  "readable sha cat task k es \<longleftrightarrow>
     list_all (\<lambda>(i, e). in_order e \<and> event_of_task sha cat task e \<and> dget e ''sequence'' = PInt (int i)) (numbered k es)"

lemma readable_Cons:
  "readable sha cat task k (e # es) \<longleftrightarrow>
     in_order e \<and> event_of_task sha cat task e \<and> dget e ''sequence'' = PInt (int k) \<and> readable sha cat task (Suc k) es"
  by (simp add: readable_def)

lemma readable_events: "readable sha cat task k es \<Longrightarrow> e \<in> set es \<Longrightarrow> event_of_task sha cat task e"
  by (induction es arbitrary: k) (auto simp: readable_Cons)

lemma readable_loads:
  "in_order e \<Longrightarrow> event_of_task sha cat task e \<Longrightarrow> loaded_event sha cat (record_text e) = Inr (PDict e)"
  using loaded_ordered(2) [of e sha cat] by (simp add: in_order_def event_of_task_def)

lemma read_rows_log:
  "readable sha cat task k es \<Longrightarrow> read_rows sha cat task 1 (int k) (event_texts k es) = Inr (map PDict es)"
proof (induction es arbitrary: k)
  case (Cons e es)
  have "dget e ''task_id'' = PStr task" "dget e ''generation'' = PInt 1" "dget e ''sequence'' = PInt (int k)"
    using Cons.prems by (simp_all add: readable_Cons event_of_task_def)
  moreover have "read_rows sha cat task 1 (1 + int k) (event_texts (Suc k) es) = Inr (map PDict es)"
    using Cons.IH [of "Suc k"] Cons.prems by (simp add: readable_Cons)
  moreover have "loaded_event sha cat (record_text e) = Inr (PDict e)"
    using Cons.prems readable_loads [of e sha cat task] by (simp add: readable_Cons)
  ultimately show ?case by (simp add: add.commute)
qed simp

lemma log_readable:
  assumes "log_events sha cat task es" "list_all in_order es"
  shows "readable sha cat task 1 es"
  using assms by (auto simp: log_events_def readable_def list_all_iff numbered_set)

lemma task_is_safe:
  assumes "event_of_task sha cat task e"
  shows "is_safe_id task"
proof -
  have "validate_audit_event sha cat (PDict e) = None" "dget e ''task_id'' = PStr task"
    using assms by (simp_all add: event_of_task_def)
  then show ?thesis using event_head_accepted(3) [OF event_guards(1), of sha cat e] by auto
qed

lemma logged_task_safe: "task_logged sha cat store task es st \<Longrightarrow> require_safe_id (PStr task) path = None"
proof -
  assume "task_logged sha cat store task es st"
  then have "event_of_task sha cat task (hd es)" by (auto simp: task_logged_def log_events_def list_all_iff)
  then show ?thesis using task_is_safe by (simp add: require_safe_id_def)
qed

lemma state_reads_back:
  assumes log: "task_logged sha cat store task es st" and "in_order st"
  shows "read_task_state store (PStr task) = Inr (PDict st)"
proof -
  have st: "stored_text st (record_text st)" "validate_task_state (PDict st) = None" "bound_to st (last es)"
    "map_of (state_rows store) task = Some (record_text st)" "event_of_task sha cat task (last es)"
    using log by (auto simp: task_logged_def log_events_def list_all_iff)
  have "dget st ''task_id'' = PStr task" using st(3,5) by (simp add: bound_to_def event_of_task_def)
  then show ?thesis
    using loaded_ordered(1) [OF _ st(1)] assms(2) st(2,4)
    unfolding read_task_state_def logged_task_safe [OF log] by (simp add: identified_state_def in_order_def)
qed

lemma generation_texts: "task_logged sha cat store task es st \<Longrightarrow> generation_rows store task 1 = event_texts 1 es"
  by (simp add: task_logged_def generation_rows_log event_texts_def)

lemma events_read_back:
  assumes log: "task_logged sha cat store task es st" and order: "list_all in_order es"
  shows "read_audit_events sha cat store (PStr task) (PInt 1) = Inr (map PDict es)"
proof -
  have "readable sha cat task 1 es" using log order by (intro log_readable) (simp_all add: task_logged_def)
  from read_rows_log [OF this] show ?thesis
    unfolding read_audit_events_def logged_task_safe [OF log]
    by (simp add: generation_texts [OF log] int_from_def sqlite_int_small)
qed

subsection \<open>The trusted history\<close>

lemma event_hash_text:
  assumes "event_of_task sha cat task e"
  obtains h where "dget e ''event_hash'' = PStr h"
  using event_identity [of sha cat e] assms unfolding event_of_task_def by blast

lemma trusted_rows_log:
  assumes "es \<noteq> []" "readable sha cat task k es" "successively follows es" "dget (hd es) ''previous_event_hash'' = previous"
    "previous = PNone \<or> is_str previous" "distinct (map (\<lambda>e. dget e ''event_hash'') es)"
    "list_all (\<lambda>e. dget e ''project_id'' = PStr project) es"
  shows "trusted_rows sha cat task (PStr project) 1 (dget (last es) ''event_hash'') (int k) previous (event_texts k es) = Inr (es, True)"
  using assms
proof (induction es arbitrary: k previous)
  case (Cons e es)
  have e: "in_order e" "event_of_task sha cat task e" "dget e ''sequence'' = PInt (int k)" "dget e ''project_id'' = PStr project"
    "dget e ''previous_event_hash'' = previous"
    using Cons.prems by (simp_all add: readable_Cons)
  have ids: "dget e ''task_id'' = PStr task" "dget e ''generation'' = PInt 1" using e(2) by (simp_all add: event_of_task_def)
  obtain h where h: "dget e ''event_hash'' = PStr h" using e(2) by (rule event_hash_text)
  have prev: "py_eq previous previous" using Cons.prems(5) by (auto simp: is_str_iff py_eq.simps)
  note here = readable_loads [OF e(1,2)] e ids prev
  show ?case
  proof (cases "es = []")
    case True
    then show ?thesis using here h by simp
  next
    case False
    have "event_of_task sha cat task (last es)"
      using readable_events [of sha cat task "Suc k" es "last es"] Cons.prems(2) False by (simp add: readable_Cons)
    then obtain h' where h': "dget (last es) ''event_hash'' = PStr h'" by (rule event_hash_text)
    have "PStr h \<notin> (\<lambda>e. dget e ''event_hash'') ` set es" using Cons.prems(6) h by simp
    then have "h \<noteq> h'" using last_in_set [OF False] h' [symmetric] by auto
    moreover have "trusted_rows sha cat task (PStr project) 1 (dget (last es) ''event_hash'') (int (Suc k)) (PStr h) (event_texts (Suc k) es) = Inr (es, True)"
    proof (rule Cons.IH [OF False])
      show "dget (hd es) ''previous_event_hash'' = PStr h"
        using Cons.prems(3) False h by (cases es) (simp_all add: follows_def)
    qed (use Cons.prems False in \<open>simp_all add: readable_Cons successively_Cons\<close>)
    ultimately have rest: "h \<noteq> h'"
      "trusted_rows sha cat task (PStr project) 1 (PStr h') (int k + 1) (PStr h) (event_texts (Suc k) es) = Inr (es, True)"
      by (simp_all add: h' add.commute)
    then show ?thesis by (simp add: here h h' False)
  qed
qed simp

text \<open>The first event of the first generation ends the walk.\<close>

lemma created_predecessor:
  assumes ev: "validate_audit_event sha cat (PDict e) = None" and type: "dget e ''event_type'' = PStr ''TASK_CREATED''"
  shows "predecessor_guard e 1 = None" "vget (generation_record e) ''predecessor_generation'' = PNone"
proof -
  note gen = created_event_accepted(6,7) [OF ev type, folded generation_record_def]
  obtain r where r: "generation_record e = PDict r"
    using gen(1) by (auto simp: validate_audit_generation_def audit_corrupt_def is_dict_iff split: if_splits)
  have "int_from 1 (dget r ''generation'')"
    using gen(1) by (simp add: r validate_audit_generation_def Let_def)
  then obtain g where "dget r ''generation'' = PInt g" by (auto simp: int_from_def split: pyval.splits)
  with gen(2) r have one: "dget r ''generation'' = PInt 1" by simp
  then have null: "dget r ''predecessor_generation'' = PNone" "dget r ''predecessor_valid_head_hash'' = PNone"
    using gen(1) by (simp_all add: r validate_audit_generation_def Let_def)
  show "predecessor_guard e 1 = None" by (simp add: predecessor_guard_def Let_def r one null)
  show "vget (generation_record e) ''predecessor_generation'' = PNone" by (simp add: r null)
qed

lemma lineage_of_log:
  assumes log: "task_logged sha cat store task es st" and order: "list_all in_order es" "in_order st"
    and project: "list_all (\<lambda>e. dget e ''project_id'' = dget st ''project_id'') es"
    and hashes: "distinct (map (\<lambda>e. dget e ''event_hash'') es)"
    and task: "vget resolution ''task_id'' = PStr task" "is_dict resolution"
  shows "has_committed_decision_resolution sha cat store resolution = Inr (list_ex (carries resolution) es)"
proof -
  have events: "log_events sha cat task es" and st: "validate_task_state (PDict st) = None" "bound_to st (last es)"
    using log by (simp_all add: task_logged_def)
  have es: "es \<noteq> []" "dget (hd es) ''event_type'' = PStr ''TASK_CREATED''" "successively follows es"
    "event_of_task sha cat task (hd es)" "event_of_task sha cat task (last es)"
    using events by (auto simp: log_events_def list_all_iff)
  have hd: "validate_audit_event sha cat (PDict (hd es)) = None" using es(4) by (simp add: event_of_task_def)
  obtain project where p: "dget st ''project_id'' = PStr project" using state_identity [OF st(1)] by blast
  have head: "dget st ''audit_generation'' = PInt 1" "dget st ''audit_head_event_id'' = dget (last es) ''event_id''"
    "dget st ''audit_head_hash'' = dget (last es) ''event_hash''"
    using st(2) es(5) by (simp_all add: bound_to_def event_of_task_def)
  obtain event where event: "dget (last es) ''event_id'' = PStr event"
    using event_identity [of sha cat "last es"] es(5) unfolding event_of_task_def by blast
  have rows: "trusted_rows sha cat task (PStr project) 1 (dget (last es) ''event_hash'') 1 PNone (event_texts 1 es) = Inr (es, True)"
    using trusted_rows_log [OF es(1) log_readable [OF events order(1)] es(3)
        created_event_accepted(3) [OF hd es(2)] disjI1 [OF refl] hashes] project
    by (simp add: p)
  have "trusted_prefix sha cat store task (PStr project) 1 1 (PStr event) PNone (dget (last es) ''event_hash'') = Inr es"
    by (simp add: trusted_prefix_def generation_texts [OF log] rows [simplified] event sqlite_int_small)
  then have "walk_lineage sha cat store resolution task (PStr project) 1 1 (PStr event) PNone (dget (last es) ''event_hash'') False {} =
      Inr (list_ex (carries resolution) es)"
    by (subst walk_lineage.simps) (simp add: Let_def created_predecessor [OF hd es(2)])
  moreover have "subscript resolution ''task_id'' = Inr (PStr task)"
    using task by (auto simp: is_dict_iff subscript_def dget_def split: option.splits)
  moreover have "guarded (require_safe_id (PStr task) ''task_id'') m = m" for m :: "bool res"
    unfolding logged_task_safe [OF log] by simp
  ultimately show ?thesis
    by (simp add: has_committed_decision_resolution_def state_reads_back [OF log order(2)] head p event)
qed

subsection \<open>The rounds of the walk\<close>

text \<open>
  The loop \<open>while True\<close> of \<open>has_committed_decision_resolution\<close>, run for at most \<open>n\<close> rounds.
\<close>

fun walk_rounds ::
    "nat \<Rightarrow> (string \<Rightarrow> string) \<Rightarrow> exn + pyval \<Rightarrow> task_store \<Rightarrow> pyval \<Rightarrow> string \<Rightarrow> pyval \<Rightarrow> int \<Rightarrow> int \<Rightarrow> pyval \<Rightarrow> pyval \<Rightarrow> pyval \<Rightarrow> bool \<Rightarrow> int set \<Rightarrow> bool res option" where
  "walk_rounds 0 sha cat store resolution task project current generation head_id head_sequence head_hash found visited = None"
| "walk_rounds (Suc n) sha cat store resolution task project current generation head_id head_sequence head_hash found visited =
     (case guarded (audit_error ''audit_generation'' ''audit generation lineage is cyclic or invalid''
             (generation \<in> visited \<or> generation < 1 \<or> current < generation))
           (rbind (trusted_prefix sha cat store task project current generation head_id head_sequence head_hash)
             (\<lambda>es. guarded (predecessor_guard (hd es) generation) (Inr es))) of
        Inl x \<Rightarrow> Some (Inl x)
      | Inr es \<Rightarrow>
          (let found' = (found \<or> list_ex (carries resolution) es); record = generation_record (hd es);
               predecessor = vget record ''predecessor_generation'';
               trusted = vget (dget (hd es) ''details'') ''previous_trusted_prefix'' in
           if predecessor = PNone then Some (Inr found')
           else walk_rounds n sha cat store resolution task project current (int_of predecessor)
             (vget trusted ''event_id'') (vget trusted ''sequence'') (vget record ''predecessor_valid_head_hash'')
             found' (insert generation visited)))"

lemma rounds_suffice:
  "nat generation < n \<Longrightarrow>
     walk_rounds n sha cat store resolution task project current generation head_id head_sequence head_hash found visited =
     Some (walk_lineage sha cat store resolution task project current generation head_id head_sequence head_hash found visited)"
proof (induction n arbitrary: generation head_id head_sequence head_hash found visited)
  case (Suc n)
  let ?bad = "generation \<in> visited \<or> generation < 1 \<or> current < generation"
  let ?prefix = "trusted_prefix sha cat store task project current generation head_id head_sequence head_hash"
  note unfold = walk_lineage.simps [of sha cat store resolution task project current generation head_id head_sequence head_hash found visited]
  show ?case
  proof (cases ?bad)
    case True
    then show ?thesis by (simp add: unfold audit_error_def store_error_def fail_if_def guarded_def)
  next
    case ok: False
    show ?thesis
    proof (cases ?prefix)
      case (Inl x)
      then show ?thesis using ok by (simp add: unfold)
    next
      case (Inr es)
      show ?thesis
      proof (cases "predecessor_guard (hd es) generation")
        case None
        note smaller = predecessor_smaller [OF this]
        show ?thesis
          using ok Inr None Suc smaller by (auto simp: unfold Let_def)
      qed (use ok Inr in \<open>simp add: unfold Let_def\<close>)
    qed
  qed
qed simp

end
