(* ===== verification/Workflow_Sample.thy ===== *)
theory Workflow_Sample
  imports Workflow_Audit Agent_Sample Json_Text
begin

text \<open>
  The invariant catalog the code expects, accepted by its own validator, and two audit events:
  the creation of a task and its first transition, with the policy result of the agent sample.
  
\<close>

subsection \<open>The catalog\<close>

definition expected_catalog :: pyval where
  "expected_catalog = PDict
    [kv ''schema_version'' (PInt 1), kv ''catalog_id'' (PStr ''WP3_TASK1_INVARIANTS.v1''),
     kv ''invariant_dsl'' (PDict
       [kv ''schema_version'' (PInt 1), kv ''schema_authority'' (PStr ''CODE_OWNED_FIXED_SCHEMA''),
        kv ''field_path_policy'' (PStr ''CODE_OWNED_DOTTED_PATHS''),
        kv ''opcodes'' (strl TASK1_ALLOWED_INVARIANT_DSL_OPCODES)]),
     kv ''operation_graphs'' TASK1_OPERATION_GRAPH_EXPECTED,
     kv ''recovery_graph'' TASK1_RECOVERY_GRAPH_EXPECTED,
     kv ''event_type_matrix'' TASK1_EVENT_TYPE_MATRIX_EXPECTED]"

text \<open>A table whose lists are texts without repetition equals itself in every node.\<close>

function plain_table :: "pyval \<Rightarrow> bool" where
  "plain_table v \<longleftrightarrow> (case v of
     PDict d \<Rightarrow> distinct (map fst d) \<and> list_all (\<lambda>p. is_str (fst p) \<and> plain_table (snd p)) d
   | PList xs \<Rightarrow> list_all is_str xs \<and> distinct xs
   | _ \<Rightarrow> True)"
  by pat_completeness auto
termination by (relation "measure size") (auto dest: size_entry)

declare plain_table.simps [simp del]

lemma json_string_inject [simp]: "json_string s = json_string t \<longleftrightarrow> s = t"
proof
  assume "json_string s = json_string t"
  then have "json_loads (canonical_json (PStr s)) = json_loads (canonical_json (PStr t))" by simp
  then show "s = t" unfolding json_loads_canonical [OF json_value.simps(5) [THEN iffD2, OF TrueI] float_free_simps(5)] by simp
qed simp

lemma all_str_map: "list_all is_str xs \<Longrightarrow> \<exists>ss. xs = map PStr ss"
  by (intro exI [of _ "map str_of xs"]) (auto simp: list_all_iff is_str_str_of intro!: map_idI [symmetric])

lemma plain_table_json: "plain_table v \<Longrightarrow> json_value v"
proof (induction v rule: json_value.induct)
  case (6 xs)
  have "json_value x" if "is_str x" for x using that by (auto simp: is_str_iff)
  with 6 show ?case by (simp add: plain_table.simps [of "PList xs"] list_all_iff)
next
  case (7 d)
  then show ?case by (simp add: plain_table.simps [of "PDict d"] list_all_iff)
qed simp_all

lemma exact_catalog_refl: "plain_table v \<Longrightarrow> exact_catalog_value v v path = None"
proof (induction v arbitrary: path rule: plain_table.induct)
  case (1 v)
  note json = plain_table_json [OF 1(2)]
  show ?case
  proof (cases v)
    case (PDict d)
    have "exact_catalog_value (dget d (str_of (fst p))) (snd p) q = None" if p: "p \<in> set d" for p q
    proof -
      obtain k where k: "fst p = PStr k"
        using 1(2) p by (auto simp: PDict plain_table.simps [of "PDict d"] list_all_iff is_str_iff)
      have "(PStr k, snd p) \<in> set d" using p k by (metis prod.collapse)
      moreover have "distinct (map fst d)" using json by (simp add: PDict)
      ultimately have "dget d k = snd p" by (simp add: dget_def dlookup_def)
      then show ?thesis
        using 1 p k by (simp add: PDict plain_table.simps [of "PDict d"] list_all_iff)
    qed
    then show ?thesis
      by (subst exact_catalog_value.simps) (simp add: PDict Let_def filter_empty_conv)
  next
    case (PList xs)
    then have list: "list_all is_str xs" "distinct xs" using 1(2) by (simp_all add: plain_table.simps [of "PList xs"])
    then obtain ss where ss: "xs = map PStr ss" using all_str_map by blast
    have "distinct (map canonical_json xs)" using list(2) by (simp add: ss distinct_map inj_on_def)
    then show ?thesis
      by (subst exact_catalog_value.simps) (simp add: PList ss py_eq_strs)
  qed (subst exact_catalog_value.simps; simp)+
qed

lemma expected_plain:
  "plain_table TASK1_OPERATION_GRAPH_EXPECTED" "plain_table TASK1_RECOVERY_GRAPH_EXPECTED"
  "plain_table TASK1_EVENT_TYPE_MATRIX_EXPECTED"
  by code_simp+

lemma expected_graphs:
  "graph_guards TASK1_OPERATION_GRAPH_EXPECTED = None" "recovery_graph_guards TASK1_RECOVERY_GRAPH_EXPECTED = None"
  "matrix_guards TASK1_EVENT_TYPE_MATRIX_EXPECTED = None"
  by code_simp+

lemma expected_frame:
  "dsl_guards (vget expected_catalog ''invariant_dsl'') = None"
  "same_fields expected_catalog TASK1_INVARIANT_CATALOG_FIELDS" "\<not> dhas (entries expected_catalog) ''catalog_schema''"
  by code_simp+

lemma expected_catalog_loads: "load_task1_invariants (Inr expected_catalog) = Inr expected_catalog"
proof -
  let ?c = "entries expected_catalog"
  have tables: "dget ?c ''operation_graphs'' = TASK1_OPERATION_GRAPH_EXPECTED"
    "dget ?c ''recovery_graph'' = TASK1_RECOVERY_GRAPH_EXPECTED"
    "dget ?c ''event_type_matrix'' = TASK1_EVENT_TYPE_MATRIX_EXPECTED"
    "dget ?c ''schema_version'' = PInt 1" "dget ?c ''catalog_id'' = PStr ''WP3_TASK1_INVARIANTS.v1''"
    "is_dict expected_catalog" "dget ?c ''invariant_dsl'' = vget expected_catalog ''invariant_dsl''"
    by (simp_all add: expected_catalog_def)
  have "consumed_node_coverage ?c = None"
    unfolding consumed_node_coverage_def Let_def tables by simp
  moreover have "exact_tables ?c = None"
    unfolding exact_tables_def tables by (simp add: exact_catalog_refl expected_plain)
  ultimately have "validate_task1_invariant_catalog expected_catalog = None"
    unfolding validate_task1_invariant_catalog_def Let_def tables
    using expected_graphs expected_frame tables(6) by simp
  then show ?thesis by (simp add: load_task1_invariants_def)
qed

subsection \<open>Two events\<close>

text \<open>The digest of the sample maps every text to the same 64 digits.\<close>

definition sample_digest :: string where "sample_digest = replicate 64 (CHR ''a'')"

definition sample_sha :: "string \<Rightarrow> string" where "sample_sha s = sample_digest"

definition sample_created :: pydict where
  "sample_created =
    [kv ''actor'' (PStr ''CONTROLLER''), kv ''created_at_utc'' (PStr ''2026-08-24T00:00:00Z''),
     kv ''decision_resolution_binding'' PNone,
     kv ''details'' (PDict [kv ''audit_generation'' (PDict
       [kv ''created_at_utc'' (PStr ''2026-08-24T00:00:00Z''), kv ''generation'' (PInt 1), kv ''predecessor_generation'' PNone,
        kv ''predecessor_valid_head_hash'' PNone, kv ''quarantine_path'' PNone, kv ''schema_version'' (PInt 1),
        kv ''started_by_event_id'' (PStr ''EVENT-1''), kv ''started_by_event_type'' (PStr ''TASK_CREATED''),
        kv ''task_id'' (PStr ''TASK-1''), kv ''threat_model'' (PStr ''CORRUPTION_AND_NON_COORDINATED_TAMPER_ONLY'')])]),
     kv ''event_hash'' (PStr sample_digest), kv ''event_id'' (PStr ''EVENT-1''), kv ''event_type'' (PStr ''TASK_CREATED''),
     kv ''evidence_bindings'' (PList []), kv ''from_state'' PNone, kv ''generation'' (PInt 1),
     kv ''policy_evaluation_binding'' PNone, kv ''previous_event_hash'' PNone, kv ''project_id'' (PStr ''ACGPS''),
     kv ''schema_version'' (PInt 1), kv ''sequence'' (PInt 1), kv ''task_id'' (PStr ''TASK-1''), kv ''to_state'' PNone,
     kv ''transition_id'' PNone]"

lemma sample_created_checks:
  "event_head_guards sample_created = None" "event_binding_guards sample_sha sample_created = None"
  "event_type_guards sample_created = None"
  by code_simp+

lemma sample_created_catalog:
  "field_matrix_guards expected_catalog sample_created = None" "generation_role_guards expected_catalog sample_created = None"
  "context_guards sample_sha expected_catalog sample_created = None"
  by code_simp+

lemma sample_created_accepted:
  "validate_audit_event sample_sha (load_task1_invariants (Inr expected_catalog)) (PDict sample_created) = None"
proof -
  have "dget sample_created ''event_hash'' = event_hash_of sample_sha sample_created"
    by (simp add: event_hash_of_def canonical_sha_def sample_sha_def sample_created_def)
  then show ?thesis
    unfolding expected_catalog_loads
    by (simp add: validate_audit_event_def Let_def with_catalog_def sample_created_checks sample_created_catalog)
qed

end
