(* ===== verification/Task_Sample.thy ===== *)
theory Task_Sample
  imports Workflow_Sample Task_Log
begin

text \<open>
  A store in which one task has been created and has made its first transition: the calls the
  witnesses of \<open>Task_Props\<close> run on.
\<close>

definition sample_state :: pydict where
  "sample_state =
    [kv ''audit_generation'' (PInt 1), kv ''audit_head_event_id'' (PStr ''EVENT-1''),
     kv ''audit_head_hash'' (PStr sample_digest), kv ''current_state'' (PStr ''DRAFT''),
     kv ''last_transition_id'' PNone, kv ''pending_decision_id'' PNone, kv ''policy_evaluation_id'' PNone,
     kv ''previous_state'' PNone, kv ''project_id'' (PStr ''ACGPS''), kv ''schema_version'' (PInt 1),
     kv ''task_id'' (PStr ''TASK-1''), kv ''updated_at_utc'' (PStr ''2026-08-24T00:00:00Z'')]"

abbreviation sample_catalog :: "exn + pyval" where
  "sample_catalog \<equiv> load_task1_invariants (Inr expected_catalog)"

definition sample_policy_binding :: pydict where
  "sample_policy_binding =
    [kv ''schema_version'' (PInt 1), kv ''evaluation_id'' (PStr ''EVAL-1''), kv ''source'' (PStr ''embedded''),
     kv ''path'' PNone, kv ''embedded_record'' (PDict sample_policy_result), kv ''result_sha256'' (PStr sample_digest),
     kv ''policy_bundle_digest'' (PStr sample_digest), kv ''authorized_transitions'' (strl [''CLASSIFIED'']),
     kv ''human_gate'' (PBool False), kv ''created_at_utc'' PNone]"

definition sample_evidence_binding :: pydict where
  "sample_evidence_binding =
    [kv ''schema_version'' (PInt 1), kv ''binding_id'' (PStr ''EV-1''), kv ''evidence_kind'' (PStr ''spec''),
     kv ''source'' (PStr ''path''), kv ''path'' (PStr ''evidence/spec.json''), kv ''embedded_record'' PNone,
     kv ''embedded_sha256'' PNone, kv ''content_sha256'' (PStr sample_digest), kv ''size_bytes'' (PInt 10),
     kv ''created_at_utc'' PNone]"

definition sample_moved :: pydict where
  "sample_moved =
    [kv ''schema_version'' (PInt 1), kv ''event_id'' (PStr ''EVENT-2''), kv ''generation'' (PInt 1),
     kv ''sequence'' (PInt 2), kv ''project_id'' (PStr ''ACGPS''), kv ''task_id'' (PStr ''TASK-1''),
     kv ''event_type'' (PStr ''TRANSITION_ACCEPTED''), kv ''actor'' (PStr ''CONTROLLER''),
     kv ''transition_id'' (PStr ''MOVE-1''), kv ''from_state'' (PStr ''DRAFT''), kv ''to_state'' (PStr ''CLASSIFIED''),
     kv ''policy_evaluation_binding'' (PDict sample_policy_binding), kv ''decision_resolution_binding'' PNone,
     kv ''evidence_bindings'' (PList [PDict sample_evidence_binding]), kv ''previous_event_hash'' (PStr sample_digest),
     kv ''event_hash'' (PStr sample_digest), kv ''details'' (PDict []),
     kv ''created_at_utc'' (PStr ''2026-08-24T00:01:00Z'')]"

definition sample_moved_state :: pydict where
  "sample_moved_state =
    [kv ''audit_generation'' (PInt 1), kv ''audit_head_event_id'' (PStr ''EVENT-2''),
     kv ''audit_head_hash'' (PStr sample_digest), kv ''current_state'' (PStr ''CLASSIFIED''),
     kv ''last_transition_id'' (PStr ''MOVE-1''), kv ''pending_decision_id'' PNone, kv ''policy_evaluation_id'' (PStr ''EVAL-1''),
     kv ''previous_state'' (PStr ''DRAFT''), kv ''project_id'' (PStr ''ACGPS''), kv ''schema_version'' (PInt 1),
     kv ''task_id'' (PStr ''TASK-1''), kv ''updated_at_utc'' (PStr ''2026-08-24T00:01:00Z'')]"

lemma sample_plain:
  "plain_record sample_created" "plain_record sample_state" "plain_record sample_moved" "plain_record sample_moved_state"
  by code_simp+

lemma sample_states_accepted:
  "validate_task_state (PDict sample_state) = None" "validate_task_state (PDict sample_moved_state) = None"
  "validate_state_event_pair sample_created sample_state = None"
  "validate_state_event_pair sample_moved sample_moved_state = None"
  by code_simp+

lemma sample_moved_checks:
  "event_head_guards sample_moved = None" "event_type_guards sample_moved = None"
  "field_matrix_guards expected_catalog sample_moved = None" "generation_role_guards expected_catalog sample_moved = None"
  by code_simp+

lemma sample_moved_bindings:
  "event_binding_guards sample_sha sample_moved = None" "context_guards sample_sha expected_catalog sample_moved = None"
  by code_simp+

lemma sample_moved_accepted: "validate_audit_event sample_sha sample_catalog (PDict sample_moved) = None"
proof -
  have "dget sample_moved ''event_hash'' = event_hash_of sample_sha sample_moved"
    by (simp add: event_hash_of_def canonical_sha_def sample_sha_def sample_moved_def)
  then show ?thesis
    unfolding expected_catalog_loads
    by (simp add: validate_audit_event_def Let_def with_catalog_def sample_moved_checks sample_moved_bindings)
qed

lemma record_bytes: "plain_record d \<Longrightarrow> utf8_size (record_text d) = json_bytes (PDict d)"
  by (rule canonical_size) (simp only: plain_record_def)

lemma record_depth: "plain_record d \<Longrightarrow> json_nesting_depth (record_text d) = value_depth (PDict d)"
  by (rule nesting_depth_value) (simp only: plain_record_def)

lemma sample_bytes:
  "json_bytes (PDict sample_created) \<le> 4000" "json_bytes (PDict sample_state) \<le> 4000"
  "json_bytes (PDict sample_moved) \<le> 4000" "json_bytes (PDict sample_moved_state) \<le> 4000"
  by code_simp+

lemma sample_sizes:
  "utf8_size (record_text sample_created) \<le> MAX_SQLITE_JSON_BYTES" "utf8_size (record_text sample_state) \<le> MAX_SQLITE_JSON_BYTES"
  "utf8_size (record_text sample_moved) \<le> MAX_SQLITE_JSON_BYTES"
  "utf8_size (record_text sample_moved_state) \<le> MAX_SQLITE_JSON_BYTES"
  using sample_bytes by (simp_all only: record_bytes sample_plain) (simp_all add: MAX_SQLITE_JSON_BYTES_def)

lemma sample_depths:
  "json_nesting_depth (record_text sample_created) \<le> MAX_SQLITE_JSON_DEPTH"
  "json_nesting_depth (record_text sample_state) \<le> MAX_SQLITE_JSON_DEPTH"
  "json_nesting_depth (record_text sample_moved) \<le> MAX_SQLITE_JSON_DEPTH"
  "json_nesting_depth (record_text sample_moved_state) \<le> MAX_SQLITE_JSON_DEPTH"
  by (simp_all only: record_depth sample_plain) code_simp+

end
