(* ===== verification/Task_Props.thy ===== *)
theory Task_Props
  imports Task_History Task_Sample
begin

text \<open>
  The properties of the task store: what commits build, when they succeed, what they leave alone,
  and how the stored history reads back.
\<close>

declare canonical_json.simps [simp del] json_sorted_simps(7) [simp del]

subsection \<open>The sample store\<close>

lemma sample_stored:
  "stored_text sample_created (record_text sample_created)" "stored_text sample_state (record_text sample_state)"
  "stored_text sample_moved (record_text sample_moved)" "stored_text sample_moved_state (record_text sample_moved_state)"
  by (simp_all add: stored_text_def sample_plain sample_sizes sample_depths)

lemma sample_in_order: "in_order sample_created" "in_order sample_state"
  by code_simp+

lemma sample_fields:
  "dget sample_created ''task_id'' = PStr ''TASK-1''" "dget sample_created ''event_type'' = PStr ''TASK_CREATED''"
  "dget sample_moved ''task_id'' = PStr ''TASK-1''" "dget sample_moved ''generation'' = PInt 1"
  "dget sample_moved ''sequence'' = PInt 2" "follows sample_created sample_moved"
  "dget sample_created ''project_id'' = dget sample_state ''project_id''"
  by (simp_all add: sample_created_def sample_moved_def sample_state_def follows_def state_after_def)

definition sample_store :: task_store where
  "sample_store = committed_store ''TASK-1'' sample_created sample_state empty_store"

lemma empty_store_absent: "task_absent empty_store task"
  by (simp add: task_absent_def empty_store_def task_rows_def)

subsection \<open>Logs that grow\<close>

text \<open>What a successful commit leaves, for the first event of a task and for the next one.\<close>

lemma first_commit_logged:
  assumes absent: "task_absent store task" and task: "dget e ''task_id'' = PStr task"
    and ok: "validate_audit_event sha cat (PDict e) = None" "validate_task_state (PDict st) = None"
      "validate_state_event_pair e st = None" "stored_text e (record_text e)" "stored_text st (record_text st)"
    and type: "dget e ''event_type'' = PStr ''TASK_CREATED''"
  shows "task_logged sha cat (committed_store task e st store) task [e] st"
  using committed_store_first [OF absent _ type _ ok(5,2) pair_accepted(1) [OF ok(1-3)]]
    created_event_accepted(1,2) [OF ok(1) type] task ok by (simp add: event_of_task_def)

lemma next_commit_logged:
  assumes log: "task_logged sha cat store task es st0" and task: "dget e ''task_id'' = PStr task"
    and ok: "validate_audit_event sha cat (PDict e) = None" "validate_task_state (PDict st) = None"
      "validate_state_event_pair e st = None" "stored_text e (record_text e)" "stored_text st (record_text st)"
    and next_event: "follows (last es) e" "dget e ''generation'' = PInt 1" "dget e ''sequence'' = PInt (int (length es) + 1)"
  shows "task_logged sha cat (committed_store task e st store) task (es @ [e]) st"
  using committed_store_next [OF log _ next_event(1,3) ok(5,2) pair_accepted(1) [OF ok(1-3)]] task ok next_event
  by (simp add: event_of_task_def)

lemma sample_logged: "task_logged sample_sha sample_catalog sample_store ''TASK-1'' [sample_created] sample_state"
  unfolding sample_store_def
  by (rule first_commit_logged [OF empty_store_absent])
     (simp_all only: sample_fields sample_created_accepted sample_states_accepted sample_stored)

lemma sample_commit:
  "commit_task_state_and_audit sample_sha sample_catalog (PDict sample_created) (PDict sample_state) empty_store = (Inr True, sample_store)"
  unfolding sample_store_def
  by (rule commit_first_succeeds [OF empty_store_absent])
     (simp_all only: sample_fields sample_created_accepted sample_states_accepted sample_stored)

lemma numbered_length: "length (numbered k xs) = length xs"
  by (induction xs arbitrary: k) simp_all

lemma store_logged_rows:
  assumes logged: "store_logged sha cat store" and row: "((task, g, n), text) \<in> set (event_rows store)"
  obtains es st i where "task_logged sha cat store task es st" "i < length es" "g = 1" "n = int i + 1"
    "text = record_text (es ! i)" "event_of_task sha cat task (es ! i)"
proof -
  have mem: "((task, g, n), text) \<in> set (task_rows store task)" using row by (simp add: task_rows_def)
  then obtain es st where log: "task_logged sha cat store task es st"
    using store_logged_at [OF logged, of task] by (auto simp: task_absent_def)
  then have rows: "task_rows store task = log_rows task es" and ok: "list_all (event_of_task sha cat task) es"
    by (simp_all add: task_logged_def log_events_def)
  obtain k where k: "1 \<le> k" "k \<le> length es" "g = 1" "n = int k" "text = record_text (es ! (k - 1))"
    using mem unfolding rows log_rows_def by (auto simp: numbered_set)
  then show ?thesis using that [OF log, of "k - 1"] ok by (simp add: list_all_length)
qed

subsection \<open>What commits build\<close>

text \<open>
  C29. Whatever sequence of task commits runs on an empty store, with any JSON records, the store
  is a collection of task logs: a task has no row, or its rows are one generation of valid events
  that starts with its creation, numbered without gap, each event bound to the one before it by
  hash and by state; the state row is valid and bound to the last event, and the exported files
  hold the same texts.
\<close>

theorem commits_build_logs:
  assumes "plain_calls calls"
  shows "store_logged sha cat (fold (commit_call sha cat) calls empty_store)"
  by (rule commits_logged [OF assms store_logged_empty])

theorem commits_build_logs_witness:
  "store_logged sample_sha sample_catalog
    (fold (commit_call sample_sha sample_catalog) [(sample_created, sample_state), (sample_moved, sample_moved_state)] empty_store)"
  by (rule commits_build_logs) (simp add: plain_calls_def sample_plain)

text \<open>
  C30. On such a store a commit is atomic: it raises and changes nothing, or finds its event and
  its state already there and changes nothing, or appends exactly its event to the log of its task
  (a new log when the task has none) and binds the state to it.
\<close>

theorem commit_appends_or_nothing:
  assumes logged: "store_logged sha cat store" and plain: "plain_record (entries event)" "plain_record (entries state)"
    and run: "commit_task_state_and_audit sha cat event state store = (r, store')"
  shows "(\<exists>x. r = Inl x \<and> store' = store) \<or> (r = Inr False \<and> store' = store) \<or>
    (\<exists>task e st. r = Inr True \<and> event = PDict e \<and> state = PDict st \<and> store' = committed_store task e st store \<and>
      ((task_absent store task \<and> task_logged sha cat store' task [e] st) \<or>
       (\<exists>es st0. task_logged sha cat store task es st0 \<and> task_logged sha cat store' task (es @ [e]) st)))"
proof (cases "\<exists>task. vget event ''task_id'' = PStr task")
  case False
  then show ?thesis using commit_needs_id [of event sha cat state store] run by auto
next
  case True
  then obtain task where task: "vget event ''task_id'' = PStr task" by blast
  show ?thesis
    by (rule commit_outcomes [OF store_logged_at [OF logged] task plain run]) blast+
qed

theorem commit_appends_or_nothing_witness:
  "\<exists>task e st. PDict sample_created = PDict e \<and> sample_store = committed_store task e st empty_store"
  using commit_appends_or_nothing [OF store_logged_empty _ _ sample_commit] sample_plain(1,2) by auto

text \<open>
  C31. A commit that is repeated, as after a crash between the transaction and the answer, answers
  that nothing was committed and leaves the store as it is.
\<close>

theorem commit_idempotent:
  assumes run: "commit_task_state_and_audit sha cat event state store = (Inr True, store')"
  shows "commit_task_state_and_audit sha cat event state store' = (Inr False, store')"
proof -
  obtain event_json state_json mid where
    texts: "commit_texts sha cat event state = Inr (event_json, state_json)" and
    rows: "commit_rows sha cat (entries event) (entries state) event_json state_json store = Inr (True, mid)" and
    export: "fst (exported_event (entries event) event_json mid) = None" and
    store': "store' = write_state_atomic (state_path (str_of (vget state ''task_id''))) state (snd (exported_event (entries event) event_json mid))"
    using run
    by (auto simp: commit_task_state_and_audit_def rbind_def case_prod_beta split: sum.splits option.splits prod.splits)
  let ?task = "str_of (dget (entries state) ''task_id'')"
  have free: "map_of (event_rows store) (coordinate (entries event)) = None"
    and guard: "coordinate_guard (entries event) = None"
    and mid: "mid = insert_event_row (entries event) event_json store\<lparr>state_rows := AList.update ?task state_json (state_rows store)\<rparr>"
    using rows by (auto simp: commit_rows_def Let_def guarded_Inr rbind_Inr split: option.splits)
  have kept: "event_rows store' = event_rows mid" "state_rows store' = state_rows mid"
    by (auto simp: store' write_state_atomic_def exported_event_def ensure_audit_export_line_def Let_def)
  have "map_of (event_rows store') (coordinate (entries event)) = Some event_json"
    using free by (simp add: kept mid insert_event_row_def map_of_append map_add_def)
  moreover have "map_of (state_rows store') ?task = Some state_json"
    by (simp add: kept mid update_conv')
  ultimately have again: "commit_rows sha cat (entries event) (entries state) event_json state_json store' = Inr (False, store')"
    using guard by (simp add: commit_rows_def Let_def)
  have "exported_event (entries event) event_json store' = (None, store')"
    using export by (auto simp: store' exported_event_def ensure_audit_export_line_def Let_def write_state_atomic_def split: if_splits)
  moreover have "write_state_atomic (state_path (str_of (vget state ''task_id''))) state store' = store'"
    by (simp add: store' write_state_atomic_def)
  ultimately show ?thesis by (simp add: commit_task_state_and_audit_def texts again)
qed

theorem commit_idempotent_witness:
  "commit_task_state_and_audit sample_sha sample_catalog (PDict sample_created) (PDict sample_state) sample_store = (Inr False, sample_store)"
  by (rule commit_idempotent [OF sample_commit])



subsection \<open>Commits that succeed\<close>

text \<open>
  C33. A creation event and its state that pass their validators and fit a row commit on any store
  that has nothing of the task, and the task then has the log of this one event.
\<close>

theorem new_task_commits:
  assumes "task_absent store task" "dget e ''task_id'' = PStr task"
    "validate_audit_event sha cat (PDict e) = None" "validate_task_state (PDict st) = None"
    "validate_state_event_pair e st = None" "stored_text e (canonical_json (PDict e))" "stored_text st (canonical_json (PDict st))"
    "dget e ''event_type'' = PStr ''TASK_CREATED''"
  shows "\<exists>store'. commit_task_state_and_audit sha cat (PDict e) (PDict st) store = (Inr True, store') \<and>
    task_logged sha cat store' task [e] st"
  using commit_first_succeeds [OF assms] first_commit_logged [OF assms] by blast

theorem new_task_commits_witness:
  "\<exists>store'. commit_task_state_and_audit sample_sha sample_catalog (PDict sample_created) (PDict sample_state) empty_store = (Inr True, store') \<and>
    task_logged sample_sha sample_catalog store' ''TASK-1'' [sample_created] sample_state"
  by (rule new_task_commits [OF empty_store_absent])
     (simp_all only: sample_fields sample_created_accepted sample_states_accepted sample_stored)



subsection \<open>What the log says\<close>

text \<open>
  C35. In the log of a task every event after the first leaves the state the event before it leads
  to, with an embedded policy result of the same project and task whose authorized transitions
  name the new state, and an event that leaves WAITING_HUMAN carries a human resolution that is
  valid for the new state, the project and the task. The state row holds the state the last event
  leads to.
\<close>

theorem logged_transitions_authorized:
  assumes log: "task_logged sha (load_task1_invariants parsed) store task es st" and i: "0 < i" "i < length es"
  shows "\<exists>p ss src tgt. dget (es ! i) ''from_state'' = PStr src \<and> state_after (es ! (i - 1)) = PStr src \<and>
    dget (es ! i) ''to_state'' = PStr tgt \<and> dget (es ! i) ''policy_evaluation_binding'' = PDict p \<and>
    validate_policy_evaluation_binding sha (PDict p) = None \<and>
    dget p ''authorized_transitions'' = PList (map PStr ss) \<and> tgt \<in> set ss \<and>
    py_eq (vget (dget p ''embedded_record'') ''project_id'') (dget (es ! i) ''project_id'') \<and>
    py_eq (vget (dget p ''embedded_record'') ''task_id'') (PStr task) \<and>
    (src \<noteq> ''WAITING_HUMAN'' \<or> validate_human_decision_resolution_binding sha (dget (es ! i) ''decision_resolution_binding'')
       (PStr tgt) (dget (es ! i) ''project_id'') (PStr task) = None) \<and>
    dget st ''current_state'' = state_after (last es)"
proof -
  have events: "successively follows es" "event_of_task sha (load_task1_invariants parsed) task (es ! i)"
    "dget st ''current_state'' = state_after (last es)"
    using log i by (simp_all add: task_logged_def log_events_def list_all_length bound_to_def)
  have "follows (es ! (i - 1)) (es ! i)"
    using events(1) i unfolding successively_conv_nth by (cases i) simp_all
  then have step: "dget (es ! i) ''event_type'' = PStr ''TRANSITION_ACCEPTED''"
    "dget (es ! i) ''from_state'' = state_after (es ! (i - 1))"
    by (simp_all add: follows_def)
  have ev: "validate_audit_event sha (load_task1_invariants parsed) (PDict (es ! i)) = None"
    and task: "dget (es ! i) ''task_id'' = PStr task"
    using events(2) by (simp_all add: event_of_task_def)
  show ?thesis
    by (rule transition_event_accepted [OF ev step(1)]) (use step(2) task events(3) in auto)
qed

theorem logged_transitions_authorized_witness:
  "\<exists>src tgt. dget sample_moved ''from_state'' = PStr src \<and> dget sample_moved ''to_state'' = PStr tgt \<and>
    dget sample_moved_state ''current_state'' = state_after sample_moved"
proof -
  obtain store' where "task_logged sample_sha sample_catalog store' ''TASK-1'' [sample_created, sample_moved] sample_moved_state"
    using next_commit_logged [OF sample_logged, of sample_moved sample_moved_state]
    by (auto simp: sample_fields sample_moved_accepted sample_states_accepted sample_stored)
  from logged_transitions_authorized [OF this, of 1] show ?thesis by auto
qed





text \<open>
  C38. The walk over the generations of an audit history ends: from generation \<open>g\<close> the loop of
  \<open>has_committed_decision_resolution\<close> returns or raises within \<open>g + 1\<close> rounds, whatever the tables
  hold.
\<close>

theorem lineage_walk_ends:
  assumes "nat generation < n"
  shows "walk_rounds n sha cat store resolution task project current generation head_id head_sequence head_hash found visited =
    Some (walk_lineage sha cat store resolution task project current generation head_id head_sequence head_hash found visited)"
  by (rule rounds_suffice [OF assms])

theorem lineage_walk_ends_witness:
  "walk_rounds 2 sample_sha sample_catalog empty_store PNone ''TASK-1'' PNone 1 1 PNone PNone PNone False {} =
    Some (walk_lineage sample_sha sample_catalog empty_store PNone ''TASK-1'' PNone 1 1 PNone PNone PNone False {})"
  by (rule lineage_walk_ends) simp

text \<open>
  C39. The canonical text of a JSON value without floats is read back by the decoder as the value
  with its keys in order, so two values have the same text exactly when they differ at most in the
  order of keys; the nesting depth the store computes from the text is the depth of the value.
\<close>

theorem canonical_text_reads_back:
  assumes "json_value v" "float_free v" "json_value w" "float_free w"
  shows "json_loads (canonical_json v) = Some (json_sorted v) \<and>
    (canonical_json v = canonical_json w) = (json_sorted v = json_sorted w) \<and>
    json_nesting_depth (canonical_json v) = value_depth v"
proof -
  have "canonical_json v = canonical_json w" if "json_sorted v = json_sorted w"
    using canonical_json_sorted [OF assms(1)] canonical_json_sorted [OF assms(3)] that by metis
  moreover have "json_sorted v = json_sorted w" if "canonical_json v = canonical_json w"
    using json_loads_canonical [OF assms(1,2)] json_loads_canonical [OF assms(3,4)] that by simp
  ultimately show ?thesis
    using json_loads_canonical [OF assms(1,2)] nesting_depth_value [OF assms(2)] by blast
qed

theorem canonical_text_reads_back_witness:
  "json_loads (canonical_json (PDict sample_moved)) = Some (json_sorted (PDict sample_moved))"
  using canonical_text_reads_back [of "PDict sample_moved" "PDict sample_moved"] sample_plain(3)
  by (simp add: plain_record_def)

end
