(* ===== verification/Decision_Queue.thy ===== *)
theory Decision_Queue
  imports Task_History Guarded_Files
begin

text \<open>
  The queue of human decisions of \<open>acgps/human_decisions.py\<close>: one file for each pending request
  and one for each resolution, written once. The files are a map from paths below the root of the
  queue to texts. The workflow store the queue may consult is an argument: the two operations
  \<open>DecisionQueue\<close> calls of it. The names a listing of the directory \<open>pending\<close> yields are an
  argument too; directories in the place of files and other errors of the operating system are
  not modelled. A decoder error and an unreadable file have one message in the code as here.
\<close>

declare canonical_json.simps [simp del] json_sorted_simps(7) [simp del]

type_synonym queue_files = "string \<Rightarrow> string option"

text \<open>What the queue asks of a workflow store.\<close>

record authority =
  committed :: "pyval \<Rightarrow> bool res"
  waiting :: "(string \<times> string) list res"

definition store_authority :: "(string \<Rightarrow> string) \<Rightarrow> exn + pyval \<Rightarrow> task_store \<Rightarrow> authority" where
  "store_authority sha cat store =
     \<lparr>committed = has_committed_decision_resolution sha cat store, waiting = read_waiting_human_decisions store\<rparr>"

subsection \<open>Errors and files\<close>

definition queue_error :: "string \<Rightarrow> exn" where
  "queue_error message = AppError ''DecisionQueueError'' message"

text \<open>\<open>except WorkflowStoreError\<close> and \<open>except ContractValidationError\<close>: the text is kept.\<close>

definition store_failure :: "exn \<Rightarrow> exn" where
  "store_failure e = (case e of WorkflowStoreError code path message \<Rightarrow> queue_error (exn_text e) | _ \<Rightarrow> e)"

definition contract_guard :: "string \<Rightarrow> pyval \<Rightarrow> guard" where
  "contract_guard name record = (case validate_contract name record ''runtime'' of
     None \<Rightarrow> None
   | Some e \<Rightarrow> Some (case e of ContractValidationError n issues \<Rightarrow> queue_error (exn_text e) | _ \<Rightarrow> e))"

lemma fail_if_False [simp]: "fail_if False e = None"
  by simp

lemma contract_guard_None [simp]: "contract_guard name v = None \<longleftrightarrow> validate_contract name v ''runtime'' = None"
  by (simp add: contract_guard_def split: option.split)

lemma contract_guard_accepts [simp]: "validate_contract name v ''runtime'' = None \<Longrightarrow> contract_guard name v = None"
  by simp

definition contained_path :: "string \<Rightarrow> string res" where
  "contained_path path = (case safe_state_path (PStr path) of Some e \<Rightarrow> Inl (store_failure e) | None \<Rightarrow> Inr path)"

definition pending_name :: "string \<Rightarrow> string" where "pending_name decision = ''pending/'' @ decision @ ''.json''"
definition resolved_name :: "string \<Rightarrow> string" where "resolved_name decision = ''resolved/'' @ decision @ ''.json''"

definition pending_path :: "string \<Rightarrow> string res" where
  "pending_path decision = contained_path (pending_name decision)"

definition resolved_path :: "string \<Rightarrow> string res" where
  "resolved_path decision = contained_path (resolved_name decision)"

definition file_name :: "string \<Rightarrow> string" where
  "file_name path = last (split_on (CHR ''/'') path)"

definition queue_text :: "pyval \<Rightarrow> string" where
  "queue_text record = canonical_json record @ [CHR 0x0A]"

definition write_once :: "string \<Rightarrow> pyval \<Rightarrow> queue_files \<Rightarrow> unit res \<times> queue_files" where
  "write_once path record files =
     (case files path of
        None \<Rightarrow> (Inr (), files(path \<mapsto> queue_text record))
      | Some old \<Rightarrow>
          (if old = queue_text record then Inr () else Inl (queue_error (''decision record already exists: '' @ file_name path)), files))"

definition read_mapping :: "queue_files \<Rightarrow> string \<Rightarrow> pyval res" where
  "read_mapping files path =
     (case Option.bind (files path) json_loads of
        None \<Rightarrow> Inl (queue_error (''decision record is unreadable: '' @ file_name path))
      | Some v \<Rightarrow> guarded (fail_if (\<not> is_dict v) (queue_error (''decision record must be a mapping: '' @ file_name path))) (Inr v))"

subsection \<open>Requests and resolutions\<close>

definition validate_request :: "pyval \<Rightarrow> guard" where
  "validate_request request = first_err
     [contract_guard ''human_decision_request'' request,
      fail_if (\<not> py_eq (vget request ''status'') (PStr ''PENDING'')) (queue_error ''pending decision request status must be PENDING'')]"

definition validate_resolution_against_request :: "pyval \<Rightarrow> pyval \<Rightarrow> guard" where
  "validate_resolution_against_request resolution request = first_err
     ([contract_guard ''human_decision_resolution'' resolution] @
      map (\<lambda>f. fail_if (\<not> py_eq (vget resolution f) (vget request f))
          (queue_error (''resolution '' @ f @ '' does not match pending request'')))
        [''decision_id'', ''project_id'', ''task_id''] @
      [fail_if (\<not> py_eq (vget resolution ''resume_state'') (vget request ''stage''))
         (queue_error ''resolution resume_state does not match the approved target stage''),
       fail_if (\<not> mem_list (vget resolution ''selected_option'')
           (map (\<lambda>item. vget item ''id'') (elems (vget request ''options''))))
         (queue_error ''selected_option is not offered by the pending request'')])"

abbreviation decision_of :: "pyval \<Rightarrow> string" where
  "decision_of record \<equiv> str_of (vget record ''decision_id'')"

definition create_request :: "pyval \<Rightarrow> queue_files \<Rightarrow> string res \<times> queue_files" where
  "create_request request files =
     (case guarded (validate_request request) (pending_path (decision_of request)) of
        Inl e \<Rightarrow> (Inl e, files)
      | Inr path \<Rightarrow> (case write_once path request files of
            (Inl e, files') \<Rightarrow> (Inl e, files')
          | (Inr _, files') \<Rightarrow> (Inr path, files')))"

definition validate_resolution :: "queue_files \<Rightarrow> pyval \<Rightarrow> pyval res" where
  "validate_resolution files resolution =
     guarded (contract_guard ''human_decision_resolution'' resolution)
      (rbind (pending_path (decision_of resolution)) (\<lambda>path.
        guarded (fail_if (files path = None) (queue_error ''matching pending decision request is missing''))
         (rbind (read_mapping files path) (\<lambda>request.
           guarded (first_err [validate_request request, validate_resolution_against_request resolution request])
            (Inr request)))))"

definition resolve_request :: "pyval \<Rightarrow> queue_files \<Rightarrow> string res \<times> queue_files" where
  "resolve_request resolution files =
     (case rbind (validate_resolution files resolution) (\<lambda>_. resolved_path (decision_of resolution)) of
        Inl e \<Rightarrow> (Inl e, files)
      | Inr path \<Rightarrow> (case write_once path resolution files of
            (Inl e, files') \<Rightarrow> (Inl e, files')
          | (Inr _, files') \<Rightarrow> (Inr path, files')))"

subsection \<open>The pending requests\<close>

definition resolution_is_committed :: "authority option \<Rightarrow> pyval \<Rightarrow> bool res" where
  "resolution_is_committed auth resolution =
     (case auth of
        None \<Rightarrow> Inr True
      | Some a \<Rightarrow> (case committed a resolution of Inl e \<Rightarrow> Inl (store_failure e) | Inr b \<Rightarrow> Inr b))"

text \<open>Two dictionaries of texts are equal when they have the same pairs.\<close>

definition require_authoritative_pending_match :: "authority option \<Rightarrow> pyval list \<Rightarrow> guard" where
  "require_authoritative_pending_match auth records =
     (case auth of
        None \<Rightarrow> None
      | Some a \<Rightarrow> (case waiting a of
            Inl e \<Rightarrow> Some (store_failure e)
          | Inr tasks \<Rightarrow>
              (let pending = map (\<lambda>r. (str_of (vget r ''task_id''), decision_of r)) records in
               fail_if (\<not> distinct (map fst pending) \<or> set pending \<noteq> set tasks)
                 (queue_error ''pending decision records do not match authoritative WAITING_HUMAN tasks''))))"

definition queue_entry :: "authority option \<Rightarrow> queue_files \<Rightarrow> string \<Rightarrow> pyval option res" where
  "queue_entry auth files name =
     rbind (contained_path (''pending/'' @ name)) (\<lambda>path.
      guarded (fail_if (files path = None) (queue_error (''pending decision record must be a file: '' @ name)))
       (rbind (read_mapping files path) (\<lambda>request.
         guarded (validate_request request)
          (rbind (resolved_path (decision_of request)) (\<lambda>answer.
            if files answer = None then Inr (Some request)
            else rbind (read_mapping files answer) (\<lambda>resolution.
              guarded (validate_resolution_against_request resolution request)
               (rbind (resolution_is_committed auth resolution) (\<lambda>c. Inr (if c then None else Some request)))))))))"

definition list_pending :: "authority option \<Rightarrow> queue_files \<Rightarrow> string list \<Rightarrow> pyval list res" where
  "list_pending auth files names =
     rbind (mapM_res (queue_entry auth files) names) (\<lambda>entries.
       let records = List.map_filter id entries in
       guarded (require_authoritative_pending_match auth records) (Inr records))"

subsection \<open>Files are written once\<close>

datatype queue_op = Create pyval | Resolve pyval

definition queue_exec :: "queue_op \<Rightarrow> queue_files \<Rightarrow> queue_files" where
  "queue_exec p files = (case p of
     Create request \<Rightarrow> snd (create_request request files)
   | Resolve resolution \<Rightarrow> snd (resolve_request resolution files))"

lemma contained_path_Inr [simp]: "contained_path path = Inr p \<longleftrightarrow> p = path \<and> safe_state_path (PStr path) = None"
  by (auto simp: contained_path_def split: option.splits)

lemma contained_path_safe [simp]: "safe_state_path (PStr path) = None \<Longrightarrow> contained_path path = Inr path"
  by simp

lemma write_once_cases:
  obtains e where "write_once path v files = (Inl e, files)"
  | "files path = Some (queue_text v)" "write_once path v files = (Inr (), files)"
  | "files path = None" "write_once path v files = (Inr (), files(path \<mapsto> queue_text v))"
  by (cases "files path"; cases "files path = Some (queue_text v)") (auto simp: write_once_def)

text \<open>What the two operations have checked when they return.\<close>

lemma create_cases:
  obtains e where "create_request v files = (Inl e, files)"
  | "validate_request v = None" "safe_state_path (PStr (pending_name (decision_of v))) = None"
    "create_request v files = (Inr (pending_name (decision_of v)), files)"
    "files (pending_name (decision_of v)) = Some (queue_text v)"
  | "validate_request v = None" "safe_state_path (PStr (pending_name (decision_of v))) = None"
    "files (pending_name (decision_of v)) = None"
    "create_request v files = (Inr (pending_name (decision_of v)), files(pending_name (decision_of v) \<mapsto> queue_text v))"
proof (cases "guarded (validate_request v) (pending_path (decision_of v))")
  case (Inl e)
  then show ?thesis using that(1) [of e] by (simp add: create_request_def)
next
  case (Inr p)
  then show ?thesis
    using that by (cases rule: write_once_cases [of p v files]) (auto simp: create_request_def guarded_Inr pending_path_def)
qed

lemma resolve_cases:
  obtains e where "resolve_request v files = (Inl e, files)"
  | request where "validate_resolution files v = Inr request" "safe_state_path (PStr (resolved_name (decision_of v))) = None"
    "resolve_request v files = (Inr (resolved_name (decision_of v)), files)"
    "files (resolved_name (decision_of v)) = Some (queue_text v)"
  | request where "validate_resolution files v = Inr request" "safe_state_path (PStr (resolved_name (decision_of v))) = None"
    "files (resolved_name (decision_of v)) = None"
    "resolve_request v files = (Inr (resolved_name (decision_of v)), files(resolved_name (decision_of v) \<mapsto> queue_text v))"
proof (cases "rbind (validate_resolution files v) (\<lambda>_. resolved_path (decision_of v))")
  case (Inl e)
  then show ?thesis using that(1) [of e] by (simp add: resolve_request_def)
next
  case (Inr p)
  then obtain request where "validate_resolution files v = Inr request" "resolved_path (decision_of v) = Inr p"
    by (auto simp: rbind_Inr)
  then show ?thesis
    using that by (cases rule: write_once_cases [of p v files]) (auto simp: resolve_request_def resolved_path_def)
qed

text \<open>The file of a request or of a resolution, valid on its own.\<close>

definition queue_file_ok :: "string \<Rightarrow> string \<Rightarrow> bool" where
  "queue_file_ok path text \<longleftrightarrow> (\<exists>v. text = queue_text v \<and> safe_state_path (PStr path) = None \<and>
     (path = pending_name (decision_of v) \<and> validate_request v = None \<or>
      path = resolved_name (decision_of v) \<and> validate_contract ''human_decision_resolution'' v ''runtime'' = None))"

lemma validate_resolution_contract:
  "validate_resolution files v = Inr request \<Longrightarrow> validate_contract ''human_decision_resolution'' v ''runtime'' = None"
  by (auto simp: validate_resolution_def guarded_Inr)

interpretation queue: guarded_files queue_exec queue_file_ok queue_file_ok "\<lambda>_ _. False"
proof
  fix p :: queue_op and files :: queue_files
  show "queue_exec p files = files \<or> (\<exists>k v. queue_exec p files = files(k \<mapsto> v) \<and> queue_file_ok k v \<and>
    (case files k of None \<Rightarrow> queue_file_ok k v | Some u \<Rightarrow> queue_file_ok k u \<and> False))"
  proof (cases p)
    case (Create v)
    show ?thesis
      by (rule create_cases [of v files]) (auto simp: queue_exec_def Create queue_file_ok_def intro!: exI)
  next
    case (Resolve v)
    show ?thesis
      by (rule resolve_cases [of v files])
        (auto simp: queue_exec_def Resolve queue_file_ok_def dest: validate_resolution_contract intro!: exI)
  qed
qed

lemma queue_files_kept: "files p = Some t \<Longrightarrow> fold queue_exec ops files p = Some t"
  using queue.run_steps [of files p t ops] by (auto elim: converse_rtranclpE)

subsection \<open>Answers to requests\<close>

text \<open>The record of an operation satisfies \<open>ok\<close>: it is plain, or plain and in canonical order.\<close>

definition op_record :: "(pydict \<Rightarrow> bool) \<Rightarrow> queue_op \<Rightarrow> bool" where
  "op_record ok p \<longleftrightarrow> (case p of Create v \<Rightarrow> ok (entries v) | Resolve v \<Rightarrow> ok (entries v))"

text \<open>What a reader finds of a record.\<close>

abbreviation stored :: "pydict \<Rightarrow> pyval" where
  "stored d \<equiv> json_sorted (PDict d)"

lemma stored_dict [simp]: "is_dict (stored d)"
  by (simp add: json_sorted_simps(7))

lemma read_back: "files path = Some (queue_text (PDict d)) \<Longrightarrow> plain_record d \<Longrightarrow> read_mapping files path = Inr (stored d)"
proof -
  assume here: "files path = Some (queue_text (PDict d))" and plain: "plain_record d"
  have "json_loads (queue_text (PDict d)) = Some (stored d)"
    using plain unfolding queue_text_def plain_record_def by (intro json_loads_line) (simp_all only:)
  then show ?thesis by (simp add: read_mapping_def here fail_if_def)
qed

definition request_at :: "(pydict \<Rightarrow> bool) \<Rightarrow> queue_files \<Rightarrow> string \<Rightarrow> pydict \<Rightarrow> bool" where
  "request_at ok files path d \<longleftrightarrow> files path = Some (queue_text (PDict d)) \<and> ok d \<and>
     path = pending_name (decision_of (PDict d)) \<and> validate_request (PDict d) = None \<and> safe_state_path (PStr path) = None"

lemma request_atD:
  assumes "request_at ok files path d"
  shows "ok d" "path = pending_name (decision_of (PDict d))" "validate_request (PDict d) = None"
    "safe_state_path (PStr path) = None" "files path = Some (queue_text (PDict d))"
  using assms unfolding request_at_def by blast+

definition answer_at :: "(pydict \<Rightarrow> bool) \<Rightarrow> queue_files \<Rightarrow> string \<Rightarrow> pydict \<Rightarrow> pydict \<Rightarrow> bool" where
  "answer_at ok files path a q \<longleftrightarrow> files path = Some (queue_text (PDict a)) \<and> ok a \<and>
     path = resolved_name (decision_of (PDict a)) \<and> safe_state_path (PStr path) = None \<and>
     request_at ok files (pending_name (decision_of (PDict a))) q \<and>
     validate_resolution_against_request (PDict a) (stored q) = None"

lemma answer_atD:
  assumes "answer_at ok files path a q"
  shows "files path = Some (queue_text (PDict a))" "ok a" "path = resolved_name (decision_of (PDict a))"
    "request_at ok files (pending_name (decision_of (PDict a))) q" "validate_resolution_against_request (PDict a) (stored q) = None"
  using assms unfolding answer_at_def by blast+

text \<open>Every file is a request, or the resolution of one that is there.\<close>

definition queue_sound :: "(pydict \<Rightarrow> bool) \<Rightarrow> queue_files \<Rightarrow> bool" where
  "queue_sound ok files \<longleftrightarrow> (\<forall>path. files path \<noteq> None \<longrightarrow> (\<exists>d. request_at ok files path d) \<or> (\<exists>a q. answer_at ok files path a q))"

lemma pending_resolved: "pending_name a \<noteq> resolved_name b" "pending_name a = pending_name b \<longleftrightarrow> a = b" "resolved_name a = resolved_name b \<longleftrightarrow> a = b"
  by (simp_all add: pending_name_def resolved_name_def)

lemma kept_at:
  assumes "files path = None"
  shows "request_at ok files p d \<Longrightarrow> request_at ok (files(path \<mapsto> t)) p d" "answer_at ok files p a q \<Longrightarrow> answer_at ok (files(path \<mapsto> t)) p a q"
  using assms by (auto simp: request_at_def answer_at_def)

lemma sound_upd:
  assumes "queue_sound ok files" "files path = None"
    "(\<exists>d. request_at ok (files(path \<mapsto> t)) path d) \<or> (\<exists>a q. answer_at ok (files(path \<mapsto> t)) path a q)"
  shows "queue_sound ok (files(path \<mapsto> t))"
  using assms kept_at [where files = files and path = path, OF assms(2)] unfolding queue_sound_def by (metis fun_upd_apply)

lemma contract_dict: "validate_contract name v mode = None \<Longrightarrow> v = PDict (entries v)"
  using validate_contract_None_dict [of name v mode] by (auto simp: is_dict_iff)

lemma request_dict: "validate_request v = None \<Longrightarrow> v = PDict (entries v)"
  by (auto simp: validate_request_def intro: contract_dict)

text \<open>A pending file that is there is a request under its name.\<close>

lemma sound_request:
  assumes "queue_sound ok files" "files (pending_name decision) \<noteq> None"
  obtains d where "request_at ok files (pending_name decision) d" "decision_of (PDict d) = decision"
proof -
  from assms consider d where "request_at ok files (pending_name decision) d" | a q where "answer_at ok files (pending_name decision) a q"
    unfolding queue_sound_def by blast
  then show ?thesis
  proof cases
    case (1 d)
    then have "decision_of (PDict d) = decision" by (simp add: request_at_def pending_resolved)
    with 1 show ?thesis by (rule that)
  qed (simp add: answer_at_def pending_resolved)
qed

lemma sound_answer:
  assumes "queue_sound ok files" "files (resolved_name decision) \<noteq> None"
  obtains a q where "answer_at ok files (resolved_name decision) a q" "decision_of (PDict a) = decision"
proof -
  from assms consider d where "request_at ok files (resolved_name decision) d" | a q where "answer_at ok files (resolved_name decision) a q"
    unfolding queue_sound_def by blast
  then show ?thesis
  proof cases
    case (2 a q)
    then have "decision_of (PDict a) = decision" by (simp add: answer_at_def pending_resolved)
    with 2 show ?thesis by (rule that)
  qed (simp add: request_at_def pending_resolved(1) [symmetric])
qed

lemma queue_exec_sound:
  assumes ok: "\<And>d. ok d \<Longrightarrow> plain_record d" and sound: "queue_sound ok files" and plain: "op_record ok p"
  shows "queue_sound ok (queue_exec p files)"
proof (cases p)
  case (Create v)
  show ?thesis
  proof (rule create_cases [of v files])
    assume new: "validate_request v = None" "safe_state_path (PStr (pending_name (decision_of v))) = None"
      "files (pending_name (decision_of v)) = None"
      "create_request v files = (Inr (pending_name (decision_of v)), files(pending_name (decision_of v) \<mapsto> queue_text v))"
    obtain d where d: "v = PDict d" using request_dict [OF new(1)] by blast
    show ?thesis
      using sound_upd [OF sound new(3)] new plain by (auto simp: queue_exec_def Create d op_record_def request_at_def)
  qed (use sound in \<open>simp_all add: queue_exec_def Create\<close>)
next
  case (Resolve v)
  show ?thesis
  proof (rule resolve_cases [of v files])
    fix request
    assume new: "validate_resolution files v = Inr request" "safe_state_path (PStr (resolved_name (decision_of v))) = None"
      "files (resolved_name (decision_of v)) = None"
      "resolve_request v files = (Inr (resolved_name (decision_of v)), files(resolved_name (decision_of v) \<mapsto> queue_text v))"
    obtain d where d: "v = PDict d" using contract_dict [OF validate_resolution_contract [OF new(1)]] by blast
    have there: "files (pending_name (decision_of v)) \<noteq> None" and read: "read_mapping files (pending_name (decision_of v)) = Inr request"
      and against: "validate_resolution_against_request v request = None"
      using new(1) by (auto simp: validate_resolution_def pending_path_def guarded_Inr rbind_Inr)
    obtain q where q: "request_at ok files (pending_name (decision_of v)) q" using sound_request [OF sound there] by metis
    then have "read_mapping files (pending_name (decision_of v)) = Inr (stored q)" 
      unfolding request_at_def by (elim conjE) (rule read_back; simp add: ok)
    then have "request = stored q" using read by simp
    then have "answer_at ok (files(resolved_name (decision_of v) \<mapsto> queue_text v)) (resolved_name (decision_of v)) d q"
      using against q new plain kept_at(1) [where files = files and path = "resolved_name (decision_of v)", OF new(3)] by (simp add: answer_at_def d Resolve op_record_def)
    then show ?thesis
      using sound_upd [OF sound new(3)] new(4) by (auto simp: queue_exec_def Resolve)
  qed (use sound in \<open>simp_all add: queue_exec_def Resolve\<close>)
qed

lemma queue_run_sound:
  "(\<And>d. ok d \<Longrightarrow> plain_record d) \<Longrightarrow> list_all (op_record ok) ops \<Longrightarrow> queue_sound ok files \<Longrightarrow> queue_sound ok (fold queue_exec ops files)"
  by (induction ops arbitrary: files) (simp_all add: queue_exec_sound)

lemma queue_empty_sound: "queue_sound ok (\<lambda>_. None)"
  by (simp add: queue_sound_def)

subsection \<open>What the list shows\<close>

text \<open>Records in the order of the canonical text read back as they are.\<close>

definition ordered_record :: "pydict \<Rightarrow> bool" where
  "ordered_record d \<longleftrightarrow> plain_record d \<and> in_order d"

abbreviation ordered_queue :: "queue_files \<Rightarrow> bool" where
  "ordered_queue \<equiv> queue_sound ordered_record"

lemma stored_ordered: "ordered_record d \<Longrightarrow> stored d = PDict d"
  by (simp add: ordered_record_def in_order_def)

lemma ordered_read: "files path = Some (queue_text (PDict d)) \<Longrightarrow> ordered_record d \<Longrightarrow> read_mapping files path = Inr (PDict d)"
  using read_back [of files path d] stored_ordered [of d] by (simp add: ordered_record_def)

lemma request_unique:
  assumes "request_at ordered_record files path d" "request_at ordered_record files path e"
  shows "d = e"
proof -
  have "read_mapping files path = Inr (PDict d)" by (rule ordered_read) (rule request_atD [OF assms(1)])+
  moreover have "read_mapping files path = Inr (PDict e)" by (rule ordered_read) (rule request_atD [OF assms(2)])+
  ultimately show ?thesis by simp
qed

text \<open>The path of a resolution is safe when the one of the request is.\<close>

lemma below_safe:
  assumes "CHR ''/'' \<notin> set a" "CHR 0x5C \<notin> set a" "\<not> is_dot_part a" "CHR '':'' \<notin> set (take 2 a)" "2 \<le> length a"
  shows "safe_state_path (PStr (a @ ''/'' @ s)) = None \<longleftrightarrow> CHR 0x5C \<notin> set s \<and> \<not> list_ex is_dot_part (split_on (CHR ''/'') s)"
proof -
  obtain x y r where xy: "a = x # y # r" using assms(5) by (cases a; cases "tl a") auto
  have "split_on (CHR ''/'') (a @ ''/'' @ s) = a # split_on (CHR ''/'') s"
    using split_on_append [of "CHR ''/''" a s] assms(1) by simp
  then show ?thesis
    using assms xy by (auto simp: safe_state_path_def Let_def has_windows_drive_def has_drive_def starts_with_def)
qed

lemma resolved_safe: "safe_state_path (PStr (resolved_name decision)) = None \<longleftrightarrow> safe_state_path (PStr (pending_name decision)) = None"
  using below_safe [of "''pending''" "decision @ ''.json''"] below_safe [of "''resolved''" "decision @ ''.json''"]
  by (simp add: pending_name_def resolved_name_def is_dot_part_def)

text \<open>A request is open when it has no resolution, or one the store has not committed.\<close>

definition still_open :: "authority option \<Rightarrow> queue_files \<Rightarrow> pydict \<Rightarrow> bool" where
  "still_open auth files d \<longleftrightarrow>
     (let answer = resolved_name (decision_of (PDict d)) in
      files answer = None \<or> rbind (read_mapping files answer) (resolution_is_committed auth) = Inr False)"

lemma queue_entry_open:
  assumes sound: "ordered_queue files" and there: "files (''pending/'' @ name) \<noteq> None"
  obtains d where "request_at ordered_record files (''pending/'' @ name) d"
    "\<And>e. queue_entry auth files name = Inr e \<Longrightarrow> e = (if still_open auth files d then Some (PDict d) else None)"
    "queue_entry None files name = Inr (if still_open None files d then Some (PDict d) else None)"
proof -
  have "''pending/'' @ name \<noteq> resolved_name decision" for decision by (simp add: resolved_name_def)
  then obtain d where d: "request_at ordered_record files (''pending/'' @ name) d"
    using sound there unfolding queue_sound_def answer_at_def by blast
  let ?path = "''pending/'' @ name" and ?answer = "resolved_name (decision_of (PDict d))"
  have ok: "ordered_record d" "?path = pending_name (decision_of (PDict d))" "validate_request (PDict d) = None"
    "safe_state_path (PStr ?path) = None" "files ?path = Some (queue_text (PDict d))"
    by (rule request_atD [OF d])+
  have read: "read_mapping files ?path = Inr (PDict d)" using ok by (intro ordered_read)
  have "safe_state_path (PStr ?answer) = None" using ok(2,4) by (simp add: resolved_safe)
  then have answer: "resolved_path (decision_of (PDict d)) = Inr ?answer" by (simp add: resolved_path_def)
  have entry: "queue_entry auth files name =
      (if files ?answer = None then Inr (Some (PDict d))
       else rbind (read_mapping files ?answer) (\<lambda>resolution. guarded (validate_resolution_against_request resolution (PDict d))
         (rbind (resolution_is_committed auth resolution) (\<lambda>c. Inr (if c then None else Some (PDict d))))))" for auth
    using ok(3-5) read answer unfolding queue_entry_def by simp
  have "queue_entry auth files name = Inr e \<Longrightarrow> e = (if still_open auth files d then Some (PDict d) else None)" for auth e
    unfolding entry still_open_def Let_def by (auto simp: rbind_Inr guarded_Inr split: if_splits)
  moreover have "\<exists>e. queue_entry None files name = Inr e"
  proof (cases "files ?answer")
    case (Some t)
    then obtain a q where a: "answer_at ordered_record files ?answer a q" "decision_of (PDict a) = decision_of (PDict d)"
      using sound_answer [OF sound] by blast
    have q: "request_at ordered_record files ?path q" using a ok(2) by (simp add: answer_at_def)
    have "q = d" by (rule request_unique [OF q d])
    moreover have "read_mapping files ?answer = Inr (PDict a)" by (rule ordered_read) (rule answer_atD [OF a(1)])+
    moreover have "validate_resolution_against_request (PDict a) (PDict q) = None"
      using a(1) request_atD(1) [OF q] by (simp add: answer_at_def stored_ordered)
    ultimately show ?thesis using Some by (simp add: entry resolution_is_committed_def)
  qed (simp add: entry)
  ultimately show ?thesis using that [OF d] by blast
qed

text \<open>The loop over the names.\<close>

lemma mapM_res_image: "mapM_res f xs = Inr ys \<Longrightarrow> f ` set xs = Inr ` set ys"
proof (induction xs arbitrary: ys)
  case (Cons x xs)
  then obtain y zs where "f x = Inr y" "mapM_res f xs = Inr zs" "ys = y # zs" by (auto simp: rbind_Inr)
  with Cons.IH [of zs] show ?case by simp
qed simp

lemma map_filter_id: "set (List.map_filter id xs) = {x. Some x \<in> set xs}"
  by (induction xs) (auto simp: List.map_filter_def)

lemma mapM_res_total: "(\<And>x. x \<in> set xs \<Longrightarrow> \<exists>y. f x = Inr y) \<Longrightarrow> \<exists>ys. mapM_res f xs = Inr ys"
  by (induction xs) (auto simp: rbind_Inr)

lemma list_pending_total:
  assumes sound: "ordered_queue files" and names: "\<forall>name \<in> set names. files (''pending/'' @ name) \<noteq> None"
  shows "\<exists>rs. list_pending None files names = Inr rs"
proof -
  have "\<exists>e. queue_entry None files name = Inr e" if "name \<in> set names" for name
  proof -
    have "files (''pending/'' @ name) \<noteq> None" using names that by blast
    from queue_entry_open [OF sound this, of None] show ?thesis by blast
  qed
  then obtain entries where "mapM_res (queue_entry None files) names = Inr entries"
    using mapM_res_total [of names "queue_entry None files"] by blast
  then show ?thesis by (simp add: list_pending_def require_authoritative_pending_match_def)
qed

lemma list_pending_open:
  assumes sound: "ordered_queue files" and names: "\<forall>name \<in> set names. files (''pending/'' @ name) \<noteq> None"
    and run: "list_pending auth files names = Inr rs"
  shows "set rs = {PDict d | d name. name \<in> set names \<and> request_at ordered_record files (''pending/'' @ name) d \<and> still_open auth files d}"
    (is "_ = ?open")
proof -
  obtain entries where entries: "mapM_res (queue_entry auth files) names = Inr entries" "rs = List.map_filter id entries"
    using run by (auto simp: list_pending_def rbind_Inr guarded_Inr Let_def)
  note image = mapM_res_image [OF entries(1)]
  have entry: "\<exists>e. e \<in> set entries \<and> queue_entry auth files name = Inr e \<and> e = (if still_open auth files d then Some (PDict d) else None)"
    if name: "name \<in> set names" "request_at ordered_record files (''pending/'' @ name) d" for name d
  proof -
    have there: "files (''pending/'' @ name) \<noteq> None" using names name(1) by blast
    have "queue_entry auth files name \<in> Inr ` set entries" unfolding image [symmetric] using name(1) by (rule imageI)
    then obtain e where e: "e \<in> set entries" "queue_entry auth files name = Inr e" by blast
    obtain d' where d': "request_at ordered_record files (''pending/'' @ name) d'"
      "queue_entry auth files name = Inr e \<Longrightarrow> e = (if still_open auth files d' then Some (PDict d') else None)"
      using queue_entry_open [OF sound there, of auth] by blast
    have "d' = d" by (rule request_unique [OF d'(1) name(2)])
    with d' e show ?thesis by blast
  qed
  have "x \<in> set rs \<longleftrightarrow> Some x \<in> set entries" for x by (simp add: entries(2) map_filter_id)
  moreover have "Some x \<in> set entries \<Longrightarrow> x \<in> ?open" for x
  proof -
    assume x: "Some x \<in> set entries"
    then have "Inr (Some x) \<in> queue_entry auth files ` set names" unfolding image by (rule imageI)
    then obtain name where name: "name \<in> set names" "queue_entry auth files name = Inr (Some x)" by (auto dest: sym)
    then have there: "files (''pending/'' @ name) \<noteq> None" using names by blast
    obtain d where d: "request_at ordered_record files (''pending/'' @ name) d" using queue_entry_open [OF sound there, of auth] by blast
    from entry [OF name(1) this] name(2) have "Some x = (if still_open auth files d then Some (PDict d) else None)" by simp
    then show ?thesis using d name(1) by (auto split: if_splits)
  qed
  moreover have "x \<in> ?open \<Longrightarrow> Some x \<in> set entries" for x using entry by fastforce
  ultimately show ?thesis by blast
qed

lemma list_pending_matches:
  assumes "list_pending (Some a) files names = Inr rs"
  shows "\<exists>tasks. waiting a = Inr tasks \<and> set tasks = (\<lambda>r. (str_of (vget r ''task_id''), decision_of r)) ` set rs \<and>
    distinct (map (\<lambda>r. str_of (vget r ''task_id'')) rs)"
proof -
  have "require_authoritative_pending_match (Some a) rs = None"
    using assms by (auto simp: list_pending_def rbind_Inr guarded_Inr Let_def)
  then show ?thesis
    by (cases "waiting a") (simp_all add: require_authoritative_pending_match_def Let_def comp_def)
qed

end
