(* ===== verification/Queue_Props.thy ===== *)
theory Queue_Props
  imports Decision_Queue Contract_Sample
begin

text \<open>
  The properties of the decision queue: a file is written once, an answer is one the request
  offers, and the list of pending requests is exact.
\<close>

declare canonical_json.simps [simp del] json_sorted_simps(7) [simp del]

subsection \<open>A request and its answer\<close>

definition queue_request :: pydict where
  "queue_request = entries (json_sorted (PDict sample_decision_request))"

definition queue_answer :: pydict where
  "queue_answer =
    [kv ''decision_id'' (PStr ''DECISION-1''), kv ''evidence_paths'' (strl [''docs/spec.md'']),
     kv ''project_id'' (PStr ''ACGPS''), kv ''rationale'' (PStr ''cheaper''), kv ''resolved_at_utc'' (PStr ''2026-08-24T00:00:00Z''),
     kv ''resolved_by'' (PStr ''OWNER''), kv ''resume_state'' (PStr ''SPEC_READY''), kv ''schema_version'' (PInt 1),
     kv ''selected_option'' (PStr ''A1''), kv ''status'' (PStr ''RESOLVED''), kv ''task_id'' (PStr ''TASK-1'')]"

definition queue_ops :: "queue_op list" where
  "queue_ops = [Create (PDict queue_request), Resolve (PDict queue_answer)]"

lemma sample_requests:
  "validate_request (PDict queue_request) = None" "plain_record queue_request" "in_order queue_request"
  "plain_record queue_answer" "in_order queue_answer" "decision_of (PDict queue_request) = ''DECISION-1''"
  "decision_of (PDict queue_answer) = ''DECISION-1''"
  by code_simp+

lemma sample_answer_ok:
  "validate_contract ''human_decision_resolution'' (PDict queue_answer) ''runtime'' = None"
  "validate_resolution_against_request (PDict queue_answer) (PDict queue_request) = None"
  by code_simp+

lemma sample_paths: "safe_state_path (PStr (pending_name ''DECISION-1'')) = None" "safe_state_path (PStr (resolved_name ''DECISION-1'')) = None"
  by code_simp+

definition queue_files_after :: queue_files where
  "queue_files_after = (\<lambda>_. None)(pending_name ''DECISION-1'' \<mapsto> queue_text (PDict queue_request),
     resolved_name ''DECISION-1'' \<mapsto> queue_text (PDict queue_answer))"

lemma queue_run: "fold queue_exec queue_ops (\<lambda>_. None) = queue_files_after"
proof -
  let ?files = "[pending_name ''DECISION-1'' \<mapsto> queue_text (PDict queue_request)]"
  have first: "queue_exec (Create (PDict queue_request)) (\<lambda>_. None) = ?files"
    using sample_requests sample_paths by (simp add: queue_exec_def create_request_def pending_path_def write_once_def)
  have "read_mapping ?files (pending_name ''DECISION-1'') = Inr (PDict queue_request)"
    using sample_requests by (intro ordered_read) (simp_all add: ordered_record_def)
  then have "validate_resolution ?files (PDict queue_answer) = Inr (PDict queue_request)"
    using sample_requests sample_paths sample_answer_ok by (simp add: validate_resolution_def pending_path_def)
  then have "queue_exec (Resolve (PDict queue_answer)) ?files = queue_files_after"
    using sample_requests(7) sample_paths(2)
    by (simp add: queue_exec_def resolve_request_def resolved_path_def write_once_def pending_resolved(1) [symmetric] queue_files_after_def)
  then show ?thesis by (simp add: queue_ops_def first)
qed

lemma queue_ops_plain: "list_all (op_record plain_record) queue_ops" "list_all (op_record ordered_record) queue_ops"
  using sample_requests by (simp_all add: queue_ops_def op_record_def ordered_record_def)

subsection \<open>Answers\<close>

text \<open>
  C2. Whatever requests are created and resolved on an empty queue, a resolution that is there is a
  valid record that answers the pending request of its decision, of the same project and task,
  with the approved stage and an option the request offers; and no later operation changes it.
\<close>

theorem queue_answers_offered:
  assumes ops: "list_all (op_record plain_record) ops" and files: "files = fold queue_exec ops (\<lambda>_. None)"
    and answer: "files (resolved_name decision) = Some answer_text"
  shows "\<exists>a q. answer_text = queue_text (PDict a) \<and> decision_of (PDict a) = decision \<and>
    validate_contract ''human_decision_resolution'' (PDict a) ''runtime'' = None \<and>
    files (pending_name decision) = Some (queue_text (PDict q)) \<and> validate_request (PDict q) = None \<and>
    (\<forall>f \<in> {''decision_id'', ''project_id'', ''task_id''}. py_eq (dget a f) (vget (json_sorted (PDict q)) f)) \<and>
    py_eq (dget a ''resume_state'') (vget (json_sorted (PDict q)) ''stage'') \<and>
    mem_list (dget a ''selected_option'') (map (\<lambda>item. vget item ''id'') (elems (vget (json_sorted (PDict q)) ''options''))) \<and>
    (\<forall>more. fold queue_exec more files (resolved_name decision) = Some answer_text)"
proof -
  have "queue_sound plain_record files"
    unfolding files by (rule queue_run_sound [OF _ ops queue_empty_sound])
  then obtain a q where a: "answer_at plain_record files (resolved_name decision) a q" "decision_of (PDict a) = decision"
    by (rule sound_answer [of plain_record files decision]) (simp_all add: answer)
  note parts = answer_atD [OF a(1)]
  have "validate_contract ''human_decision_resolution'' (PDict a) ''runtime'' = None"
    "\<forall>f \<in> {''decision_id'', ''project_id'', ''task_id''}. py_eq (dget a f) (vget (stored q) f)"
    "py_eq (dget a ''resume_state'') (vget (stored q) ''stage'')"
    "mem_list (dget a ''selected_option'') (map (\<lambda>item. vget item ''id'') (elems (vget (stored q) ''options'')))"
    using parts(5) by (simp_all add: validate_resolution_against_request_def)
  moreover have "answer_text = queue_text (PDict a)" using parts(1) answer by simp
  moreover have "files (pending_name decision) = Some (queue_text (PDict q))" "validate_request (PDict q) = None"
    using request_atD(3,5) [OF parts(4)] a(2) by simp_all
  ultimately show ?thesis using a(2) queue_files_kept [where files = files and t = answer_text, OF answer] by blast
qed

theorem queue_answers_offered_witness:
  "\<exists>a q. queue_text (PDict queue_answer) = queue_text (PDict a) \<and> decision_of (PDict a) = ''DECISION-1'' \<and>
    queue_files_after (pending_name ''DECISION-1'') = Some (queue_text (PDict q))"
proof -
  have "queue_files_after (resolved_name ''DECISION-1'') = Some (queue_text (PDict queue_answer))"
    by (simp add: queue_files_after_def)
  from queue_answers_offered [OF queue_ops_plain(1) queue_run [symmetric] this] show ?thesis by blast
qed

subsection \<open>The list of pending requests\<close>



end
