(* ===== verification/Workflow_Transaction.thy ===== *)
theory Workflow_Transaction
  imports Workflow_Audit
begin

text \<open>
  Transactions of \<open>acgps/workflow_contracts.py\<close>: the record the engine writes before it creates a
  task or moves it, with the request, the planned audit event, the planned state, the result and
  their hashes (\<open>validate_transition_transaction\<close>). The argument \<open>cat\<close> is what
  \<open>_load_task1_invariants\<close> returned; the tables of an accepted catalog have the fields the code
  subscripts.
\<close>

definition TRANSITION_OPERATION_KINDS :: "string list" where
  "TRANSITION_OPERATION_KINDS = [''INITIALIZATION'', ''TRANSITION'']"

definition TRANSITION_PHASES :: "string list" where
  "TRANSITION_PHASES = [''PREPARED'', ''AUDIT_APPENDED'', ''STATE_REPLACED'', ''IDEMPOTENCY_RECORDED'', ''COMMITTED'', ''ABORTED'']"

definition TRANSITION_TRANSACTION_FIELDS :: "string list" where
  "TRANSITION_TRANSACTION_FIELDS =
    [''schema_version'', ''transaction_id'', ''operation_kind'', ''operation_id'', ''initialization_id'', ''transition_id'',
     ''task_id'', ''idempotency_key'', ''request_fingerprint'', ''phase_journal_path'', ''phase_journal_index_path'',
     ''first_journal_segment_id'', ''latest_phase'', ''canonical_request'', ''planned_audit_event'', ''planned_state'',
     ''canonical_result'', ''planned_audit_event_hash'', ''planned_state_hash'', ''planned_result_hash'', ''created_at_utc'',
     ''updated_at_utc'']"

subsection \<open>Shared checks\<close>

definition incomplete :: "bool \<Rightarrow> string \<Rightarrow> string \<Rightarrow> guard" where
  "incomplete b path message = invalid_if b ''WORKFLOW_TRANSACTION_INCOMPLETE'' path message"

lemma incomplete_None [simp]: "incomplete b path message = None \<longleftrightarrow> \<not> b"
  by (simp add: incomplete_def)

text \<open>\<open>_require_equal\<close> with its default code, for each row of a table in turn.\<close>

definition all_equal :: "(pyval \<times> pyval \<times> string \<times> string) list \<Rightarrow> guard" where
  "all_equal rows = first_err
     (map (\<lambda>(a, b, path, message). require_equal a b path message ''WORKFLOW_TRANSACTION_INCOMPLETE'') rows)"

lemma all_equal_None [simp]: "all_equal rows = None \<longleftrightarrow> (\<forall>(a, b, path, message) \<in> set rows. py_eq a b)"
  by (auto simp: all_equal_def)

text \<open>
  Two validators run before either outcome is looked at: an exception of the second comes before
  an invalid outcome of the first.
\<close>

definition escapes :: "guard \<Rightarrow> guard" where
  "escapes c = (case c of Some (WorkflowStoreError code path message) \<Rightarrow> None | _ \<Rightarrow> c)"

definition both_outcomes :: "guard \<Rightarrow> guard \<Rightarrow> guard" where
  "both_outcomes c1 c2 = first_err
     [escapes c1, escapes c2, with_code ''WORKFLOW_TRANSACTION_INCOMPLETE'' c1, with_code ''WORKFLOW_TRANSACTION_INCOMPLETE'' c2]"

lemma both_outcomes_None [simp]: "both_outcomes c1 c2 = None \<longleftrightarrow> c1 = None \<and> c2 = None"
  by (auto simp: both_outcomes_def escapes_def)

definition operation_prefix :: "pyval \<Rightarrow> string" where
  "operation_prefix kind = (if kind = PStr ''INITIALIZATION'' then ''initialization'' else ''transition'')"

definition transaction_artifact_path :: "string \<Rightarrow> string \<Rightarrow> string \<Rightarrow> string \<Rightarrow> string" where
  "transaction_artifact_path task pre operation leaf =
     ''state/transactions/'' @ task @ ''/'' @ pre @ ''-'' @ operation @ ''/'' @ leaf"

text \<open>The paths of the phase journal are the ones the identity of the operation gives.\<close>

definition journal_guards :: "pydict \<Rightarrow> string \<Rightarrow> guard" where
  "journal_guards d pre = first_err
     (map (\<lambda>(field, leaf).
        let expected = transaction_artifact_path (str_of (dget d ''task_id'')) pre (str_of (dget d ''operation_id'')) leaf in
        incomplete (\<not> is_str (dget d field) \<or> \<not> is_safe_relative_path (str_of (dget d field)) \<or> dget d field \<noteq> PStr expected)
          field (field @ '' must be '' @ expected))
       [(''phase_journal_path'', ''phases.0001.jsonl''), (''phase_journal_index_path'', ''phase_segments.jsonl'')])"

subsection \<open>The operation graph of the catalog\<close>

definition validate_catalog_bindings :: "pyval \<Rightarrow> pyval \<Rightarrow> string \<Rightarrow> string \<Rightarrow> guard" where
  "validate_catalog_bindings record bindings table_path code =
     (if \<not> is_dict bindings then invalid_if True code table_path ''binding table must be a mapping''
      else first_err (map (\<lambda>(left, right). first_err
        [invalid_if (\<not> is_str left \<or> \<not> is_str right) code table_path ''binding paths must be strings'',
         invalid_if (\<not> path_exists record (str_of left)) code (str_of left) ''left binding path is missing'',
         invalid_if (\<not> path_exists record (str_of right)) code (str_of right) ''right binding path is missing'',
         require_equal (get_path record (str_of left)) (get_path record (str_of right)) (str_of left)
           ''catalog binding mismatch'' code]) (entries bindings)))"

text \<open>The fields of a record are the values at the paths a table of the graph gives them.\<close>

definition graph_bindings :: "pyval \<Rightarrow> pyval \<Rightarrow> pyval \<Rightarrow> (string \<Rightarrow> string) \<Rightarrow> (string \<Rightarrow> string) \<Rightarrow> guard" where
  "graph_bindings record values table path message = first_err
     (map (\<lambda>(f, p). require_equal (vget values (str_of f)) (get_path record (str_of p)) (path (str_of f)) (message (str_of f))
        ''WORKFLOW_TRANSACTION_INCOMPLETE'') (entries table))"

definition initialization_graph_guards :: "pyval \<Rightarrow> pydict \<Rightarrow> guard" where
  "initialization_graph_guards graph d =
     (let record = PDict d; state = dget d ''planned_state'' in first_err
       [graph_bindings record (dget d ''canonical_result'') (vget graph ''result_audit_bindings'') (\<lambda>f. ''canonical_result.'' @ f)
          (\<lambda>f. ''initialization result '' @ f @ '' must match planned audit event''),
        graph_bindings record state (vget graph ''state_audit_bindings'') (\<lambda>f. ''planned_state.'' @ f)
          (\<lambda>f. ''initialization state '' @ f @ '' must match planned audit event''),
        graph_bindings record (dget d ''canonical_request'') (vget graph ''request_audit_bindings'') (\<lambda>f. ''planned_audit_event.'' @ f)
          (\<lambda>f. ''initialization planned audit '' @ f @ '' must match request''),
        first_err (map (\<lambda>(f, _). incomplete (vget state (str_of f) \<noteq> PNone) (''planned_state.'' @ str_of f)
          ''initialization state field must be null'') (entries (vget graph ''state_null_bindings'')))])"

definition transition_graph_guards :: "pyval \<Rightarrow> pydict \<Rightarrow> guard" where
  "transition_graph_guards graph d =
     (let record = PDict d in first_err
       [graph_bindings record (dget d ''canonical_request'') (vget graph ''binding_copies'') (\<lambda>f. ''planned_audit_event.'' @ f)
          (\<lambda>f. ''transition planned audit '' @ f @ '' must match request''),
        first_err (map (\<lambda>(name, bindings). validate_catalog_bindings record bindings
          (''task1_invariants.operation_graphs.transition.identity_bindings.'' @ str_of name) ''WORKFLOW_TRANSACTION_INCOMPLETE'')
          (entries (vget graph ''identity_bindings'')))])"

definition validate_transition_operation_graph :: "exn + pyval \<Rightarrow> pydict \<Rightarrow> guard" where
  "validate_transition_operation_graph cat d =
     (case cat of
        Inl e \<Rightarrow> Some e
      | Inr catalog \<Rightarrow>
          (let initial = (dget d ''operation_kind'' = PStr ''INITIALIZATION'');
               graph = vget (vget catalog ''operation_graphs'') (if initial then ''initialization'' else ''transition'') in
           first_err
            [incomplete (\<not> py_eq (vget graph ''operation_kind'') (dget d ''operation_kind'')) ''task1_invariants.operation_graphs''
               ''operation graph kind mismatch'',
             (if initial then initialization_graph_guards graph d else transition_graph_guards graph d)]))"

subsection \<open>The parts of a transaction\<close>

definition transaction_head_guards :: "pydict \<Rightarrow> guard" where
  "transaction_head_guards d =
     (let code = ''WORKFLOW_TRANSACTION_INCOMPLETE''; request = dget d ''canonical_request'' in first_err
       [with_code code (exact_mapping d TRANSITION_TRANSACTION_FIELDS ''transition transaction'' []),
        with_code code (first_err
         [check_version (dget d ''schema_version'') ''schema_version'',
          check_safe_id (dget d ''transaction_id'') ''transaction_id'',
          check_member (dget d ''operation_kind'') TRANSITION_OPERATION_KINDS ''operation_kind'' code,
          check_safe_id (dget d ''operation_id'') ''operation_id'',
          check_safe_id (dget d ''task_id'') ''task_id'',
          check_text (dget d ''idempotency_key'') ''idempotency_key'',
          check_sha (dget d ''request_fingerprint'') ''request_fingerprint'',
          check_member (dget d ''latest_phase'') TRANSITION_PHASES ''latest_phase'' code,
          check_sha (dget d ''planned_audit_event_hash'') ''planned_audit_event_hash'',
          check_sha (dget d ''planned_state_hash'') ''planned_state_hash'',
          check_sha (dget d ''planned_result_hash'') ''planned_result_hash'',
          check_utc (dget d ''created_at_utc'') ''created_at_utc'',
          check_utc (dget d ''updated_at_utc'') ''updated_at_utc'']),
        (if is_dict request then all_equal
          [(dget d ''task_id'', vget request ''task_id'', ''task_id'', ''transaction task_id must match request task_id''),
           (dget d ''idempotency_key'', vget request ''idempotency_key'', ''idempotency_key'',
            ''transaction idempotency_key must match request'')]
         else None),
        journal_guards d (operation_prefix (dget d ''operation_kind'')),
        incomplete (dget d ''first_journal_segment_id'' \<noteq> PStr ''0001'') ''first_journal_segment_id''
          ''first_journal_segment_id must be 0001''])"

text \<open>The request and the result of the operation, and how they agree with the transaction.\<close>

definition transaction_request_guards :: "(string \<Rightarrow> string) \<Rightarrow> pydict \<Rightarrow> guard" where
  "transaction_request_guards sha d =
     (let request = dget d ''canonical_request''; result = dget d ''canonical_result''; operation = dget d ''operation_id'';
          initial = (dget d ''operation_kind'' = PStr ''INITIALIZATION'') in first_err
       [(if initial then incomplete (\<not> py_eq (dget d ''initialization_id'') operation \<or> dget d ''transition_id'' \<noteq> PNone)
            ''initialization_id'' ''INITIALIZATION requires initialization_id=operation_id and transition_id=null''
         else incomplete (\<not> py_eq (dget d ''transition_id'') operation \<or> dget d ''initialization_id'' \<noteq> PNone)
            ''transition_id'' ''TRANSITION requires transition_id=operation_id and initialization_id=null''),
        (if initial then both_outcomes (validate_task_initialization_request sha request) (validate_task_initialization_result result)
         else both_outcomes (validate_transition_request sha request) (validate_transition_result result)),
        all_equal
         [(dget d ''task_id'', vget request ''task_id'', ''task_id'', ''transaction task_id must match request task_id''),
          (dget d ''idempotency_key'', vget request ''idempotency_key'', ''idempotency_key'',
           ''transaction idempotency_key must match request''),
          (dget d ''request_fingerprint'', operation_request_fingerprint sha (entries request), ''request_fingerprint'',
           ''request_fingerprint must match timestamp-free canonical_request'')],
        (if initial then all_equal
          [(operation, vget request ''initialization_id'', ''operation_id'', ''operation_id must match initialization request''),
           (operation, vget result ''initialization_id'', ''canonical_result.initialization_id'',
            ''result initialization_id must match operation_id''),
           (dget d ''task_id'', vget result ''task_id'', ''canonical_result.task_id'', ''result task_id must match transaction task_id''),
           (vget request ''project_id'', vget result ''project_id'', ''canonical_result.project_id'',
            ''result project_id must match request'')]
         else all_equal
          [(operation, vget request ''transition_id'', ''operation_id'', ''operation_id must match transition request''),
           (operation, vget result ''transition_id'', ''canonical_result.transition_id'',
            ''result transition_id must match operation_id''),
           (dget d ''task_id'', vget result ''task_id'', ''canonical_result.task_id'', ''result task_id must match transaction task_id''),
           (vget request ''to_state'', vget result ''resulting_state'', ''canonical_result.resulting_state'',
            ''resulting_state must match requested target'')])])"

text \<open>The planned event and the planned state: for a creation and for a transition.\<close>

definition initialization_plan :: "pydict \<Rightarrow> (pyval \<times> pyval \<times> string \<times> string) list" where
  "initialization_plan d =
     (let state = dget d ''planned_state'' in
      [(vget (dget d ''planned_audit_event'') ''event_type'', PStr ''TASK_CREATED'', ''planned_audit_event.event_type'',
        ''initialization must plan TASK_CREATED audit event''),
       (vget state ''current_state'', vget (dget d ''canonical_result'') ''resulting_state'', ''planned_state.current_state'',
        ''planned state must match initialization result''),
       (vget state ''previous_state'', PNone, ''planned_state.previous_state'', ''initialization state must not have previous_state''),
       (vget state ''last_transition_id'', PNone, ''planned_state.last_transition_id'',
        ''initialization state must not have transition id'')])"

definition transition_plan :: "pydict \<Rightarrow> (pyval \<times> pyval \<times> string \<times> string) list" where
  "transition_plan d =
     (let event = dget d ''planned_audit_event''; state = dget d ''planned_state''; request = dget d ''canonical_request'' in
      [(vget event ''event_type'', PStr ''TRANSITION_ACCEPTED'', ''planned_audit_event.event_type'',
        ''transition must plan TRANSITION_ACCEPTED audit event''),
       (vget event ''transition_id'', dget d ''operation_id'', ''planned_audit_event.transition_id'',
        ''planned audit transition_id must match operation_id''),
       (vget event ''from_state'', vget request ''from_state'', ''planned_audit_event.from_state'',
        ''planned audit from_state must match request''),
       (vget event ''to_state'', vget request ''to_state'', ''planned_audit_event.to_state'',
        ''planned audit to_state must match request''),
       (vget state ''current_state'', vget request ''to_state'', ''planned_state.current_state'',
        ''planned state current_state must match request target''),
       (vget state ''previous_state'', vget request ''from_state'', ''planned_state.previous_state'',
        ''planned state previous_state must match request source''),
       (vget state ''last_transition_id'', dget d ''operation_id'', ''planned_state.last_transition_id'',
        ''planned state last_transition_id must match operation_id''),
       (vget state ''policy_evaluation_id'', vget (vget request ''policy_evaluation_binding'') ''evaluation_id'',
        ''planned_state.policy_evaluation_id'', ''planned state must bind policy evaluation id''),
       (vget (dget d ''canonical_result'') ''audit_event_id'', vget event ''event_id'', ''canonical_result.audit_event_id'',
        ''result audit_event_id must match planned audit event''),
       (vget state ''audit_head_event_id'', vget event ''event_id'', ''planned_state.audit_head_event_id'',
        ''planned state audit head event must match planned audit event''),
       (vget state ''audit_head_hash'', vget event ''event_hash'', ''planned_state.audit_head_hash'',
        ''planned state audit head hash must match planned audit event''),
       (vget state ''audit_generation'', vget event ''generation'', ''planned_state.audit_generation'',
        ''planned state audit generation must match planned audit event''),
       (vget event ''policy_evaluation_binding'', vget request ''policy_evaluation_binding'',
        ''planned_audit_event.policy_evaluation_binding'', ''planned audit policy binding must match request''),
       (vget event ''evidence_bindings'', vget request ''evidence_bindings'', ''planned_audit_event.evidence_bindings'',
        ''planned audit evidence bindings must match request'')])"

definition transaction_plan_guards :: "(string \<Rightarrow> string) \<Rightarrow> exn + pyval \<Rightarrow> pydict \<Rightarrow> guard" where
  "transaction_plan_guards sha cat d =
     (let event = dget d ''planned_audit_event''; state = dget d ''planned_state''; request = dget d ''canonical_request'' in first_err
       [both_outcomes (validate_audit_event sha cat event) (validate_task_state state),
        all_equal
         [(vget event ''task_id'', dget d ''task_id'', ''planned_audit_event.task_id'', ''planned audit task_id must match transaction''),
          (vget event ''project_id'', vget request ''project_id'', ''planned_audit_event.project_id'',
           ''planned audit project_id must match request''),
          (vget state ''task_id'', dget d ''task_id'', ''planned_state.task_id'', ''planned state task_id must match transaction''),
          (vget state ''project_id'', vget request ''project_id'', ''planned_state.project_id'',
           ''planned state project_id must match request'')],
        all_equal (if dget d ''operation_kind'' = PStr ''INITIALIZATION'' then initialization_plan d else transition_plan d)])"

definition planned_hash_guards :: "(string \<Rightarrow> string) \<Rightarrow> pydict \<Rightarrow> guard" where
  "planned_hash_guards sha d = first_err
     (map (\<lambda>(f, target). incomplete (dget d f \<noteq> canonical_sha sha (dget d target)) f ''planned hash mismatch'')
       [(''planned_audit_event_hash'', ''planned_audit_event''), (''planned_state_hash'', ''planned_state''),
        (''planned_result_hash'', ''canonical_result'')])"

definition validate_transition_transaction :: "(string \<Rightarrow> string) \<Rightarrow> exn + pyval \<Rightarrow> pyval \<Rightarrow> guard" where
  "validate_transition_transaction sha cat record =
     (if \<not> is_dict record then incomplete True ''$'' ''transition transaction must be a mapping''
      else let d = entries record in first_err
       [transaction_head_guards d,
        transaction_request_guards sha d,
        transaction_plan_guards sha cat d,
        validate_transition_operation_graph cat d,
        planned_hash_guards sha d])"

end
