(* ===== verification/Transaction_Props.thy ===== *)
theory Transaction_Props
  imports Workflow_Transaction Task_Props
begin

text \<open>
  What an accepted transaction guarantees: its planned event and state pass the checks of the
  store, so that its commit succeeds. This joins the validators of \<open>acgps/workflow_contracts.py\<close>
  with the store of \<open>acgps/workflow_store.py\<close>.
\<close>

declare canonical_json.simps [simp del] json_sorted_simps(7) [simp del]

subsection \<open>The graph of an accepted catalog\<close>

text \<open>The row a table of the operation graphs has for a field.\<close>

lemma catalog_graph_row:
  assumes load: "load_task1_invariants parsed = Inr c"
    and walk: "walk_path TASK1_OPERATION_GRAPH_EXPECTED [kind, table, f] = Some w" "settled w"
  shows "(PStr f, w) \<in> set (entries (vget (vget (vget c ''operation_graphs'') kind) table))"
proof -
  have ok: "validate_task1_invariant_catalog c = None"
    using load by (auto simp: load_task1_invariants_def guarded_Inr split: sum.splits)
  from ok have "is_dict c"
    unfolding validate_task1_invariant_catalog_def Let_def by (simp split: if_splits)
  then obtain e where c: "c = PDict e" by (auto simp: is_dict_iff)
  have "walk_path (vget c ''operation_graphs'') [kind, table, f] = Some w"
    using exact_walk [OF catalog_tables_exact(2) walk] ok c by simp
  then show ?thesis
    by (auto simp: vget_def dget_def split: pyval.splits option.splits dest: dlookup_mem)
qed

lemma graph_binding:
  assumes "graph_bindings record values table path message = None" "(PStr f, PStr p) \<in> set (entries table)"
  shows "py_eq (vget values f) (get_path record p)"
  using assms by (fastforce simp: graph_bindings_def)

lemma transaction_parts:
  assumes "validate_transition_transaction sha cat (PDict d) = None"
  shows "transaction_head_guards d = None" "transaction_request_guards sha d = None" "transaction_plan_guards sha cat d = None"
    "validate_transition_operation_graph cat d = None" "planned_hash_guards sha d = None"
  using assms by (simp_all add: validate_transition_transaction_def)

lemma get_path_two: "get_path (PDict d) (a @ ''.'' @ b) = vget (dget d a) b" if "CHR ''.'' \<notin> set a" "CHR ''.'' \<notin> set b"
proof -
  have "split_on (CHR ''.'') (a @ ''.'' @ b) = [a, b]"
    using split_on_append [of "CHR ''.''" a b] split_on_none [of "CHR ''.''" b] that by simp
  then show ?thesis by (simp add: get_path_def vget_def dget_def split: pyval.splits option.splits)
qed

lemma initialization_state_bound:
  assumes graph: "validate_transition_operation_graph (load_task1_invariants parsed) d = None"
    and kind: "dget d ''operation_kind'' = PStr ''INITIALIZATION''"
  shows "py_eq (vget (dget d ''planned_state'') ''audit_head_event_id'') (vget (dget d ''planned_audit_event'') ''event_id'')"
    "py_eq (vget (dget d ''planned_state'') ''audit_head_hash'') (vget (dget d ''planned_audit_event'') ''event_hash'')"
    "py_eq (vget (dget d ''planned_state'') ''audit_generation'') (vget (dget d ''planned_audit_event'') ''generation'')"
    "vget (dget d ''planned_state'') ''policy_evaluation_id'' = PNone"
proof -
  obtain c where c: "load_task1_invariants parsed = Inr c"
    using graph by (auto simp: validate_transition_operation_graph_def split: sum.splits)
  let ?graph = "vget (vget c ''operation_graphs'') ''initialization''" and ?state = "dget d ''planned_state''"
  have guards: "initialization_graph_guards ?graph d = None"
    using graph kind by (simp add: validate_transition_operation_graph_def c Let_def)
  note guards = guards [unfolded initialization_graph_guards_def Let_def]
  have bind: "graph_bindings (PDict d) ?state (vget ?graph ''state_audit_bindings'') (\<lambda>f. ''planned_state.'' @ f)
      (\<lambda>f. ''initialization state '' @ f @ '' must match planned audit event'') = None"
    by (rule first_err_mem [OF guards]) (simp only: listed)
  have nulls: "first_err (map (\<lambda>(f, _). incomplete (vget ?state (str_of f) \<noteq> PNone) (''planned_state.'' @ str_of f)
      ''initialization state field must be null'') (entries (vget ?graph ''state_null_bindings''))) = None"
    by (rule first_err_mem [OF guards]) (simp only: listed)
  have row: "(PStr f, PStr (''planned_audit_event'' @ ''.'' @ p)) \<in> set (entries (vget ?graph ''state_audit_bindings''))"
    if "(f, p) \<in> {(''audit_head_event_id'', ''event_id''), (''audit_head_hash'', ''event_hash''), (''audit_generation'', ''generation'')}" for f p
    by (rule catalog_graph_row [OF c]) (use that in \<open>auto simp: TASK1_OPERATION_GRAPH_EXPECTED_def settled_def\<close>)
  have at: "get_path (PDict d) (''planned_audit_event'' @ ''.'' @ p) = vget (dget d ''planned_audit_event'') p" if "CHR ''.'' \<notin> set p" for p
    by (rule get_path_two) (use that in simp_all)
  show "py_eq (vget ?state ''audit_head_event_id'') (vget (dget d ''planned_audit_event'') ''event_id'')"
    using graph_binding [OF bind row [of "''audit_head_event_id''" "''event_id''"]] at [of "''event_id''"] by simp
  show "py_eq (vget ?state ''audit_head_hash'') (vget (dget d ''planned_audit_event'') ''event_hash'')"
    using graph_binding [OF bind row [of "''audit_head_hash''" "''event_hash''"]] at [of "''event_hash''"] by simp
  show "py_eq (vget ?state ''audit_generation'') (vget (dget d ''planned_audit_event'') ''generation'')"
    using graph_binding [OF bind row [of "''audit_generation''" "''generation''"]] at [of "''generation''"] by simp
  have "(PStr ''policy_evaluation_id'', PNone) \<in> set (entries (vget ?graph ''state_null_bindings''))"
    by (rule catalog_graph_row [OF c]) (simp_all add: TASK1_OPERATION_GRAPH_EXPECTED_def settled_def)
  then show "vget ?state ''policy_evaluation_id'' = PNone"
    using nulls by fastforce
qed

subsection \<open>The planned pair\<close>

lemma accepted_plan:
  assumes ok: "validate_transition_transaction sha (load_task1_invariants parsed) (PDict d) = None"
  obtains e st where "dget d ''planned_audit_event'' = PDict e" "dget d ''planned_state'' = PDict st"
    "validate_audit_event sha (load_task1_invariants parsed) (PDict e) = None" "validate_task_state (PDict st) = None"
    "py_eq (dget e ''task_id'') (dget d ''task_id'')" "py_eq (dget st ''task_id'') (dget d ''task_id'')"
    "py_eq (dget e ''project_id'') (vget (dget d ''canonical_request'') ''project_id'')"
    "py_eq (dget st ''project_id'') (vget (dget d ''canonical_request'') ''project_id'')"
    "\<forall>(a, b, path, message) \<in> set (if dget d ''operation_kind'' = PStr ''INITIALIZATION'' then initialization_plan d else transition_plan d). py_eq a b"
proof -
  have plan: "transaction_plan_guards sha (load_task1_invariants parsed) d = None" by (rule transaction_parts(3) [OF ok])
  obtain e st where e: "dget d ''planned_audit_event'' = PDict e" "dget d ''planned_state'' = PDict st"
    using plan audit_event_dict task_state_dict by (force simp: transaction_plan_guards_def Let_def)
  show ?thesis
    by (rule that [OF e]) (use plan e in \<open>simp_all add: transaction_plan_guards_def Let_def\<close>)
qed

text \<open>Equal mappings agree on a text.\<close>

lemma py_sub_lookup: "py_sub d e \<Longrightarrow> (PStr k, w) \<in> set d \<Longrightarrow> \<exists>w'. dlookup e k = Some w' \<and> py_eq w w'"
proof (induction d)
  case (Cons p d)
  obtain a b where p: "p = (a, b)" by (cases p)
  from Cons show ?case unfolding p py_sub.simps [of "(a, b) # d"] by (auto simp: dfind_str split: option.splits)
qed simp

lemma equal_text_field:
  assumes "py_eq (PDict d) v" "dget d k = PStr s"
  shows "vget v k = PStr s"
proof -
  obtain e where e: "v = PDict e" "py_sub d e" using assms(1) by (cases v) (simp_all add: py_eq.simps)
  have "dlookup d k = Some (PStr s)" using assms(2) by (auto simp: dget_def split: option.splits)
  from py_sub_lookup [OF e(2) dlookup_mem [OF this]] show ?thesis by (auto simp: e dget_def)
qed

lemma initialization_pair:
  assumes ok: "validate_transition_transaction sha (load_task1_invariants parsed) (PDict d) = None"
    and kind: "dget d ''operation_kind'' = PStr ''INITIALIZATION''"
    and pair: "dget d ''planned_audit_event'' = PDict e" "dget d ''planned_state'' = PDict st"
  shows "dget e ''event_type'' = PStr ''TASK_CREATED''"
    "\<forall>(f, v) \<in> set (pair_fields e). py_eq (dget st f) v"
proof -
  obtain e' st' where plan: "\<forall>(a, b, path, message) \<in> set (initialization_plan d). py_eq a b"
    and st: "dget d ''planned_state'' = PDict st'" "validate_task_state (PDict st') = None"
    by (rule accepted_plan [OF ok]) (simp add: kind)
  then have rows: "py_eq (dget e ''event_type'') (PStr ''TASK_CREATED'')"
    "py_eq (dget st ''current_state'') (vget (dget d ''canonical_result'') ''resulting_state'')"
    "py_eq (dget st ''previous_state'') PNone" "py_eq (dget st ''last_transition_id'') PNone"
    by (simp_all add: initialization_plan_def pair Let_def)
  then show type: "dget e ''event_type'' = PStr ''TASK_CREATED''" by simp
  obtain current where current: "dget st ''current_state'' = PStr current"
    using state_identity [of st] st pair(2) by (metis pyval.inject)
  let ?result = "dget d ''canonical_result''"
  have "validate_task_initialization_result ?result = None"
    using transaction_parts(2) [OF ok] kind by (simp add: transaction_request_guards_def Let_def)
  then have "vget ?result ''resulting_state'' \<in> {PStr ''DRAFT'', PNone}"
    by (auto simp: validate_task_initialization_result_def Let_def validate_result_envelope_def rejected_envelope_def is_dict_iff
        split: if_splits)
  then have draft: "dget st ''current_state'' = PStr ''DRAFT''" using rows(2) current by auto
  have "dget st ''policy_evaluation_id'' = PNone"
    using initialization_state_bound(4) [OF transaction_parts(4) [OF ok] kind] pair by simp
  then show "\<forall>(f, v) \<in> set (pair_fields e). py_eq (dget st f) v"
    using rows draft by (simp add: pair_fields_def type py_eq.simps)
qed

lemma transition_pair:
  assumes ok: "validate_transition_transaction sha (load_task1_invariants parsed) (PDict d) = None"
    and kind: "dget d ''operation_kind'' \<noteq> PStr ''INITIALIZATION''"
    and pair: "dget d ''planned_audit_event'' = PDict e" "dget d ''planned_state'' = PDict st"
  shows "dget e ''event_type'' = PStr ''TRANSITION_ACCEPTED''"
    "\<forall>(f, v) \<in> set (pair_fields e). py_eq (dget st f) v"
    "py_eq (dget st ''audit_head_event_id'') (dget e ''event_id'')" "py_eq (dget st ''audit_head_hash'') (dget e ''event_hash'')"
    "py_eq (dget st ''audit_generation'') (dget e ''generation'')"
proof -
  let ?request = "dget d ''canonical_request''"
  obtain e' where plan: "\<forall>(a, b, path, message) \<in> set (transition_plan d). py_eq a b"
    and ev: "dget d ''planned_audit_event'' = PDict e'" "validate_audit_event sha (load_task1_invariants parsed) (PDict e') = None"
    by (rule accepted_plan [OF ok]) (simp add: kind)
  then have rows: "py_eq (dget e ''event_type'') (PStr ''TRANSITION_ACCEPTED'')"
    "py_eq (dget e ''transition_id'') (dget d ''operation_id'')" "py_eq (dget e ''from_state'') (vget ?request ''from_state'')"
    "py_eq (dget e ''to_state'') (vget ?request ''to_state'')" "py_eq (dget st ''current_state'') (vget ?request ''to_state'')"
    "py_eq (dget st ''previous_state'') (vget ?request ''from_state'')" "py_eq (dget st ''last_transition_id'') (dget d ''operation_id'')"
    "py_eq (dget st ''policy_evaluation_id'') (vget (vget ?request ''policy_evaluation_binding'') ''evaluation_id'')"
    "py_eq (dget e ''policy_evaluation_binding'') (vget ?request ''policy_evaluation_binding'')"
    and head: "py_eq (dget st ''audit_head_event_id'') (dget e ''event_id'')" "py_eq (dget st ''audit_head_hash'') (dget e ''event_hash'')"
    "py_eq (dget st ''audit_generation'') (dget e ''generation'')"
    by (simp_all add: transition_plan_def pair Let_def)
  show type: "dget e ''event_type'' = PStr ''TRANSITION_ACCEPTED''" using rows(1) by simp
  have acc: "validate_audit_event sha (load_task1_invariants parsed) (PDict e) = None" using ev pair(1) by simp
  obtain p src tgt where t: "dget e ''policy_evaluation_binding'' = PDict p" "validate_policy_evaluation_binding sha (PDict p) = None"
    "dget e ''from_state'' = PStr src" "dget e ''to_state'' = PStr tgt" "is_str (dget e ''transition_id'')"
    using transition_event_accepted [OF acc type] by metis
  obtain tid where tid: "dget e ''transition_id'' = PStr tid" using t(5) by (auto simp: is_str_iff)
  obtain p' where "PDict p = PDict p'" "is_str (dget p' ''evaluation_id'')" by (rule policy_accepted [OF t(2)])
  then obtain evaluation where evaluation: "dget p ''evaluation_id'' = PStr evaluation" by (auto simp: is_str_iff)
  then have "vget (vget ?request ''policy_evaluation_binding'') ''evaluation_id'' = PStr evaluation"
    using rows(9) t(1) by (intro equal_text_field) simp_all
  then show "\<forall>(f, v) \<in> set (pair_fields e). py_eq (dget st f) v"
    using rows t tid evaluation by (simp add: pair_fields_def type)
  show "py_eq (dget st ''audit_head_event_id'') (dget e ''event_id'')" "py_eq (dget st ''audit_head_hash'') (dget e ''event_hash'')"
    "py_eq (dget st ''audit_generation'') (dget e ''generation'')" by (fact head)+
qed

text \<open>The pair passes the check of the store.\<close>

lemma planned_pair:
  assumes ok: "validate_transition_transaction sha (load_task1_invariants parsed) (PDict d) = None"
  obtains e st where "dget d ''planned_audit_event'' = PDict e" "dget d ''planned_state'' = PDict st"
    "validate_audit_event sha (load_task1_invariants parsed) (PDict e) = None" "validate_task_state (PDict st) = None"
    "validate_state_event_pair e st = None" "dget e ''task_id'' = dget d ''task_id''"
    "dget e ''event_type'' = (if dget d ''operation_kind'' = PStr ''INITIALIZATION'' then PStr ''TASK_CREATED'' else PStr ''TRANSITION_ACCEPTED'')"
proof -
  obtain e st where plan: "dget d ''planned_audit_event'' = PDict e" "dget d ''planned_state'' = PDict st"
    "validate_audit_event sha (load_task1_invariants parsed) (PDict e) = None" "validate_task_state (PDict st) = None"
    "py_eq (dget e ''task_id'') (dget d ''task_id'')" "py_eq (dget st ''task_id'') (dget d ''task_id'')"
    "py_eq (dget e ''project_id'') (vget (dget d ''canonical_request'') ''project_id'')"
    "py_eq (dget st ''project_id'') (vget (dget d ''canonical_request'') ''project_id'')"
    by (rule accepted_plan [OF ok])
  obtain task project where e: "dget e ''task_id'' = PStr task" "dget e ''project_id'' = PStr project"
    using event_identity [OF plan(3)] by metis
  obtain task' project' where st: "dget st ''task_id'' = PStr task'" "dget st ''project_id'' = PStr project'"
    using state_identity [OF plan(4)] by metis
  have ids: "task' = task" "project' = project" "dget d ''task_id'' = PStr task" using plan(5-8) e st by auto
  have rest: "dget e ''event_type'' = (if dget d ''operation_kind'' = PStr ''INITIALIZATION'' then PStr ''TASK_CREATED'' else PStr ''TRANSITION_ACCEPTED'')"
    "\<forall>(f, v) \<in> set (pair_fields e). py_eq (dget st f) v"
    "py_eq (dget st ''audit_head_event_id'') (dget e ''event_id'')" "py_eq (dget st ''audit_head_hash'') (dget e ''event_hash'')"
    "py_eq (dget st ''audit_generation'') (dget e ''generation'')"
    using initialization_pair [OF ok _ plan(1,2)] transition_pair [OF ok _ plan(1,2)]
      initialization_state_bound [OF transaction_parts(4) [OF ok]] plan(1,2)
    by (cases "dget d ''operation_kind'' = PStr ''INITIALIZATION''"; simp)+
  have "validate_state_event_pair e st = None"
    unfolding validate_state_event_pair_def first_err_None
    using rest e st ids by (auto split: if_splits)
  then show ?thesis using that [OF plan(1-4)] rest(1) e ids by simp
qed

subsection \<open>A sample transaction\<close>

definition sample_init_request :: pydict where
  "sample_init_request =
    [kv ''schema_version'' (PInt 1), kv ''initialization_id'' (PStr ''INIT-1''), kv ''task_id'' (PStr ''TASK-1''),
     kv ''project_id'' (PStr ''ACGPS''), kv ''initial_state'' (PStr ''DRAFT''), kv ''actor'' (PStr ''CONTROLLER''),
     kv ''idempotency_key'' (PStr ''key-1''), kv ''task_intake_binding'' (PDict sample_evidence_binding),
     kv ''created_at_utc'' (PStr ''2026-08-24T00:00:00Z'')]"

definition sample_init_result :: pydict where
  "sample_init_result =
    [kv ''schema_version'' (PInt 1), kv ''initialization_id'' (PStr ''INIT-1''), kv ''task_id'' (PStr ''TASK-1''),
     kv ''project_id'' (PStr ''ACGPS''), kv ''accepted'' (PBool True), kv ''resulting_state'' (PStr ''DRAFT''),
     kv ''audit_event_id'' (PStr ''EVENT-1''), kv ''audit_generation'' (PInt 1), kv ''audit_sequence'' (PInt 1),
     kv ''fail_closed'' (PBool False), kv ''error_code'' PNone, kv ''issues'' (PList []), kv ''idempotent_replay'' (PBool False),
     kv ''created_at_utc'' (PStr ''2026-08-24T00:00:00Z'')]"

definition sample_transaction :: pydict where
  "sample_transaction =
    [kv ''schema_version'' (PInt 1), kv ''transaction_id'' (PStr ''TX-1''), kv ''operation_kind'' (PStr ''INITIALIZATION''),
     kv ''operation_id'' (PStr ''INIT-1''), kv ''initialization_id'' (PStr ''INIT-1''), kv ''transition_id'' PNone,
     kv ''task_id'' (PStr ''TASK-1''), kv ''idempotency_key'' (PStr ''key-1''), kv ''request_fingerprint'' (PStr sample_digest),
     kv ''phase_journal_path'' (PStr ''state/transactions/TASK-1/initialization-INIT-1/phases.0001.jsonl''),
     kv ''phase_journal_index_path'' (PStr ''state/transactions/TASK-1/initialization-INIT-1/phase_segments.jsonl''),
     kv ''first_journal_segment_id'' (PStr ''0001''), kv ''latest_phase'' (PStr ''PREPARED''),
     kv ''canonical_request'' (PDict sample_init_request), kv ''planned_audit_event'' (PDict sample_created),
     kv ''planned_state'' (PDict sample_state), kv ''canonical_result'' (PDict sample_init_result),
     kv ''planned_audit_event_hash'' (PStr sample_digest), kv ''planned_state_hash'' (PStr sample_digest),
     kv ''planned_result_hash'' (PStr sample_digest), kv ''created_at_utc'' (PStr ''2026-08-24T00:00:00Z''),
     kv ''updated_at_utc'' (PStr ''2026-08-24T00:00:00Z'')]"

lemma sample_init_checks:
  "validate_task_initialization_request sample_sha (PDict sample_init_request) = None"
  "validate_task_initialization_result (PDict sample_init_result) = None"
  "transaction_head_guards sample_transaction = None"
  "initialization_graph_guards (vget (vget expected_catalog ''operation_graphs'') ''initialization'') sample_transaction = None"
  "vget (vget (vget expected_catalog ''operation_graphs'') ''initialization'') ''operation_kind'' = PStr ''INITIALIZATION''"
  by code_simp+

lemma sample_transaction_fields:
  "dget sample_transaction ''operation_kind'' = PStr ''INITIALIZATION''" "dget sample_transaction ''operation_id'' = PStr ''INIT-1''"
  "dget sample_transaction ''initialization_id'' = PStr ''INIT-1''" "dget sample_transaction ''transition_id'' = PNone"
  "dget sample_transaction ''task_id'' = PStr ''TASK-1''" "dget sample_transaction ''idempotency_key'' = PStr ''key-1''"
  "dget sample_transaction ''canonical_request'' = PDict sample_init_request" "dget sample_transaction ''canonical_result'' = PDict sample_init_result"
  "dget sample_transaction ''planned_audit_event'' = PDict sample_created" "dget sample_transaction ''planned_state'' = PDict sample_state"
  "dget sample_transaction ''request_fingerprint'' = PStr sample_digest" "dget sample_transaction ''planned_audit_event_hash'' = PStr sample_digest"
  "dget sample_transaction ''planned_state_hash'' = PStr sample_digest" "dget sample_transaction ''planned_result_hash'' = PStr sample_digest"
  by (simp_all add: sample_transaction_def)

lemma sample_init_fields:
  "dget sample_init_request ''initialization_id'' = PStr ''INIT-1''" "dget sample_init_request ''task_id'' = PStr ''TASK-1''"
  "dget sample_init_request ''project_id'' = PStr ''ACGPS''" "dget sample_init_request ''idempotency_key'' = PStr ''key-1''"
  "dget sample_init_result ''initialization_id'' = PStr ''INIT-1''" "dget sample_init_result ''task_id'' = PStr ''TASK-1''"
  "dget sample_init_result ''project_id'' = PStr ''ACGPS''" "dget sample_init_result ''resulting_state'' = PStr ''DRAFT''"
  "dget sample_created ''project_id'' = PStr ''ACGPS''" "dget sample_state ''project_id'' = PStr ''ACGPS''"
  "dget sample_state ''task_id'' = PStr ''TASK-1''" "dget sample_state ''current_state'' = PStr ''DRAFT''"
  "dget sample_state ''previous_state'' = PNone" "dget sample_state ''last_transition_id'' = PNone"
  by (simp_all add: sample_init_request_def sample_init_result_def sample_created_def sample_state_def)

lemma sample_transaction_accepted: "validate_transition_transaction sample_sha sample_catalog (PDict sample_transaction) = None"
proof -
  have request: "transaction_request_guards sample_sha sample_transaction = None"
    by (simp add: transaction_request_guards_def Let_def sample_transaction_fields sample_init_checks sample_init_fields
        operation_request_fingerprint_def canonical_sha_def sample_sha_def [of "canonical_json _"])
  have plan: "transaction_plan_guards sample_sha sample_catalog sample_transaction = None"
    by (simp add: transaction_plan_guards_def Let_def sample_transaction_fields sample_init_fields sample_fields
        sample_created_accepted sample_states_accepted initialization_plan_def)
  have graph: "validate_transition_operation_graph sample_catalog sample_transaction = None"
    unfolding expected_catalog_loads
    by (simp add: validate_transition_operation_graph_def Let_def sample_transaction_fields sample_init_checks)
  have hash: "planned_hash_guards sample_sha sample_transaction = None"
    by (simp add: planned_hash_guards_def sample_transaction_fields canonical_sha_def sample_sha_def)
  show ?thesis
    by (simp add: validate_transition_transaction_def sample_init_checks request plan graph hash)
qed

subsection \<open>The commit of a transaction\<close>

text \<open>
  Where a transaction can be committed: an initialization on a store without the task, a
  transition at the end of the log of its task, in the exact place its event was planned for.
\<close>

definition in_place :: "(string \<Rightarrow> string) \<Rightarrow> exn + pyval \<Rightarrow> pydict \<Rightarrow> task_store \<Rightarrow> string \<Rightarrow> pydict list \<Rightarrow> bool" where
  "in_place sha cat d store task es =
     (let e = entries (dget d ''planned_audit_event'') in
      if dget d ''operation_kind'' = PStr ''INITIALIZATION'' then task_absent store task \<and> es = []
      else (\<exists>st. task_logged sha cat store task es st \<and> in_order st \<and> in_order (last es)) \<and> follows (last es) e \<and>
        dget e ''generation'' = PInt 1 \<and> dget e ''sequence'' = PInt (int (length es) + 1) \<and> int (length es) + 1 < 2 ^ 63)"



end
