(* ===== verification/Operation_Proofs.thy ===== *)
theory Operation_Proofs
  imports Task_History
begin

text \<open>
  The idempotency records of \<open>acgps/workflow_store.py\<close>: for each operation on a task the store keeps
  one row with the record of the operation, its identity and the request that caused it, and exports
  the record and the request as files. A row is found by task, kind of operation and digest of the
  idempotency key. \<open>sha\<close> is the digest; the texts of the rows are as in \<open>Task_Store\<close>. A transaction
  of another process between the lookup and the insertion is not modelled, so the insertion finds
  its key free.
\<close>

declare canonical_json.simps [simp del] json_sorted_simps(7) [simp del]

definition IDEMPOTENCY_RECORD_FIELDS :: "string list" where
  "IDEMPOTENCY_RECORD_FIELDS =
    [''schema_version'', ''operation_kind'', ''operation_id'', ''task_id'', ''idempotency_key'', ''request_fingerprint'',
     ''result_fingerprint'', ''canonical_result'', ''transaction_path'', ''created_at_utc'']"

definition OPERATION_KINDS :: "string list" where
  "OPERATION_KINDS = [''INITIALIZATION'', ''TRANSITION'', ''RECOVERY'', ''ROLLBACK'']"

subsection \<open>The record of an operation\<close>

definition invalid_input :: "string \<Rightarrow> string \<Rightarrow> bool \<Rightarrow> guard" where
  "invalid_input path message b = store_error ''WORKFLOW_INVALID_INPUT'' path message b"

definition conflict :: "string \<Rightarrow> string \<Rightarrow> bool \<Rightarrow> guard" where
  "conflict path message b = store_error ''WORKFLOW_IDEMPOTENCY_CONFLICT'' path message b"

lemma proof_errors_None [simp]:
  "invalid_input path message b = None \<longleftrightarrow> \<not> b" "conflict path message b = None \<longleftrightarrow> \<not> b"
  by (simp_all add: invalid_input_def conflict_def)

text \<open>The issue of another validator, reported as invalid input below a path.\<close>

definition issue_below :: "string \<Rightarrow> guard \<Rightarrow> guard" where
  "issue_below pre c = (case c of
     Some (WorkflowStoreError code path message) \<Rightarrow> Some (WorkflowStoreError ''WORKFLOW_INVALID_INPUT'' (pre @ path) message)
   | _ \<Rightarrow> c)"

lemma issue_below_None [simp]: "issue_below pre c = None \<longleftrightarrow> c = None"
  by (auto simp: issue_below_def split: option.splits exn.splits)

definition operation_id_field :: "pyval \<Rightarrow> string" where
  "operation_id_field kind =
     (if kind = PStr ''INITIALIZATION'' then ''initialization_id''
      else if kind = PStr ''TRANSITION'' then ''transition_id'' else ''recovery_id'')"

definition validate_result_for_operation :: "(string \<Rightarrow> string) \<Rightarrow> pydict \<Rightarrow> guard" where
  "validate_result_for_operation sha d =
     (let result = dget d ''canonical_result''; kind = dget d ''operation_kind'' in first_err
       [issue_below ''idempotency_record.canonical_result.''
          (if kind = PStr ''INITIALIZATION'' then validate_task_initialization_result result
           else if kind = PStr ''TRANSITION'' then validate_transition_result result
           else validate_recovery_result result),
        invalid_input ''idempotency_record.operation_id'' ''operation_id must match canonical result''
          (\<not> py_eq (vget result (operation_id_field kind)) (dget d ''operation_id'')),
        invalid_input ''idempotency_record.task_id'' ''task_id must match canonical result''
          (\<not> py_eq (vget result ''task_id'') (dget d ''task_id'')),
        invalid_input ''idempotency_record.result_fingerprint'' ''result fingerprint must match canonical result''
          (dget d ''result_fingerprint'' \<noteq> canonical_sha sha result)])"

definition operation_path :: "pydict \<Rightarrow> string" where
  "operation_path d = ''state/transactions/'' @ str_of (dget d ''task_id'') @ ''/'' @
     lower (str_of (dget d ''operation_kind'')) @ ''-'' @ str_of (dget d ''operation_id'')"

definition validate_transaction_path :: "pydict \<Rightarrow> guard" where
  "validate_transaction_path d = first_err
     [safe_state_path (dget d ''transaction_path''),
      invalid_input ''idempotency_record.transaction_path''
        ''transaction path must bind task, operation kind, and operation id''
        (dget d ''transaction_path'' \<noteq> PStr (operation_path d))]"

definition validate_canonical_request_for_operation :: "(string \<Rightarrow> string) \<Rightarrow> pydict \<Rightarrow> pyval \<Rightarrow> guard" where
  "validate_canonical_request_for_operation sha d request =
     (let kind = dget d ''operation_kind'' in first_err
       [require_mapping_at request ''canonical_request'',
        issue_below ''canonical_request.''
          (if kind = PStr ''INITIALIZATION'' then validate_task_initialization_request sha request
           else if kind = PStr ''TRANSITION'' then validate_transition_request sha request
           else validate_recovery_request request),
        invalid_input ''canonical_request'' ''canonical request id must match operation_id''
          (\<not> py_eq (vget request (operation_id_field kind)) (dget d ''operation_id'')),
        invalid_input ''canonical_request.task_id'' ''canonical request task_id must match idempotency record''
          (\<not> py_eq (vget request ''task_id'') (dget d ''task_id'')),
        invalid_input ''canonical_request.idempotency_key'' ''canonical request idempotency_key must match idempotency record''
          (\<not> py_eq (vget request ''idempotency_key'') (dget d ''idempotency_key'')),
        invalid_input ''idempotency_record.request_fingerprint''
          ''request fingerprint must equal timestamp-free canonical request hash''
          (dget d ''request_fingerprint'' \<noteq> operation_request_fingerprint sha (entries request))])"

text \<open>\<open>_validate_utc\<close> of the store: no comparison with the canonical text.\<close>

definition store_utc :: "pyval \<Rightarrow> string \<Rightarrow> guard" where
  "store_utc v path = first_err
     [invalid_input path ''value must be a canonical RFC3339 UTC timestamp'' (\<not> is_str v \<or> \<not> is_utc_second (str_of v)),
      invalid_input path ''value must be a valid canonical RFC3339 UTC timestamp'' (\<not> strptime_ok (str_of v))]"

text \<open>
  \<open>_require_idempotency_record\<close> with the canonical request given, null when there is none; the
  program never passes a state root.
\<close>

definition idempotency_guards :: "(string \<Rightarrow> string) \<Rightarrow> pydict \<Rightarrow> pyval \<Rightarrow> guard" where
  "idempotency_guards sha d request =
     (let bad = (\<lambda>f. invalid_input (''idempotency_record.'' @ f)) in first_err
       ([invalid_input ''idempotency_record'' ''idempotency record fields are invalid''
          (\<not> same_fields (PDict d) IDEMPOTENCY_RECORD_FIELDS),
         store_error ''WORKFLOW_UNSUPPORTED_SCHEMA_VERSION'' ''idempotency_record.schema_version''
          ''unsupported idempotency schema'' (\<not> py_eq (dget d ''schema_version'') (PInt 1)),
         (if \<not> hashable (dget d ''operation_kind'') then Some TypeError
          else bad ''operation_kind'' ''unknown operation kind'' (dget d ''operation_kind'' \<notin> set (map PStr OPERATION_KINDS))),
         require_safe_id (dget d ''operation_id'') ''idempotency_record.operation_id'',
         require_safe_id (dget d ''task_id'') ''idempotency_record.task_id'',
         bad ''idempotency_key'' ''idempotency key must be non-empty''
          (\<not> is_str (dget d ''idempotency_key'') \<or> dget d ''idempotency_key'' = PStr [])] @
        map (\<lambda>f. bad f ''fingerprint must be a SHA-256 hex digest'' (\<not> is_str (dget d f) \<or> \<not> is_sha256 (str_of (dget d f))))
          [''request_fingerprint'', ''result_fingerprint''] @
        [bad ''canonical_result'' ''canonical result must be a mapping'' (\<not> is_dict (dget d ''canonical_result'')),
         validate_transaction_path d,
         validate_result_for_operation sha d,
         (if request = PNone then bad ''request_fingerprint'' ''canonical request proof is required'' True
          else validate_canonical_request_for_operation sha d request),
         store_utc (dget d ''created_at_utc'') ''idempotency_record.created_at_utc'']))"

definition require_idempotency_record :: "(string \<Rightarrow> string) \<Rightarrow> pyval \<Rightarrow> pyval \<Rightarrow> guard" where
  "require_idempotency_record sha record request = first_err
     [require_mapping_at record ''idempotency_record'', idempotency_guards sha (entries record) request]"

definition idempotency_identity :: "pydict \<Rightarrow> pydict" where
  "idempotency_identity d = filter (\<lambda>p. fst p \<noteq> PStr ''created_at_utc'') d"

subsection \<open>Rows and files\<close>

record proof_row =
  stored_key :: string
  identity_json :: string
  record_json :: string
  request_json :: string

record proof_store =
  proof_rows :: "((string \<times> string \<times> string) \<times> proof_row) list"
  proof_files :: "string \<Rightarrow> string option"

definition empty_proofs :: proof_store where
  "empty_proofs = \<lparr>proof_rows = [], proof_files = (\<lambda>_. None)\<rparr>"

definition operation_idempotency_path :: "(string \<Rightarrow> string) \<Rightarrow> pyval \<Rightarrow> pyval \<Rightarrow> pyval \<Rightarrow> string res" where
  "operation_idempotency_path sha task kind key =
     (let path = ''idempotency/'' @ str_of task @ ''/'' @ str_of kind @ ''/'' @ sha (str_of key) @ ''.json'' in
      guarded (first_err
        [require_safe_id task ''task_id'',
         (if \<not> hashable kind then Some TypeError
          else invalid_input ''operation_kind'' ''unknown operation kind'' (kind \<notin> set (map PStr OPERATION_KINDS))),
         invalid_input ''idempotency_key'' ''idempotency key must be non-empty'' (\<not> is_str key \<or> key = PStr []),
         safe_state_path (PStr path)])
       (Inr path))"

definition validated_idempotency_row ::
    "(string \<Rightarrow> string) \<Rightarrow> proof_row \<Rightarrow> string \<Rightarrow> string \<Rightarrow> string \<Rightarrow> pyval res" where
  "validated_idempotency_row sha row task kind key =
     (let code = ''WORKFLOW_IDEMPOTENCY_CONFLICT'' in
      rbind (loads_json_mapping (identity_json row) code ''idempotency_record.identity'') (\<lambda>identity.
      rbind (loads_json_mapping (record_json row) code ''idempotency_record'') (\<lambda>record.
      rbind (loads_json_mapping (request_json row) code ''canonical_request'') (\<lambda>request.
      guarded (first_err
        [conflict ''idempotency_record.idempotency_key'' ''stored key must match requested key'' (stored_key row \<noteq> key),
         with_code code (require_idempotency_record sha record request),
         conflict ''idempotency_record'' ''idempotency record does not match requested identity''
           (vget record ''task_id'' \<noteq> PStr task \<or> vget record ''operation_kind'' \<noteq> PStr kind \<or>
            vget record ''idempotency_key'' \<noteq> PStr key),
         conflict ''idempotency_record.identity'' ''stored identity must match canonical record identity''
           (\<not> py_eq identity (PDict (idempotency_identity (entries record))))])
       (Inr record)))))"

text \<open>The row of an operation, validated: none, or the record.\<close>

definition find_idempotency_record ::
    "(string \<Rightarrow> string) \<Rightarrow> proof_store \<Rightarrow> string \<Rightarrow> string \<Rightarrow> string \<Rightarrow> pyval option res" where
  "find_idempotency_record sha store task kind key =
     (case map_of (proof_rows store) (task, kind, sha key) of
        None \<Rightarrow> Inr None
      | Some row \<Rightarrow> rbind (validated_idempotency_row sha row task kind key) (\<lambda>v. Inr (Some v)))"

definition read_idempotency_record ::
    "(string \<Rightarrow> string) \<Rightarrow> proof_store \<Rightarrow> pyval \<Rightarrow> pyval \<Rightarrow> pyval \<Rightarrow> pyval option res" where
  "read_idempotency_record sha store task kind key =
     rbind (operation_idempotency_path sha task kind key) (\<lambda>_.
       find_idempotency_record sha store (str_of task) (str_of kind) (str_of key))"

subsection \<open>Writing a record once\<close>

definition reject_json_export_conflict :: "string \<Rightarrow> string \<Rightarrow> string \<Rightarrow> proof_store \<Rightarrow> guard" where
  "reject_json_export_conflict path payload here store = (case proof_files store path of
     None \<Rightarrow> None
   | Some text \<Rightarrow> conflict here ''existing export has different bytes'' (text \<noteq> payload))"

definition write_json_export_once_or_same :: "string \<Rightarrow> string \<Rightarrow> string \<Rightarrow> proof_store \<Rightarrow> guard \<times> proof_store" where
  "write_json_export_once_or_same path payload here store = (case proof_files store path of
     Some text \<Rightarrow> (conflict here ''existing export has different bytes'' (text \<noteq> payload), store)
   | None \<Rightarrow> (None, store\<lparr>proof_files := (proof_files store)(path \<mapsto> payload)\<rparr>))"

text \<open>The texts of a new row, and the path of the exported request.\<close>

definition proof_texts :: "pyval \<Rightarrow> pyval \<Rightarrow> (proof_row \<times> string) res" where
  "proof_texts record request =
     (let code = ''WORKFLOW_INVALID_INPUT''; d = entries record;
          proof_path = str_of (dget d ''transaction_path'') @ ''/canonical_request.json'' in
      rbind (sqlite_json_text record code ''idempotency_record'') (\<lambda>record_text.
      rbind (sqlite_json_text (PDict (idempotency_identity d)) code ''idempotency_record.identity'') (\<lambda>identity_text.
      guarded (safe_state_path (PStr proof_path))
       (rbind (sqlite_json_text request code ''canonical_request'') (\<lambda>request_text.
         Inr (\<lparr>stored_key = str_of (dget d ''idempotency_key''), identity_json = identity_text, record_json = record_text,
           request_json = request_text\<rparr>, proof_path))))))"

definition insert_proof ::
    "string \<times> string \<times> string \<Rightarrow> proof_row \<Rightarrow> string \<Rightarrow> string \<Rightarrow> proof_store \<Rightarrow> guard \<times> proof_store" where
  "insert_proof key row proof_path path store =
     (let payload = record_json row @ [CHR 0x0A]; proof_payload = request_json row @ [CHR 0x0A] in
      case first_err [reject_json_export_conflict proof_path proof_payload ''canonical_request'' store,
          reject_json_export_conflict path payload ''idempotency_record'' store] of
        Some e \<Rightarrow> (Some e, store)
      | None \<Rightarrow> (case write_json_export_once_or_same proof_path proof_payload ''canonical_request''
            (store\<lparr>proof_rows := proof_rows store @ [(key, row)]\<rparr>) of
          (Some e, store') \<Rightarrow> (Some e, store')
        | (None, store') \<Rightarrow> write_json_export_once_or_same path payload ''idempotency_record'' store'))"

definition write_idempotency_record_once ::
    "(string \<Rightarrow> string) \<Rightarrow> pyval \<Rightarrow> pyval \<Rightarrow> proof_store \<Rightarrow> pyval res \<times> proof_store" where
  "write_idempotency_record_once sha record request store =
     (let d = entries record; task = dget d ''task_id''; kind = dget d ''operation_kind''; key = dget d ''idempotency_key'';
          coordinate = (str_of task, str_of kind, sha (str_of key)) in
      case guarded (require_idempotency_record sha record request)
          (rbind (operation_idempotency_path sha task kind key) (\<lambda>path.
            rbind (find_idempotency_record sha store (str_of task) (str_of kind) (str_of key)) (\<lambda>found. Inr (path, found)))) of
        Inl e \<Rightarrow> (Inl e, store)
      | Inr (path, Some existing) \<Rightarrow>
          (guarded (conflict ''idempotency_record'' ''idempotency key already has different content''
             (\<not> py_eq (PDict (idempotency_identity (entries existing))) (PDict (idempotency_identity d)))) (Inr existing), store)
      | Inr (path, None) \<Rightarrow> (case proof_texts record request of
            Inl e \<Rightarrow> (Inl e, store)
          | Inr (row, proof_path) \<Rightarrow> (case insert_proof coordinate row proof_path path store of
                (Some e, store') \<Rightarrow> (Inl e, store')
              | (None, store') \<Rightarrow> (Inr record, store'))))"

subsection \<open>What writing keeps\<close>

text \<open>Rows and files are never changed once they are there; a key has one row.\<close>

definition proofs_kept :: "proof_store \<Rightarrow> proof_store \<Rightarrow> bool" where
  "proofs_kept store store' \<longleftrightarrow>
     (\<forall>k row. map_of (proof_rows store) k = Some row \<longrightarrow> map_of (proof_rows store') k = Some row) \<and>
     (\<forall>p text. proof_files store p = Some text \<longrightarrow> proof_files store' p = Some text)"

lemma proofs_kept_refl [simp]: "proofs_kept store store"
  by (simp add: proofs_kept_def)

lemma proofs_kept_trans: "proofs_kept a b \<Longrightarrow> proofs_kept b c \<Longrightarrow> proofs_kept a c"
  by (simp add: proofs_kept_def)

lemma write_export_kept: "write_json_export_once_or_same path payload here store = (g, store') \<Longrightarrow>
    proofs_kept store store' \<and> proof_rows store' = proof_rows store \<and> (g = None \<longrightarrow> proof_files store' path = Some payload)"
  by (auto simp: write_json_export_once_or_same_def proofs_kept_def split: option.splits)

lemma row_added_kept: "proofs_kept store (store\<lparr>proof_rows := proof_rows store @ [(key, row)]\<rparr>)"
  by (auto simp: proofs_kept_def map_add_Some_iff)

lemma insert_proof_cases:
  assumes run: "insert_proof key row proof_path path store = (g, store')"
  shows "(store' = store \<and> g \<noteq> None) \<or> (proof_rows store' = proof_rows store @ [(key, row)] \<and> proofs_kept store store' \<and>
    (g = None \<longrightarrow> proof_files store' proof_path = Some (request_json row @ [CHR 0x0A]) \<and>
       proof_files store' path = Some (record_json row @ [CHR 0x0A])))"
proof -
  let ?mid = "store\<lparr>proof_rows := proof_rows store @ [(key, row)]\<rparr>"
  let ?request = "request_json row @ [CHR 0x0A]" and ?rec = "record_json row @ [CHR 0x0A]"
  obtain g1 s1 where one: "write_json_export_once_or_same proof_path ?request ''canonical_request'' ?mid = (g1, s1)"
    by (cases "write_json_export_once_or_same proof_path ?request ''canonical_request'' ?mid")
  obtain g2 s2 where two: "write_json_export_once_or_same path ?rec ''idempotency_record'' s1 = (g2, s2)"
    by (cases "write_json_export_once_or_same path ?rec ''idempotency_record'' s1")
  have "(store' = store \<and> g \<noteq> None) \<or> (store' = s1 \<and> g = g1 \<and> g1 \<noteq> None) \<or> (store' = s2 \<and> g = g2 \<and> g1 = None)"
    using run one two by (auto simp: insert_proof_def Let_def split: option.splits)
  then show ?thesis
    using write_export_kept [OF one] write_export_kept [OF two]
      proofs_kept_trans [OF row_added_kept [of store key row], of s1] proofs_kept_trans [of store s1 s2]
    by (auto simp: proofs_kept_def)
qed

lemma proof_texts_Inr:
  assumes "proof_texts record request = Inr (row, proof_path)"
  shows "stored_key row = str_of (dget (entries record) ''idempotency_key'')" "record_json row = canonical_json record"
    "identity_json row = canonical_json (PDict (idempotency_identity (entries record)))" "request_json row = canonical_json request"
    "proof_path = str_of (dget (entries record) ''transaction_path'') @ ''/canonical_request.json''"
  using assms by (auto simp: proof_texts_def Let_def rbind_Inr guarded_Inr sqlite_json_text_Inr)

text \<open>
  The outcomes of a write: nothing changes, or the key was free and has got the row of the record
  (and the answer may still be an error of the export).
\<close>

lemma write_once_outcomes:
  assumes run: "write_idempotency_record_once sha record request store = (r, store')"
  defines "key \<equiv> (str_of (dget (entries record) ''task_id''), str_of (dget (entries record) ''operation_kind''),
    sha (str_of (dget (entries record) ''idempotency_key'')))"
  shows "(store' = store \<and> (\<forall>v. r = Inr v \<longrightarrow> (\<exists>row. map_of (proof_rows store) key = Some row) \<and>
      py_eq (PDict (idempotency_identity (entries v))) (PDict (idempotency_identity (entries record))))) \<or>
    (map_of (proof_rows store) key = None \<and> proofs_kept store store' \<and> (\<forall>v. r = Inr v \<longrightarrow> v = record) \<and>
      (\<exists>row proof_path. proof_texts record request = Inr (row, proof_path) \<and> proof_rows store' = proof_rows store @ [(key, row)]))"
proof (cases "require_idempotency_record sha record request")
  case None
  then show ?thesis
    using run insert_proof_cases unfolding write_idempotency_record_once_def Let_def key_def
    by (fastforce simp: find_idempotency_record_def rbind_Inr guarded_def split: sum.splits option.splits prod.splits)
next
  case (Some e)
  then show ?thesis using run by (auto simp: write_idempotency_record_once_def Let_def)
qed

end
