(* ===== verification/Engine_Base.thy ===== *)
theory Engine_Base
  imports Operation_Proofs Decision_Queue Policy_Load
begin

text \<open>
  The workflow engine of \<open>acgps/workflow_engine.py\<close>: what its operations share. The engine is
  opened on a policy bundle and a profile of it; its state is the store of tasks, the idempotency
  records and the decision queue, all below its state root. \<open>sha\<close> and \<open>cat\<close> are those of the store.
\<close>

record engine =
  engine_bundle :: policy_bundle
  engine_profile_id :: string
  engine_profile :: pydict
  project_root :: string
  state_root :: string
  read_only :: bool

record engine_state =
  tasks :: task_store
  proofs :: proof_store
  decisions :: queue_files

subsection \<open>Errors\<close>

definition engine_error :: "string \<Rightarrow> exn" where
  "engine_error message = AppError ''WorkflowEngineError'' message"

definition engine_fails :: "string \<Rightarrow> bool \<Rightarrow> guard" where
  "engine_fails message b = fail_if b (engine_error message)"

lemma engine_fails_None [simp]: "engine_fails message b = None \<longleftrightarrow> \<not> b"
  by (simp add: engine_fails_def)

lemma engine_fails_False [simp]: "engine_fails message False = None"
  by simp

text \<open>
  Errors of other parts, reported as errors of the engine: those of the store
  (\<open>except WorkflowStoreError\<close>), of a contract, and of the queue.
\<close>

definition store_failed :: "exn \<Rightarrow> exn" where
  "store_failed e = (case e of WorkflowStoreError code path message \<Rightarrow> engine_error (exn_text e) | _ \<Rightarrow> e)"

definition from_store :: "'a res \<Rightarrow> 'a res" where
  "from_store r = (case r of Inl e \<Rightarrow> Inl (store_failed e) | Inr v \<Rightarrow> Inr v)"

lemma from_store_Inr [simp]: "from_store r = Inr v \<longleftrightarrow> r = Inr v"
  by (simp add: from_store_def split: sum.splits)

definition contract_failed :: "string \<Rightarrow> pyval \<Rightarrow> guard" where
  "contract_failed name record = (case validate_contract name record ''runtime'' of
     None \<Rightarrow> None
   | Some e \<Rightarrow> Some (case e of ContractValidationError n issues \<Rightarrow> engine_error (exn_text e) | _ \<Rightarrow> e))"

lemma contract_failed_None [simp]: "contract_failed name v = None \<longleftrightarrow> validate_contract name v ''runtime'' = None"
  by (simp add: contract_failed_def split: option.split)

text \<open>The message of the issue of an outcome.\<close>

definition outcome_failed :: "guard \<Rightarrow> guard" where
  "outcome_failed c = (case c of Some (WorkflowStoreError code path message) \<Rightarrow> Some (engine_error message) | _ \<Rightarrow> c)"

lemma outcome_failed_None [simp]: "outcome_failed c = None \<longleftrightarrow> c = None"
  by (auto simp: outcome_failed_def split: option.splits exn.splits)

definition require_writable :: "engine \<Rightarrow> guard" where
  "require_writable eng = engine_fails ''read-only workflow engine cannot modify state'' (read_only eng)"

lemma require_writable_None [simp]: "require_writable eng = None \<longleftrightarrow> \<not> read_only eng"
  by (simp add: require_writable_def)

subsection \<open>Names\<close>

definition task_token :: "(string \<Rightarrow> string) \<Rightarrow> string \<Rightarrow> string" where
  "task_token sha task = take 16 (sha task)"

text \<open>\<open>f"{n:04d}"\<close> of a natural number.\<close>

definition padded :: "nat \<Rightarrow> nat \<Rightarrow> string" where
  "padded width n = (let s = nat_str n in replicate (width - length s) (CHR ''0'') @ s)"

definition numbered_name :: "string \<Rightarrow> string \<Rightarrow> nat \<Rightarrow> string" where
  "numbered_name pre token n = pre @ ''-'' @ token @ ''-'' @ padded 4 n"

subsection \<open>Bindings and records\<close>

definition embedded_evidence_binding :: "(string \<Rightarrow> string) \<Rightarrow> string \<Rightarrow> string \<Rightarrow> pyval \<Rightarrow> pyval \<Rightarrow> pydict" where
  "embedded_evidence_binding sha binding_id kind record created_at =
    [kv ''schema_version'' (PInt 1), kv ''binding_id'' (PStr binding_id), kv ''evidence_kind'' (PStr kind),
     kv ''source'' (PStr ''embedded''), kv ''path'' PNone, kv ''embedded_record'' record,
     kv ''embedded_sha256'' (canonical_sha sha record), kv ''content_sha256'' (canonical_sha sha record),
     kv ''size_bytes'' (PInt (int (length (canonical_json record)))), kv ''created_at_utc'' created_at]"

definition initialization_request :: "(string \<Rightarrow> string) \<Rightarrow> string \<Rightarrow> pydict \<Rightarrow> pyval \<Rightarrow> pydict" where
  "initialization_request sha task intake actor =
     (let token = task_token sha task; created_at = dget intake ''created_at_utc'' in
      [kv ''schema_version'' (PInt 1), kv ''initialization_id'' (PStr (''init-'' @ token)), kv ''task_id'' (PStr task),
       kv ''project_id'' (dget intake ''project_id''), kv ''initial_state'' (PStr ''DRAFT''), kv ''actor'' actor,
       kv ''idempotency_key'' (PStr (''intake-'' @ token)),
       kv ''task_intake_binding''
         (PDict (embedded_evidence_binding sha (''intake-'' @ token) ''task_intake'' (PDict intake) created_at)),
       kv ''created_at_utc'' created_at])"

definition first_generation :: "string \<Rightarrow> string \<Rightarrow> pyval \<Rightarrow> pyval" where
  "first_generation task event_id created_at = PDict
     [kv ''schema_version'' (PInt 1), kv ''generation'' (PInt 1), kv ''task_id'' (PStr task),
      kv ''started_by_event_id'' (PStr event_id), kv ''started_by_event_type'' (PStr ''TASK_CREATED''),
      kv ''predecessor_generation'' PNone, kv ''predecessor_valid_head_hash'' PNone, kv ''quarantine_path'' PNone,
      kv ''threat_model'' (PStr ''CORRUPTION_AND_NON_COORDINATED_TAMPER_ONLY''), kv ''created_at_utc'' created_at]"

text \<open>An event with its hash filled in.\<close>

definition sealed :: "(string \<Rightarrow> string) \<Rightarrow> pydict \<Rightarrow> pydict" where
  "sealed sha event = dset event (PStr ''event_hash'') (event_hash_of sha event)"

definition creation_event :: "(string \<Rightarrow> string) \<Rightarrow> string \<Rightarrow> pyval \<Rightarrow> pyval \<Rightarrow> pyval \<Rightarrow> pydict" where
  "creation_event sha task project actor created_at =
     (let event_id = ''evt-'' @ task_token sha task @ ''-0001'' in sealed sha
      [kv ''schema_version'' (PInt 1), kv ''event_id'' (PStr event_id), kv ''generation'' (PInt 1), kv ''sequence'' (PInt 1),
       kv ''project_id'' project, kv ''task_id'' (PStr task), kv ''event_type'' (PStr ''TASK_CREATED''), kv ''actor'' actor,
       kv ''from_state'' PNone, kv ''to_state'' PNone, kv ''transition_id'' PNone, kv ''policy_evaluation_binding'' PNone,
       kv ''evidence_bindings'' (PList []), kv ''decision_resolution_binding'' PNone, kv ''previous_event_hash'' PNone,
       kv ''event_hash'' PNone, kv ''created_at_utc'' created_at,
       kv ''details'' (PDict [kv ''audit_generation'' (first_generation task event_id created_at)])])"

definition creation_state :: "string \<Rightarrow> pyval \<Rightarrow> pydict \<Rightarrow> pydict" where
  "creation_state task project event =
     [kv ''schema_version'' (PInt 1), kv ''task_id'' (PStr task), kv ''project_id'' project, kv ''current_state'' (PStr ''DRAFT''),
      kv ''previous_state'' PNone, kv ''last_transition_id'' PNone, kv ''audit_generation'' (PInt 1),
      kv ''audit_head_event_id'' (dget event ''event_id''), kv ''audit_head_hash'' (dget event ''event_hash''),
      kv ''policy_evaluation_id'' PNone, kv ''pending_decision_id'' PNone, kv ''updated_at_utc'' (dget event ''created_at_utc'')]"

definition initialization_result :: "pydict \<Rightarrow> pydict \<Rightarrow> pydict" where
  "initialization_result init event =
     [kv ''schema_version'' (PInt 1), kv ''initialization_id'' (dget init ''initialization_id''),
      kv ''task_id'' (dget init ''task_id''), kv ''project_id'' (dget init ''project_id''), kv ''accepted'' (PBool True),
      kv ''resulting_state'' (PStr ''DRAFT''), kv ''audit_event_id'' (dget event ''event_id''),
      kv ''audit_generation'' (dget event ''generation''), kv ''audit_sequence'' (dget event ''sequence''),
      kv ''fail_closed'' (PBool False), kv ''error_code'' PNone, kv ''issues'' (PList []), kv ''idempotent_replay'' (PBool False),
      kv ''created_at_utc'' (dget event ''created_at_utc'')]"

definition initialization_idempotency_record :: "(string \<Rightarrow> string) \<Rightarrow> pydict \<Rightarrow> pydict \<Rightarrow> pydict" where
  "initialization_idempotency_record sha init result =
     [kv ''schema_version'' (PInt 1), kv ''operation_kind'' (PStr ''INITIALIZATION''),
      kv ''operation_id'' (dget init ''initialization_id''), kv ''task_id'' (dget init ''task_id''),
      kv ''idempotency_key'' (dget init ''idempotency_key''),
      kv ''request_fingerprint'' (operation_request_fingerprint sha init),
      kv ''result_fingerprint'' (canonical_sha sha (PDict result)), kv ''canonical_result'' (PDict result),
      kv ''transaction_path'' (PStr (''state/transactions/'' @ str_of (dget init ''task_id'') @ ''/initialization-'' @
        str_of (dget init ''initialization_id''))),
      kv ''created_at_utc'' (dget init ''created_at_utc'')]"

end
