(* ===== verification/Engine_Intake.thy ===== *)
theory Engine_Intake
  imports Engine_Base
begin

text \<open>
  \<open>WorkflowEngine.intake\<close>: a task is created from an accepted intake. The engine keeps the
  idempotency record of the initialization, commits the creation event with the first state, and
  writes the intake beside the state. A task that exists without its record is an error.
\<close>

declare canonical_json.simps [simp del] json_sorted_simps(7) [simp del]

definition intake_path :: "string \<Rightarrow> string" where
  "intake_path task = ''tasks/'' @ task @ ''/intake.json''"

text \<open>What the engine checks of an intake before it touches the store.\<close>

definition intake_guards :: "(string \<Rightarrow> string) \<Rightarrow> engine \<Rightarrow> pyval \<Rightarrow> pyval \<Rightarrow> guard" where
  "intake_guards sha eng intake actor = first_err
     [require_writable eng,
      contract_failed ''task_intake'' intake,
      engine_fails ''task intake project_id does not match the managed profile''
        (\<not> py_eq (vget intake ''project_id'') (dget (engine_profile eng) ''project_name'')),
      outcome_failed (validate_task_initialization_request sha
        (PDict (initialization_request sha (str_of (vget intake ''task_id'')) (entries intake) actor)))]"

text \<open>The commit, the intake file and the answer, once the idempotency record is written.\<close>

definition finish_intake ::
    "(string \<Rightarrow> string) \<Rightarrow> exn + pyval \<Rightarrow> string \<Rightarrow> pyval \<Rightarrow> pydict \<Rightarrow> pydict \<Rightarrow> engine_state \<Rightarrow> pyval res \<times> engine_state" where
  "finish_intake sha cat task intake event state st =
     (case commit_task_state_and_audit sha cat (PDict event) (PDict state) (tasks st) of
        (Inl e, store) \<Rightarrow> (Inl (store_failed e), st\<lparr>tasks := store\<rparr>)
      | (Inr _, store) \<Rightarrow> (case safe_state_path (PStr (intake_path task)) of
            Some e \<Rightarrow> (Inl (store_failed e), st\<lparr>tasks := store\<rparr>)
          | None \<Rightarrow> (let store' = write_state_atomic (intake_path task) intake store in
              (read_task_state store' (PStr task), st\<lparr>tasks := store'\<rparr>))))"

definition engine_intake ::
    "(string \<Rightarrow> string) \<Rightarrow> exn + pyval \<Rightarrow> engine \<Rightarrow> pyval \<Rightarrow> pyval \<Rightarrow> engine_state \<Rightarrow> pyval res \<times> engine_state" where
  "engine_intake sha cat eng intake actor st =
     (let d = entries intake; task = str_of (dget d ''task_id'');
          init = initialization_request sha task d actor;
          event = creation_event sha task (dget d ''project_id'') actor (dget d ''created_at_utc'');
          state = creation_state task (dget d ''project_id'') event;
          entry = initialization_idempotency_record sha init (initialization_result init event) in
      case guarded (intake_guards sha eng intake actor)
          (rbind (from_store (find_idempotency_record sha (proofs st) task ''INITIALIZATION'' (str_of (dget init ''idempotency_key''))))
            (\<lambda>found. guarded (engine_fails ''WORKFLOW_AUDIT_CORRUPT: historical task initialization proof is missing''
              (found = None \<and> map_of (state_rows (tasks st)) task \<noteq> None)) (Inr ()))) of
        Inl e \<Rightarrow> (Inl e, st)
      | Inr _ \<Rightarrow> (case write_idempotency_record_once sha (PDict entry) (PDict init) (proofs st) of
            (Inl e, ps) \<Rightarrow> (Inl (store_failed e), st\<lparr>proofs := ps\<rparr>)
          | (Inr _, ps) \<Rightarrow> finish_intake sha cat task intake event state (st\<lparr>proofs := ps\<rparr>)))"

subsection \<open>The records the engine builds\<close>

lemma dget_dset_same [simp]: "dget (dset d (PStr k) v) k = v"
  by (simp add: dget_def dlookup_dset)

lemma dget_dset_other [simp]: "k' \<noteq> k \<Longrightarrow> dget (dset d (PStr k) v) k' = dget d k'"
  by (simp add: dget_def dlookup_dset)

lemma creation_event_fields:
  "dget (creation_event sha task project actor created) ''task_id'' = PStr task"
  "dget (creation_event sha task project actor created) ''event_type'' = PStr ''TASK_CREATED''"
  "dget (creation_event sha task project actor created) ''project_id'' = project"
  "dget (creation_event sha task project actor created) ''actor'' = actor"
  "dget (creation_event sha task project actor created) ''generation'' = PInt 1"
  "dget (creation_event sha task project actor created) ''sequence'' = PInt 1"
  by (simp_all add: creation_event_def sealed_def Let_def)

lemma creation_state_fields:
  "dget (creation_state task project event) ''task_id'' = PStr task"
  "dget (creation_state task project event) ''current_state'' = PStr ''DRAFT''"
  "dget (creation_state task project event) ''last_transition_id'' = PNone"
  by (simp_all add: creation_state_def)

lemma plain_fields:
  "plain_record d \<longleftrightarrow> distinct (map fst d) \<and> (\<forall>p \<in> set d. is_str (fst p) \<and> json_value (snd p) \<and> float_free (snd p))"
  by (auto simp: plain_record_def list_all_iff)

lemma plain_get: "plain_record d \<Longrightarrow> json_value (dget d f) \<and> float_free (dget d f)"
  by (auto simp: plain_fields dget_def split: option.splits dest!: dlookup_mem)

lemma creation_plain:
  assumes "json_value project" "float_free project" "json_value actor" "float_free actor" "json_value created" "float_free created"
  shows "plain_record (creation_event sha task project actor created)"
    "plain_record (creation_state task project (creation_event sha task project actor created))"
  using assms
  by (simp_all add: plain_fields creation_event_def sealed_def creation_state_def first_generation_def event_hash_of_def
      canonical_sha_def Let_def)

subsection \<open>The log after an intake\<close>

text \<open>The intake file lies beside the state file and does not touch it.\<close>

lemma intake_path_other: "intake_path task \<noteq> state_path task'"
proof
  assume "intake_path task = state_path task'"
  then have "rev (intake_path task) ! 6 = rev (state_path task') ! 6" by simp
  then show False by (simp add: intake_path_def state_path_def)
qed

lemma intake_file_logged:
  "task_logged sha cat (write_state_atomic (intake_path task) v store) task' es st \<longleftrightarrow> task_logged sha cat store task' es st"
  "task_absent (write_state_atomic (intake_path task) v store) task' \<longleftrightarrow> task_absent store task'"
  using intake_path_other [of task task']
  by (simp_all add: task_logged_def task_absent_def write_state_atomic_def task_rows_def)

lemma intake_file_store: "store_logged sha cat (write_state_atomic (intake_path task) v store) \<longleftrightarrow> store_logged sha cat store"
  by (simp add: store_logged_def intake_file_logged)

lemma intake_file_read: "read_task_state (write_state_atomic (intake_path task) v store) t = read_task_state store t"
  by (simp add: read_task_state_def write_state_atomic_def)

text \<open>The event that creates a task is the first of its log.\<close>

lemma created_is_first:
  assumes log: "log_events sha cat task es" and mem: "e \<in> set es" and type: "dget e ''event_type'' = PStr ''TASK_CREATED''"
  shows "e = hd es"
proof -
  obtain i where i: "i < length es" "e = es ! i" using mem by (auto simp: in_set_conv_nth)
  have chain: "successively follows es" using log by (simp add: log_events_def)
  have "follows (es ! (i - 1)) (es ! i)" if "0 < i"
    using chain i(1) that by (auto simp: successively_conv_nth dest!: spec [of _ "i - 1"])
  then have "i = 0" using type i(2) by (auto simp: follows_def)
  then show ?thesis using i by (simp add: hd_conv_nth)
qed

text \<open>What a commit of a creation event leaves when it does not raise.\<close>

lemma creation_committed:
  assumes logged: "store_logged sha cat store" and plain: "plain_record e" "plain_record st"
    and type: "dget e ''event_type'' = PStr ''TASK_CREATED''" and task: "dget e ''task_id'' = PStr task"
    and run: "commit_task_state_and_audit sha cat (PDict e) (PDict st) store = (r, store')"
  shows "store_logged sha cat store'" "(\<exists>x. r = Inl x) \<longrightarrow> store' = store"
    "\<forall>b. r = Inr b \<longrightarrow> (\<exists>es st'. task_logged sha cat store' task es st' \<and> record_text (hd es) = record_text e \<and>
      record_text st' = record_text st)"
proof -
  show "store_logged sha cat store'"
    using commit_call_logged [OF logged, of "(e, st)"] plain run by (simp add: commit_call_def)
  have "((\<exists>x. r = Inl x) \<and> store' = store) \<or> (\<exists>b. r = Inr b) \<and>
    (\<exists>es st'. task_logged sha cat store' task es st' \<and> record_text (hd es) = record_text e \<and> record_text st' = record_text st)"
  proof (rule commit_outcomes [OF store_logged_at [OF logged], where event = "PDict e" and state = "PDict st" and task = task, OF _ _ _ run])
    show "vget (PDict e) ''task_id'' = PStr task" "plain_record (entries (PDict e))" "plain_record (entries (PDict st))"
      using task plain by simp_all
  next
    fix es st0
    assume again: "r = Inr False" "store' = store" "task_logged sha cat store task es st0"
      "record_text e \<in> record_text ` set es" "record_text st = record_text st0"
    then obtain e' where e': "e' \<in> set es" "record_text e = record_text e'" by auto
    have log: "log_events sha cat task es" using again(3) by (simp add: task_logged_def)
    have "plain_record e'" using log e'(1) by (auto simp: log_events_def list_all_iff event_of_task_def stored_text_def)
    then have "json_sorted (dget e' ''event_type'') = PStr ''TASK_CREATED''"
      using record_text_fields [OF plain(1) _ e'(2), of "''event_type''"] type by simp
    then have "dget e' ''event_type'' = PStr ''TASK_CREATED''"
      by (cases "dget e' ''event_type''") (simp_all add: json_sorted_simps)
    then have "e' = hd es" by (rule created_is_first [OF log e'(1)])
    then show ?thesis using again e'(2) by auto
  next
    fix e1 st1
    assume "r = Inr True" "PDict e = PDict e1" "PDict st = PDict st1" "task_logged sha cat store' task [e1] st1"
    then show ?thesis by (intro disjI2 conjI exI [of _ "[e1]"] exI [of _ st1]) auto
  next
    fix e1 st1 es st0
    assume ext: "PDict e = PDict e1" "task_logged sha cat store task es st0" "task_logged sha cat store' task (es @ [e1]) st1"
    have "es \<noteq> []" using ext(2) by (simp add: task_logged_def log_events_def)
    moreover have "e1 = hd (es @ [e1])"
      by (rule created_is_first [of sha cat task]) (use ext type in \<open>auto simp: task_logged_def\<close>)
    moreover have "log_events sha cat task es" "log_events sha cat task (es @ [e1])" using ext by (simp_all add: task_logged_def)
    ultimately show ?thesis
      using type ext(1) by (auto simp: log_events_def successively_append_iff follows_def)
  qed auto
  then show "(\<exists>x. r = Inl x) \<longrightarrow> store' = store"
    "\<forall>b. r = Inr b \<longrightarrow> (\<exists>es st'. task_logged sha cat store' task es st' \<and> record_text (hd es) = record_text e \<and>
      record_text st' = record_text st)" by auto
qed

subsection \<open>The outcome of an intake\<close>

lemma intake_actor:
  assumes "intake_guards sha eng (PDict d) actor = None"
  shows "is_str actor"
proof -
  have "validate_task_initialization_request sha (PDict (initialization_request sha (str_of (dget d ''task_id'')) d actor)) = None"
    using assms by (simp add: intake_guards_def)
  then have "is_str (dget (initialization_request sha (str_of (dget d ''task_id'')) d actor) ''actor'')"
    by (simp add: validate_task_initialization_request_def Let_def)
  then show ?thesis by (simp add: initialization_request_def Let_def)
qed

text \<open>
  The state of the engine after an intake: the decisions are as before, proofs are only added, and
  the tasks are as before or have had the creation committed.
\<close>

lemma finish_intake_outcome:
  assumes logged: "store_logged sha cat (tasks st)" and plain: "plain_record event" "plain_record state"
    and type: "dget event ''event_type'' = PStr ''TASK_CREATED''" and task: "dget event ''task_id'' = PStr task"
    and run: "finish_intake sha cat task intake event state st = (r, st')"
  shows "store_logged sha cat (tasks st') \<and> proofs st' = proofs st \<and> decisions st' = decisions st \<and>
    (\<forall>v. r = Inr v \<longrightarrow> v = json_sorted (PDict state) \<and> (\<exists>es s. task_logged sha cat (tasks st') task es s \<and>
       record_text (hd es) = record_text event \<and> record_text s = record_text state))"
proof -
  obtain c store where commit: "commit_task_state_and_audit sha cat (PDict event) (PDict state) (tasks st) = (c, store)"
    by (cases "commit_task_state_and_audit sha cat (PDict event) (PDict state) (tasks st)")
  note kept = creation_committed [OF logged plain type task commit]
  have answer: "v = json_sorted (PDict state)"
    if committed: "c = Inr b" and read: "read_task_state store (PStr task) = Inr v" for b v
  proof -
    obtain es s where log: "task_logged sha cat store task es s" "record_text s = record_text state" using kept(3) committed by blast
    then have s: "map_of (state_rows store) task = Some (record_text s)" "stored_text s (record_text s)" by (simp_all add: task_logged_def)
    then have "v = json_sorted (PDict s)"
      using read by (auto simp: read_task_state_def guarded_Inr identified_state_def loaded_state_def rbind_Inr stored_text_loads)
    moreover have "plain_record s" using s(2) by (simp add: stored_text_def)
    ultimately show ?thesis
      using canonical_json_inject [of "PDict s" "PDict state"] log(2) plain(2) by (simp only: plain_record_def)
  qed
  show ?thesis
  proof (cases c)
    case (Inl x)
    then show ?thesis using run kept commit by (auto simp: finish_intake_def)
  next
    case (Inr b)
    then obtain es s where log: "task_logged sha cat store task es s" "record_text (hd es) = record_text event" "record_text s = record_text state"
      using kept(3) by blast
    show ?thesis
    proof (cases "safe_state_path (PStr (intake_path task))")
      case None
      then have "r = read_task_state store (PStr task)" "st' = st\<lparr>tasks := write_state_atomic (intake_path task) intake store\<rparr>"
        using run commit Inr by (auto simp: finish_intake_def Let_def intake_file_read)
      then show ?thesis using kept(1) log answer [OF Inr] by (auto simp: intake_file_store intake_file_logged)
    next
      case (Some x)
      then show ?thesis using run commit Inr kept(1) by (auto simp: finish_intake_def)
    qed
  qed
qed

lemma intake_outcome:
  assumes logged: "store_logged sha cat (tasks st)" and plain: "plain_record d"
    and run: "engine_intake sha cat eng (PDict d) actor st = (r, st')"
  defines "task \<equiv> str_of (dget d ''task_id'')"
  defines "event \<equiv> creation_event sha task (dget d ''project_id'') actor (dget d ''created_at_utc'')"
  defines "state \<equiv> creation_state task (dget d ''project_id'') event"
  shows "store_logged sha cat (tasks st') \<and> proofs_kept (proofs st) (proofs st') \<and> decisions st' = decisions st \<and>
    (\<forall>v. r = Inr v \<longrightarrow> v = json_sorted (PDict state) \<and> intake_guards sha eng (PDict d) actor = None \<and>
      (\<exists>es s. task_logged sha cat (tasks st') task es s \<and> record_text (hd es) = record_text event \<and> record_text s = record_text state))"
proof -
  let ?init = "initialization_request sha task d actor"
  let ?rec = "initialization_idempotency_record sha ?init (initialization_result ?init event)"
  consider (early) x where "r = Inl x" "st' = st"
    | (unproved) x ps where "r = Inl x" "st' = st\<lparr>proofs := ps\<rparr>"
        "write_idempotency_record_once sha (PDict ?rec) (PDict ?init) (proofs st) = (Inl x, ps) \<or>
         (\<exists>e. write_idempotency_record_once sha (PDict ?rec) (PDict ?init) (proofs st) = (Inl e, ps))"
    | (proved) w ps where "write_idempotency_record_once sha (PDict ?rec) (PDict ?init) (proofs st) = (Inr w, ps)"
        "finish_intake sha cat task (PDict d) event state (st\<lparr>proofs := ps\<rparr>) = (r, st')"
        "intake_guards sha eng (PDict d) actor = None"
    using run unfolding engine_intake_def Let_def task_def event_def state_def
    by (auto simp: guarded_Inr split: sum.splits prod.splits)
  then show ?thesis
  proof cases
    case early
    then show ?thesis using logged by simp
  next
    case unproved
    then obtain e where "write_idempotency_record_once sha (PDict ?rec) (PDict ?init) (proofs st) = (Inl e, ps)" by blast
    from write_once_outcomes [OF this] have "proofs_kept (proofs st) ps" by auto
    then show ?thesis using unproved logged by simp
  next
    case proved
    have kept: "proofs_kept (proofs st) ps" using write_once_outcomes [OF proved(1)] by auto
    have "is_str actor" by (rule intake_actor [OF proved(3)])
    then have "json_value actor" "float_free actor" by (auto simp: is_str_iff)
    then have records: "plain_record event" "plain_record state"
      unfolding event_def state_def by (intro creation_plain; use plain_get [OF plain] in blast)+
    have fields: "dget event ''event_type'' = PStr ''TASK_CREATED''" "dget event ''task_id'' = PStr task"
      by (simp_all add: event_def creation_event_fields)
    have "store_logged sha cat (tasks (st\<lparr>proofs := ps\<rparr>))" using logged by simp
    from finish_intake_outcome [OF this records fields proved(2)] show ?thesis
      using kept proved(3) by simp
  qed
qed

end
