(* ===== verification/Engine_Accept.thy ===== *)
theory Engine_Accept
  imports Engine_Intake Workflow_Sample
begin

text \<open>
  The records the engine builds pass the validators of the store, under the catalog the code expects
  and with a digest of 64 hexadecimal digits.
\<close>

declare canonical_json.simps [simp del] json_sorted_simps(7) [simp del]

definition hex_digest :: "(string \<Rightarrow> string) \<Rightarrow> bool" where
  "hex_digest sha \<longleftrightarrow> (\<forall>s. is_sha256 (sha s))"

lemma hex_digestD: "hex_digest sha \<Longrightarrow> length (sha s) = 64 \<and> list_all is_hex_c (sha s)"
  by (simp add: hex_digest_def is_sha256_def)

lemma hex_id_char: "is_hex_c c \<Longrightarrow> is_id_char c"
  by (auto simp: is_hex_c_def is_id_char_def is_alpha_c_def is_lower_c_def is_digit_c_def Let_def)

text \<open>A name made of a fixed beginning, the token of a task and a fixed end.\<close>

lemma token_id:
  assumes "hex_digest sha" "is_safe_id pre" "list_all is_id_char end" "length pre + length end \<le> 112"
  shows "is_safe_id (pre @ task_token sha task @ end)"
proof -
  have token: "list_all is_id_char (take 16 (sha task))" "length (take 16 (sha task)) = 16"
    using hex_digestD [OF assms(1), of task] by (auto simp: list_all_iff hex_id_char dest: in_set_takeD)
  obtain c cs where pre: "pre = c # cs" using assms(2) by (cases pre) (auto simp: is_safe_id_def)
  show ?thesis using assms token by (simp add: pre is_safe_id_def task_token_def)
qed

subsection \<open>The roles of the catalog\<close>

abbreviation role_of :: "string \<Rightarrow> pyval" where
  "role_of type \<equiv> vget (vget expected_catalog ''event_type_matrix'') type"

lemma created_role:
  "role_paths (role_of ''TASK_CREATED'') ''required'' = [''details.audit_generation'']"
  "role_paths (role_of ''TASK_CREATED'') ''nullable'' = [''from_state'', ''to_state'', ''transition_id'',
     ''policy_evaluation_binding'', ''decision_resolution_binding'']"
  "role_paths (role_of ''TASK_CREATED'') ''empty'' = [''evidence_bindings'']"
  "role_paths (role_of ''TASK_CREATED'') ''non_empty'' = []"
  "vget (role_of ''TASK_CREATED'') ''generation_role'' = PDict
     [kv ''sequence'' (PInt 1), kv ''generation'' (PInt 1), kv ''first_event_type'' (PStr ''TASK_CREATED'')]"
  "vget (role_of ''TASK_CREATED'') ''context_bindings'' = PDict []"
  by code_simp+

lemma transition_role:
  "role_paths (role_of ''TRANSITION_ACCEPTED'') ''required'' =
     [''from_state'', ''to_state'', ''transition_id'', ''policy_evaluation_binding'']"
  "role_paths (role_of ''TRANSITION_ACCEPTED'') ''empty'' = []"
  "role_paths (role_of ''TRANSITION_ACCEPTED'') ''non_empty'' = [''evidence_bindings'']"
  "vget (role_of ''TRANSITION_ACCEPTED'') ''generation_role'' = PDict [kv ''sequence_must_not_be'' (PInt 1)]"
  "vget (role_of ''TRANSITION_ACCEPTED'') ''context_bindings'' = PDict
     [kv ''policy_project_id'' (PStr ''project_id''), kv ''policy_task_id'' (PStr ''task_id''),
      kv ''policy_authorizes_to_state'' (PStr ''to_state''), kv ''decision_only_from_state'' (PStr ''WAITING_HUMAN'')]"
  by code_simp+

subsection \<open>The creation of a task\<close>

lemma creation_accepted:
  assumes hex: "hex_digest sha"
    and ids: "is_safe_id task" "is_safe_id project" "actor \<in> set ACTORS" "check_utc (PStr created) [] = None"
  defines "event \<equiv> creation_event sha task (PStr project) (PStr actor) (PStr created)"
  shows "validate_audit_event sha (Inr expected_catalog) (PDict event) = None"
    "validate_task_state (PDict (creation_state task (PStr project) event)) = None"
    "validate_state_event_pair event (creation_state task (PStr project) event) = None"
proof -
  have utc: "check_utc (PStr created) path = None" for path
    using ids(4) by (simp add: check_utc_def Let_def)
  have hash: "is_sha256 (sha s)" for s using hex by (simp add: hex_digest_def)
  have id: "is_safe_id (''evt-'' @ task_token sha task @ ''-0001'')"
    by (rule token_id [OF hex]) (simp_all add: is_safe_id_def is_id_char_def is_alpha_c_def is_upper_c_def is_lower_c_def is_digit_c_def)
  obtain event_id where event_id: "''evt-'' @ task_token sha task @ ''-0001'' = event_id" "is_safe_id event_id" using id by blast
  obtain digest where digest: "event_hash_of sha event = PStr digest" "is_sha256 digest"
    using hash by (simp add: event_hash_of_def canonical_sha_def)
  let ?event = "\<lambda>h. [kv ''schema_version'' (PInt 1), kv ''event_id'' (PStr event_id), kv ''generation'' (PInt 1), kv ''sequence'' (PInt 1),
      kv ''project_id'' (PStr project), kv ''task_id'' (PStr task), kv ''event_type'' (PStr ''TASK_CREATED''), kv ''actor'' (PStr actor),
      kv ''from_state'' PNone, kv ''to_state'' PNone, kv ''transition_id'' PNone, kv ''policy_evaluation_binding'' PNone,
      kv ''evidence_bindings'' (PList []), kv ''decision_resolution_binding'' PNone, kv ''previous_event_hash'' PNone,
      kv ''event_hash'' h, kv ''created_at_utc'' (PStr created),
      kv ''details'' (PDict [kv ''audit_generation'' (first_generation task event_id (PStr created))])]"
  have sealing: "event = ?event (event_hash_of sha (?event PNone))"
    by (simp add: event_def creation_event_def sealed_def Let_def event_id(1) del: append.simps)
  then have "event_hash_of sha event = event_hash_of sha (?event PNone)" by (simp add: event_hash_of_def)
  with sealing digest(1) have event: "event = ?event (PStr digest)" by simp
  have generation: "validate_audit_generation (first_generation task event_id (PStr created)) = None"
    by (simp add: validate_audit_generation_def first_generation_def AUDIT_GENERATION_FIELDS_def Let_def ids event_id(2) utc
        EVENT_TYPES_def THREAT_MODELS_def int_from_def)
  have head: "event_head_guards event = None"
    using ids(3)
    by (simp add: event_head_guards_def event AUDIT_EVENT_FIELDS_def Let_def ids event_id(2) digest(2) utc EVENT_TYPES_def
        check_state_or_null_def unless_null_def int_from_def)
  have bindings: "event_binding_guards sha event = None"
    by (simp add: event_binding_guards_def event Let_def validate_evidence_binding_list_def)
  have type: "event_type_guards event = None"
    by (simp add: event_type_guards_def task_created_guards_def generation_equal_def event generation same_fields_def)
       (simp add: first_generation_def)
  have roles: "event_roles expected_catalog event = role_of ''TASK_CREATED''"
    by (simp add: event_roles_def event)
  have matrix: "field_matrix_guards expected_catalog event = None"
    unfolding field_matrix_guards_def Let_def roles created_role
    by (simp add: is_present_def get_path_def event) (simp add: first_generation_def)
  have role: "generation_role_guards expected_catalog event = None"
    unfolding generation_role_guards_def Let_def roles created_role by (simp add: num_less_def event)
  have con: "context_guards sha expected_catalog event = None"
    unfolding context_guards_def Let_def roles created_role by (simp add: event)
  show "validate_audit_event sha (Inr expected_catalog) (PDict event) = None"
    by (simp add: validate_audit_event_def Let_def with_catalog_def head bindings type matrix role con digest(1))
       (simp add: event)
  show "validate_task_state (PDict (creation_state task (PStr project) event)) = None"
    by (simp add: validate_task_state_def creation_state_def TASK_STATE_FIELDS_def Let_def event ids event_id(2) digest(2) utc
        TASK_STATES_def unless_null_def int_from_def check_state_or_null_def)
  show "validate_state_event_pair event (creation_state task (PStr project) event) = None"
    by (simp add: validate_state_event_pair_def pair_fields_def creation_state_def event)
qed

subsection \<open>Paths\<close>

text \<open>A path whose parts are plain names is accepted by \<open>safe_state_path\<close>.\<close>

definition plain_part :: "string \<Rightarrow> bool" where
  "plain_part s \<longleftrightarrow> CHR ''/'' \<notin> set s \<and> CHR 0x5C \<notin> set s \<and> \<not> is_dot_part s"

lemma split_parts: "list_all (\<lambda>s. c \<notin> set s) (p # ps) \<Longrightarrow> split_on c (join [c] (p # ps)) = p # ps"
proof (induction ps arbitrary: p)
  case Nil
  then show ?case using split_on_none [of c p] by simp
next
  case (Cons q qs)
  then show ?case using split_on_append [of c p "join [c] (q # qs)"] by simp
qed

lemma plain_path:
  assumes parts: "list_all plain_part (p # ps)" and first: "CHR '':'' \<notin> set (take 2 p)" "2 \<le> length p"
  shows "safe_state_path (PStr (join ''/'' (p # ps))) = None"
proof -
  obtain x y r where p: "p = x # y # r" using first(2) by (cases p; cases "tl p") auto
  obtain rest where path: "join ''/'' (p # ps) = x # y # r @ rest" by (cases ps) (auto simp: p)
  have "split_on (CHR ''/'') (join ''/'' (p # ps)) = p # ps"
    by (rule split_parts) (use parts in \<open>auto simp: plain_part_def list_all_iff\<close>)
  moreover have "CHR 0x5C \<notin> set (join ''/'' (p # ps))"
    using join_chars [of _ "''/''" "p # ps"] parts by (fastforce simp: plain_part_def list_all_iff)
  moreover have "x \<noteq> CHR ''/''" "x \<noteq> CHR '':''" "y \<noteq> CHR '':''" using parts first(1) by (auto simp: p plain_part_def)
  ultimately show ?thesis
    using parts by (auto simp: safe_state_path_def Let_def path has_windows_drive_def has_drive_def starts_with_def plain_part_def
        list_all_iff list_ex_iff)
qed

end
