(* ===== verification/Sorted_Records.thy ===== *)
theory Sorted_Records
  imports Task_Log
begin

text \<open>
  A record read back from the store has its keys in order. What the validators of task states ask
  of a record does not depend on the order.
\<close>

declare canonical_json.simps [simp del] json_sorted_simps(7) [simp del]

lemma json_sorted_dict: "\<exists>e. json_sorted (PDict d) = PDict e"
  by (simp add: json_sorted_simps(7))

lemma json_sorted_shape:
  "(\<exists>xs ys. v = PList xs \<and> json_sorted v = PList ys) \<or> (\<exists>d e. v = PDict d \<and> json_sorted v = PDict e) \<or>
     \<not> is_list v \<and> \<not> is_dict v \<and> json_sorted v = v"
  using json_sorted_dict by (cases v) auto

lemma sorted_kind [simp]:
  "is_str (json_sorted v) = is_str v" "is_dict (json_sorted v) = is_dict v" "is_list (json_sorted v) = is_list v"
  "is_bool (json_sorted v) = is_bool v" "is_int (json_sorted v) = is_int v"
  "(json_sorted v = PNone) = (v = PNone)" "(json_sorted v = PStr s) = (v = PStr s)" "(json_sorted v = PInt i) = (v = PInt i)"
  "(json_sorted v = PBool b) = (v = PBool b)" "int_from n (json_sorted v) = int_from n v"
  using json_sorted_shape [of v] by (auto simp: int_from_def)

lemma sorted_text: "is_str v \<Longrightarrow> json_sorted v = v"
  by (auto simp: is_str_iff)

lemma sorted_checks [simp]:
  "check_version (json_sorted v) path = check_version v path" "check_text (json_sorted v) path = check_text v path"
  "check_safe_id (json_sorted v) path = check_safe_id v path" "check_sha (json_sorted v) path = check_sha v path"
  "check_bool (json_sorted v) path = check_bool v path" "check_positive (json_sorted v) path = check_positive v path"
  "check_non_negative (json_sorted v) path = check_non_negative v path"
  "check_member (json_sorted v) allowed path code = check_member v allowed path code"
  "check_utc (json_sorted v) path = check_utc v path"
proof -
  note defs = check_version_def check_text_def check_safe_id_def check_sha_def check_bool_def check_positive_def
    check_non_negative_def check_member_def check_utc_def Let_def invalid_if_def fail_if_def
  show "check_version (json_sorted v) path = check_version v path" "check_text (json_sorted v) path = check_text v path"
    "check_bool (json_sorted v) path = check_bool v path" "check_positive (json_sorted v) path = check_positive v path"
    "check_non_negative (json_sorted v) path = check_non_negative v path"
    by (simp_all add: defs)
  show "check_safe_id (json_sorted v) path = check_safe_id v path" "check_sha (json_sorted v) path = check_sha v path"
    "check_member (json_sorted v) allowed path code = check_member v allowed path code"
    "check_utc (json_sorted v) path = check_utc v path"
    by (cases "is_str v"; simp add: sorted_text defs; fail)+
qed

lemma sorted_member [simp]: "mem_list (json_sorted v) (map PStr ss) = mem_list v (map PStr ss)"
  by (simp add: mem_list_strs)

lemma sorted_unless_null [simp]:
  "unless_null check_safe_id (json_sorted v) path = unless_null check_safe_id v path"
  "unless_null check_sha (json_sorted v) path = unless_null check_sha v path"
  by (simp_all add: unless_null_def)

text \<open>A record and its sorted form: the same keys, the sorted values.\<close>

lemma sorted_record:
  assumes "plain_record d"
  obtains e where "json_sorted (PDict d) = PDict e" "\<And>f. dget e f = json_sorted (dget d f)" "\<And>f. dhas e f = dhas d f"
    "fst ` set e = fst ` set d"
proof -
  obtain e where e: "json_sorted (PDict d) = PDict e" using json_sorted_dict by blast
  have json: "json_value (PDict d)" using assms by (simp add: plain_record_def)
  have "fst ` set e = fst ` set d" using json_sorted_keys(2) [OF json] by (simp add: e image_image)
  moreover from this have "dhas e f = dhas d f" for f by (simp add: dhas_iff_key)
  ultimately show ?thesis using that [OF e] dget_sorted [OF assms] by (simp add: e)
qed

lemma exact_mapping_keys:
  "fst ` set e = fst ` set d \<Longrightarrow> (\<And>f. dhas e f = dhas d f) \<Longrightarrow>
    exact_mapping e allowed label pre = None \<longleftrightarrow> exact_mapping d allowed label pre = None"
  by (simp add: dhas_iff_key)

lemma task_state_sorted:
  assumes "plain_record st" "validate_task_state (PDict st) = None"
  shows "validate_task_state (json_sorted (PDict st)) = None"
proof -
  obtain e where e: "json_sorted (PDict st) = PDict e" "\<And>f. dget e f = json_sorted (dget st f)" "\<And>f. dhas e f = dhas st f"
    "fst ` set e = fst ` set st"
    using sorted_record [OF assms(1)] by blast
  show ?thesis
    using assms(2) exact_mapping_keys [OF e(4,3)]
    by (simp add: e validate_task_state_def Let_def check_state_or_null_def)
qed

lemma state_read_sorted:
  assumes "task_logged sha cat store task es st"
  shows "read_task_state store (PStr task) = Inr (json_sorted (PDict st))"
proof -
  have st: "stored_text st (record_text st)" "validate_task_state (PDict st) = None" "bound_to st (last es)"
    "map_of (state_rows store) task = Some (record_text st)" "event_of_task sha cat task (last es)"
    using assms by (auto simp: task_logged_def log_events_def list_all_iff)
  then have plain: "plain_record st" by (simp add: stored_text_def)
  have id: "dget st ''task_id'' = PStr task" using st(3,5) by (simp add: bound_to_def event_of_task_def)
  then have "is_safe_id task" using st(2) by (simp add: validate_task_state_def Let_def)
  moreover have "vget (json_sorted (PDict st)) ''task_id'' = PStr task" by (simp add: vget_sorted [OF plain] id)
  ultimately show ?thesis
    using st(4) task_state_sorted [OF plain st(2)]
    by (auto simp: read_task_state_def guarded_Inr identified_state_def loaded_state_def stored_text_loads [OF st(1)])
qed

end
