(* ===== verification/Engine_Intake_Props.thy ===== *)
theory Engine_Intake_Props
  imports Engine_Accept Task_Props Sorted_Records
begin

text \<open>
  When an intake succeeds: on an engine that has nothing of the task, the intake of a record the
  code's own checks accept creates the task, and its repetition changes nothing.
\<close>

declare canonical_json.simps [simp del] json_sorted_simps(7) [simp del]

subsection \<open>The record of an initialization\<close>

lemma request_fields:
  "dget (initialization_request sha task d actor) ''initialization_id'' = PStr (''init-'' @ task_token sha task)"
  "dget (initialization_request sha task d actor) ''task_id'' = PStr task"
  "dget (initialization_request sha task d actor) ''project_id'' = dget d ''project_id''"
  "dget (initialization_request sha task d actor) ''actor'' = actor"
  "dget (initialization_request sha task d actor) ''idempotency_key'' = PStr (''intake-'' @ task_token sha task)"
  "dget (initialization_request sha task d actor) ''created_at_utc'' = dget d ''created_at_utc''"
  by (simp_all add: initialization_request_def Let_def)

text \<open>The fields of an accepted request.\<close>

lemma accepted_request:
  assumes "validate_task_initialization_request sha (PDict (initialization_request sha task d actor)) = None"
  obtains project who created where "dget d ''project_id'' = PStr project" "actor = PStr who" "dget d ''created_at_utc'' = PStr created"
    "is_safe_id task" "is_safe_id project" "who \<in> set ACTORS" "check_utc (PStr created) [] = None"
    "is_safe_id (''init-'' @ task_token sha task)"
proof -
  let ?r = "initialization_request sha task d actor"
  have g: "check_safe_id (dget ?r ''initialization_id'') ''initialization_id'' = None" "check_safe_id (dget ?r ''task_id'') ''task_id'' = None"
    "check_safe_id (dget ?r ''project_id'') ''project_id'' = None" "check_member (dget ?r ''actor'') ACTORS ''actor'' ''WORKFLOW_INVALID_INPUT'' = None"
    "check_utc (dget ?r ''created_at_utc'') ''created_at_utc'' = None"
    using assms by (simp_all add: validate_task_initialization_request_def Let_def)
  obtain project who created where s: "dget d ''project_id'' = PStr project" "actor = PStr who" "dget d ''created_at_utc'' = PStr created"
    using g(3-5) by (auto simp: request_fields is_str_iff check_utc_def Let_def)
  have "check_utc (PStr created) [] = None" using g(5) by (simp add: request_fields s check_utc_def Let_def)
  then show ?thesis using that [OF s] g(1-4) by (simp add: request_fields s)
qed

lemma initialization_result_accepted:
  assumes "is_safe_id task" "is_safe_id project" "check_utc (PStr created) [] = None" "is_safe_id (''init-'' @ task_token sha task)"
    "dget d ''project_id'' = PStr project" "dget d ''created_at_utc'' = PStr created"
  shows "validate_task_initialization_result (PDict (initialization_result (initialization_request sha task d actor)
    (creation_event sha task (PStr project) actor (PStr created)))) = None"
proof -
  have utc: "check_utc (PStr created) path = None" for path
    using assms(3) by (simp add: check_utc_def Let_def)
  have event: "dget (creation_event sha task (PStr project) actor (PStr created)) ''event_id'' = PStr (''evt-'' @ task_token sha task @ ''-0001'')"
    "dget (creation_event sha task (PStr project) actor (PStr created)) ''created_at_utc'' = PStr created"
    by (simp_all add: creation_event_def sealed_def Let_def)
  show ?thesis
    using assms
    by (simp add: validate_task_initialization_result_def Let_def initialization_result_def initialization_request_def
        INITIALIZATION_RESULT_FIELDS_def result_checks_def validate_result_envelope_def accepted_envelope_def
        creation_event_fields event utc eq_int_def int_from_def TASK_STATES_def)
qed

lemma lower_kind: "lower ''INITIALIZATION'' = ''initialization''"
  by code_simp

definition initialization_record :: "(string \<Rightarrow> string) \<Rightarrow> string \<Rightarrow> pydict \<Rightarrow> pyval \<Rightarrow> pydict" where
  "initialization_record sha task d actor =
     (let init = initialization_request sha task d actor;
          event = creation_event sha task (dget d ''project_id'') actor (dget d ''created_at_utc'') in
      initialization_idempotency_record sha init (initialization_result init event))"

lemma plain_ids:
  "is_safe_id s \<Longrightarrow> plain_part s"
  using safe_id_no_sep [of s] by (simp add: plain_part_def)

lemma initialization_record_accepted:
  assumes hex: "hex_digest sha"
    and ok: "validate_task_initialization_request sha (PDict (initialization_request sha task d actor)) = None"
  shows "require_idempotency_record sha (PDict (initialization_record sha task d actor)) (PDict (initialization_request sha task d actor)) = None"
proof -
  obtain project who created where s: "dget d ''project_id'' = PStr project" "actor = PStr who" "dget d ''created_at_utc'' = PStr created"
    and id: "is_safe_id task" "is_safe_id project" "who \<in> set ACTORS" "check_utc (PStr created) [] = None"
    "is_safe_id (''init-'' @ task_token sha task)"
    by (rule accepted_request [OF ok])
  let ?init = "initialization_request sha task d actor" and ?rec = "initialization_record sha task d actor"
  let ?result = "initialization_result ?init (creation_event sha task (PStr project) actor (PStr created))"
  note init = request_fields [of sha task d] s(1,3)
  have entry: "?rec = [kv ''schema_version'' (PInt 1), kv ''operation_kind'' (PStr ''INITIALIZATION''),
      kv ''operation_id'' (PStr (''init-'' @ task_token sha task)), kv ''task_id'' (PStr task),
      kv ''idempotency_key'' (PStr (''intake-'' @ task_token sha task)),
      kv ''request_fingerprint'' (operation_request_fingerprint sha ?init), kv ''result_fingerprint'' (canonical_sha sha (PDict ?result)),
      kv ''canonical_result'' (PDict ?result),
      kv ''transaction_path'' (PStr (''state/transactions/'' @ task @ ''/initialization-'' @ ''init-'' @ task_token sha task)),
      kv ''created_at_utc'' (PStr created)]"
    by (simp add: initialization_record_def initialization_idempotency_record_def Let_def init del: append.simps)
  have "join ''/'' [''state'', ''transactions'', task, ''initialization-'' @ ''init-'' @ task_token sha task] =
      ''state/transactions/'' @ task @ ''/initialization-'' @ ''init-'' @ task_token sha task" by simp
  moreover have "plain_part (''initialization-'' @ ''init-'' @ task_token sha task)"
    using plain_ids [OF id(5)] by (auto simp: plain_part_def is_dot_part_def)
  ultimately have path: "safe_state_path (PStr (''state/transactions/'' @ task @ ''/initialization-'' @ ''init-'' @ task_token sha task)) = None"
    using plain_path [of "''state''" "[''transactions'', task, ''initialization-'' @ ''init-'' @ task_token sha task]"]
      plain_ids [OF id(1)] by (simp add: plain_part_def is_dot_part_def)
  have result: "dget ?result ''initialization_id'' = PStr (''init-'' @ task_token sha task)" "dget ?result ''task_id'' = PStr task"
    "validate_task_initialization_result (PDict ?result) = None"
    using initialization_result_accepted [OF id(1,2,4,5) s(1,3), of actor] by (simp_all add: initialization_result_def init)
  have prints: "\<exists>x. operation_request_fingerprint sha ?init = PStr x \<and> is_sha256 x" "\<exists>x. canonical_sha sha (PDict ?result) = PStr x \<and> is_sha256 x"
    using hex by (simp_all add: operation_request_fingerprint_def canonical_sha_def hex_digest_def)
  have utc: "store_utc (PStr created) path = None" for path
    using id(4) by (simp add: store_utc_def check_utc_def Let_def)
  have "idempotency_guards sha ?rec (PDict ?init) = None"
    using prints path id(1,5) ok result utc
    by (auto simp: idempotency_guards_def Let_def entry init same_fields_def IDEMPOTENCY_RECORD_FIELDS_def OPERATION_KINDS_def
        validate_transaction_path_def operation_path_def validate_result_for_operation_def operation_id_field_def
        validate_canonical_request_for_operation_def lower_kind)
  then show ?thesis by (simp add: require_idempotency_record_def)
qed

subsection \<open>An intake that succeeds\<close>

text \<open>Nothing of the task is there: no row, no proof, no exported proof.\<close>

definition nothing_of :: "(string \<Rightarrow> string) \<Rightarrow> engine_state \<Rightarrow> string \<Rightarrow> bool" where
  "nothing_of sha st task \<longleftrightarrow> task_absent (tasks st) task \<and>
     map_of (proof_rows (proofs st)) (task, ''INITIALIZATION'', sha (''intake-'' @ task_token sha task)) = None \<and>
     proof_files (proofs st) (''state/transactions/'' @ task @ ''/initialization-init-'' @ task_token sha task @ ''/canonical_request.json'') = None \<and>
     proof_files (proofs st) (''idempotency/'' @ task @ ''/INITIALIZATION/'' @ sha (''intake-'' @ task_token sha task) @ ''.json'') = None"

text \<open>Every text the intake stores fits a row.\<close>

definition intake_fits :: "(string \<Rightarrow> string) \<Rightarrow> pydict \<Rightarrow> pyval \<Rightarrow> bool" where
  "intake_fits sha d actor =
     (let task = str_of (dget d ''task_id''); init = initialization_request sha task d actor;
          event = creation_event sha task (dget d ''project_id'') actor (dget d ''created_at_utc'') in
      list_all (\<lambda>r. utf8_size (record_text r) \<le> MAX_SQLITE_JSON_BYTES \<and> json_nesting_depth (record_text r) \<le> MAX_SQLITE_JSON_DEPTH)
        [init, initialization_record sha task d actor, idempotency_identity (initialization_record sha task d actor), event,
         creation_state task (dget d ''project_id'') event])"

lemma intake_paths:
  assumes hex: "hex_digest sha" and id: "is_safe_id task" "is_safe_id (''init-'' @ task_token sha task)"
  shows "safe_state_path (PStr (''state/transactions/'' @ task @ ''/initialization-init-'' @ task_token sha task @ ''/canonical_request.json'')) = None"
    "safe_state_path (PStr (''idempotency/'' @ task @ ''/INITIALIZATION/'' @ sha key @ ''.json'')) = None"
    "safe_state_path (PStr (intake_path task)) = None"
proof -
  have "\<not> is_hex_c (CHR ''/'')" "\<not> is_hex_c (CHR 0x5C)" by code_simp+
  then have hexes: "plain_part (sha key @ ''.json'')"
    using hex_digestD [OF hex, of key] by (auto simp: plain_part_def is_dot_part_def list_all_iff)
  have token: "plain_part (''initialization-init-'' @ task_token sha task)"
    using plain_ids [OF id(2)] by (auto simp: plain_part_def is_dot_part_def)
  show "safe_state_path (PStr (''state/transactions/'' @ task @ ''/initialization-init-'' @ task_token sha task @ ''/canonical_request.json'')) = None"
    using plain_path [of "''state''" "[''transactions'', task, ''initialization-init-'' @ task_token sha task, ''canonical_request.json'']"]
      plain_ids [OF id(1)] token by (simp add: plain_part_def is_dot_part_def)
  show "safe_state_path (PStr (''idempotency/'' @ task @ ''/INITIALIZATION/'' @ sha key @ ''.json'')) = None"
    using plain_path [of "''idempotency''" "[task, ''INITIALIZATION'', sha key @ ''.json'']"]
      plain_ids [OF id(1)] hexes by (simp add: plain_part_def is_dot_part_def)
  show "safe_state_path (PStr (intake_path task)) = None"
    using plain_path [of "''tasks''" "[task, ''intake.json'']"] plain_ids [OF id(1)]
    by (simp add: plain_part_def is_dot_part_def intake_path_def)
qed

lemma intake_proof_written:
  assumes hex: "hex_digest sha"
    and ok: "validate_task_initialization_request sha (PDict (initialization_request sha task d actor)) = None"
    and free: "nothing_of sha st task" and fits: "intake_fits sha d actor" and task: "dget d ''task_id'' = PStr task"
  shows "\<exists>ps row. write_idempotency_record_once sha (PDict (initialization_record sha task d actor))
      (PDict (initialization_request sha task d actor)) (proofs st) = (Inr (PDict (initialization_record sha task d actor)), ps) \<and>
    map_of (proof_rows ps) (task, ''INITIALIZATION'', sha (''intake-'' @ task_token sha task)) = Some row \<and>
    proof_texts (PDict (initialization_record sha task d actor)) (PDict (initialization_request sha task d actor)) =
      Inr (row, ''state/transactions/'' @ task @ ''/initialization-init-'' @ task_token sha task @ ''/canonical_request.json'')"
proof -
  let ?init = "initialization_request sha task d actor" and ?rec = "initialization_record sha task d actor"
  let ?key = "''intake-'' @ task_token sha task"
  let ?proof_path = "''state/transactions/'' @ task @ ''/initialization-init-'' @ task_token sha task @ ''/canonical_request.json''"
  let ?path = "''idempotency/'' @ task @ ''/INITIALIZATION/'' @ sha ?key @ ''.json''"
  obtain id: "is_safe_id task" "is_safe_id (''init-'' @ task_token sha task)" by (rule accepted_request [OF ok])
  note paths = intake_paths [OF hex id]
  have fields: "dget ?rec ''task_id'' = PStr task" "dget ?rec ''operation_kind'' = PStr ''INITIALIZATION''"
    "dget ?rec ''idempotency_key'' = PStr ?key"
    "dget ?rec ''transaction_path'' = PStr (''state/transactions/'' @ task @ ''/initialization-init-'' @ task_token sha task)"
    by (simp_all add: initialization_record_def initialization_idempotency_record_def Let_def request_fields)
  obtain row where row: "proof_texts (PDict ?rec) (PDict ?init) = Inr (row, ?proof_path)"
    using fits paths(1) task by (simp add: proof_texts_def Let_def rbind_Inr guarded_Inr sqlite_json_text_Inr fields intake_fits_def)
  have none: "find_idempotency_record sha (proofs st) task ''INITIALIZATION'' ?key = Inr None"
    using free by (simp add: find_idempotency_record_def nothing_of_def)
  have path: "operation_idempotency_path sha (PStr task) (PStr ''INITIALIZATION'') (PStr ?key) = Inr ?path"
    using id(1) paths(2) by (simp add: operation_idempotency_path_def Let_def guarded_Inr OPERATION_KINDS_def)
  have differ: "?path \<noteq> ?proof_path" by simp
  obtain ps where ps: "insert_proof (task, ''INITIALIZATION'', sha ?key) row ?proof_path ?path (proofs st) = (None, ps)"
    using free differ by (simp add: insert_proof_def Let_def reject_json_export_conflict_def write_json_export_once_or_same_def nothing_of_def)
  have "map_of (proof_rows ps) (task, ''INITIALIZATION'', sha ?key) = Some row"
    using insert_proof_cases [OF ps] free by (auto simp: nothing_of_def map_add_def)
  moreover have "write_idempotency_record_once sha (PDict ?rec) (PDict ?init) (proofs st) = (Inr (PDict ?rec), ps)"
    using initialization_record_accepted [OF hex ok] none path row ps
    by (simp add: write_idempotency_record_once_def Let_def fields del: append.simps)
  ultimately show ?thesis using row by blast
qed

lemma intake_succeeds:
  assumes hex: "hex_digest sha" and guards: "intake_guards sha eng (PDict d) actor = None" and plain: "plain_record d"
    and task: "dget d ''task_id'' = PStr task" and free: "nothing_of sha st task" and fits: "intake_fits sha d actor"
  defines "event \<equiv> creation_event sha task (dget d ''project_id'') actor (dget d ''created_at_utc'')"
  defines "state \<equiv> creation_state task (dget d ''project_id'') event"
  shows "\<exists>st'. engine_intake sha (Inr expected_catalog) eng (PDict d) actor st = (Inr (json_sorted (PDict state)), st') \<and>
    task_logged sha (Inr expected_catalog) (tasks st') task [event] state \<and>
    map_of (proof_rows (proofs st')) (task, ''INITIALIZATION'', sha (''intake-'' @ task_token sha task)) \<noteq> None"
proof -
  let ?init = "initialization_request sha task d actor" and ?cat = "Inr expected_catalog"
  have ok: "validate_task_initialization_request sha (PDict ?init) = None" using guards task by (simp add: intake_guards_def)
  obtain project who created where s: "dget d ''project_id'' = PStr project" "actor = PStr who" "dget d ''created_at_utc'' = PStr created"
    and id: "is_safe_id task" "is_safe_id project" "who \<in> set ACTORS" "check_utc (PStr created) [] = None"
    "is_safe_id (''init-'' @ task_token sha task)"
    by (rule accepted_request [OF ok])
  have valid: "validate_audit_event sha ?cat (PDict event) = None" "validate_task_state (PDict state) = None"
    "validate_state_event_pair event state = None"
    unfolding event_def state_def s by (rule creation_accepted [OF hex id(1-4)])+
  have records: "plain_record event" "plain_record state" unfolding event_def state_def s by (rule creation_plain; simp)+
  have stored: "stored_text event (record_text event)" "stored_text state (record_text state)"
    using records fits task by (simp_all add: stored_text_def intake_fits_def Let_def event_def state_def)
  have type: "dget event ''event_type'' = PStr ''TASK_CREATED''" "dget event ''task_id'' = PStr task"
    by (simp_all add: event_def creation_event_fields)
  have absent: "task_absent (tasks st) task" using free by (simp add: nothing_of_def)
  note commit = commit_first_succeeds [OF absent type(2) valid stored type(1)] and log = first_commit_logged [OF absent type(2) valid stored type(1)]
  obtain ps row where written: "write_idempotency_record_once sha (PDict (initialization_record sha task d actor)) (PDict ?init) (proofs st) =
      (Inr (PDict (initialization_record sha task d actor)), ps)"
    "map_of (proof_rows ps) (task, ''INITIALIZATION'', sha (''intake-'' @ task_token sha task)) = Some row"
    using intake_proof_written [OF hex ok free fits task] by blast
  let ?store = "committed_store task event state (tasks st)"
  have read: "read_task_state ?store (PStr task) = Inr (json_sorted (PDict state))" by (rule state_read_sorted [OF log])
  have first: "find_idempotency_record sha (proofs st) task ''INITIALIZATION'' (''intake-'' @ task_token sha task) = Inr None"
    "map_of (state_rows (tasks st)) task = None"
    using free by (simp_all add: find_idempotency_record_def nothing_of_def task_absent_def)
  let ?st' = "st\<lparr>proofs := ps, tasks := write_state_atomic (intake_path task) (PDict d) ?store\<rparr>"
  have "finish_intake sha ?cat task (PDict d) event state (st\<lparr>proofs := ps\<rparr>) = (Inr (json_sorted (PDict state)), ?st')"
    using intake_paths(3) [OF hex id(1,5)] by (simp add: finish_intake_def commit read intake_file_read Let_def)
  then have "engine_intake sha ?cat eng (PDict d) actor st = (Inr (json_sorted (PDict state)), ?st')"
    using guards written(1) first
    by (simp add: engine_fails_def engine_intake_def Let_def task request_fields from_store_def event_def state_def initialization_record_def
        del: append.simps)
  then show ?thesis using log written(2) by (intro exI [of _ ?st']) (simp add: intake_file_logged)
qed

end
