(* ===== verification/Evidence_Files.thy ===== *)
theory Evidence_Files
  imports Engine_Base
begin

text \<open>
  How the engine reads evidence. The file system is an argument (\<open>disk\<close>): what it answers for a path
  (a symbolic link, where the path resolves to, a regular file) and the bytes of a resolved file. Bytes
  are given as the text they decode to, or as undecodable; the digest of a file is the digest of its
  bytes. A path is the text \<open>str(path)\<close>; \<open>sha\<close> is SHA-256. The files do not change during an operation.
\<close>

datatype payload = Decoded string | Undecodable string

record disk =
  is_link :: "string \<Rightarrow> bool"
  resolved :: "string \<Rightarrow> string option"
  is_regular :: "string \<Rightarrow> bool"
  payload_at :: "string \<Rightarrow> payload option"

type_synonym snapshot = "string \<times> int \<times> string"

fun payload_size :: "payload \<Rightarrow> int" where
  "payload_size (Decoded text) = int (utf8_size text)"
| "payload_size (Undecodable bytes) = int (length bytes)"

fun payload_digest :: "(string \<Rightarrow> string) \<Rightarrow> payload \<Rightarrow> string" where
  "payload_digest sha (Decoded text) = sha text"
| "payload_digest sha (Undecodable bytes) = sha bytes"

definition snapshot_of :: "(string \<Rightarrow> string) \<Rightarrow> string \<Rightarrow> payload \<Rightarrow> snapshot" where
  "snapshot_of sha logical p = (logical, payload_size p, payload_digest sha p)"

subsection \<open>Paths\<close>

text \<open>\<open>path.relative_to(base).as_posix()\<close> of resolved paths, when the path is below the root.\<close>

definition relative_to :: "string \<Rightarrow> string \<Rightarrow> string option" where
  "relative_to base path =
     (let stem = (if base = ''/'' then base else base @ ''/'') in
      if path = base then Some ''.''
      else if starts_with stem path then Some (drop (length stem) path) else None)"

text \<open>\<open>base / Path(relative)\<close>: an absolute path replaces the base.\<close>

definition joined :: "string \<Rightarrow> string \<Rightarrow> string" where
  "joined base relative = (if starts_with ''/'' relative then relative else base @ ''/'' @ relative)"

definition parent_dir :: "string \<Rightarrow> string" where
  "parent_dir path =
     (let above = rev (dropWhile (\<lambda>c. c \<noteq> CHR ''/'') (rev path)) in
      if above = [] then ''.'' else if above = ''/'' then ''/'' else butlast above)"

definition resolve_root :: "disk \<Rightarrow> string \<Rightarrow> string res" where
  "resolve_root disk base = (case resolved disk base of None \<Rightarrow> Inl (PyError ''FileNotFoundError'') | Some p \<Rightarrow> Inr p)"

text \<open>The logical path of a piece of evidence and the file it is.\<close>

definition evidence_location :: "disk \<Rightarrow> engine \<Rightarrow> string \<Rightarrow> (string \<times> string) res" where
  "evidence_location disk eng path =
     guarded (engine_fails (''evidence path must not be a symlink: '' @ path) (is_link disk path))
      (case resolved disk path of
         None \<Rightarrow> Inl (engine_error (''evidence path is missing: '' @ path))
       | Some file \<Rightarrow> guarded (engine_fails (''evidence path is not a regular file: '' @ path) (\<not> is_regular disk file))
          (rbind (resolve_root disk (project_root eng)) (\<lambda>project. case relative_to project file of
             Some relative \<Rightarrow> Inr (''project/'' @ relative, file)
           | None \<Rightarrow> rbind (resolve_root disk (state_root eng)) (\<lambda>state. case relative_to state file of
                 Some relative \<Rightarrow> Inr (''state/'' @ relative, file)
               | None \<Rightarrow> Inl (engine_error ''evidence must be contained by the managed project or ACGPS state root'')))))"

subsection \<open>Strict JSON\<close>

text \<open>
  \<open>json.loads\<close> with \<open>reject_duplicate_pairs\<close>: the parser of \<open>Json_Text\<close>, where the pairs of an object are
  checked when it closes. A malformed text and a repeated key are different errors.
\<close>

datatype json_failure = Malformed | Repeated_key string

fun reject_duplicate_pairs :: "string list \<Rightarrow> (string \<times> pyval) list \<Rightarrow> json_failure + pydict" where
  "reject_duplicate_pairs folded [] = Inr []"
| "reject_duplicate_pairs folded ((key, v) # pairs) =
     (if casefold key \<in> set folded then Inl (Repeated_key key)
      else rbind (reject_duplicate_pairs (casefold key # folded) pairs) (\<lambda>d. Inr ((PStr key, v) # d)))"

definition parsed :: "'a option \<Rightarrow> json_failure + 'a" where
  "parsed x = (case x of None \<Rightarrow> Inl Malformed | Some v \<Rightarrow> Inr v)"

fun strict_val :: "nat \<Rightarrow> string \<Rightarrow> json_failure + (pyval \<times> string)"
  and strict_items :: "nat \<Rightarrow> string \<Rightarrow> json_failure + (pyval list \<times> string)"
  and strict_members :: "nat \<Rightarrow> (string \<times> pyval) list \<Rightarrow> string \<Rightarrow> json_failure + (pydict \<times> string)" where
  "strict_val 0 s = Inl Malformed"
| "strict_val (Suc n) s = (case s of
     [] \<Rightarrow> Inl Malformed
   | c # t \<Rightarrow>
       (if c = CHR 0x22 then rbind (parsed (json_chars t)) (\<lambda>(x, r). Inr (PStr x, r))
        else if c = CHR ''['' then
          (if starts_with '']'' (skip_space t) then Inr (PList [], tl (skip_space t))
           else rbind (strict_items n (skip_space t)) (\<lambda>(xs, r). Inr (PList xs, r)))
        else if c = CHR ''{'' then
          (if starts_with ''}'' (skip_space t) then Inr (PDict [], tl (skip_space t))
           else rbind (strict_members n [] (skip_space t)) (\<lambda>(d, r). Inr (PDict d, r)))
        else parsed (json_literal s)))"
| "strict_items 0 s = Inl Malformed"
| "strict_items (Suc n) s = rbind (strict_val n s) (\<lambda>(v, r).
     if starts_with '']'' (skip_space r) then Inr ([v], tl (skip_space r))
     else if starts_with '','' (skip_space r) then
       rbind (strict_items n (skip_space (tl (skip_space r)))) (\<lambda>(vs, u). Inr (v # vs, u))
     else Inl Malformed)"
| "strict_members 0 pairs s = Inl Malformed"
| "strict_members (Suc n) pairs s =
     (if \<not> starts_with [CHR 0x22] s then Inl Malformed
      else rbind (parsed (json_chars (tl s))) (\<lambda>(k, r).
        if \<not> starts_with '':'' (skip_space r) then Inl Malformed
        else rbind (strict_val n (skip_space (tl (skip_space r)))) (\<lambda>(v, u).
          if starts_with ''}'' (skip_space u) then
            rbind (reject_duplicate_pairs [] (pairs @ [(k, v)])) (\<lambda>d. Inr (d, tl (skip_space u)))
          else if starts_with '','' (skip_space u) then
            strict_members n (pairs @ [(k, v)]) (skip_space (tl (skip_space u)))
          else Inl Malformed)))"

definition strict_loads :: "string \<Rightarrow> json_failure + pyval" where
  "strict_loads text = rbind (strict_val (2 * length text) (skip_space text)) (\<lambda>(v, r).
     if skip_space r = [] then Inr v else Inl Malformed)"

definition parse_strict_evidence_json :: "payload \<Rightarrow> string \<Rightarrow> pyval res" where
  "parse_strict_evidence_json p path = (case p of
     Undecodable bytes \<Rightarrow> Inl (engine_error (''evidence is unreadable: '' @ path))
   | Decoded text \<Rightarrow> (case strict_loads text of
         Inl Malformed \<Rightarrow> Inl (engine_error (''evidence is unreadable: '' @ path))
       | Inl (Repeated_key key) \<Rightarrow>
           Inl (engine_error (''evidence has a duplicate or case-fold-colliding JSON key: '' @ key))
       | Inr v \<Rightarrow> guarded (engine_fails (''evidence must be a mapping: '' @ path) (\<not> is_dict v)) (Inr v)))"

definition parse_canonical_evidence_json :: "payload \<Rightarrow> string \<Rightarrow> pyval res" where
  "parse_canonical_evidence_json p path = rbind (parse_strict_evidence_json p path) (\<lambda>v.
     guarded (engine_fails (''evidence must use canonical JSON bytes with one terminal LF: '' @ path)
       (p \<noteq> Decoded (canonical_json v @ [CHR 0x0A]))) (Inr v))"

subsection \<open>Reading evidence\<close>

definition read_payload :: "disk \<Rightarrow> string \<Rightarrow> string \<Rightarrow> payload res" where
  "read_payload disk file path = (case payload_at disk file of
     None \<Rightarrow> Inl (engine_error (''evidence is unreadable: '' @ path)) | Some p \<Rightarrow> Inr p)"

definition parse_evidence_json :: "payload \<Rightarrow> string \<Rightarrow> pyval res" where
  "parse_evidence_json p path = (case p of
     Undecodable bytes \<Rightarrow> Inl (engine_error (''evidence is unreadable: '' @ path))
   | Decoded text \<Rightarrow> (case json_loads text of
         None \<Rightarrow> Inl (engine_error (''evidence is unreadable: '' @ path)) | Some v \<Rightarrow> Inr v))"

definition read_canonical_evidence_json ::
    "(string \<Rightarrow> string) \<Rightarrow> disk \<Rightarrow> engine \<Rightarrow> string \<Rightarrow> (pyval \<times> snapshot) res" where
  "read_canonical_evidence_json sha disk eng path =
     rbind (evidence_location disk eng path) (\<lambda>(logical, file). rbind (read_payload disk file path) (\<lambda>p.
       rbind (parse_canonical_evidence_json p path) (\<lambda>v. Inr (v, snapshot_of sha logical p))))"

definition read_strict_evidence_json_snapshot ::
    "(string \<Rightarrow> string) \<Rightarrow> disk \<Rightarrow> engine \<Rightarrow> string \<Rightarrow> (pyval \<times> snapshot) res" where
  "read_strict_evidence_json_snapshot sha disk eng path =
     rbind (evidence_location disk eng path) (\<lambda>(logical, file). rbind (read_payload disk file path) (\<lambda>p.
       rbind (parse_strict_evidence_json p path) (\<lambda>v. Inr (v, snapshot_of sha logical p))))"

definition read_evidence_json_snapshot ::
    "(string \<Rightarrow> string) \<Rightarrow> disk \<Rightarrow> engine \<Rightarrow> string \<Rightarrow> (pyval \<times> snapshot) res" where
  "read_evidence_json_snapshot sha disk eng path =
     rbind (evidence_location disk eng path) (\<lambda>(logical, file). rbind (read_payload disk file path) (\<lambda>p.
       rbind (parse_evidence_json p path) (\<lambda>v.
         guarded (engine_fails (''evidence must be a mapping: '' @ path) (\<not> is_dict v)) (Inr (v, snapshot_of sha logical p)))))"

text \<open>Where the binding of an event says its evidence is, and the check that it is still the same.\<close>

definition bound_location :: "disk \<Rightarrow> engine \<Rightarrow> pyval \<Rightarrow> (string \<times> string) res" where
  "bound_location disk eng binding =
     (let path = vget binding ''path''; text = str_of path; pre = takeWhile (\<lambda>c. c \<noteq> CHR ''/'') text;
          relative = drop (length pre + 1) text in
      if \<not> py_eq (vget binding ''source'') (PStr ''path'') \<or> \<not> is_str path then
        Inl (engine_error ''bound evidence binding must reference a path'')
      else if pre = text \<or> pre \<notin> {''project'', ''state''} \<or> relative = [] then
        Inl (engine_error ''bound evidence binding path is invalid'')
      else evidence_location disk eng (joined (if pre = ''project'' then project_root eng else state_root eng) relative))"

definition bound_unchanged :: "(string \<Rightarrow> string) \<Rightarrow> pyval \<Rightarrow> string \<Rightarrow> payload \<Rightarrow> guard" where
  "bound_unchanged sha binding logical p = engine_fails ''bound evidence binding content changed''
     (vget binding ''path'' \<noteq> PStr logical \<or> \<not> py_eq (vget binding ''size_bytes'') (PInt (payload_size p)) \<or>
      \<not> py_eq (vget binding ''content_sha256'') (PStr (payload_digest sha p)))"

definition read_bound_canonical_evidence_json ::
    "(string \<Rightarrow> string) \<Rightarrow> disk \<Rightarrow> engine \<Rightarrow> pyval \<Rightarrow> (pyval \<times> snapshot) res" where
  "read_bound_canonical_evidence_json sha disk eng binding =
     rbind (bound_location disk eng binding) (\<lambda>(logical, file). rbind (read_payload disk file file) (\<lambda>p.
       guarded (bound_unchanged sha binding logical p)
        (rbind (parse_canonical_evidence_json p file) (\<lambda>v. Inr (v, snapshot_of sha logical p)))))"

definition read_bound_evidence_json_snapshot ::
    "(string \<Rightarrow> string) \<Rightarrow> disk \<Rightarrow> engine \<Rightarrow> pyval \<Rightarrow> (pyval \<times> snapshot) res" where
  "read_bound_evidence_json_snapshot sha disk eng binding =
     rbind (bound_location disk eng binding) (\<lambda>(logical, file). rbind (read_payload disk file file) (\<lambda>p.
       rbind (parse_evidence_json p file) (\<lambda>v.
         guarded (first_err
           [bound_unchanged sha binding logical p, engine_fails (''evidence must be a mapping: '' @ file) (\<not> is_dict v)])
          (Inr (v, snapshot_of sha logical p)))))"

text \<open>The binding of a file as evidence of a transition.\<close>

definition path_evidence_binding ::
    "(string \<Rightarrow> string) \<Rightarrow> disk \<Rightarrow> engine \<Rightarrow> string \<Rightarrow> string \<Rightarrow> nat \<Rightarrow> nat \<Rightarrow> string \<Rightarrow> pyval \<Rightarrow> pydict res" where
  "path_evidence_binding sha disk eng path token sequence i target created_at =
     rbind (evidence_location disk eng path) (\<lambda>(logical, file). case payload_at disk file of
         None \<Rightarrow> Inl (PyError ''OSError'')
       | Some p \<Rightarrow> Inr
           [kv ''schema_version'' (PInt 1), kv ''binding_id'' (PStr (numbered_name ''ev'' token sequence @ ''-'' @ padded 2 i)),
            kv ''evidence_kind'' (PStr (''transition_'' @ lower target)), kv ''source'' (PStr ''path''), kv ''path'' (PStr logical),
            kv ''embedded_record'' PNone, kv ''embedded_sha256'' PNone, kv ''content_sha256'' (PStr (payload_digest sha p)),
            kv ''size_bytes'' (PInt (payload_size p)), kv ''created_at_utc'' created_at])"

end
