(* ===== verification/Engine_Lineage.thy ===== *)
theory Engine_Lineage
  imports Evidence_Files Sorted_Records
begin

text \<open>
  What the engine reads back: the state of a task, its audit events, and the trusted lineage of the
  state (\<open>_trusted_audit_lineage\<close>): generation by generation from the event the state is bound to, each
  prefix recomputed by number and hash. From the lineage follow the state a paused task came from and
  the events of the current fix cycle.
\<close>

declare canonical_json.simps [simp del] json_sorted_simps(7) [simp del]

definition engine_status :: "engine_state \<Rightarrow> pyval \<Rightarrow> pyval res" where
  "engine_status st task = from_store (read_task_state (tasks st) task)"

definition engine_audit :: "(string \<Rightarrow> string) \<Rightarrow> exn + pyval \<Rightarrow> engine_state \<Rightarrow> pyval \<Rightarrow> pyval list res" where
  "engine_audit sha cat st task = from_store (rbind (read_task_state (tasks st) task) (\<lambda>state.
     read_audit_events sha cat (tasks st) task (vget state ''audit_generation'')))"

subsection \<open>The trusted lineage\<close>

text \<open>The events of a generation up to the trusted head, and the events behind it.\<close>

fun events_to_head ::
    "(string \<Rightarrow> string) \<Rightarrow> pydict \<Rightarrow> int \<Rightarrow> pyval \<Rightarrow> pyval \<Rightarrow> nat \<Rightarrow> pyval list \<Rightarrow> (pyval list \<times> pyval list) res" where
  "events_to_head sha current generation head_hash previous n [] = Inl (engine_error ''trusted audit head is missing'')"
| "events_to_head sha current generation head_hash previous n (event # rows) =
     guarded (engine_fails ''audit prefix identity or hash chain mismatch''
       (\<not> py_eq (vget event ''project_id'') (dget current ''project_id'') \<or> \<not> py_eq (vget event ''task_id'') (dget current ''task_id'') \<or>
        \<not> py_eq (vget event ''generation'') (PInt generation) \<or> \<not> py_eq (vget event ''sequence'') (PInt (int n)) \<or>
        \<not> py_eq (vget event ''previous_event_hash'') previous \<or> vget event ''event_hash'' \<noteq> event_hash_of sha (entries event)))
      (if py_eq (vget event ''event_hash'') head_hash then Inr ([event], rows)
       else rbind (events_to_head sha current generation head_hash (vget event ''event_hash'') (Suc n) rows) (\<lambda>(before, later).
         Inr (event # before, later)))"

text \<open>The head found in a generation is the event the newer records name.\<close>

definition head_guards :: "int \<Rightarrow> pydict \<Rightarrow> pyval \<Rightarrow> pyval \<Rightarrow> pyval list \<Rightarrow> pyval list \<Rightarrow> guard" where
  "head_guards generation current head_id head_sequence before later = first_err
     [engine_fails ''trusted audit head event identity mismatch'' (\<not> py_eq (vget (last before) ''event_id'') head_id),
      engine_fails ''trusted audit head sequence mismatch''
        (head_sequence \<noteq> PNone \<and> \<not> py_eq (vget (last before) ''sequence'') head_sequence),
      engine_fails ''current audit head is not the authoritative tail''
        (py_eq (PInt generation) (dget current ''audit_generation'') \<and> later \<noteq> [])]"

text \<open>
  The round of one generation; the record its first event carries names the generation before. The
  numbers of the generations fall strictly, so that a generation is never visited twice.
\<close>

function lineage_from ::
    "(string \<Rightarrow> string) \<Rightarrow> exn + pyval \<Rightarrow> task_store \<Rightarrow> pydict \<Rightarrow> int list \<Rightarrow> int \<Rightarrow> pyval \<Rightarrow> pyval \<Rightarrow> pyval \<Rightarrow> pyval list res" where
  "lineage_from sha cat store current visited generation head_id head_sequence head_hash =
     (if generation \<in> set visited \<or> generation < 1 \<or> int_of (dget current ''audit_generation'') < generation then
        Inl (engine_error ''audit generation lineage is cyclic or invalid'')
      else rbind (from_store (read_audit_events sha cat store (dget current ''task_id'') (PInt generation))) (\<lambda>rows.
        rbind (events_to_head sha current generation head_hash PNone 1 rows) (\<lambda>(before, later).
        guarded (head_guards generation current head_id head_sequence before later)
         (let details = vget (hd before) ''details''; record = vget details ''audit_generation'';
              predecessor = vget record ''predecessor_generation''; predecessor_hash = vget record ''predecessor_valid_head_hash'';
              trusted = vget details ''previous_trusted_prefix'' in
          if \<not> is_dict record \<or> \<not> py_eq (vget record ''generation'') (PInt generation) then
            Inl (engine_error ''audit generation start record is missing'')
          else case predecessor of
            PNone \<Rightarrow> guarded (engine_fails ''audit generation lineage ended before generation one''
              (generation \<noteq> 1 \<or> predecessor_hash \<noteq> PNone)) (Inr before)
          | PInt p \<Rightarrow>
              (if generation \<le> p then Inl (engine_error ''audit predecessor is invalid'')
               else guarded (engine_fails ''audit predecessor binding mismatch''
                 (\<not> is_dict trusted \<or> \<not> py_eq (vget trusted ''generation'') predecessor \<or>
                  \<not> py_eq (vget trusted ''event_hash'') predecessor_hash))
                (rbind (lineage_from sha cat store current (generation # visited) p (vget trusted ''event_id'')
                   (vget trusted ''sequence'') predecessor_hash) (\<lambda>older. Inr (older @ before))))
          | _ \<Rightarrow> Inl (engine_error ''audit predecessor is invalid'')))))"
  by pat_completeness auto
termination
  by (relation "measure (\<lambda>(sha, cat, store, current, visited, generation, rest). nat generation)") auto

declare lineage_from.simps [simp del]

definition trusted_audit_lineage :: "(string \<Rightarrow> string) \<Rightarrow> exn + pyval \<Rightarrow> engine_state \<Rightarrow> pydict \<Rightarrow> pyval list res" where
  "trusted_audit_lineage sha cat st current =
     lineage_from sha cat (tasks st) current [] (int_of (dget current ''audit_generation'')) (dget current ''audit_head_event_id'') PNone
       (dget current ''audit_head_hash'')"

subsection \<open>The state a paused task came from\<close>

definition is_transition :: "pyval \<Rightarrow> bool" where
  "is_transition event \<longleftrightarrow> py_eq (vget event ''event_type'') (PStr ''TRANSITION_ACCEPTED'')"

text \<open>The last event with a property: \<open>next(event for event in reversed(events) if ...)\<close>.\<close>

definition last_with :: "(pyval \<Rightarrow> bool) \<Rightarrow> pyval list \<Rightarrow> pyval option" where
  "last_with P events = find P (rev events)"

definition paused_from :: "pyval list \<Rightarrow> pyval \<Rightarrow> guard" where
  "paused_from lineage source = (case last_with is_transition lineage of
     None \<Rightarrow> Some (engine_error ''WAITING_HUMAN state is not bound to a trusted human-pause audit boundary'')
   | Some boundary \<Rightarrow> first_err
       [engine_fails ''WAITING_HUMAN state is not bound to a trusted human-pause audit boundary''
          (\<not> py_eq (vget boundary ''to_state'') (PStr ''WAITING_HUMAN'')),
        engine_fails ''previous_state does not match the trusted WAITING_HUMAN audit boundary''
          (\<not> py_eq (vget boundary ''from_state'') source)])"

text \<open>The lineage is given when the caller has it already.\<close>

definition transition_gate_source_state ::
    "(string \<Rightarrow> string) \<Rightarrow> exn + pyval \<Rightarrow> engine_state \<Rightarrow> pydict \<Rightarrow> pyval list option \<Rightarrow> pyval res" where
  "transition_gate_source_state sha cat st current given =
     (let source = dget current ''previous_state'' in
      if dget current ''current_state'' \<noteq> PStr ''WAITING_HUMAN'' then Inr (dget current ''current_state'')
      else guarded (engine_fails ''WAITING_HUMAN state requires a valid original source state''
          (\<not> is_str source \<or> source = PStr ''WAITING_HUMAN''))
        (rbind (case given of Some lineage \<Rightarrow> Inr lineage | None \<Rightarrow> trusted_audit_lineage sha cat st current) (\<lambda>lineage.
          guarded (paused_from lineage source) (Inr source))))"

subsection \<open>The current fix cycle\<close>

definition enters :: "string \<Rightarrow> pyval \<Rightarrow> bool" where
  "enters state event \<longleftrightarrow> py_eq (vget event ''to_state'') (PStr state)"

text \<open>The events behind the last one that enters a state; all of them when there is none.\<close>

definition after_last :: "string \<Rightarrow> pyval list \<Rightarrow> pyval list" where
  "after_last state events = rev (takeWhile (\<lambda>e. \<not> enters state e) (rev events))"

definition fix_cycle :: "pyval list \<Rightarrow> pyval list" where
  "fix_cycle events = (let interval = after_last ''VERIFIED'' events in
     if list_ex (enters ''FIX_REQUIRED'') interval then interval else [])"

definition current_fix_cycle_events :: "(string \<Rightarrow> string) \<Rightarrow> exn + pyval \<Rightarrow> engine_state \<Rightarrow> pydict \<Rightarrow> pyval list res" where
  "current_fix_cycle_events sha cat st current = rbind (trusted_audit_lineage sha cat st current) (\<lambda>events. Inr (fix_cycle events))"

text \<open>
  \<open>_utc_instant\<close> of the timestamps an event or an accepted record carries: to the second, or to the
  millisecond, in UTC. The number orders such timestamps as the instants are ordered.
\<close>

definition utc_instant :: "string \<Rightarrow> nat" where
  "utc_instant s = digits_val (filter is_digit_c (take 19 s)) * 1000 +
     (if length s = 24 then digits_val (take 3 (drop 20 s)) else 0)"

text \<open>The instant the last integration after the last entry into FIX_REQUIRED was recorded.\<close>

definition fix_cycle_integration_boundary :: "(string \<Rightarrow> string) \<Rightarrow> exn + pyval \<Rightarrow> engine_state \<Rightarrow> pydict \<Rightarrow> nat option res" where
  "fix_cycle_integration_boundary sha cat st current = rbind (current_fix_cycle_events sha cat st current) (\<lambda>events.
     if events = [] then Inr None
     else case last_with (enters ''INTEGRATING'') (after_last ''FIX_REQUIRED'' events) of
       None \<Rightarrow> Inl (engine_error ''VERIFIED requires an INTEGRATING boundary after the latest FIX_REQUIRED'')
     | Some event \<Rightarrow> Inr (Some (utc_instant (str_of (vget event ''created_at_utc'')))))"

end
