(* ===== verification/Review_Adapter.thy ===== *)
theory Review_Adapter
  imports Evidence_Files
begin

text \<open>
  The review evidence of \<open>acgps/review_adapter.py\<close>: review findings, and the manifest of a release
  candidate with the files it lists. Reading a file follows links, so it goes through \<open>resolved\<close>.
\<close>

definition review_error :: "string \<Rightarrow> exn" where
  "review_error message = AppError ''ReviewEvidenceError'' message"

definition review_fails :: "string \<Rightarrow> bool \<Rightarrow> guard" where
  "review_fails message b = fail_if b (review_error message)"

lemma review_fails_None [simp]: "review_fails message b = None \<longleftrightarrow> \<not> b"
  by (simp add: review_fails_def)

text \<open>\<open>_read_mapping\<close>: an undecodable file raises an error no handler of the function names.\<close>

definition read_review_mapping :: "disk \<Rightarrow> string \<Rightarrow> pyval res" where
  "read_review_mapping disk path =
     (case (case resolved disk path of None \<Rightarrow> None | Some file \<Rightarrow> payload_at disk file) of
        None \<Rightarrow> Inl (review_error (''evidence is unreadable: '' @ path))
      | Some (Undecodable bytes) \<Rightarrow> Inl (PyError ''UnicodeDecodeError'')
      | Some (Decoded text) \<Rightarrow> (case json_loads text of
            None \<Rightarrow> Inl (review_error (''evidence is unreadable: '' @ path))
          | Some v \<Rightarrow> guarded (review_fails (''evidence must be a mapping: '' @ path) (\<not> is_dict v)) (Inr v)))"

definition validate_review_record :: "string \<Rightarrow> pyval \<Rightarrow> string \<Rightarrow> guard" where
  "validate_review_record name record path = (case validate_contract name record ''runtime'' of
     None \<Rightarrow> None
   | Some e \<Rightarrow> Some (case e of
       ContractValidationError n issues \<Rightarrow> review_error (''invalid '' @ name @ '' at '' @ path @ '': '' @ exn_text e) | _ \<Rightarrow> e))"

lemma validate_review_record_None [simp]:
  "validate_review_record name v path = None \<longleftrightarrow> validate_contract name v ''runtime'' = None"
  by (simp add: validate_review_record_def split: option.split)

definition relative_regular_file :: "disk \<Rightarrow> string \<Rightarrow> string \<Rightarrow> (string \<times> string) res" where
  "relative_regular_file disk dir path =
     rbind (resolve_root disk dir) (\<lambda>dir_file. case resolved disk path of
         None \<Rightarrow> Inl (review_error (''required evidence file is missing: '' @ path))
       | Some file \<Rightarrow> (case relative_to dir_file file of
             Some relative \<Rightarrow> guarded (review_fails (''evidence file must be a regular file under output_dir: '' @ path)
               (is_link disk path \<or> \<not> is_regular disk file)) (Inr (relative, file))
           | None \<Rightarrow> Inl (review_error (''evidence file must be a regular file under output_dir: '' @ path))))"

subsection \<open>Findings\<close>

definition open_blocker :: "pyval \<Rightarrow> bool" where
  "open_blocker record \<longleftrightarrow> vget record ''severity'' \<in> set (map PStr [''P0'', ''P1'']) \<and>
     vget record ''status'' \<notin> set (map PStr [''VERIFIED'', ''CLOSED''])"

definition accepted_blocker :: "pyval \<Rightarrow> bool" where
  "accepted_blocker record \<longleftrightarrow> vget record ''severity'' \<in> set (map PStr [''P0'', ''P1'']) \<and>
     vget record ''status'' \<in> set (map PStr [''OPEN'', ''IN_PROGRESS'']) \<and>
     vget record ''disposition'' \<in> set (map PStr [''ACCEPTED'', ''PARTIAL''])"

definition review_finding_at :: "disk \<Rightarrow> string \<Rightarrow> pyval res" where
  "review_finding_at disk path = rbind (read_review_mapping disk path) (\<lambda>record.
     guarded (validate_review_record ''review_finding'' record path) (Inr record))"

definition validate_review_findings :: "disk \<Rightarrow> string list \<Rightarrow> pyval list res" where
  "validate_review_findings disk paths =
     rbind (mapM_res (\<lambda>path. rbind (review_finding_at disk path) (\<lambda>record.
         guarded (review_fails (''blocking review finding remains open: '' @ str_of (vget record ''finding_id'')) (open_blocker record))
           (Inr record))) paths) (\<lambda>records.
       guarded (review_fails ''at least one review finding is required'' (records = [])) (Inr records))"

definition validate_fix_required_findings :: "disk \<Rightarrow> string list \<Rightarrow> pyval list res" where
  "validate_fix_required_findings disk paths =
     rbind (mapM_res (review_finding_at disk) paths) (\<lambda>records.
       guarded (review_fails ''FIX_REQUIRED requires an accepted open P0 or P1 review finding'' (\<not> list_ex accepted_blocker records))
         (Inr records))"

subsection \<open>The manifest of a release candidate\<close>

definition artifact_unchanged :: "(string \<Rightarrow> string) \<Rightarrow> disk \<Rightarrow> string \<Rightarrow> pyval \<Rightarrow> guard" where
  "artifact_unchanged sha disk dir artifact =
     (let path = str_of (vget artifact ''path'') in
      case relative_regular_file disk dir (joined dir path) of
        Inl e \<Rightarrow> Some e
      | Inr (relative, file) \<Rightarrow> (case payload_at disk file of
            None \<Rightarrow> Some (PyError ''OSError'')
          | Some p \<Rightarrow> review_fails (''artifact hash mismatch: '' @ path)
              (\<not> py_eq (PStr (payload_digest sha p)) (vget artifact ''sha256''))))"

definition verification_still_holds :: "disk \<Rightarrow> string \<Rightarrow> pyval \<Rightarrow> pyval \<Rightarrow> string \<Rightarrow> guard" where
  "verification_still_holds disk dir project expected_task relative =
     (case rbind (relative_regular_file disk dir (joined dir relative)) (\<lambda>(name, file).
          rbind (read_review_mapping disk file) (\<lambda>record. Inr (file, record))) of
        Inl e \<Rightarrow> Some e
      | Inr (file, record) \<Rightarrow> first_err
          [validate_review_record ''verification_record'' record file,
           review_fails ''verification evidence no longer recommends VERIFIED''
             (\<not> py_eq (vget record ''recommendation'') (PStr ''VERIFIED'')),
           review_fails ''verification evidence project_id does not match the manifest''
             (\<not> py_eq (vget record ''project_id'') project),
           review_fails ''verification evidence task_id does not match the current task''
             (expected_task \<noteq> PNone \<and> \<not> py_eq (vget record ''task_id'') expected_task)])"

text \<open>The expected project and task may be null.\<close>

definition validate_release_candidate_manifest ::
    "(string \<Rightarrow> string) \<Rightarrow> disk \<Rightarrow> pyval \<Rightarrow> string \<Rightarrow> pyval \<Rightarrow> pyval \<Rightarrow> bool \<Rightarrow> guard" where
  "validate_release_candidate_manifest sha disk manifest path expected_project expected_task require_build_artifacts =
     (let dir = parent_dir path; field = vget manifest in first_err
       ([validate_review_record ''release_candidate_manifest'' manifest path,
         review_fails ''release candidate manifest status must be RC_READY'' (\<not> py_eq (field ''status'') (PStr ''RC_READY'')),
         review_fails ''RC_READY must not claim human release authorization'' (field ''human_release_authorization'' \<noteq> PNone),
         review_fails ''release candidate project_id does not match the current project''
           (expected_project \<noteq> PNone \<and> \<not> py_eq (field ''project_id'') expected_project),
         review_fails ''RC_READY requires verification and independent review evidence''
           (elems (field ''verification_records'') = [] \<or> elems (field ''review_closures'') = []),
         review_fails ''release candidate requires at least one build artifact''
           (require_build_artifacts \<and> elems (field ''build_artifacts'') = [])] @
        map (artifact_unchanged sha disk dir) (field ''source_artifact'' # elems (field ''build_artifacts'')) @
        map (verification_still_holds disk dir (field ''project_id'') expected_task \<circ> str_of)
          (elems (field ''verification_records'')) @
        [(case validate_review_findings disk (map (joined dir \<circ> str_of) (elems (field ''review_closures''))) of
            Inl e \<Rightarrow> Some e | Inr records \<Rightarrow> None),
         (case relative_regular_file disk dir (joined dir (str_of (field ''rollback_plan_path''))) of
            Inl e \<Rightarrow> Some e | Inr found \<Rightarrow> None)]))"

definition verify_release_candidate_manifest ::
    "(string \<Rightarrow> string) \<Rightarrow> disk \<Rightarrow> string \<Rightarrow> pyval \<Rightarrow> pyval \<Rightarrow> bool \<Rightarrow> guard" where
  "verify_release_candidate_manifest sha disk path expected_project expected_task require_build_artifacts =
     (case read_review_mapping disk path of
        Inl e \<Rightarrow> Some e
      | Inr manifest \<Rightarrow>
          validate_release_candidate_manifest sha disk manifest path expected_project expected_task require_build_artifacts)"

subsection \<open>Building a manifest\<close>

text \<open>The digest of a file the builder has located; an unreadable file raises.\<close>

definition file_digest :: "(string \<Rightarrow> string) \<Rightarrow> disk \<Rightarrow> string \<Rightarrow> pyval res" where
  "file_digest sha disk file = (case payload_at disk file of
     None \<Rightarrow> Inl (PyError ''OSError'') | Some p \<Rightarrow> Inr (PStr (payload_digest sha p)))"

fun build_artifacts ::
    "(string \<Rightarrow> string) \<Rightarrow> disk \<Rightarrow> string \<Rightarrow> string list \<Rightarrow> string list \<Rightarrow> pyval list res" where
  "build_artifacts sha disk dir taken [] = Inr []"
| "build_artifacts sha disk dir taken (path # paths) =
     rbind (relative_regular_file disk dir path) (\<lambda>(relative, file).
       guarded (review_fails ''release candidate artifact paths must be unique'' (relative \<in> set taken))
        (rbind (file_digest sha disk file) (\<lambda>digest.
          rbind (build_artifacts sha disk dir (relative # taken) paths) (\<lambda>rows.
            Inr (PDict [kv ''path'' (PStr relative), kv ''sha256'' digest] # rows)))))"

definition candidate_verification :: "disk \<Rightarrow> string \<Rightarrow> pyval \<Rightarrow> string \<Rightarrow> pyval res" where
  "candidate_verification disk dir project path =
     rbind (relative_regular_file disk dir path) (\<lambda>(relative, file).
       rbind (read_review_mapping disk file) (\<lambda>record. guarded (first_err
         [validate_review_record ''verification_record'' record file,
          review_fails ''release candidate requires VERIFIED evidence'' (\<not> py_eq (vget record ''recommendation'') (PStr ''VERIFIED'')),
          review_fails ''verification evidence project_id does not match the release candidate''
            (\<not> py_eq (vget record ''project_id'') project)])
        (Inr (PStr relative))))"

text \<open>The manifest that is written to \<open>release-candidate.json\<close> below the output directory.\<close>

definition build_release_candidate_manifest ::
    "(string \<Rightarrow> string) \<Rightarrow> disk \<Rightarrow> string \<Rightarrow> pyval \<Rightarrow> pyval \<Rightarrow> pyval \<Rightarrow> string \<Rightarrow> string list \<Rightarrow> string list \<Rightarrow> string \<Rightarrow> pyval \<Rightarrow>
     string list \<Rightarrow> pyval res" where
  "build_release_candidate_manifest sha disk dir project rc version source verifications reviews rollback created_at artifacts =
     rbind (relative_regular_file disk dir source) (\<lambda>(source_relative, source_file).
     rbind (build_artifacts sha disk dir [source_relative] artifacts) (\<lambda>rows.
     rbind (mapM_res (candidate_verification disk dir project) verifications) (\<lambda>verified.
     rbind (validate_review_findings disk reviews) (\<lambda>_.
     rbind (mapM_res (\<lambda>path. rbind (relative_regular_file disk dir path) (\<lambda>(relative, file). Inr (PStr relative))) reviews) (\<lambda>reviewed.
     rbind (relative_regular_file disk dir rollback) (\<lambda>(rollback_relative, rollback_file).
     rbind (file_digest sha disk source_file) (\<lambda>digest.
       let manifest = PDict
         [kv ''schema_version'' (PInt 1), kv ''rc_id'' rc, kv ''project_id'' project, kv ''version'' version,
          kv ''created_at_utc'' created_at,
          kv ''source_artifact'' (PDict [kv ''path'' (PStr source_relative), kv ''sha256'' digest]),
          kv ''build_artifacts'' (PList rows), kv ''verification_records'' (PList verified), kv ''review_closures'' (PList reviewed),
          kv ''known_limitations'' (PList []), kv ''residual_risks'' (PList []), kv ''rollback_plan_path'' (PStr rollback_relative),
          kv ''human_release_authorization'' PNone, kv ''status'' (PStr ''RC_READY'')] in
       guarded (validate_review_record ''release_candidate_manifest'' manifest (dir @ ''/release-candidate.json''))
         (Inr manifest))))))))"

end
