(* ===== verification/Spec2Isabelle.thy ===== *)
theory Spec2Isabelle
  imports Policy_Props Contract_Props Slot_Props Agent_Props Task_Props Queue_Props Transaction_Props
    Engine_Intake_Props Engine_Lineage Review_Adapter
begin

text \<open>
  ACGPS, the AI Coding Good Practice System: a control plane that decides which steps a coding
  task may take, who must approve them, and what evidence they leave. The development models the
  Python package \<open>src/acgps\<close>.

  The parts of the program and how they work together.
  \<^item> \<open>contracts.py\<close> declares the records that pass between the parts (task intake, policy
    evaluation input and result, decision request and resolution, agent result, coding execution
    record, and others) and validates a record against its contract.
  \<^item> \<open>policy.py\<close> loads the policy documents and the project profiles (through the strict loader of
    \<open>yaml_loader.py\<close>, with the codes of \<open>policy_errors.py\<close>) and evaluates an input: risk level,
    required gates, human gate, skills, model roles, legal and authorized transitions. A failed
    evaluation is a result as well, one that authorizes nothing.
  \<^item> \<open>workflow_contracts.py\<close> validates the records of the workflow (requests, results, states, audit
    events, transactions) and the catalog of invariants they are checked against.
  \<^item> \<open>workflow_store.py\<close> keeps them: task states and audit events in two SQLite tables with exported
    files beside them, and the coding execution slots as one file for each gate.
  \<^item> \<open>human_decisions.py\<close> is the queue of decisions a person has to take; \<open>task_packets.py\<close> and
    \<open>supervised_handoff.py\<close> build what an agent is given and what comes back from it.

  Values. \<open>Py_Value\<close> has the values of \<open>json.loads\<close> and of the YAML loader as one datatype, with
  Python's equality and truth, dictionaries as association lists in insertion order; \<open>Py_Text\<close> has
  the string methods and patterns. Integers are unbounded as in Python. An exception is a value of
  \<open>exn\<close>; a validator that answers an outcome is a \<open>guard\<close>, \<open>None\<close> when it accepts; a check that
  collects issues returns their list. \<open>Acgps_Prelude\<close> holds the collections of rules and the generic
  lemmas all theories share.

  Contracts (\<open>contracts.py\<close>).
  \<^item> \<open>Contract_Spec\<close>: the tables of fields; \<open>Contract_Check\<close>: types, closed vocabularies, timestamps,
    paths, digests (\<open>_validate_fields\<close>, \<open>_validate_runtime_semantics\<close>); \<open>Contract_Rules\<close> and
    \<open>Coding_Record\<close>: the rules of each contract; \<open>Contracts\<close>: \<open>validate_contract\<close>.
  \<^item> \<open>Contract_Accept\<close> and \<open>Path_Safety\<close> say what acceptance gives; \<open>Contract_Props\<close> and
    \<open>Contract_Sample\<close> hold the properties C12 to C15 and C17 to C19 and their sample records.

  Policies (\<open>policy.py\<close>, \<open>yaml_loader.py\<close>).
  \<^item> \<open>Policy_Files\<close>: documents, duplicate keys, anchors; \<open>Policy_Schema\<close>: the schema of each document;
    \<open>Policy_Load\<close>: profiles and \<open>load_policy_bundle\<close>; \<open>Policy_Wf\<close>: a loaded bundle is well-formed.
  \<^item> \<open>Policy_Eval\<close>: \<open>evaluate_policy\<close>, from the input to the wrapped result; \<open>Risk\<close> and \<open>Policy_Risk\<close>:
    the risk levels as an instance of \<open>linorder\<close> and the decided level as the maximum of the
    applicable ones; \<open>Policy_Result\<close>: what the contract of results gives.
  \<^item> \<open>Policy_Props\<close> (on the policy root of \<open>Policy_Sample\<close>): the properties C1 and C3 to C11.

  Workflow records (\<open>workflow_contracts.py\<close>, \<open>workflow_errors.py\<close>).
  \<^item> \<open>Workflow_Base\<close>: shared checks, paths into a record, tagged sources and hashes; \<open>Canonical_Json\<close>:
    \<open>canonical_json_bytes\<close>; \<open>Workflow_Bindings\<close>: evidence, policy and decision bindings;
    \<open>Workflow_Records\<close>: requests, results and the task state; \<open>Workflow_Catalog\<close>: the catalog of
    invariants; \<open>Workflow_Audit\<close>: audit events; \<open>Workflow_Transaction\<close>: transactions, with the
    operation graph of the catalog.
  \<^item> \<open>Workflow_Sample\<close> has the catalog the code expects and events it accepts.

  The store (\<open>workflow_store.py\<close>).
  \<^item> Slots: \<open>Store_Base\<close> and \<open>Coding_Slot\<close> have the validator of a stored slot and the operations on
    slots; \<open>Slot_Machine\<close> the abstract machine they refine; \<open>Slot_Props\<close> the properties C20 to C25.
  \<^item> Tasks: \<open>Json_Text\<close> is the parser \<open>json.loads\<close>, \<open>Sqlite_Text\<close> the texts a table holds;
    \<open>Task_Store\<close> the commit of an event with its state (\<open>commit_task_state_and_audit\<close>) and the reads;
    \<open>Task_Lineage\<close> the walk of \<open>has_committed_decision_resolution\<close>.
  \<^item> \<open>Task_Log\<close> states what commits build (\<open>task_logged\<close>, \<open>store_logged\<close>), \<open>Task_History\<close> how it reads
    back; \<open>Task_Props\<close> (on \<open>Task_Sample\<close>) has the properties C29 to C39. \<open>Transaction_Props\<close> joins the
    validator of transactions with the store: what an accepted transaction plans can be committed
    (C16).

  Decisions and agents.
  \<^item> \<open>Decision_Queue\<close> models \<open>human_decisions.py\<close> on a map from paths to texts; \<open>Queue_Props\<close> has C2
    and C40.
  \<^item> \<open>Agent_Packets\<close> models \<open>task_packets.py\<close> and \<open>supervised_handoff.py\<close>; \<open>Agent_Props\<close> (on
    \<open>Agent_Sample\<close>) has C26 to C28.

  Interfaces. The locale \<open>ladder\<close> (\<open>Risk\<close>) states what a client needs of a step that only climbs; it
  is interpreted on the step of the risk loop. The locale \<open>guarded_files\<close> (\<open>Guarded_Files\<close>) states
  what a client needs of validated operations on files: an operation leaves the store alone or writes
  one file, what it writes is valid, and a file starts fresh and then moves by steps. It is
  interpreted on the operations on slots (\<open>slots\<close>, in \<open>Slot_Machine\<close>) and on those of the decision
  queue (\<open>queue\<close>, in \<open>Decision_Queue\<close>).

  Parameters. What is not in the repository is an argument: the digest SHA-256 (\<open>sha\<close>, a function
  from texts to texts), the parse of a YAML text, the files of a directory, the iteration order of
  the set \<open>INPUT_FIELDS\<close>, and what the loader of the catalog found (\<open>parsed\<close>). No property assumes a
  law of the digest.

  Bounds. The parser of JSON runs on fuel of two steps for each character, and the lemma \<open>json_fuel\<close>
  proves that more makes no difference. The walk over
  audit generations is bounded by the generation it starts from (C38). A text of the database has at
  most 262144 bytes and depth 256 (C32); a sequence number is one SQLite can hold.

  Not modelled.
  \<^item> \<open>workflow_engine.py\<close> (the orchestration of the parts above), \<open>cli.py\<close> and the scripts.
  \<^item> \<open>coding_execution.py\<close> and \<open>codex_exec_adapter.py\<close>: processes, Git and the operating system; the
    record they write is modelled with its contract.
  \<^item> \<open>review_adapter.py\<close>; of \<open>workflow_contracts.py\<close> the recovery transactions, quarantine and
    idempotency records.
  \<^item> Of \<open>workflow_store.py\<close>: idempotency records, the SQLite connection (authority marker, identity of
    the database file), file descriptors and symbolic links, and the lock, whose answer is an argument
    of the operations on slots. Operations are sequential: the lock is what makes them so.
  \<^item> A float is kept as its value and its text; nan, the infinities and YAML's dates are not values of
    the model.
\<close>

end
